(* ===== verification/Prelude.thy ===== *)
theory Prelude
  imports Main "HOL-Library.Word" "HOL-Library.Sublist"
begin

text \<open>
  Shared material of the development: the theorem collections that the component theories
  feed, the pipeline combinator in which synchronous handler code is written, and generic
  facts about lists (slices, copies at an offset, splitting at a separator).
\<close>

named_theorems seq_simps \<open>equations that run a pipeline of state updates\<close>
named_theorems async_simps \<open>equations of the asynchronous process language\<close>
named_theorems ui_simps \<open>definitions of the setters of the page state\<close>
named_theorems js_simps \<open>evaluation of JavaScript string and value primitives\<close>

type_synonym byte = "8 word"

section \<open>Pipelines of state updates\<close>

text \<open>
  A block of JavaScript statements that runs without interruption is a list of state
  transformers, in program order.
\<close>

primrec seq :: "('s \<Rightarrow> 's) list \<Rightarrow> 's \<Rightarrow> 's" where
  "seq [] s = s"
| "seq (f # fs) s = seq fs (f s)"

declare seq.simps [seq_simps]

lemma seq_append [seq_simps]: "seq (fs @ gs) s = seq gs (seq fs s)"
  by (induction fs arbitrary: s) auto

text \<open>A predicate kept by every statement of a block is kept by the block.\<close>

lemma seq_preserves:
  assumes "\<And>f s. f \<in> set fs \<Longrightarrow> P s \<Longrightarrow> P (f s)" and "P s"
  shows "P (seq fs s)"
  using assms by (induction fs arbitrary: s) auto

text \<open>A field that no statement of a block writes is unchanged by the block.\<close>

lemma seq_frame:
  assumes "\<And>f s. f \<in> set fs \<Longrightarrow> g (f s) = g s"
  shows "g (seq fs s) = g s"
  using assms by (induction fs arbitrary: s) auto

section \<open>Slices and copies\<close>

definition slice :: "nat \<Rightarrow> nat \<Rightarrow> 'a list \<Rightarrow> 'a list" where
  "slice i j xs = take (j - i) (drop i xs)"

lemma length_slice [simp]: "length (slice i j xs) = min (j - i) (length xs - i)"
  by (simp add: slice_def min.commute)

lemma take_slice_extend: "i \<le> j \<Longrightarrow> take i xs @ slice i j xs = take j xs"
  by (metis slice_def le_add_diff_inverse take_add)

text \<open>\<open>dst.set(src, offset)\<close> on a typed array, where it stays in range.\<close>

definition overwrite :: "'a list \<Rightarrow> nat \<Rightarrow> 'a list \<Rightarrow> 'a list" where
  "overwrite dst off src = take off dst @ src @ drop (off + length src) dst"

lemma length_overwrite [simp]:
  "off + length src \<le> length dst \<Longrightarrow> length (overwrite dst off src) = length dst"
  by (simp add: overwrite_def)

lemma take_overwrite:
  "off + length src \<le> length dst \<Longrightarrow>
   take (off + length src) (overwrite dst off src) = take off dst @ src"
  by (simp add: overwrite_def)

section \<open>Splitting at a separator\<close>

text \<open>\<open>text.split(sep)\<close> for a separator of one code unit: never the empty list.\<close>

fun split_on :: "'a \<Rightarrow> 'a list \<Rightarrow> 'a list list" where
  "split_on c [] = [[]]"
| "split_on c (x # xs) =
     (if x = c then [] # split_on c xs
      else case split_on c xs of p # ps \<Rightarrow> (x # p) # ps | [] \<Rightarrow> [[x]])"

fun join_with :: "'a list \<Rightarrow> 'a list list \<Rightarrow> 'a list" where
  "join_with sep [] = []"
| "join_with sep [p] = p"
| "join_with sep (p # q # ps) = p @ sep @ join_with sep (q # ps)"

lemma split_on_nonempty [simp]: "split_on c xs \<noteq> []"
  by (induction xs) (auto split: list.splits)

lemma split_on_parts: "p \<in> set (split_on c xs) \<Longrightarrow> c \<notin> set p"
proof (induction xs arbitrary: p)
  case (Cons x xs)
  then show ?case by (cases "split_on c xs") (auto split: if_splits)
qed simp

lemma join_with_Cons:
  "ps \<noteq> [] \<Longrightarrow> join_with sep (p # ps) = p @ sep @ join_with sep ps"
  by (cases ps) auto

lemma join_split: "join_with [c] (split_on c xs) = xs"
proof (induction xs)
  case (Cons x xs)
  then show ?case
    by (cases "split_on c xs"; cases "tl (split_on c xs)") (auto simp: join_with_Cons)
qed simp

lemma split_join:
  "ps \<noteq> [] \<Longrightarrow> (\<And>p. p \<in> set ps \<Longrightarrow> c \<notin> set p) \<Longrightarrow> split_on c (join_with [c] ps) = ps"
proof (induction "[c]" ps rule: join_with.induct)
  case (2 p)
  then have "c \<notin> set p" by simp
  then show ?case by (induction p) auto
next
  case (3 p q ps)
  then have IH: "split_on c (join_with [c] (q # ps)) = q # ps" and "c \<notin> set p" by simp_all
  have "c \<notin> set p \<Longrightarrow> split_on c (p @ c # ys) = p # split_on c ys" for ys
    by (induction p) auto
  with IH \<open>c \<notin> set p\<close> show ?case by simp
qed simp

end
