(* ===== verification/Js_Values.thy ===== *)
theory Js_Values
  imports Prelude
begin

text \<open>
  The part of JavaScript's values that the sources use: strings of UTF-16 code units, JSON
  values as \<open>JSON.parse\<close> returns them, exceptions with their \<open>code\<close>, the UTF-8 encoder,
  decimal numerals, form-urlencoded queries and the regular expressions of the sources.
\<close>

section \<open>Strings\<close>

type_synonym jstring = "16 word list"

definition unit_of :: "char \<Rightarrow> 16 word" where
  "unit_of c = of_nat (of_char c)"

text \<open>A string literal of the sources that holds ASCII characters only.\<close>

definition js :: "string \<Rightarrow> jstring" where
  "js cs = map unit_of cs"

lemma unat_small: "n < 65536 \<Longrightarrow> unat (of_nat n :: 16 word) = n"
  by (simp add: unat_of_nat)

lemma unat_unit_bound: "unat (u :: 16 word) < 65536"
  using unsigned_less [of u] by simp

lemma unat_byte_bound: "unat (b :: byte) < 256"
  using unsigned_less [of b] by simp

lemma unat_unit_of [simp]: "unat (unit_of c) = of_char c"
  unfolding unit_of_def by (rule unat_small) (use nat_of_char_less_256 [of c] in linarith)

lemma unit_of_inject [simp]: "unit_of c = unit_of d \<longleftrightarrow> c = d"
  by (metis of_char_eq_iff unat_unit_of)

lemma js_inject [simp, js_simps]: "js x = js y \<longleftrightarrow> x = y"
  by (auto simp: js_def inj_def dest: map_injective)

lemma js_Nil [simp, js_simps]: "js [] = []"
  by (simp add: js_def)

lemma js_eq_Nil [simp, js_simps]: "js x = [] \<longleftrightarrow> x = []" "[] = js x \<longleftrightarrow> x = []"
  by (auto simp: js_def)

lemma length_js [simp, js_simps]: "length (js x) = length x"
  by (simp add: js_def)

section \<open>JSON values\<close>

text \<open>
  A number is an integral double (\<open>JInt\<close>) or any other one (\<open>JFrac\<close>, by its 64 bits: a
  fraction or an infinity). An object is the list of its own properties.
\<close>

datatype json =
    JNull
  | JBool bool
  | JInt int
  | JFrac "64 word"
  | JStr jstring
  | JArr "json list"
  | JObj "(jstring \<times> json) list"

text \<open>
  \<open>None\<close> is JavaScript's \<open>undefined\<close>. Reading a property of \<open>null\<close> or \<open>undefined\<close> throws a
  \<open>TypeError\<close>; of a value that is no object, it gives \<open>undefined\<close> (the sources read no
  built-in property such as \<open>length\<close> of a received value before they know its type).
\<close>

datatype exn = Failure "json option" | AbortError | OtherError

text \<open>\<open>error.code\<close>: a \<open>DOMException\<close> named AbortError has the legacy number 20.\<close>

fun code :: "exn \<Rightarrow> json option" where
  "code (Failure c) = c"
| "code AbortError = Some (JInt 20)"
| "code OtherError = None"

definition fail :: "string \<Rightarrow> exn" where
  "fail c = Failure (Some (JStr (js c)))"

definition has_code :: "exn \<Rightarrow> string \<Rightarrow> bool" where
  "has_code e c \<longleftrightarrow> code e = Some (JStr (js c))"

lemma code_fail [simp]: "code (fail c) = Some (JStr (js c))"
  by (simp add: fail_def)

lemma has_code_fail [simp]: "has_code (fail c) d \<longleftrightarrow> c = d"
  by (simp add: has_code_def)

lemma has_code_other [simp]: "\<not> has_code OtherError d" "\<not> has_code AbortError d"
  by (simp_all add: has_code_def)

text \<open>\<open>["a", "b"].includes(error.code)\<close>.\<close>

definition code_in :: "exn \<Rightarrow> string list \<Rightarrow> bool" where
  "code_in e cs \<longleftrightarrow> list_ex (has_code e) cs"

fun prop_of :: "json \<Rightarrow> string \<Rightarrow> json option" where
  "prop_of (JObj ps) k = map_of ps (js k)"
| "prop_of _ k = None"

fun nullish :: "json option \<Rightarrow> bool" where
  "nullish None = True"
| "nullish (Some v) = (v = JNull)"

definition get :: "json option \<Rightarrow> string \<Rightarrow> exn + json option" where
  "get v k = (if nullish v then Inl OtherError else Inr (prop_of (the v) k))"

fun truthy :: "json option \<Rightarrow> bool" where
  "truthy None = False"
| "truthy (Some JNull) = False"
| "truthy (Some (JBool b)) = b"
| "truthy (Some (JInt n)) = (n \<noteq> 0)"
| "truthy (Some (JStr s)) = (s \<noteq> [])"
| "truthy (Some _) = True"

fun is_string :: "json option \<Rightarrow> bool" where
  "is_string (Some (JStr _)) = True"
| "is_string _ = False"

fun str_of :: "json option \<Rightarrow> jstring" where
  "str_of (Some (JStr s)) = s"
| "str_of _ = []"

fun is_bool :: "json option \<Rightarrow> bool" where
  "is_bool (Some (JBool _)) = True"
| "is_bool _ = False"

text \<open>\<open>Number.isSafeInteger\<close>.\<close>

fun isSafeInteger :: "json option \<Rightarrow> bool" where
  "isSafeInteger (Some (JInt n)) = (\<bar>n\<bar> \<le> 9007199254740991)"
| "isSafeInteger _ = False"

fun int_of :: "json option \<Rightarrow> int" where
  "int_of (Some (JInt n)) = n"
| "int_of _ = 0"

lemma is_stringD: "is_string v \<Longrightarrow> v = Some (JStr (str_of v))"
  by (cases v rule: is_string.cases) auto

lemma isSafeIntegerD: "isSafeInteger v \<Longrightarrow> v = Some (JInt (int_of v)) \<and> \<bar>int_of v\<bar> \<le> 9007199254740991"
  by (cases v rule: isSafeInteger.cases) auto

section \<open>Regular expressions of the sources\<close>

text \<open>
  \<open>regex.test(v)\<close> first turns \<open>v\<close> into a string. The expressions below match hexadecimal
  digits and dashes of a fixed length, which the strings of \<open>null\<close>, booleans, numbers and
  objects never are; an array of one element becomes the string of that element.
\<close>

fun regex_subject :: "json \<Rightarrow> jstring option" where
  "regex_subject (JStr s) = Some s"
| "regex_subject (JArr [v]) = regex_subject v"
| "regex_subject _ = None"

definition subject :: "json option \<Rightarrow> jstring option" where
  "subject v = Option.bind v regex_subject"

definition hex_unit :: "16 word \<Rightarrow> bool" where
  "hex_unit u \<longleftrightarrow> (48 \<le> unat u \<and> unat u \<le> 57) \<or> (97 \<le> unat u \<and> unat u \<le> 102)"

definition hex_of_length :: "nat \<Rightarrow> jstring \<Rightarrow> bool" where
  "hex_of_length n s \<longleftrightarrow> length s = n \<and> list_all hex_unit s"

text \<open>\<open>/^[a-f0-9]{64}$/.test(v)\<close>.\<close>

definition hex64 :: "json option \<Rightarrow> bool" where
  "hex64 v = (case subject v of None \<Rightarrow> False | Some s \<Rightarrow> hex_of_length 64 s)"

text \<open>\<open>/^[a-f0-9]{8}(-[a-f0-9]{4}){3}-[a-f0-9]{12}$/.test(v)\<close>.\<close>

definition uuid_form :: "json option \<Rightarrow> bool" where
  "uuid_form v = (case subject v of None \<Rightarrow> False | Some s \<Rightarrow>
     (case split_on 45 s of
        [a, b, c, d, e] \<Rightarrow> hex_of_length 8 a \<and> hex_of_length 4 b \<and> hex_of_length 4 c \<and>
          hex_of_length 4 d \<and> hex_of_length 12 e
      | _ \<Rightarrow> False))"

definition lower_unit :: "16 word \<Rightarrow> 16 word" where
  "lower_unit u = (if 65 \<le> unat u \<and> unat u \<le> 90 then u + 32 else u)"

text \<open>\<open>/\.ext$/i.test(path)\<close> for an extension of lower-case ASCII letters.\<close>

definition has_extension :: "string \<Rightarrow> jstring \<Rightarrow> bool" where
  "has_extension ext path = suffix (js (CHR ''.'' # ext)) (map lower_unit path)"

section \<open>UTF-8 and numerals\<close>

definition high_surrogate :: "16 word \<Rightarrow> bool" where
  "high_surrogate u \<longleftrightarrow> 55296 \<le> unat u \<and> unat u \<le> 56319"

definition low_surrogate :: "16 word \<Rightarrow> bool" where
  "low_surrogate u \<longleftrightarrow> 56320 \<le> unat u \<and> unat u \<le> 57343"

definition utf8_point :: "nat \<Rightarrow> byte list" where
  "utf8_point n =
     (if n < 128 then [of_nat n]
      else if n < 2048 then [of_nat (192 + n div 64), of_nat (128 + n mod 64)]
      else if n < 65536 then
        [of_nat (224 + n div 4096), of_nat (128 + n div 64 mod 64), of_nat (128 + n mod 64)]
      else [of_nat (240 + n div 262144), of_nat (128 + n div 4096 mod 64),
            of_nat (128 + n div 64 mod 64), of_nat (128 + n mod 64)])"

text \<open>
  \<open>new TextEncoder().encode(text)\<close>: a surrogate pair is one code point, a lone surrogate
  becomes U+FFFD.
\<close>

fun utf8 :: "jstring \<Rightarrow> byte list" where
  "utf8 [] = []"
| "utf8 [u] =
     (if high_surrogate u \<or> low_surrogate u then utf8_point 65533 else utf8_point (unat u))"
| "utf8 (u # v # us) =
     (if high_surrogate u \<and> low_surrogate v
      then utf8_point (65536 + (unat u - 55296) * 1024 + (unat v - 56320)) @ utf8 us
      else (if high_surrogate u \<or> low_surrogate u then utf8_point 65533
            else utf8_point (unat u)) @ utf8 (v # us))"

lemma utf8_point_length: "1 \<le> length (utf8_point n)" "n < 65536 \<Longrightarrow> length (utf8_point n) \<le> 3"
  "length (utf8_point n) \<le> 4"
  by (simp_all add: utf8_point_def)

lemma utf8_pair_length: "65536 \<le> n \<Longrightarrow> length (utf8_point n) = 4"
  by (simp add: utf8_point_def)

text \<open>A string is never longer than its UTF-8 form, which is at most three times as long.\<close>

lemma utf8_length_bounds: "length s \<le> length (utf8 s) \<and> length (utf8 s) \<le> 3 * length s"
proof (induction s rule: utf8.induct)
  case (2 u)
  have "unat u < 65536" by (rule unat_unit_bound)
  then show ?case
    using utf8_point_length(1) [of "unat u"] utf8_point_length(2) [of "unat u"]
      utf8_point_length(1) [of 65533] utf8_point_length(2) [of 65533] by auto
next
  case (3 u v us)
  have "unat u < 65536" by (rule unat_unit_bound)
  then show ?case
    using 3 utf8_point_length(1) [of "unat u"] utf8_point_length(2) [of "unat u"]
      utf8_point_length(1) [of 65533] utf8_point_length(2) [of 65533]
      utf8_pair_length [of "65536 + (unat u - 55296) * 1024 + (unat v - 56320)"]
    by auto
qed simp

definition digit :: "nat \<Rightarrow> 16 word" where
  "digit n = of_nat (48 + n)"

text \<open>\<open>String(n)\<close> for a natural number.\<close>

fun dec :: "nat \<Rightarrow> jstring" where
  "dec n = (if n < 10 then [digit n] else dec (n div 10) @ [digit (n mod 10)])"

declare dec.simps [simp del]

text \<open>\<open>bytes.map(b => b.toString(16).padStart(2, "0")).join("")\<close>.\<close>

definition hex_digit :: "nat \<Rightarrow> 16 word" where
  "hex_digit n = (if n < 10 then of_nat (48 + n) else of_nat (87 + n))"

definition hex_string :: "byte list \<Rightarrow> jstring" where
  "hex_string bs = concat (map (\<lambda>b. [hex_digit (unat b div 16), hex_digit (unat b mod 16)]) bs)"

lemma hex_digit_hex: "n < 16 \<Longrightarrow> hex_unit (hex_digit n)"
  by (simp add: hex_digit_def hex_unit_def unat_small del: of_nat_add)

lemma hex_string_form: "hex_of_length (2 * length bs) (hex_string bs)"
proof -
  have "unat b div 16 < 16" for b :: byte using unat_byte_bound [of b] by simp
  then show ?thesis
    by (induction bs) (auto simp: hex_of_length_def hex_string_def hex_digit_hex)
qed

section \<open>Queries\<close>

text \<open>\<open>new URLSearchParams(pairs).toString()\<close>.\<close>

definition form_byte :: "byte \<Rightarrow> jstring" where
  "form_byte b =
     (let n = unat b in
      if n = 32 then js ''+''
      else if (48 \<le> n \<and> n \<le> 57) \<or> (65 \<le> n \<and> n \<le> 90) \<or> (97 \<le> n \<and> n \<le> 122) \<or>
              n \<in> {42, 45, 46, 95} then [of_nat n]
      else js ''%'' @ (let h = (\<lambda>d. if d < 10 then of_nat (48 + d) else of_nat (55 + d))
                     in [h (n div 16), h (n mod 16)]))"

definition form_encode :: "jstring \<Rightarrow> jstring" where
  "form_encode s = concat (map form_byte (utf8 s))"

definition search_params :: "(string \<times> jstring) list \<Rightarrow> jstring" where
  "search_params ps =
     join_with (js ''&'') (map (\<lambda>(k, v). form_encode (js k) @ js ''='' @ form_encode v) ps)"

section \<open>Paths\<close>

abbreviation slash :: "16 word" where
  "slash \<equiv> unit_of (CHR ''/'')"

text \<open>\<open>path.split("/").pop()\<close>.\<close>

definition basename :: "jstring \<Rightarrow> jstring" where
  "basename path = last (split_on slash path)"

lemma basename_no_slash: "slash \<notin> set (basename path)"
  unfolding basename_def by (rule split_on_parts [OF last_in_set]) simp

lemma basename_of_child:
  assumes "slash \<notin> set name"
  shows "basename (d @ slash # name) = name"
proof -
  have "split_on slash name = [name]" using assms by (induction name) auto
  then have "\<exists>p ps. split_on slash (d @ slash # name) = p # ps @ [name]"
  proof (induction d)
    case (Cons x d)
    then obtain p ps where "split_on slash (d @ slash # name) = p # ps @ [name]" by blast
    then show ?case by (cases "x = slash") (auto intro: exI [of _ "p # ps"])
  qed simp
  then have "last (split_on slash (d @ slash # name)) = name" by auto
  then show ?thesis by (simp add: basename_def)
qed

lemma basename_plain: "slash \<notin> set name \<Longrightarrow> basename name = name"
proof -
  assume "slash \<notin> set name"
  then have "split_on slash name = [name]" by (induction name) auto
  then show ?thesis by (simp add: basename_def)
qed

end
