(* ===== verification/Async.thy ===== *)
theory Async
  imports Prelude
begin

text \<open>
  Asynchronous handlers. A JavaScript \<open>async\<close> function runs without interruption up to its
  next \<open>await\<close>; there the page handles other events and resumes the function when the awaited
  operation answers. A handler is a \<open>proc\<close>: synchronous segments (\<open>Act\<close>), queries to the
  environment with a continuation for every possible answer (\<open>Await\<close>), and the start of
  another asynchronous call that is not awaited (\<open>Fork\<close>). \<open>reachable\<close> interleaves any number
  of handlers in any order; \<open>rg\<close> is the rely/guarantee condition of one handler, and the
  locale \<open>async_invariant\<close> lifts it to all interleavings. \<open>local_run\<close> follows one handler
  while everything else changes the state arbitrarily, and \<open>protocol\<close> states which queries
  it may issue after which answers.
\<close>

section \<open>Processes and their synchronous segments\<close>

datatype ('q, 'r, 's) proc =
    Done
  | Act "'s \<Rightarrow> 's \<times> ('q, 'r, 's) proc"
  | Await 'q "'r \<Rightarrow> ('q, 'r, 's) proc"
  | Fork "('q, 'r, 's) proc" "('q, 'r, 's) proc"

primrec run :: "('q, 'r, 's) proc \<Rightarrow> 's \<Rightarrow> 's \<times> ('q, 'r, 's) proc list" where
  "run Done = (\<lambda>s. (s, []))"
| "run (Act f) = (\<lambda>s. let (s', g) = map_prod id run (f s) in g s')"
| "run (Await q k) = (\<lambda>s. (s, [Await q k]))"
| "run (Fork p p') = (\<lambda>s. let (s1, ts1) = run p s; (s2, ts2) = run p' s1 in (s2, ts1 @ ts2))"

lemma run_Act [simp]: "run (Act f) s = run (snd (f s)) (fst (f s))"
  by (cases "f s") (simp add: Let_def)

lemma run_Fork [simp]:
  "run (Fork p p') s =
     (fst (run p' (fst (run p s))), snd (run p s) @ snd (run p' (fst (run p s))))"
  by (simp add: Let_def split_beta)

lemma run_Done [simp]: "run Done s = (s, [])"
  by simp

lemma run_Await [simp]: "run (Await q k) s = (s, [Await q k])"
  by simp

declare run.simps [simp del]

lemmas run_simps [async_simps] = run_Act run_Fork run_Done run_Await

fun waiting :: "('q, 'r, 's) proc \<Rightarrow> bool" where
  "waiting (Await q k) = True"
| "waiting _ = False"

lemma proc_induct [case_names Done Act Await Fork]:
  assumes "P Done" and "\<And>f. (\<And>s. P (snd (f s))) \<Longrightarrow> P (Act f)"
    and "\<And>q k. (\<And>r. P (k r)) \<Longrightarrow> P (Await q k)"
    and "\<And>p p'. P p \<Longrightarrow> P p' \<Longrightarrow> P (Fork p p')"
  shows "P p"
proof (induction p)
  case (Act f)
  have "P (snd (f s))" for s by (rule Act.IH [of "f s"]) (auto intro: snds.intros)
  then show ?case by (rule assms(2))
qed (use assms in auto)

lemma run_waiting: "t \<in> set (snd (run p s)) \<Longrightarrow> waiting t"
  by (induction p arbitrary: s t rule: proc_induct) auto

section \<open>Interleaved executions\<close>

text \<open>
  The page starts in an \<open>init\<close> state with no handler running. At any moment an event that is
  enabled in the state starts its handler (\<open>ev s p\<close>), or a suspended handler gets an answer.
\<close>

inductive reachable ::
    "('s \<Rightarrow> bool) \<Rightarrow> ('s \<Rightarrow> ('q, 'r, 's) proc \<Rightarrow> bool) \<Rightarrow> 's \<Rightarrow> ('q, 'r, 's) proc list \<Rightarrow> bool"
  for init ev where
  start: "init s \<Longrightarrow> reachable init ev s []"
| event: "reachable init ev s ts \<Longrightarrow> ev s p \<Longrightarrow>
    reachable init ev (fst (run p s)) (ts @ snd (run p s))"
| resume: "reachable init ev s (xs @ Await q k # ys) \<Longrightarrow>
    reachable init ev (fst (run (k r) s)) (xs @ snd (run (k r) s) @ ys)"

section \<open>Rely/guarantee conditions\<close>

text \<open>
  \<open>rg R I p s\<close>: started in state \<open>s\<close>, every synchronous segment of \<open>p\<close> moves the state along
  \<open>R\<close> and leaves \<open>I\<close> true wherever \<open>p\<close> suspends or ends, provided that, while \<open>p\<close> is
  suspended, the other handlers move the state along \<open>R\<close> to states that satisfy \<open>I\<close>.
\<close>

primrec rg :: "('s \<Rightarrow> 's \<Rightarrow> bool) \<Rightarrow> ('s \<Rightarrow> bool) \<Rightarrow> ('q, 'r, 's) proc \<Rightarrow> 's \<Rightarrow> bool" where
  "rg R I Done = (\<lambda>s. I s)"
| "rg R I (Act f) = (\<lambda>s. let (s', P) = map_prod id (rg R I) (f s) in R s s' \<and> P s')"
| "rg R I (Await q k) = (\<lambda>s. I s \<and> (\<forall>r s'. R s s' \<longrightarrow> I s' \<longrightarrow> rg R I (k r) s'))"
| "rg R I (Fork p p') = (\<lambda>s. rg R I p s \<and> rg R I p' (fst (run p s)))"

lemma rg_Done [simp]: "rg R I Done s = I s"
  by simp

lemma rg_Act [simp]: "rg R I (Act f) s \<longleftrightarrow> R s (fst (f s)) \<and> rg R I (snd (f s)) (fst (f s))"
  by (cases "f s") (simp add: Let_def)

lemma rg_Await [simp]:
  "rg R I (Await q k) s \<longleftrightarrow> I s \<and> (\<forall>r s'. R s s' \<longrightarrow> I s' \<longrightarrow> rg R I (k r) s')"
  by simp

lemma rg_Fork [simp]: "rg R I (Fork p p') s \<longleftrightarrow> rg R I p s \<and> rg R I p' (fst (run p s))"
  by simp

declare rg.simps [simp del]

lemmas rg_simps [async_simps] = rg_Done rg_Act rg_Await rg_Fork

text \<open>A handler that may start in any state of the invariant.\<close>

definition always :: "('s \<Rightarrow> 's \<Rightarrow> bool) \<Rightarrow> ('s \<Rightarrow> bool) \<Rightarrow> ('q, 'r, 's) proc \<Rightarrow> bool" where
  "always R I p \<longleftrightarrow> (\<forall>s. I s \<longrightarrow> rg R I p s)"

lemma alwaysD: "always R I p \<Longrightarrow> I s \<Longrightarrow> rg R I p s"
  by (simp add: always_def)

lemma always_Done [simp]: "always R I Done"
  by (simp add: always_def)

lemma always_ActI:
  assumes "\<And>s. I s \<Longrightarrow> R s (fst (f s)) \<and> I (fst (f s)) \<and> always R I (snd (f s))"
  shows "always R I (Act f)"
  using assms by (auto simp: always_def)

lemma always_AwaitI: "(\<And>r. always R I (k r)) \<Longrightarrow> always R I (Await q k)"
  by (simp add: always_def)

locale rely =
  fixes R :: "'s \<Rightarrow> 's \<Rightarrow> bool"
  assumes rely_refl [simp, intro]: "R s s"
    and rely_trans: "R s t \<Longrightarrow> R t u \<Longrightarrow> R s u"
begin

lemma rg_stable: "waiting t \<Longrightarrow> rg R I t s \<Longrightarrow> R s s' \<Longrightarrow> I s' \<Longrightarrow> rg R I t s'"
  by (cases t) (auto intro: rely_trans)

lemma rg_run:
  assumes "rg R I p s"
  shows "R s (fst (run p s)) \<and> I (fst (run p s)) \<and>
         (\<forall>t \<in> set (snd (run p s)). rg R I t (fst (run p s)))"
  using assms
proof (induction p arbitrary: s rule: proc_induct)
  case (Act f)
  then have "R s (fst (f s))" and "rg R I (snd (f s)) (fst (f s))" by simp_all
  with Act.IH show ?case by (auto intro: rely_trans)
next
  case (Fork p p')
  let ?s1 = "fst (run p s)"
  from Fork.prems have p: "rg R I p s" and p': "rg R I p' ?s1" by simp_all
  note 1 = Fork.IH(1) [OF p] and 2 = Fork.IH(2) [OF p']
  have "rg R I t (fst (run p' ?s1))" if "t \<in> set (snd (run p s))" for t
    using that 1 2 by (auto intro: rg_stable run_waiting)
  with 1 2 show ?case by (auto intro: rely_trans)
qed auto

lemma always_ForkI: "always R I p \<Longrightarrow> always R I p' \<Longrightarrow> always R I (Fork p p')"
  using rg_run by (fastforce simp: always_def)

end

text \<open>
  An invariant of all interleavings: every handler that an event may start satisfies its
  rely/guarantee condition in every state that satisfies the invariant.
\<close>

locale async_invariant = rely R
  for R :: "'s \<Rightarrow> 's \<Rightarrow> bool" +
  fixes init :: "'s \<Rightarrow> bool"
    and ev :: "'s \<Rightarrow> ('q, 'r, 's) proc \<Rightarrow> bool"
    and I :: "'s \<Rightarrow> bool"
  assumes init_inv: "init s \<Longrightarrow> I s"
    and handler_rg: "ev s p \<Longrightarrow> I s \<Longrightarrow> rg R I p s"
begin

lemma reachable_rg:
  "reachable init ev s ts \<Longrightarrow> I s \<and> (\<forall>t \<in> set ts. waiting t \<and> rg R I t s)"
proof (induction rule: reachable.induct)
  case (start s)
  then show ?case by (simp add: init_inv)
next
  case (event s ts p)
  then have "rg R I p s" by (simp add: handler_rg)
  note run = rg_run [OF this]
  with event.IH show ?case
    by (auto intro: rg_stable [of _ I s] run_waiting)
next
  case (resume s xs q k ys r)
  then have "rg R I (Await q k) s" and "I s" by auto
  then have "rg R I (k r) s" by auto
  note run = rg_run [OF this]
  with resume.IH show ?case
    by (auto intro: rg_stable [of _ I s] run_waiting)
qed

lemma invariant: "reachable init ev s ts \<Longrightarrow> I s"
  by (simp add: reachable_rg)

lemma suspended_rg: "reachable init ev s ts \<Longrightarrow> t \<in> set ts \<Longrightarrow> rg R I t s"
  by (simp add: reachable_rg)

text \<open>Guarantee along a whole execution: a later state is related to every earlier one.\<close>

lemma resume_guarantee:
  "reachable init ev s (xs @ Await q k # ys) \<Longrightarrow> R s (fst (run (k r) s))"
proof -
  assume "reachable init ev s (xs @ Await q k # ys)"
  then have "rg R I (Await q k) s" and "I s" by (auto dest: reachable_rg)
  then have "rg R I (k r) s" by auto
  then show ?thesis by (simp add: rg_run)
qed

lemma event_guarantee: "reachable init ev s ts \<Longrightarrow> ev s p \<Longrightarrow> R s (fst (run p s))"
  using handler_rg invariant rg_run by blast

end

section \<open>One handler among arbitrary interference\<close>

text \<open>
  \<open>local_run p h p'\<close>: \<open>p\<close> can get to \<open>p'\<close> after the exchange \<open>h\<close> of queries and answers,
  where every synchronous segment may find any state whatsoever.
\<close>

inductive local_run ::
    "('q, 'r, 's) proc \<Rightarrow> ('q \<times> 'r) list \<Rightarrow> ('q, 'r, 's) proc \<Rightarrow> bool" for p where
  here: "local_run p [] p"
| act: "local_run p h (Act f) \<Longrightarrow> local_run p h (snd (f s))"
| answer: "local_run p h (Await q k) \<Longrightarrow> local_run p (h @ [(q, r)]) (k r)"
| fork1: "local_run p h (Fork p1 p2) \<Longrightarrow> local_run p h p1"
| fork2: "local_run p h (Fork p1 p2) \<Longrightarrow> local_run p h p2"

lemma local_run_trans:
  "local_run p' h' p'' \<Longrightarrow> local_run p h p' \<Longrightarrow> local_run p (h @ h') p''"
proof (induction rule: local_run.induct)
  case (answer h' q k r)
  then have "local_run p ((h @ h') @ [(q, r)]) (k r)" by (intro local_run.answer) simp
  then show ?case by simp
qed (auto intro: local_run.intros)

lemma local_run_ActI: "local_run (snd (f s)) h p \<Longrightarrow> local_run (Act f) h p"
  using local_run_trans [OF _ local_run.act [OF local_run.here]] by fastforce

lemma local_run_AwaitI: "local_run (k r) h p \<Longrightarrow> local_run (Await q k) ((q, r) # h) p"
  using local_run_trans [OF _ local_run.answer [OF local_run.here]] by fastforce

text \<open>\<open>protocol Q p h\<close>: after the exchange \<open>h\<close>, \<open>p\<close> issues only queries allowed by \<open>Q\<close>.\<close>

primrec protocol ::
    "(('q \<times> 'r) list \<Rightarrow> 'q \<Rightarrow> bool) \<Rightarrow> ('q, 'r, 's) proc \<Rightarrow> ('q \<times> 'r) list \<Rightarrow> bool" where
  "protocol Q Done = (\<lambda>h. True)"
| "protocol Q (Act f) = (\<lambda>h. \<forall>s. snd (map_prod id (protocol Q) (f s)) h)"
| "protocol Q (Await q k) = (\<lambda>h. Q h q \<and> (\<forall>r. protocol Q (k r) (h @ [(q, r)])))"
| "protocol Q (Fork p p') = (\<lambda>h. protocol Q p h \<and> protocol Q p' h)"

lemma protocol_Done [simp]: "protocol Q Done h"
  by simp

lemma protocol_Act [simp]: "protocol Q (Act f) h \<longleftrightarrow> (\<forall>s. protocol Q (snd (f s)) h)"
  by simp

lemma protocol_Await [simp]:
  "protocol Q (Await q k) h \<longleftrightarrow> Q h q \<and> (\<forall>r. protocol Q (k r) (h @ [(q, r)]))"
  by simp

lemma protocol_Fork [simp]: "protocol Q (Fork p p') h \<longleftrightarrow> protocol Q p h \<and> protocol Q p' h"
  by simp

declare protocol.simps [simp del]

lemmas protocol_simps [async_simps] =
  protocol_Done protocol_Act protocol_Await protocol_Fork

lemma protocol_local_run: "local_run p h p' \<Longrightarrow> protocol Q p [] \<Longrightarrow> protocol Q p' h"
  by (induction rule: local_run.induct) auto

lemma protocol_run: "protocol Q p h \<Longrightarrow> t \<in> set (snd (run p s)) \<Longrightarrow> protocol Q t h"
  by (induction p arbitrary: s rule: proc_induct) auto

lemma protocol_sound: "local_run p h (Await q k) \<Longrightarrow> protocol Q p [] \<Longrightarrow> Q h q"
  by (drule (1) protocol_local_run) simp

text \<open>
  \<open>honours A G p\<close>: as long as every answer satisfies \<open>A\<close>, every synchronous segment of \<open>p\<close>
  satisfies \<open>G\<close>, which relates the state it finds, whatever that is, to the state it leaves
  and to what is left to run.
\<close>

primrec honours ::
    "('q \<Rightarrow> 'r \<Rightarrow> bool) \<Rightarrow> ('s \<Rightarrow> 's \<times> ('q, 'r, 's) proc \<Rightarrow> bool) \<Rightarrow> ('q, 'r, 's) proc \<Rightarrow> bool" where
  "honours A G Done = True"
| "honours A G (Act f) = (\<forall>s. G s (f s) \<and> snd (map_prod id (honours A G) (f s)))"
| "honours A G (Await q k) = (\<forall>r. A q r \<longrightarrow> honours A G (k r))"
| "honours A G (Fork p p') = (honours A G p \<and> honours A G p')"

lemma honours_Act [simp]:
  "honours A G (Act f) \<longleftrightarrow> (\<forall>s. G s (f s) \<and> honours A G (snd (f s)))"
  by simp

declare honours.simps(2) [simp del]

lemma honours_local_run:
  "local_run p h p' \<Longrightarrow> honours A G p \<Longrightarrow> (\<forall>(q, r) \<in> set h. A q r) \<Longrightarrow> honours A G p'"
  by (induction rule: local_run.induct) auto

lemma honours_sound:
  "local_run p h (Act f) \<Longrightarrow> honours A G p \<Longrightarrow> (\<forall>(q, r) \<in> set h. A q r) \<Longrightarrow> G s (f s)"
  by (drule (2) honours_local_run) simp

text \<open>
  \<open>traced_on D G p h\<close>: as \<open>honours\<close>, with the history of queries and answers in view, and only for
  segments that find a state in \<open>D\<close>; \<open>traced\<close> is for all states. \<open>local_run_on D\<close> are the runs among
  interference that stays in \<open>D\<close>.
\<close>

primrec traced_on ::
    "('s \<Rightarrow> bool) \<Rightarrow> (('q \<times> 'r) list \<Rightarrow> 's \<Rightarrow> 's \<times> ('q, 'r, 's) proc \<Rightarrow> bool) \<Rightarrow> ('q, 'r, 's) proc \<Rightarrow>
     ('q \<times> 'r) list \<Rightarrow> bool" where
  "traced_on D G Done = (\<lambda>h. True)"
| "traced_on D G (Act f) = (\<lambda>h. \<forall>s. D s \<longrightarrow> G h s (f s) \<and> snd (map_prod id (traced_on D G) (f s)) h)"
| "traced_on D G (Await q k) = (\<lambda>h. \<forall>r. traced_on D G (k r) (h @ [(q, r)]))"
| "traced_on D G (Fork p p') = (\<lambda>h. traced_on D G p h \<and> traced_on D G p' h)"

abbreviation traced ::
    "(('q \<times> 'r) list \<Rightarrow> 's \<Rightarrow> 's \<times> ('q, 'r, 's) proc \<Rightarrow> bool) \<Rightarrow> ('q, 'r, 's) proc \<Rightarrow>
     ('q \<times> 'r) list \<Rightarrow> bool" where
  "traced \<equiv> traced_on (\<lambda>_. True)"

lemma traced_simps [simp]:
  "traced_on D G Done h"
  "traced_on D G (Act f) h \<longleftrightarrow> (\<forall>s. D s \<longrightarrow> G h s (f s) \<and> traced_on D G (snd (f s)) h)"
  "traced_on D G (Await q k) h \<longleftrightarrow> (\<forall>r. traced_on D G (k r) (h @ [(q, r)]))"
  "traced_on D G (Fork p p') h \<longleftrightarrow> traced_on D G p h \<and> traced_on D G p' h"
  by simp_all

declare traced_on.simps [simp del]

inductive local_run_on ::
    "('s \<Rightarrow> bool) \<Rightarrow> ('q, 'r, 's) proc \<Rightarrow> ('q \<times> 'r) list \<Rightarrow> ('q, 'r, 's) proc \<Rightarrow> bool" for D p where
  here: "local_run_on D p [] p"
| act: "local_run_on D p h (Act f) \<Longrightarrow> D s \<Longrightarrow> local_run_on D p h (snd (f s))"
| answer: "local_run_on D p h (Await q k) \<Longrightarrow> local_run_on D p (h @ [(q, r)]) (k r)"
| fork1: "local_run_on D p h (Fork p1 p2) \<Longrightarrow> local_run_on D p h p1"
| fork2: "local_run_on D p h (Fork p1 p2) \<Longrightarrow> local_run_on D p h p2"

lemma local_run_on_everywhere: "local_run p h p' \<Longrightarrow> local_run_on (\<lambda>_. True) p h p'"
  by (induction rule: local_run.induct) (auto intro: local_run_on.intros)

lemma traced_on_local_run: "local_run_on D p h p' \<Longrightarrow> traced_on D G p [] \<Longrightarrow> traced_on D G p' h"
  by (induction rule: local_run_on.induct) auto

lemma traced_on_sound: "local_run_on D p h (Act f) \<Longrightarrow> traced_on D G p [] \<Longrightarrow> D s \<Longrightarrow> G h s (f s)"
  by (drule (1) traced_on_local_run) simp

lemma traced_sound: "local_run p h (Act f) \<Longrightarrow> traced G p [] \<Longrightarrow> G h s (f s)"
  by (drule local_run_on_everywhere, drule (1) traced_on_local_run) simp

lemma traced_mono: "traced G p h \<Longrightarrow> (\<And>h s r. G h s r \<Longrightarrow> G' h s r) \<Longrightarrow> traced G' p h"
  by (induction p arbitrary: h rule: proc_induct) auto

text \<open>An observer that only looks at the states gives an invariant.\<close>

interpretation anything: rely "\<lambda>_ _. True"
  by unfold_locales simp_all

lemma traced_always:
  assumes "traced (\<lambda>_ s r. G s (fst r)) p h" and "\<And>s s'. G s s' \<Longrightarrow> I s \<Longrightarrow> I s'"
  shows "always (\<lambda>_ _. True) I p"
proof -
  have "rg (\<lambda>_ _. True) I p s" if "I s" for s
    using assms(1) that
  proof (induction p arbitrary: h s rule: proc_induct)
    case (Act f)
    from Act.prems(1) have step: "G s (fst (f s))" "traced (\<lambda>_ s r. G s (fst r)) (snd (f s)) h" by auto
    then have "I (fst (f s))" using assms(2) Act.prems(2) by blast
    with step Act.IH show ?case by simp
  next
    case (Fork p p')
    then have p: "traced (\<lambda>_ s r. G s (fst r)) p h" and p': "traced (\<lambda>_ s r. G s (fst r)) p' h" by simp_all
    have rg: "rg (\<lambda>_ _. True) I p s" by (rule Fork.IH(1) [OF p Fork.prems(2)])
    from anything.rg_run [OF rg] have "I (fst (run p s))" by simp
    with rg show ?case using Fork.IH(2) [OF p'] by simp
  next
    case (Await q k)
    then have "traced (\<lambda>_ s r. G s (fst r)) (k r) (h @ [(q, r)])" for r by simp
    with Await.IH Await.prems(2) show ?case by (simp only: rg_Await) blast
  qed simp
  then show ?thesis by (simp add: always_def)
qed

section \<open>Undisturbed executions\<close>

text \<open>
  \<open>exec p s rs\<close> answers the queries of the first suspended handler with \<open>rs\<close>, in order, while
  no other event happens: the final state, the queries issued and what is left to run.
\<close>

fun exec :: "('q, 'r, 's) proc \<Rightarrow> 's \<Rightarrow> 'r list \<Rightarrow> 's \<times> 'q list \<times> ('q, 'r, 's) proc list" where
  "exec p s [] = (fst (run p s), [], snd (run p s))"
| "exec p s (r # rs) =
     (case snd (run p s) of
        Await q k # ts \<Rightarrow>
          (let (s', qs, us) = exec (k r) (fst (run p s)) rs in (s', q # qs, us @ ts))
      | ts \<Rightarrow> (fst (run p s), [], ts))"

lemma exec_Act [simp]: "exec (Act f) s rs = exec (snd (f s)) (fst (f s)) rs"
  by (cases rs) (simp_all only: exec.simps run_Act)

lemma exec_Done [simp]: "exec Done s rs = (s, [], [])"
  by (cases rs) simp_all

lemma exec_Await [simp]:
  "exec (Await q k) s (r # rs) = (let (s', qs, us) = exec (k r) s rs in (s', q # qs, us))"
  by simp

declare exec.simps(2) [simp del]

text \<open>An invariant of the segments holds wherever such an execution stops.\<close>

lemma exec_rg:
  assumes "rely R"
  shows "rg R I p s \<Longrightarrow> exec p s rs = (t, qs, us) \<Longrightarrow> I t"
proof (induction rs arbitrary: p s t qs us)
  case Nil
  with rely.rg_run [OF assms] show ?case by fastforce
next
  case (Cons r rs)
  note run = rely.rg_run [OF assms Cons.prems(1)]
  show ?case
  proof (cases "\<exists>q k ts. snd (run p s) = Await q k # ts")
    case True
    then obtain q k ts where ts: "snd (run p s) = Await q k # ts" by blast
    obtain t' qs' us' where rest: "exec (k r) (fst (run p s)) rs = (t', qs', us')" by (metis prod_cases3)
    have "rg R I (k r) (fst (run p s))"
      using run ts rely.rely_refl [OF assms, of "fst (run p s)"] by simp
    from Cons.IH [OF this rest] Cons.prems(2) ts rest show ?thesis by (simp add: exec.simps(2))
  next
    case False
    with Cons.prems(2) run show ?thesis
      by (auto simp: exec.simps(2) split: list.splits proc.splits)
  qed
qed

text \<open>Such an execution is one of the interleavings.\<close>

lemma exec_reachable_from:
  "reachable init ev (fst (run p s)) (xs @ snd (run p s) @ ys) \<Longrightarrow> exec p s rs = (s', qs, us) \<Longrightarrow>
   reachable init ev s' (xs @ us @ ys)"
proof (induction rs arbitrary: p s s' qs us ys)
  case (Cons r rs)
  show ?case
  proof (cases "snd (run p s)")
    case (Cons t ts)
    show ?thesis
    proof (cases t)
      case (Await q k)
      let ?s = "fst (run p s)"
      obtain s2 qs2 us2 where rest: "exec (k r) ?s rs = (s2, qs2, us2)" by (cases "exec (k r) ?s rs")
      with Cons.prems(2) Cons Await have "s' = s2" "us = us2 @ ts" by (auto simp: exec.simps(2))
      moreover have "reachable init ev (fst (run (k r) ?s)) (xs @ snd (run (k r) ?s) @ (ts @ ys))"
        by (rule reachable.resume [where q = q and k = k]) (use Cons.prems(1) Cons Await in simp)
      from Cons.IH [OF this rest] have "reachable init ev s2 (xs @ us2 @ ts @ ys)" .
      ultimately show ?thesis by simp
    qed (use run_waiting [of t p s] Cons in auto)
  qed (use Cons.prems in \<open>auto simp: exec.simps(2)\<close>)
qed auto

lemma exec_reachable:
  "reachable init ev s ts \<Longrightarrow> ev s p \<Longrightarrow> exec p s rs = (s', qs, us) \<Longrightarrow> reachable init ev s' (ts @ us)"
  using exec_reachable_from [of init ev p s ts "[]" rs s' qs us] reachable.event by fastforce

end
