(* ===== verification/Transport.thy ===== *)
theory Transport
  imports Js_Values Async
begin

text \<open>
  The request layer shared by the explorer and the editor (\<open>bytes\<close>, \<open>request\<close> and \<open>post\<close> of
  web/atlas.js) and that of the status page (\<open>json\<close> and \<open>request\<close> of web/status.js). The
  network is the environment: it answers a \<open>Fetch\<close> with an exception or with a response whose
  body is a stream of chunks. \<open>JSON.parse\<close> is the browser's; the response carries the value
  it returns on the body, \<open>None\<close> for a syntax error.
\<close>

section \<open>Responses\<close>

record response =
  status :: int
  chunks :: "byte list list option"   \<comment> \<open>\<open>None\<close>: \<open>response.body\<close> is null\<close>
  broken :: "exn option"              \<comment> \<open>the stream fails after its chunks\<close>
  parsed :: "json option"

definition ok :: "response \<Rightarrow> bool" where
  "ok r \<longleftrightarrow> 200 \<le> status r \<and> status r \<le> 299"

section \<open>Bounded bodies\<close>

text \<open>The reading loop: the chunks received, or the exception that ends it.\<close>

fun read_loop :: "nat \<Rightarrow> exn option \<Rightarrow> nat \<Rightarrow> byte list list \<Rightarrow> byte list list \<Rightarrow>
    exn + nat \<times> byte list list" where
  "read_loop limit brk sz acc [] =
     (case brk of Some e \<Rightarrow> Inl e | None \<Rightarrow> Inr (sz, acc))"
| "read_loop limit brk sz acc (value # rest) =
     (if sz + length value > limit then Inl (fail ''invalid_response'')
      else read_loop limit brk (sz + length value) (acc @ [value]) rest)"

text \<open>The copying loop: \<open>value.set(chunk, offset); offset += chunk.length\<close>.\<close>

fun copy_chunks :: "byte list \<Rightarrow> nat \<Rightarrow> byte list list \<Rightarrow> byte list" where
  "copy_chunks value offset [] = value"
| "copy_chunks value offset (chunk # rest) =
     copy_chunks (overwrite value offset chunk) (offset + length chunk) rest"

definition bytes :: "response \<Rightarrow> nat \<Rightarrow> exn + byte list" where
  "bytes r limit =
     (case chunks r of
        None \<Rightarrow> Inl (fail ''invalid_response'')
      | Some cs \<Rightarrow>
          (case read_loop limit (broken r) 0 [] cs of
             Inl e \<Rightarrow> Inl e
           | Inr (sz, acc) \<Rightarrow> Inr (copy_chunks (replicate sz 0) 0 acc)))"

lemma copy_chunks_concat:
  "off + length (concat cs) = length v \<Longrightarrow> copy_chunks v off cs = take off v @ concat cs"
proof (induction cs arbitrary: v off)
  case (Cons c cs)
  then have "off + length c \<le> length v" by simp
  with Cons show ?case by (simp add: take_overwrite)
qed simp

lemma read_loop_result:
  "sz \<le> limit \<Longrightarrow> read_loop limit brk sz acc cs =
     (if sz + length (concat cs) > limit then Inl (fail ''invalid_response'')
      else case brk of Some e \<Rightarrow> Inl e | None \<Rightarrow> Inr (sz + length (concat cs), acc @ cs))"
  by (induction cs arbitrary: sz acc) (auto simp: add.assoc split: option.splits)

text \<open>The received bytes in order, unless the body is missing, too long or breaks off.\<close>

lemma bytes_eq:
  "bytes r limit =
     (case chunks r of None \<Rightarrow> Inl (fail ''invalid_response'')
      | Some cs \<Rightarrow> if length (concat cs) > limit then Inl (fail ''invalid_response'')
                  else case broken r of Some e \<Rightarrow> Inl e | None \<Rightarrow> Inr (concat cs))"
  by (simp add: bytes_def read_loop_result copy_chunks_concat split: option.splits)

section \<open>Requests\<close>

text \<open>
  A request as the sources build it. \<open>req_signal\<close> names the caller's \<open>AbortController\<close>; an abort or
  the timeout shows as an exception among the possible answers.
\<close>

datatype http_method = GET | POST | PUT | DELETE

datatype url = Url jstring "(string \<times> jstring) list"

datatype body = NoBody | JsonBody json | RawBody "byte list"

record req =
  req_url :: url
  req_method :: http_method
  req_headers :: "(string \<times> jstring) list"
  req_body :: body
  req_signal :: "nat option"
  is_local :: bool
  req_limit :: nat
  req_timeout :: nat
  is_raw :: bool

text \<open>The defaults of \<open>request\<close>'s options.\<close>

definition get_req :: "url \<Rightarrow> nat option \<Rightarrow> req" where
  "get_req u sg = \<lparr>req_url = u, req_method = GET, req_headers = [], req_body = NoBody,
     req_signal = sg, is_local = False, req_limit = 4096, req_timeout = 15000, is_raw = False\<rparr>"

text \<open>The headers on the wire: a request to the server carries the web header first.\<close>

definition sent_headers :: "req \<Rightarrow> (string \<times> jstring) list" where
  "sent_headers q =
     (if is_local q then req_headers q else (''X-MySync-Web'', js ''1'') # req_headers q)"

datatype credentials = Omit | Same_origin

definition sent_credentials :: "req \<Rightarrow> credentials" where
  "sent_credentials q = (if is_local q then Omit else Same_origin)"

datatype reply = Raw "byte list" | Data json | Local response json

fun data_of :: "reply \<Rightarrow> json" where
  "data_of (Data d) = d"
| "data_of (Local r d) = d"
| "data_of (Raw b) = JNull"

text \<open>\<open>data.error || "invalid_response"\<close>, where reading a property of \<open>null\<close> throws.\<close>

definition server_error :: "json \<Rightarrow> exn" where
  "server_error d =
     (case get (Some d) ''error'' of
        Inl e \<Rightarrow> e
      | Inr c \<Rightarrow> if truthy c then Failure c else fail ''invalid_response'')"

definition request_result :: "req \<Rightarrow> exn + response \<Rightarrow> exn + reply" where
  "request_result q answer =
     (case answer of
        Inl e \<Rightarrow> Inl e
      | Inr r \<Rightarrow>
          (case bytes r (req_limit q) of
             Inl e \<Rightarrow> Inl e
           | Inr body \<Rightarrow>
               if is_raw q \<and> ok r then Inr (Raw body)
               else (case parsed r of
                       None \<Rightarrow> Inl OtherError
                     | Some data \<Rightarrow>
                         if \<not> is_local q \<and> (\<not> ok r \<or> status r = 202) then Inl (server_error data)
                         else Inr (if is_local q then Local r data else Data data))))"

text \<open>What the environment is asked and what it answers.\<close>

datatype query =
    Fetch req
  | Sha256 "byte list"        \<comment> \<open>\<open>crypto.subtle.digest\<close>\<close>
  | ReadFile nat              \<comment> \<open>\<open>file.arrayBuffer()\<close>\<close>
  | Permission string         \<comment> \<open>\<open>navigator.permissions.query\<close>\<close>
  | Clipboard jstring         \<comment> \<open>\<open>navigator.clipboard.writeText\<close>\<close>
  | Sleep nat                 \<comment> \<open>\<open>setTimeout\<close>\<close>
  | OpenEditor                \<comment> \<open>\<open>codeEditor.open()\<close>\<close>

datatype answer =
    Net "exn + response"
  | Digest "byte list"
  | PermissionState "bool option"  \<comment> \<open>denied or not; \<open>None\<close>: the query throws\<close>
  | Settled bool                   \<comment> \<open>a promise without a value: resolved or rejected\<close>

type_synonym 's handler = "(query, answer, 's) proc"

definition request ::
    "req \<Rightarrow> (reply \<Rightarrow> 's handler) \<Rightarrow> (exn \<Rightarrow> 's handler) \<Rightarrow> 's handler" where
  "request q ret throw =
     Await (Fetch q) (\<lambda>a. case a of
        Net n \<Rightarrow> (case request_result q n of Inl e \<Rightarrow> throw e | Inr v \<Rightarrow> ret v)
      | _ \<Rightarrow> throw OtherError)"

definition post_req :: "url \<Rightarrow> nat option \<Rightarrow> req" where
  "post_req u sg = (get_req u sg)\<lparr>req_method := POST,
     req_headers := [(''Content-Type'', js ''application/json'')], req_body := JsonBody (JObj [])\<rparr>"

definition post ::
    "url \<Rightarrow> nat option \<Rightarrow> (reply \<Rightarrow> 's handler) \<Rightarrow> (exn \<Rightarrow> 's handler) \<Rightarrow> 's handler" where
  "post u sg = request (post_req u sg)"

lemma rg_requestI:
  assumes "I s"
    and ret: "\<And>s' v. R s s' \<Longrightarrow> I s' \<Longrightarrow> rg R I (ret v) s'"
    and throw: "\<And>s' e. R s s' \<Longrightarrow> I s' \<Longrightarrow> rg R I (throw e) s'"
  shows "rg R I (request q ret throw) s"
proof -
  have "rg R I (case a of Net n \<Rightarrow> (case request_result q n of Inl e \<Rightarrow> throw e | Inr v \<Rightarrow> ret v)
      | _ \<Rightarrow> throw OtherError) s'" if "R s s'" "I s'" for a s'
    using that by (cases a) (auto intro: ret throw split: sum.split)
  with \<open>I s\<close> show ?thesis by (simp add: request_def)
qed

lemma always_requestI:
  "(\<And>v. always R I (ret v)) \<Longrightarrow> (\<And>e. always R I (throw e)) \<Longrightarrow> always R I (request q ret throw)"
  by (auto simp: always_def intro!: rg_requestI)

lemma protocol_requestI:
  assumes "Q h (Fetch q)"
    and "\<And>n v. request_result q n = Inr v \<Longrightarrow> protocol Q (ret v) (h @ [(Fetch q, Net n)])"
    and "\<And>a e. protocol Q (throw e) (h @ [(Fetch q, a)])"
  shows "protocol Q (request q ret throw) h"
proof -
  have "protocol Q (case a of Net n \<Rightarrow> (case request_result q n of Inl e \<Rightarrow> throw e | Inr v \<Rightarrow> ret v)
      | _ \<Rightarrow> throw OtherError) (h @ [(Fetch q, a)])" for a
    by (cases a) (auto intro: assms split: sum.split)
  with assms(1) show ?thesis by (simp add: request_def)
qed

lemma honours_requestI:
  assumes "\<And>n v. A (Fetch q) (Net n) \<Longrightarrow> request_result q n = Inr v \<Longrightarrow> honours A G (ret v)"
    and "\<And>e. honours A G (throw e)"
  shows "honours A G (request q ret throw)"
proof -
  have "honours A G (case a of Net n \<Rightarrow> (case request_result q n of Inl e \<Rightarrow> throw e | Inr v \<Rightarrow> ret v)
      | _ \<Rightarrow> throw OtherError)" if "A (Fetch q) a" for a
    using that by (cases a) (auto intro: assms split: sum.split)
  then show ?thesis by (simp add: request_def)
qed

lemma traced_requestI:
  assumes "\<And>n v. request_result q n = Inr v \<Longrightarrow> traced_on D G (ret v) (h @ [(Fetch q, Net n)])"
    and "\<And>a e. traced_on D G (throw e) (h @ [(Fetch q, a)])"
  shows "traced_on D G (request q ret throw) h"
proof -
  have "traced_on D G (case a of Net n \<Rightarrow> (case request_result q n of Inl e \<Rightarrow> throw e | Inr v \<Rightarrow> ret v)
      | _ \<Rightarrow> throw OtherError) (h @ [(Fetch q, a)])" for a
    by (cases a) (auto intro: assms split: sum.split)
  then show ?thesis by (simp add: request_def)
qed

lemma local_run_requestI:
  "request_result q n = Inr v \<Longrightarrow> local_run (ret v) h p \<Longrightarrow>
   local_run (request q ret throw) ((Fetch q, Net n) # h) p"
  unfolding request_def by (rule local_run_AwaitI) simp

lemma local_run_request_failsI:
  "request_result q n = Inl e \<Longrightarrow> local_run (throw e) h p \<Longrightarrow>
   local_run (request q ret throw) ((Fetch q, Net n) # h) p"
  unfolding request_def by (rule local_run_AwaitI) simp

lemma exec_request:
  "exec (request q ret throw) s (Net n # rs) =
     (let (s', qs, us) = exec (case request_result q n of Inl e \<Rightarrow> throw e | Inr v \<Rightarrow> ret v) s rs
      in (s', Fetch q # qs, us))"
  by (simp add: request_def)

text \<open>A request that succeeds without \<open>local\<close> or \<open>raw\<close> returns the JSON value of the body.\<close>

lemma request_result_data:
  "request_result q n = Inr v \<Longrightarrow> \<not> is_local q \<Longrightarrow> \<not> is_raw q \<Longrightarrow>
   \<exists>r d. n = Inr r \<and> v = Data d \<and> parsed r = Some d \<and> ok r \<and> status r \<noteq> 202"
  by (auto simp: request_result_def split: sum.splits if_splits option.splits)

section \<open>The status page's reader\<close>

text \<open>\<open>json(response)\<close> of web/status.js: the same loop with a fixed limit, then \<open>JSON.parse\<close>.\<close>

definition status_json :: "response \<Rightarrow> exn + json" where
  "status_json r =
     (case chunks r of
        None \<Rightarrow> Inl (fail ''invalid_response'')
      | Some cs \<Rightarrow>
          (case read_loop 4096 (broken r) 0 [] cs of
             Inl e \<Rightarrow> Inl e
           | Inr _ \<Rightarrow> (case parsed r of None \<Rightarrow> Inl OtherError | Some d \<Rightarrow> Inr d)))"

end
