(* ===== verification/Atlas_State.thy ===== *)
theory Atlas_State
  imports Transport
begin

text \<open>
  The state of the explorer page (web/atlas.js): the variables its handlers share, the abort
  controllers they create and the document they write. This theory also holds the page's
  synchronous building blocks: menus, details, toasts, the upload button, locking and the
  acceptance of a session.

  A caption is a \<open>Text\<close>: the literal, written without accents, and the interpolated values.
  Purely visual attributes (icons, focus, scrolling, ARIA labels) are not part of the state.
\<close>

section \<open>Data\<close>

datatype arg = Num int | Str jstring

datatype label = Text string "arg list"

abbreviation no_text :: label where
  "no_text \<equiv> Text [] []"

abbreviation caption :: "string \<Rightarrow> label" where
  "caption c \<equiv> Text c []"

abbreviation plain :: "jstring \<Rightarrow> label" where
  "plain s \<equiv> Text [] [Str s]"

text \<open>A text that shows no string received or chosen at run time.\<close>

fun anonymous :: "label \<Rightarrow> bool" where
  "anonymous (Text c args) = list_all (\<lambda>a. case a of Num _ \<Rightarrow> True | Str _ \<Rightarrow> False) args"

text \<open>The \<open>kind\<close> of a listed entry is one of the first two.\<close>

datatype kind = Directory | File | OtherKind

record entry =
  kind :: kind
  path :: jstring
  size_of :: "int option"        \<comment> \<open>\<open>null\<close> for a directory of unknown size\<close>
  revision :: "json option"
  sha256 :: "json option"
  updated_at :: "json option"
  file_count :: "int option"

text \<open>The types that the page relies on: what \<open>validateEntry\<close> lets through, as a property of an entry.\<close>

definition time_typed :: "json option \<Rightarrow> bool" where
  "time_typed v \<longleftrightarrow> nullish v \<or> isSafeInteger v \<and> 0 \<le> int_of v \<and> int_of v \<le> 8640000000000"

definition typed_entry :: "entry \<Rightarrow> bool" where
  "typed_entry e \<longleftrightarrow> kind e \<in> {Directory, File} \<and> path e \<noteq> [] \<and> length (path e) \<le> 8192 \<and>
     (case size_of e of None \<Rightarrow> kind e = Directory | Some n \<Rightarrow> 0 \<le> n \<and> n \<le> 9007199254740991) \<and>
     time_typed (updated_at e) \<and>
     (kind e = File \<longrightarrow> isSafeInteger (revision e) \<and> 0 < int_of (revision e) \<and> hex64 (sha256 e))"

text \<open>A cursor that the server gave for a page after the first.\<close>

definition typed_cursor :: "jstring \<Rightarrow> bool" where
  "typed_cursor c \<longleftrightarrow> c \<noteq> [] \<and> length c \<le> 8194"

record session_data =
  expires_at :: int
  device_name :: jstring
  chunk_bytes :: nat
  download_limit :: int
  upload_limit :: "json option"
  manage_limit :: "json option"

record view =
  v_directory :: jstring
  v_search :: jstring
  v_pageIndex :: nat
  v_cursors :: "jstring list"

record operation =
  op_entry :: entry
  op_rename :: bool                \<comment> \<open>the action: rename or delete\<close>
  op_snapshot :: "json option"     \<comment> \<open>\<open>None\<close>: not known yet\<close>
  op_sent :: bool

text \<open>A row of the listing; \<open>row_id\<close> stands for the identity of its buttons.\<close>

record row =
  row_id :: nat
  row_entry :: entry
  row_selected :: bool
  row_expanded :: bool
  row_pressed :: bool
  more_expanded :: bool

record document =
  hidden_of :: "string \<Rightarrow> bool"
  disabled_of :: "string \<Rightarrow> bool"
  text_of :: "string \<Rightarrow> label"
  value_of :: "string \<Rightarrow> jstring"
  attr_of :: "string \<times> string \<Rightarrow> label"
  rows :: "row list"
  crumbs :: "(label \<times> jstring option) list"   \<comment> \<open>\<open>None\<close>: a label without a target\<close>
  results :: "(label \<times> bool) list"
  dialog_open :: bool
  inert :: bool

record atlas =
  statusPage :: bool
  editorPage :: bool
  draft :: bool                    \<comment> \<open>the editor holds unsaved text\<close>
  now :: int                       \<comment> \<open>\<open>Date.now()\<close>\<close>
  narrow :: bool                   \<comment> \<open>\<open>(max-width: 1100px)\<close>\<close>
  session :: "session_data option"
  expiry :: "int option"           \<comment> \<open>when the armed expiry timer fires\<close>
  countdown :: bool
  listingRequest :: "nat option"
  verification :: "nat option"
  transfer :: "nat option"
  upload :: "nat option"
  pickerContext :: "(jstring \<times> nat) option"
  dragDepth :: int
  dragCancelled :: bool
  directory :: jstring
  search :: jstring
  cursors :: "jstring list"
  pageIndex :: nat
  next_cursor :: "jstring option"
  displayedQuery :: "jstring option"
  displayedEntries :: "entry list option"
  retryView :: "view option"
  selected :: "entry option"
  selectedButton :: "nat option"
  menuEntry :: "entry option"
  menuButton :: "nat option"
  searchTimer :: "view option"
  toastTimer :: bool
  verifyTimer :: "nat option"      \<comment> \<open>the armed notice of a verification, with its epoch\<close>
  detailsTimer :: "(nat \<times> entry \<times> nat) option"
  folderAction :: "nat option"
  folderRequest :: "nat option"
  operations :: "nat \<Rightarrow> operation"
  epoch :: nat
  controllers :: nat               \<comment> \<open>abort controllers and operations created so far\<close>
  aborted :: "nat \<Rightarrow> bool"
  row_ids :: nat
  doc :: document
  saved :: "(jstring \<times> byte list) list"   \<comment> \<open>files handed to the browser\<close>
  opened :: "url list"             \<comment> \<open>\<open>window.open\<close> and \<open>location.assign\<close>\<close>
  logouts :: nat                   \<comment> \<open>logout messages broadcast to other tabs\<close>

type_synonym atlas_handler = "atlas handler"

section \<open>Writing the document\<close>

definition set_hidden :: "string \<Rightarrow> bool \<Rightarrow> atlas \<Rightarrow> atlas" where [ui_simps]:
  "set_hidden i b = doc_update (hidden_of_update (\<lambda>h. h(i := b)))"

definition set_disabled :: "string \<Rightarrow> bool \<Rightarrow> atlas \<Rightarrow> atlas" where [ui_simps]:
  "set_disabled i b = doc_update (disabled_of_update (\<lambda>h. h(i := b)))"

definition set_text :: "string \<Rightarrow> label \<Rightarrow> atlas \<Rightarrow> atlas" where [ui_simps]:
  "set_text i t = doc_update (text_of_update (\<lambda>h. h(i := t)))"

definition set_value :: "string \<Rightarrow> jstring \<Rightarrow> atlas \<Rightarrow> atlas" where [ui_simps]:
  "set_value i v = doc_update (value_of_update (\<lambda>h. h(i := v)))"

definition set_attr :: "string \<Rightarrow> string \<Rightarrow> label \<Rightarrow> atlas \<Rightarrow> atlas" where [ui_simps]:
  "set_attr i a t = doc_update (attr_of_update (\<lambda>h. h((i, a) := t)))"

definition map_rows :: "(row \<Rightarrow> row) \<Rightarrow> atlas \<Rightarrow> atlas" where [ui_simps]:
  "map_rows f = doc_update (rows_update (map f))"

definition set_rows :: "row list \<Rightarrow> atlas \<Rightarrow> atlas" where [ui_simps]:
  "set_rows r = doc_update (rows_update (\<lambda>_. r))"

definition set_crumbs :: "(label \<times> jstring option) list \<Rightarrow> atlas \<Rightarrow> atlas" where [ui_simps]:
  "set_crumbs c = doc_update (crumbs_update (\<lambda>_. c))"

definition bool_text :: "bool \<Rightarrow> label" where
  "bool_text b = caption (if b then ''true'' else ''false'')"

section \<open>Abort controllers\<close>

definition abort :: "nat option \<Rightarrow> atlas \<Rightarrow> atlas" where [ui_simps]:
  "abort c = aborted_update (\<lambda>a i. a i \<or> c = Some i)"

text \<open>\<open>new AbortController()\<close>: the identity is \<open>controllers s\<close> before the update.\<close>

definition new_controller :: "atlas \<Rightarrow> atlas" where [ui_simps]:
  "new_controller = controllers_update Suc"

section \<open>Strings of the search box\<close>

definition js_space :: "16 word \<Rightarrow> bool" where
  "js_space u \<longleftrightarrow> (let n = unat u in (9 \<le> n \<and> n \<le> 13) \<or> n = 32 \<or> n = 160 \<or> n = 5760 \<or>
     (8192 \<le> n \<and> n \<le> 8202) \<or> n = 8232 \<or> n = 8233 \<or> n = 8239 \<or> n = 8287 \<or> n = 12288 \<or> n = 65279)"

definition trim :: "jstring \<Rightarrow> jstring" where
  "trim s = rev (dropWhile js_space (rev (dropWhile js_space s)))"

section \<open>The upload button and the drop overlay\<close>

definition upload_size :: "json option" where
  "upload_size = Some (JInt 268435456)"

definition canUpload :: "atlas \<Rightarrow> bool" where
  "canUpload s \<longleftrightarrow>
     \<not> statusPage s \<and>
     (case session s of None \<Rightarrow> False | Some d \<Rightarrow> upload_limit d = upload_size) \<and>
     upload s = None \<and> transfer s = None \<and>
     displayedQuery s \<noteq> None \<and> displayedQuery s \<noteq> Some [] \<and>
     search s = [] \<and> trim (value_of (doc s) ''search'') = [] \<and>
     listingRequest s = None \<and> retryView s = None \<and> \<not> inert (doc s)"

definition upload_title :: "atlas \<Rightarrow> label" where
  "upload_title s =
     (if search s \<noteq> [] \<or> trim (value_of (doc s) ''search'') \<noteq> []
      then caption ''Ouvrez un dossier pour ajouter des fichiers''
      else case session s of
        Some d \<Rightarrow> if truthy (upload_limit d) then caption ''Ajouter des fichiers au dossier ouvert''
                 else caption ''L envoi necessite une mise a jour du serveur''
      | None \<Rightarrow> caption ''Ajouter des fichiers au dossier ouvert'')"

definition updateUploadButton :: "atlas \<Rightarrow> atlas" where
  "updateUploadButton s =
     set_attr ''upload-add'' ''title'' (upload_title s) (set_disabled ''upload-add'' (\<not> canUpload s) s)"

definition clearDrop :: "atlas \<Rightarrow> atlas" where
  "clearDrop = seq [dragDepth_update (\<lambda>_. 0), set_hidden ''drop-overlay'' True]"

section \<open>Access screen\<close>

definition access_messages :: "string \<Rightarrow> label \<times> label \<times> label" where
  "access_messages st =
     (if st = ''expired'' then
        (caption ''Session expiree'', caption ''Votre session de lecture est terminee. Verifiez a nouveau cet appareil pour poursuivre la consultation des fichiers.'', caption ''Verifier a nouveau'')
      else if st = ''denied'' then
        (caption ''Permission d acces local refusee'', caption ''Le navigateur a bloque l acces au client MySyncFiles sur ce PC. Autorisez l acces a cet appareil dans les permissions du site, puis reessayez.'', caption ''Reessayer'')
      else if st = ''disabled'' then
        (caption ''Lecture des fichiers non autorisee'', caption ''Autorisez la lecture web sur le client de cet appareil avec mysync web-files enable, puis relancez le daemon.'', caption ''Reessayer'')
      else if st = ''rejected'' then
        (caption ''Verification locale refusee'', caption ''Verifiez que le client installe prend en charge la lecture web, puis redemarrez son service. Verifiez aussi qu il utilise le meme serveur et que l horloge du PC est correcte.'', caption ''Reessayer'')
      else if st = ''unavailable'' then
        (caption ''Client local inaccessible'', caption ''Verifiez que le daemon MySyncFiles est lance, que le pont local est active et que le navigateur autorise l acces a cet appareil.'', caption ''Reessayer'')
      else
        (caption ''Verifier cet appareil'', caption ''Le client MySyncFiles doit etre lance sur ce PC. Le navigateur peut demander l autorisation d acceder a cet appareil.'', caption ''Verifier cet appareil''))"

definition access :: "string \<Rightarrow> label \<Rightarrow> atlas \<Rightarrow> atlas" where
  "access st message =
     (let (title, description, label) = access_messages st in
      seq [set_attr ''access'' ''state'' (caption st),
           set_text ''access-title'' title,
           set_text ''access-description'' description,
           set_text ''file-verify'' label,
           set_text ''access-message'' message,
           set_hidden ''access-note'' (st = ''expired'' \<or> st = ''denied''),
           set_hidden ''access-help'' (st = ''expired''),
           set_text ''session-label''
             (caption (if st = ''expired'' then ''Session expiree''
                       else if st = ''denied'' \<or> st = ''disabled'' then ''Acces bloque''
                       else ''Acces non verifie'')),
           set_attr ''session-dot'' ''class''
             (caption (if st = ''denied'' \<or> st = ''disabled'' then ''session-dot blocked''
                       else ''session-dot''))])"

section \<open>Menu, details and toast\<close>

definition expand_more :: "nat option \<Rightarrow> bool \<Rightarrow> atlas \<Rightarrow> atlas" where [ui_simps]:
  "expand_more b x = map_rows (\<lambda>r. if Some (row_id r) = b then r\<lparr>more_expanded := x\<rparr> else r)"

definition closeMenu :: "atlas \<Rightarrow> atlas" where
  "closeMenu = seq
     [set_hidden ''file-menu'' True,
      (\<lambda>s. expand_more (menuButton s) False s),
      menuEntry_update (\<lambda>_. None), menuButton_update (\<lambda>_. None)]"

definition is_directory :: "entry option \<Rightarrow> bool" where
  "is_directory e = (case e of None \<Rightarrow> False | Some x \<Rightarrow> kind x = Directory)"

definition collapse_rows :: "nat option \<Rightarrow> bool \<Rightarrow> atlas \<Rightarrow> atlas" where [ui_simps]:
  "collapse_rows b folder = map_rows (\<lambda>r.
     (if Some (row_id r) = b
      then r\<lparr>row_expanded := False, row_pressed := (row_pressed r \<and> \<not> folder)\<rparr> else r)
     \<lparr>row_selected := False\<rparr>)"

definition detail_texts :: "string list" where
  "detail_texts = [''detail-name'', ''detail-path'', ''detail-size'', ''detail-modified'',
     ''detail-revision'', ''detail-hash'']"

definition clear_detail_texts :: "atlas \<Rightarrow> atlas" where [ui_simps]:
  "clear_detail_texts =
     doc_update (text_of_update (\<lambda>h i. if i \<in> set detail_texts then no_text else h i))"

definition set_inert :: "bool \<Rightarrow> atlas \<Rightarrow> atlas" where [ui_simps]:
  "set_inert b = doc_update (inert_update (\<lambda>_. b))"

definition closeDetails :: "atlas \<Rightarrow> atlas" where
  "closeDetails = seq
     [detailsTimer_update (\<lambda>_. None),
      set_hidden ''details'' True, set_hidden ''details-dismiss'' True, set_inert False,
      clear_detail_texts,
      (\<lambda>s. collapse_rows (selectedButton s) (is_directory (selected s)) s),
      selected_update (\<lambda>_. None), selectedButton_update (\<lambda>_. None),
      updateUploadButton]"

definition hideToast :: "atlas \<Rightarrow> atlas" where
  "hideToast = seq
     [toastTimer_update (\<lambda>_. False), set_hidden ''toast'' True, set_text ''toast-message'' no_text]"

definition toast :: "label \<Rightarrow> bool \<Rightarrow> atlas \<Rightarrow> atlas" where
  "toast message ongoing = seq
     [toastTimer_update (\<lambda>_. False), set_text ''toast-message'' message, set_hidden ''toast'' False,
      set_hidden ''download-cancel'' (\<not> ongoing), set_hidden ''toast-close'' ongoing,
      (if ongoing then id else toastTimer_update (\<lambda>_. True))]"

definition listingBusy :: "bool \<Rightarrow> atlas \<Rightarrow> atlas" where
  "listingBusy busy = seq
     [clearDrop, updateUploadButton,
      set_attr ''file-table'' ''aria-busy'' (bool_text busy),
      set_attr ''refresh'' ''aria-disabled'' (bool_text busy),
      set_attr ''previous-page'' ''aria-disabled'' (bool_text busy),
      set_attr ''next-page'' ''aria-disabled'' (bool_text busy),
      (if busy then id
       else seq [set_attr ''refresh'' ''is-loading'' (bool_text False),
                 set_text ''listing-status'' no_text])]"

section \<open>Locking the page\<close>

definition clear_listing :: "atlas \<Rightarrow> atlas" where
  "clear_listing = seq
     [set_rows [], set_crumbs [],
      set_text ''count'' no_text, set_text ''listing-title'' (caption ''Tous les fichiers''),
      set_attr ''listing-title'' ''title'' no_text,
      set_text ''listing-message'' no_text, set_hidden ''listing-message'' True,
      set_value ''search'' [], set_disabled ''search'' True, set_hidden ''clear-search'' True,
      set_hidden ''explorer'' True]"

definition clear_results :: "atlas \<Rightarrow> atlas" where [ui_simps]:
  "clear_results = doc_update (results_update (\<lambda>_. []))"

definition close_dialog :: "atlas \<Rightarrow> atlas" where [ui_simps]:
  "close_dialog = doc_update (dialog_open_update (\<lambda>_. False))"

definition reset_view :: "atlas \<Rightarrow> atlas" where [ui_simps]:
  "reset_view s = s\<lparr>directory := [], search := [], cursors := [[]], pageIndex := 0,
     next_cursor := None\<rparr>"

definition lock :: "string \<Rightarrow> label \<Rightarrow> atlas \<Rightarrow> atlas" where
  "lock st message = seq
     [epoch_update Suc,
      (\<lambda>s. abort (folderRequest s) s), close_dialog, folderAction_update (\<lambda>_. None),
      session_update (\<lambda>_. None),
      expiry_update (\<lambda>_. None), countdown_update (\<lambda>_. False), searchTimer_update (\<lambda>_. None),
      (\<lambda>s. abort (listingRequest s) s), (\<lambda>s. abort (verification s) s),
      (\<lambda>s. abort (transfer s) s), (\<lambda>s. abort (upload s) s),
      clearDrop, dragCancelled_update (\<lambda>_. False), pickerContext_update (\<lambda>_. None),
      set_value ''upload-input'' [],
      set_hidden ''upload-status'' True, clear_results,
      set_text ''upload-message'' no_text, set_text ''upload-destination'' no_text,
      listingRequest_update (\<lambda>_. None), displayedQuery_update (\<lambda>_. None),
      displayedEntries_update (\<lambda>_. None), retryView_update (\<lambda>_. None),
      listingBusy False, closeMenu, closeDetails, hideToast,
      clear_listing,
      (\<lambda>s. set_hidden ''access'' (statusPage s) s),
      set_hidden ''logout'' True, set_text ''session-time'' no_text, set_hidden ''refresh'' True,
      reset_view,
      set_disabled ''file-verify'' False, set_hidden ''file-cancel'' True,
      access st message,
      (\<lambda>s. if editorPage s
           then seq [set_hidden ''code-editor'' (\<not> draft s),
                     (if draft s then set_hidden ''access'' True else id)] s
           else s)]"

section \<open>Accepting a session\<close>

text \<open>\<open>Math.max(1, Math.ceil(ms / 60000))\<close> of the remaining milliseconds.\<close>

definition minutes_left :: "int \<Rightarrow> int" where
  "minutes_left ms = max 1 (- ((- ms) div 60000))"

definition tick :: "int \<Rightarrow> atlas \<Rightarrow> atlas" where
  "tick expires s =
     set_text ''session-time''
       (Text ''Session de lecture {} min'' [Num (minutes_left (expires * 1000 - now s))]) s"

definition session_of :: "json \<Rightarrow> session_data" where
  "session_of v = \<lparr>expires_at = int_of (prop_of v ''expires_at''),
     device_name = str_of (prop_of v ''device_name''),
     chunk_bytes = nat (int_of (prop_of v ''chunk_bytes'')),
     download_limit = int_of (prop_of v ''download_limit''),
     upload_limit = prop_of v ''upload_limit'', manage_limit = prop_of v ''manage_limit''\<rparr>"

definition valid_session :: "json \<Rightarrow> bool" where
  "valid_session v \<longleftrightarrow>
     isSafeInteger (prop_of v ''expires_at'') \<and> is_string (prop_of v ''device_name'') \<and>
     length (str_of (prop_of v ''device_name'')) \<le> 512 \<and>
     prop_of v ''chunk_bytes'' = Some (JInt 8388608) \<and>
     prop_of v ''download_limit'' = Some (JInt 268435456)"

definition show_session :: "atlas \<Rightarrow> atlas" where
  "show_session s =
     (if editorPage s then seq [set_hidden ''access'' True, set_hidden ''code-editor'' False] s
      else if \<not> statusPage s
      then seq [set_hidden ''access'' True, set_hidden ''explorer'' False,
                set_disabled ''search'' False, set_hidden ''refresh'' False] s
      else s)"

definition acceptSession :: "json \<Rightarrow> atlas \<Rightarrow> exn + atlas" where
  "acceptSession v s =
     (if v = JNull then Inl OtherError
      else if \<not> valid_session v then Inl (fail ''invalid_response'')
      else if min 1800000 (expires_at (session_of v) * 1000 - now s) \<le> 0
      then Inl (fail ''session_expired'')
      else Inr (seq
        [session_update (\<lambda>_. Some (session_of v)),
         expiry_update (\<lambda>_. Some (now s + min 1800000 (expires_at (session_of v) * 1000 - now s))),
         tick (expires_at (session_of v)), countdown_update (\<lambda>_. True),
         set_attr ''session-dot'' ''class'' (caption ''session-dot verified''),
         set_text ''session-label'' (caption ''Appareil reconnu''),
         set_hidden ''logout'' False, show_session] s))"

section \<open>What the building blocks leave alone\<close>

text \<open>
  \<open>core\<close> forgets the document and the variables that only mirror it. Every building block but
  \<open>lock\<close> and \<open>acceptSession\<close> keeps the core, so the shared variables are as they were.
\<close>

definition blank :: document where
  "blank = \<lparr>hidden_of = (\<lambda>_. False), disabled_of = (\<lambda>_. False), text_of = (\<lambda>_. no_text),
     value_of = (\<lambda>_. []), attr_of = (\<lambda>_. no_text), rows = [], crumbs = [], results = [],
     dialog_open = False, inert = False\<rparr>"

definition core :: "atlas \<Rightarrow> atlas" where
  "core s = s\<lparr>doc := blank, toastTimer := False, detailsTimer := None, selected := None,
     selectedButton := None, menuEntry := None, menuButton := None, dragDepth := 0\<rparr>"

lemma core_fields:
  assumes "core s = core s'"
  shows
    "statusPage s = statusPage s'"
    "editorPage s = editorPage s'"
    "draft s = draft s'"
    "now s = now s'"
    "narrow s = narrow s'"
    "session s = session s'"
    "expiry s = expiry s'"
    "countdown s = countdown s'"
    "listingRequest s = listingRequest s'"
    "verification s = verification s'"
    "transfer s = transfer s'"
    "upload s = upload s'"
    "pickerContext s = pickerContext s'"
    "dragCancelled s = dragCancelled s'"
    "directory s = directory s'"
    "search s = search s'"
    "cursors s = cursors s'"
    "pageIndex s = pageIndex s'"
    "next_cursor s = next_cursor s'"
    "displayedQuery s = displayedQuery s'"
    "displayedEntries s = displayedEntries s'"
    "retryView s = retryView s'"
    "searchTimer s = searchTimer s'"
    "folderAction s = folderAction s'"
    "folderRequest s = folderRequest s'"
    "operations s = operations s'"
    "epoch s = epoch s'"
    "controllers s = controllers s'"
    "aborted s = aborted s'"
    "row_ids s = row_ids s'"
    "saved s = saved s'"
    "opened s = opened s'"
    "logouts s = logouts s'"
    "verifyTimer s = verifyTimer s'"
  using arg_cong [OF assms, of statusPage]
    arg_cong [OF assms, of editorPage]
    arg_cong [OF assms, of draft]
    arg_cong [OF assms, of now]
    arg_cong [OF assms, of narrow]
    arg_cong [OF assms, of session]
    arg_cong [OF assms, of expiry]
    arg_cong [OF assms, of countdown]
    arg_cong [OF assms, of listingRequest]
    arg_cong [OF assms, of verification]
    arg_cong [OF assms, of transfer]
    arg_cong [OF assms, of upload]
    arg_cong [OF assms, of pickerContext]
    arg_cong [OF assms, of dragCancelled]
    arg_cong [OF assms, of directory]
    arg_cong [OF assms, of search]
    arg_cong [OF assms, of cursors]
    arg_cong [OF assms, of pageIndex]
    arg_cong [OF assms, of next_cursor]
    arg_cong [OF assms, of displayedQuery]
    arg_cong [OF assms, of displayedEntries]
    arg_cong [OF assms, of retryView]
    arg_cong [OF assms, of searchTimer]
    arg_cong [OF assms, of folderAction]
    arg_cong [OF assms, of folderRequest]
    arg_cong [OF assms, of operations]
    arg_cong [OF assms, of epoch]
    arg_cong [OF assms, of controllers]
    arg_cong [OF assms, of aborted]
    arg_cong [OF assms, of row_ids]
    arg_cong [OF assms, of saved]
    arg_cong [OF assms, of opened]
    arg_cong [OF assms, of logouts]
    arg_cong [OF assms, of verifyTimer]
  by (simp_all add: core_def)

lemma core_setters [simp]:
  "core (set_hidden i b s) = core s" "core (set_disabled i b s) = core s"
  "core (set_text i t s) = core s" "core (set_value i v s) = core s"
  "core (set_attr i a t s) = core s" "core (map_rows f s) = core s"
  "core (set_rows r s) = core s" "core (set_crumbs c s) = core s" "core (set_inert b s) = core s"
  "core (clear_results s) = core s" "core (close_dialog s) = core s"
  "core (clear_detail_texts s) = core s"
  by (simp_all add: core_def ui_simps)

text \<open>Each setter writes one field of the document, and nothing that mirrors it.\<close>

lemma setter_frames [simp]:
  "disabled_of (doc (set_hidden i b s)) = disabled_of (doc s)"
  "text_of (doc (set_hidden i b s)) = text_of (doc s)"
  "value_of (doc (set_hidden i b s)) = value_of (doc s)"
  "attr_of (doc (set_hidden i b s)) = attr_of (doc s)"
  "rows (doc (set_hidden i b s)) = rows (doc s)"
  "crumbs (doc (set_hidden i b s)) = crumbs (doc s)"
  "results (doc (set_hidden i b s)) = results (doc s)"
  "dialog_open (doc (set_hidden i b s)) = dialog_open (doc s)"
  "inert (doc (set_hidden i b s)) = inert (doc s)"
  "hidden_of (doc (set_disabled i b s)) = hidden_of (doc s)"
  "text_of (doc (set_disabled i b s)) = text_of (doc s)"
  "value_of (doc (set_disabled i b s)) = value_of (doc s)"
  "attr_of (doc (set_disabled i b s)) = attr_of (doc s)"
  "rows (doc (set_disabled i b s)) = rows (doc s)"
  "crumbs (doc (set_disabled i b s)) = crumbs (doc s)"
  "results (doc (set_disabled i b s)) = results (doc s)"
  "dialog_open (doc (set_disabled i b s)) = dialog_open (doc s)"
  "inert (doc (set_disabled i b s)) = inert (doc s)"
  "hidden_of (doc (set_text i t s)) = hidden_of (doc s)"
  "disabled_of (doc (set_text i t s)) = disabled_of (doc s)"
  "value_of (doc (set_text i t s)) = value_of (doc s)"
  "attr_of (doc (set_text i t s)) = attr_of (doc s)" "rows (doc (set_text i t s)) = rows (doc s)"
  "crumbs (doc (set_text i t s)) = crumbs (doc s)"
  "results (doc (set_text i t s)) = results (doc s)"
  "dialog_open (doc (set_text i t s)) = dialog_open (doc s)"
  "inert (doc (set_text i t s)) = inert (doc s)"
  "hidden_of (doc (set_value i v s)) = hidden_of (doc s)"
  "disabled_of (doc (set_value i v s)) = disabled_of (doc s)"
  "text_of (doc (set_value i v s)) = text_of (doc s)"
  "attr_of (doc (set_value i v s)) = attr_of (doc s)"
  "rows (doc (set_value i v s)) = rows (doc s)" "crumbs (doc (set_value i v s)) = crumbs (doc s)"
  "results (doc (set_value i v s)) = results (doc s)"
  "dialog_open (doc (set_value i v s)) = dialog_open (doc s)"
  "inert (doc (set_value i v s)) = inert (doc s)"
  "hidden_of (doc (set_attr i a t s)) = hidden_of (doc s)"
  "disabled_of (doc (set_attr i a t s)) = disabled_of (doc s)"
  "text_of (doc (set_attr i a t s)) = text_of (doc s)"
  "value_of (doc (set_attr i a t s)) = value_of (doc s)"
  "rows (doc (set_attr i a t s)) = rows (doc s)"
  "crumbs (doc (set_attr i a t s)) = crumbs (doc s)"
  "results (doc (set_attr i a t s)) = results (doc s)"
  "dialog_open (doc (set_attr i a t s)) = dialog_open (doc s)"
  "inert (doc (set_attr i a t s)) = inert (doc s)"
  "hidden_of (doc (map_rows f s)) = hidden_of (doc s)"
  "disabled_of (doc (map_rows f s)) = disabled_of (doc s)"
  "text_of (doc (map_rows f s)) = text_of (doc s)"
  "value_of (doc (map_rows f s)) = value_of (doc s)"
  "attr_of (doc (map_rows f s)) = attr_of (doc s)" "crumbs (doc (map_rows f s)) = crumbs (doc s)"
  "results (doc (map_rows f s)) = results (doc s)"
  "dialog_open (doc (map_rows f s)) = dialog_open (doc s)"
  "inert (doc (map_rows f s)) = inert (doc s)"
  "hidden_of (doc (set_rows r s)) = hidden_of (doc s)"
  "disabled_of (doc (set_rows r s)) = disabled_of (doc s)"
  "text_of (doc (set_rows r s)) = text_of (doc s)"
  "value_of (doc (set_rows r s)) = value_of (doc s)"
  "attr_of (doc (set_rows r s)) = attr_of (doc s)" "crumbs (doc (set_rows r s)) = crumbs (doc s)"
  "results (doc (set_rows r s)) = results (doc s)"
  "dialog_open (doc (set_rows r s)) = dialog_open (doc s)"
  "inert (doc (set_rows r s)) = inert (doc s)"
  "hidden_of (doc (set_crumbs c s)) = hidden_of (doc s)"
  "disabled_of (doc (set_crumbs c s)) = disabled_of (doc s)"
  "text_of (doc (set_crumbs c s)) = text_of (doc s)"
  "value_of (doc (set_crumbs c s)) = value_of (doc s)"
  "attr_of (doc (set_crumbs c s)) = attr_of (doc s)" "rows (doc (set_crumbs c s)) = rows (doc s)"
  "results (doc (set_crumbs c s)) = results (doc s)"
  "dialog_open (doc (set_crumbs c s)) = dialog_open (doc s)"
  "inert (doc (set_crumbs c s)) = inert (doc s)"
  "hidden_of (doc (set_inert b s)) = hidden_of (doc s)"
  "disabled_of (doc (set_inert b s)) = disabled_of (doc s)"
  "text_of (doc (set_inert b s)) = text_of (doc s)"
  "value_of (doc (set_inert b s)) = value_of (doc s)"
  "attr_of (doc (set_inert b s)) = attr_of (doc s)" "rows (doc (set_inert b s)) = rows (doc s)"
  "crumbs (doc (set_inert b s)) = crumbs (doc s)"
  "results (doc (set_inert b s)) = results (doc s)"
  "dialog_open (doc (set_inert b s)) = dialog_open (doc s)"
  "hidden_of (doc (clear_results s)) = hidden_of (doc s)"
  "disabled_of (doc (clear_results s)) = disabled_of (doc s)"
  "text_of (doc (clear_results s)) = text_of (doc s)"
  "value_of (doc (clear_results s)) = value_of (doc s)"
  "attr_of (doc (clear_results s)) = attr_of (doc s)"
  "rows (doc (clear_results s)) = rows (doc s)" "crumbs (doc (clear_results s)) = crumbs (doc s)"
  "dialog_open (doc (clear_results s)) = dialog_open (doc s)"
  "inert (doc (clear_results s)) = inert (doc s)"
  "hidden_of (doc (close_dialog s)) = hidden_of (doc s)"
  "disabled_of (doc (close_dialog s)) = disabled_of (doc s)"
  "text_of (doc (close_dialog s)) = text_of (doc s)"
  "value_of (doc (close_dialog s)) = value_of (doc s)"
  "attr_of (doc (close_dialog s)) = attr_of (doc s)" "rows (doc (close_dialog s)) = rows (doc s)"
  "crumbs (doc (close_dialog s)) = crumbs (doc s)"
  "results (doc (close_dialog s)) = results (doc s)"
  "inert (doc (close_dialog s)) = inert (doc s)"
  "hidden_of (doc (clear_detail_texts s)) = hidden_of (doc s)"
  "disabled_of (doc (clear_detail_texts s)) = disabled_of (doc s)"
  "value_of (doc (clear_detail_texts s)) = value_of (doc s)"
  "attr_of (doc (clear_detail_texts s)) = attr_of (doc s)"
  "rows (doc (clear_detail_texts s)) = rows (doc s)"
  "crumbs (doc (clear_detail_texts s)) = crumbs (doc s)"
  "results (doc (clear_detail_texts s)) = results (doc s)"
  "dialog_open (doc (clear_detail_texts s)) = dialog_open (doc s)"
  "inert (doc (clear_detail_texts s)) = inert (doc s)"
  by (simp_all add: ui_simps)

lemma setter_mirrors [simp]:
  "toastTimer (set_hidden i b s) = toastTimer s"
  "detailsTimer (set_hidden i b s) = detailsTimer s" "selected (set_hidden i b s) = selected s"
  "selectedButton (set_hidden i b s) = selectedButton s"
  "menuEntry (set_hidden i b s) = menuEntry s" "menuButton (set_hidden i b s) = menuButton s"
  "dragDepth (set_hidden i b s) = dragDepth s" "toastTimer (set_disabled i b s) = toastTimer s"
  "detailsTimer (set_disabled i b s) = detailsTimer s"
  "selected (set_disabled i b s) = selected s"
  "selectedButton (set_disabled i b s) = selectedButton s"
  "menuEntry (set_disabled i b s) = menuEntry s" "menuButton (set_disabled i b s) = menuButton s"
  "dragDepth (set_disabled i b s) = dragDepth s" "toastTimer (set_text i t s) = toastTimer s"
  "detailsTimer (set_text i t s) = detailsTimer s" "selected (set_text i t s) = selected s"
  "selectedButton (set_text i t s) = selectedButton s" "menuEntry (set_text i t s) = menuEntry s"
  "menuButton (set_text i t s) = menuButton s" "dragDepth (set_text i t s) = dragDepth s"
  "toastTimer (set_value i v s) = toastTimer s" "detailsTimer (set_value i v s) = detailsTimer s"
  "selected (set_value i v s) = selected s" "selectedButton (set_value i v s) = selectedButton s"
  "menuEntry (set_value i v s) = menuEntry s" "menuButton (set_value i v s) = menuButton s"
  "dragDepth (set_value i v s) = dragDepth s" "toastTimer (set_attr i a t s) = toastTimer s"
  "detailsTimer (set_attr i a t s) = detailsTimer s" "selected (set_attr i a t s) = selected s"
  "selectedButton (set_attr i a t s) = selectedButton s"
  "menuEntry (set_attr i a t s) = menuEntry s" "menuButton (set_attr i a t s) = menuButton s"
  "dragDepth (set_attr i a t s) = dragDepth s" "toastTimer (map_rows f s) = toastTimer s"
  "detailsTimer (map_rows f s) = detailsTimer s" "selected (map_rows f s) = selected s"
  "selectedButton (map_rows f s) = selectedButton s" "menuEntry (map_rows f s) = menuEntry s"
  "menuButton (map_rows f s) = menuButton s" "dragDepth (map_rows f s) = dragDepth s"
  "toastTimer (set_rows r s) = toastTimer s" "detailsTimer (set_rows r s) = detailsTimer s"
  "selected (set_rows r s) = selected s" "selectedButton (set_rows r s) = selectedButton s"
  "menuEntry (set_rows r s) = menuEntry s" "menuButton (set_rows r s) = menuButton s"
  "dragDepth (set_rows r s) = dragDepth s" "toastTimer (set_crumbs c s) = toastTimer s"
  "detailsTimer (set_crumbs c s) = detailsTimer s" "selected (set_crumbs c s) = selected s"
  "selectedButton (set_crumbs c s) = selectedButton s" "menuEntry (set_crumbs c s) = menuEntry s"
  "menuButton (set_crumbs c s) = menuButton s" "dragDepth (set_crumbs c s) = dragDepth s"
  "toastTimer (set_inert b s) = toastTimer s" "detailsTimer (set_inert b s) = detailsTimer s"
  "selected (set_inert b s) = selected s" "selectedButton (set_inert b s) = selectedButton s"
  "menuEntry (set_inert b s) = menuEntry s" "menuButton (set_inert b s) = menuButton s"
  "dragDepth (set_inert b s) = dragDepth s" "toastTimer (clear_results s) = toastTimer s"
  "detailsTimer (clear_results s) = detailsTimer s" "selected (clear_results s) = selected s"
  "selectedButton (clear_results s) = selectedButton s"
  "menuEntry (clear_results s) = menuEntry s" "menuButton (clear_results s) = menuButton s"
  "dragDepth (clear_results s) = dragDepth s" "toastTimer (close_dialog s) = toastTimer s"
  "detailsTimer (close_dialog s) = detailsTimer s" "selected (close_dialog s) = selected s"
  "selectedButton (close_dialog s) = selectedButton s" "menuEntry (close_dialog s) = menuEntry s"
  "menuButton (close_dialog s) = menuButton s" "dragDepth (close_dialog s) = dragDepth s"
  "toastTimer (clear_detail_texts s) = toastTimer s"
  "detailsTimer (clear_detail_texts s) = detailsTimer s"
  "selected (clear_detail_texts s) = selected s"
  "selectedButton (clear_detail_texts s) = selectedButton s"
  "menuEntry (clear_detail_texts s) = menuEntry s"
  "menuButton (clear_detail_texts s) = menuButton s"
  "dragDepth (clear_detail_texts s) = dragDepth s"
  by (simp_all add: ui_simps)

lemma setter_effects [simp]:
  "hidden_of (doc (set_hidden i b s)) j = (if j = i then b else hidden_of (doc s) j)"
  "disabled_of (doc (set_disabled i b s)) j = (if j = i then b else disabled_of (doc s) j)"
  "text_of (doc (set_text i t s)) j = (if j = i then t else text_of (doc s) j)"
  "value_of (doc (set_value i v s)) j = (if j = i then v else value_of (doc s) j)"
  "attr_of (doc (set_attr i a t s)) x = (if x = (i, a) then t else attr_of (doc s) x)"
  "rows (doc (map_rows f s)) = map f (rows (doc s))" "rows (doc (set_rows r s)) = r"
  "crumbs (doc (set_crumbs c s)) = c" "inert (doc (set_inert b s)) = b"
  "results (doc (clear_results s)) = []" "dialog_open (doc (close_dialog s)) = False"
  "text_of (doc (clear_detail_texts s)) j =
     (if j \<in> set detail_texts then no_text else text_of (doc s) j)"
  by (simp_all add: ui_simps)

lemma core_updateUploadButton [simp]: "core (updateUploadButton s) = core s"
  by (simp add: updateUploadButton_def)

lemma core_clearDrop [simp]: "core (clearDrop s) = core s"
  by (simp add: clearDrop_def core_def ui_simps)

lemma core_closeMenu [simp]: "core (closeMenu s) = core s"
  by (simp add: closeMenu_def core_def ui_simps)

lemma core_closeDetails [simp]: "core (closeDetails s) = core s"
  unfolding closeDetails_def seq.simps core_updateUploadButton by (simp add: core_def ui_simps)

lemma core_toast [simp]: "core (toast m b s) = core s"
  by (simp add: toast_def core_def ui_simps)

lemma core_hideToast [simp]: "core (hideToast s) = core s"
  by (simp add: hideToast_def core_def ui_simps)

lemma core_access [simp]: "core (access st m s) = core s"
  by (cases "access_messages st") (simp add: access_def)

lemma core_listingBusy [simp]: "core (listingBusy b s) = core s"
  by (simp add: listingBusy_def)

lemma core_clear_listing [simp]: "core (clear_listing s) = core s"
  by (simp add: clear_listing_def)

lemmas setters_core [simp] =
  core_setters [THEN core_fields(1)] core_setters [THEN core_fields(2)]
  core_setters [THEN core_fields(3)] core_setters [THEN core_fields(4)]
  core_setters [THEN core_fields(5)] core_setters [THEN core_fields(6)]
  core_setters [THEN core_fields(7)] core_setters [THEN core_fields(8)]
  core_setters [THEN core_fields(9)] core_setters [THEN core_fields(10)]
  core_setters [THEN core_fields(11)] core_setters [THEN core_fields(12)]
  core_setters [THEN core_fields(13)] core_setters [THEN core_fields(14)]
  core_setters [THEN core_fields(15)] core_setters [THEN core_fields(16)]
  core_setters [THEN core_fields(17)] core_setters [THEN core_fields(18)]
  core_setters [THEN core_fields(19)] core_setters [THEN core_fields(20)]
  core_setters [THEN core_fields(21)] core_setters [THEN core_fields(22)]
  core_setters [THEN core_fields(23)] core_setters [THEN core_fields(24)]
  core_setters [THEN core_fields(25)] core_setters [THEN core_fields(26)]
  core_setters [THEN core_fields(27)] core_setters [THEN core_fields(28)]
  core_setters [THEN core_fields(29)] core_setters [THEN core_fields(30)]
  core_setters [THEN core_fields(31)] core_setters [THEN core_fields(32)]
  core_setters [THEN core_fields(33)] core_setters [THEN core_fields(34)]
lemmas updateUploadButton_core [simp] = core_fields [OF core_updateUploadButton]
lemmas clearDrop_core [simp] = core_fields [OF core_clearDrop]
lemmas closeMenu_core [simp] = core_fields [OF core_closeMenu]
lemmas closeDetails_core [simp] = core_fields [OF core_closeDetails]
lemmas toast_core [simp] = core_fields [OF core_toast]
lemmas hideToast_core [simp] = core_fields [OF core_hideToast]
lemmas access_core [simp] = core_fields [OF core_access]
lemmas listingBusy_core [simp] = core_fields [OF core_listingBusy]
lemmas clear_listing_core [simp] = core_fields [OF core_clear_listing]

lemma updateUploadButton_frame [simp]:
  "hidden_of (doc (updateUploadButton s)) = hidden_of (doc s)"
  "text_of (doc (updateUploadButton s)) = text_of (doc s)"
  "value_of (doc (updateUploadButton s)) = value_of (doc s)"
  "rows (doc (updateUploadButton s)) = rows (doc s)"
  "crumbs (doc (updateUploadButton s)) = crumbs (doc s)"
  "results (doc (updateUploadButton s)) = results (doc s)"
  "dialog_open (doc (updateUploadButton s)) = dialog_open (doc s)"
  "inert (doc (updateUploadButton s)) = inert (doc s)"
  "toastTimer (updateUploadButton s) = toastTimer s"
  "detailsTimer (updateUploadButton s) = detailsTimer s"
  "selected (updateUploadButton s) = selected s"
  "selectedButton (updateUploadButton s) = selectedButton s"
  "menuEntry (updateUploadButton s) = menuEntry s"
  "menuButton (updateUploadButton s) = menuButton s"
  "dragDepth (updateUploadButton s) = dragDepth s"
  by (simp_all add: updateUploadButton_def)

lemma clearDrop_frame [simp]:
  "disabled_of (doc (clearDrop s)) = disabled_of (doc s)"
  "text_of (doc (clearDrop s)) = text_of (doc s)"
  "value_of (doc (clearDrop s)) = value_of (doc s)"
  "attr_of (doc (clearDrop s)) = attr_of (doc s)" "rows (doc (clearDrop s)) = rows (doc s)"
  "crumbs (doc (clearDrop s)) = crumbs (doc s)" "results (doc (clearDrop s)) = results (doc s)"
  "dialog_open (doc (clearDrop s)) = dialog_open (doc s)"
  "inert (doc (clearDrop s)) = inert (doc s)" "toastTimer (clearDrop s) = toastTimer s"
  "detailsTimer (clearDrop s) = detailsTimer s" "selected (clearDrop s) = selected s"
  "selectedButton (clearDrop s) = selectedButton s" "menuEntry (clearDrop s) = menuEntry s"
  "menuButton (clearDrop s) = menuButton s"
  by (simp_all add: clearDrop_def)

lemma closeMenu_frame [simp]:
  "disabled_of (doc (closeMenu s)) = disabled_of (doc s)"
  "text_of (doc (closeMenu s)) = text_of (doc s)"
  "value_of (doc (closeMenu s)) = value_of (doc s)"
  "attr_of (doc (closeMenu s)) = attr_of (doc s)" "crumbs (doc (closeMenu s)) = crumbs (doc s)"
  "results (doc (closeMenu s)) = results (doc s)"
  "dialog_open (doc (closeMenu s)) = dialog_open (doc s)"
  "inert (doc (closeMenu s)) = inert (doc s)" "toastTimer (closeMenu s) = toastTimer s"
  "detailsTimer (closeMenu s) = detailsTimer s" "selected (closeMenu s) = selected s"
  "selectedButton (closeMenu s) = selectedButton s" "dragDepth (closeMenu s) = dragDepth s"
  by (simp_all add: closeMenu_def expand_more_def)

lemma closeDetails_frame [simp]:
  "value_of (doc (closeDetails s)) = value_of (doc s)"
  "crumbs (doc (closeDetails s)) = crumbs (doc s)"
  "results (doc (closeDetails s)) = results (doc s)"
  "dialog_open (doc (closeDetails s)) = dialog_open (doc s)"
  "toastTimer (closeDetails s) = toastTimer s" "menuEntry (closeDetails s) = menuEntry s"
  "menuButton (closeDetails s) = menuButton s" "dragDepth (closeDetails s) = dragDepth s"
  by (simp_all add: closeDetails_def collapse_rows_def)

lemma toast_frame [simp]:
  "disabled_of (doc (toast m b s)) = disabled_of (doc s)"
  "value_of (doc (toast m b s)) = value_of (doc s)"
  "attr_of (doc (toast m b s)) = attr_of (doc s)" "rows (doc (toast m b s)) = rows (doc s)"
  "crumbs (doc (toast m b s)) = crumbs (doc s)" "results (doc (toast m b s)) = results (doc s)"
  "dialog_open (doc (toast m b s)) = dialog_open (doc s)"
  "inert (doc (toast m b s)) = inert (doc s)" "detailsTimer (toast m b s) = detailsTimer s"
  "selected (toast m b s) = selected s" "selectedButton (toast m b s) = selectedButton s"
  "menuEntry (toast m b s) = menuEntry s" "menuButton (toast m b s) = menuButton s"
  "dragDepth (toast m b s) = dragDepth s"
  by (simp_all add: toast_def)

lemma hideToast_frame [simp]:
  "disabled_of (doc (hideToast s)) = disabled_of (doc s)"
  "value_of (doc (hideToast s)) = value_of (doc s)"
  "attr_of (doc (hideToast s)) = attr_of (doc s)" "rows (doc (hideToast s)) = rows (doc s)"
  "crumbs (doc (hideToast s)) = crumbs (doc s)" "results (doc (hideToast s)) = results (doc s)"
  "dialog_open (doc (hideToast s)) = dialog_open (doc s)"
  "inert (doc (hideToast s)) = inert (doc s)" "detailsTimer (hideToast s) = detailsTimer s"
  "selected (hideToast s) = selected s" "selectedButton (hideToast s) = selectedButton s"
  "menuEntry (hideToast s) = menuEntry s" "menuButton (hideToast s) = menuButton s"
  "dragDepth (hideToast s) = dragDepth s"
  by (simp_all add: hideToast_def)

lemma listingBusy_frame [simp]:
  "value_of (doc (listingBusy b s)) = value_of (doc s)"
  "rows (doc (listingBusy b s)) = rows (doc s)" "crumbs (doc (listingBusy b s)) = crumbs (doc s)"
  "results (doc (listingBusy b s)) = results (doc s)"
  "dialog_open (doc (listingBusy b s)) = dialog_open (doc s)"
  "inert (doc (listingBusy b s)) = inert (doc s)" "toastTimer (listingBusy b s) = toastTimer s"
  "detailsTimer (listingBusy b s) = detailsTimer s" "selected (listingBusy b s) = selected s"
  "selectedButton (listingBusy b s) = selectedButton s"
  "menuEntry (listingBusy b s) = menuEntry s" "menuButton (listingBusy b s) = menuButton s"
  by (simp_all add: listingBusy_def)

lemma access_frame [simp]:
  "disabled_of (doc (access st m s)) = disabled_of (doc s)"
  "value_of (doc (access st m s)) = value_of (doc s)" "rows (doc (access st m s)) = rows (doc s)"
  "crumbs (doc (access st m s)) = crumbs (doc s)"
  "results (doc (access st m s)) = results (doc s)"
  "dialog_open (doc (access st m s)) = dialog_open (doc s)"
  "inert (doc (access st m s)) = inert (doc s)" "toastTimer (access st m s) = toastTimer s"
  "detailsTimer (access st m s) = detailsTimer s" "selected (access st m s) = selected s"
  "selectedButton (access st m s) = selectedButton s" "menuEntry (access st m s) = menuEntry s"
  "menuButton (access st m s) = menuButton s" "dragDepth (access st m s) = dragDepth s"
  by (cases "access_messages st", simp add: access_def)+

lemma block_effects [simp]:
  "hidden_of (doc (clearDrop s)) i = (i = ''drop-overlay'' \<or> hidden_of (doc s) i)"
  "hidden_of (doc (closeMenu s)) i = (i = ''file-menu'' \<or> hidden_of (doc s) i)"
  "hidden_of (doc (closeDetails s)) i =
     (i = ''details'' \<or> i = ''details-dismiss'' \<or> hidden_of (doc s) i)"
  "hidden_of (doc (hideToast s)) i = (i = ''toast'' \<or> hidden_of (doc s) i)"
  "hidden_of (doc (listingBusy b s)) i = (i = ''drop-overlay'' \<or> hidden_of (doc s) i)"
  "text_of (doc (closeDetails s)) i =
     (if i \<in> set detail_texts then no_text else text_of (doc s) i)"
  "text_of (doc (hideToast s)) i = (if i = ''toast-message'' then no_text else text_of (doc s) i)"
  "text_of (doc (toast m b s)) i = (if i = ''toast-message'' then m else text_of (doc s) i)"
  "menuEntry (closeMenu s) = None" "menuButton (closeMenu s) = None"
  "selected (closeDetails s) = None" "selectedButton (closeDetails s) = None"
  "detailsTimer (closeDetails s) = None" "inert (doc (closeDetails s)) = False"
  by (auto simp: clearDrop_def closeMenu_def closeDetails_def hideToast_def listingBusy_def
      toast_def expand_more_def collapse_rows_def)

lemma listingBusy_text [simp]:
  "i \<noteq> ''listing-status'' \<Longrightarrow> text_of (doc (listingBusy b s)) i = text_of (doc s) i"
  by (cases b) (simp_all add: listingBusy_def)

lemma access_text [simp]:
  "i \<notin> {''access-title'', ''access-description'', ''file-verify'', ''access-message'',
     ''session-label''} \<Longrightarrow> text_of (doc (access st m s)) i = text_of (doc s) i"
  "i \<notin> {''access-note'', ''access-help''} \<Longrightarrow>
   hidden_of (doc (access st m s)) i = hidden_of (doc s) i"
  by (cases "access_messages st", simp add: access_def)+

lemma access_attr [simp]:
  "x \<notin> {(''access'', ''state''), (''session-dot'', ''class'')} \<Longrightarrow>
   attr_of (doc (access st m s)) x = attr_of (doc s) x"
  by (cases "access_messages st", simp add: access_def)

text \<open>The entries behind the rows of the listing.\<close>

definition listed :: "atlas \<Rightarrow> entry list" where
  "listed s = map row_entry (rows (doc s))"

lemma listed_rows: "rows (doc s') = rows (doc s) \<Longrightarrow> listed s' = listed s"
  by (simp add: listed_def)

lemma listed_map_rows: "(\<And>r. row_entry (f r) = row_entry r) \<Longrightarrow> listed (map_rows f s) = listed s"
  by (simp add: listed_def)

lemma listed_setters [simp]:
  "listed (set_hidden i b s) = listed s" "listed (set_disabled i b s) = listed s"
  "listed (set_text i t s) = listed s" "listed (set_value i v s) = listed s"
  "listed (set_attr i a t s) = listed s" "listed (set_crumbs cs s) = listed s"
  "listed (set_inert b s) = listed s" "listed (clear_results s) = listed s"
  "listed (close_dialog s) = listed s" "listed (clear_detail_texts s) = listed s"
  "listed (set_rows r s) = map row_entry r" "listed (abort c s) = listed s"
  "listed (new_controller s) = listed s" "listed (expand_more m x s) = listed s"
  "listed (collapse_rows m x s) = listed s"
  by (simp_all add: listed_def ui_simps)

lemma listed_updates [simp]:
  "listed (s\<lparr>selected := x1\<rparr>) = listed s" "listed (s\<lparr>selectedButton := x2\<rparr>) = listed s"
  "listed (s\<lparr>menuEntry := x3\<rparr>) = listed s" "listed (s\<lparr>menuButton := x4\<rparr>) = listed s"
  "listed (s\<lparr>detailsTimer := x5\<rparr>) = listed s" "listed (s\<lparr>toastTimer := x6\<rparr>) = listed s"
  "listed (s\<lparr>dragDepth := x7\<rparr>) = listed s" "listed (row_ids_update g s) = listed s"
  by (simp_all add: listed_def)

lemma listed_blocks [simp]:
  "listed (updateUploadButton s) = listed s" "listed (clearDrop s) = listed s"
  "listed (toast m b s) = listed s" "listed (hideToast s) = listed s"
  "listed (access st m s) = listed s" "listed (listingBusy b s) = listed s"
  by (rule listed_rows, simp)+

lemma listed_closing [simp]: "listed (closeMenu s) = listed s" "listed (closeDetails s) = listed s"
  by (simp_all add: closeMenu_def closeDetails_def)

text \<open>What locking does to the variables.\<close>

lemma lock_fields [simp]:
  "session (lock st m s) = None" "epoch (lock st m s) = Suc (epoch s)"
  "upload (lock st m s) = upload s" "transfer (lock st m s) = transfer s"
  "verification (lock st m s) = verification s" "listingRequest (lock st m s) = None"
  "folderAction (lock st m s) = None" "pickerContext (lock st m s) = None"
  "directory (lock st m s) = []" "search (lock st m s) = []" "cursors (lock st m s) = [[]]"
  "pageIndex (lock st m s) = 0" "next_cursor (lock st m s) = None"
  "displayedQuery (lock st m s) = None" "displayedEntries (lock st m s) = None"
  "retryView (lock st m s) = None" "searchTimer (lock st m s) = None"
  "expiry (lock st m s) = None" "controllers (lock st m s) = controllers s"
  "statusPage (lock st m s) = statusPage s" "editorPage (lock st m s) = editorPage s"
  "draft (lock st m s) = draft s" "now (lock st m s) = now s" "saved (lock st m s) = saved s"
  "row_ids (lock st m s) = row_ids s" "operations (lock st m s) = operations s"
  by (simp_all add: lock_def ui_simps)

lemma lock_aborts:
  "aborted (lock st m s) i \<longleftrightarrow> aborted s i \<or> Some i \<in> {folderRequest s, listingRequest s,
     verification s, transfer s, upload s}"
  by (auto simp: lock_def ui_simps)

section \<open>The page when its script has started\<close>

text \<open>
  The elements that the markup hides or disables, then what the script does with the page's
  kind. The static captions of the markup are not part of the state: texts start empty.
\<close>

definition hidden_at_start :: "string list" where
  "hidden_at_start = [''logout'', ''clear-search'', ''refresh'', ''code-editor'', ''file-cancel'',
     ''explorer'', ''upload-input'', ''listing-message'', ''empty'', ''empty-reset'',
     ''previous-page'', ''next-page'', ''drop-overlay'', ''details-dismiss'', ''details'',
     ''detail-count-row'', ''detail-edit'', ''detail-open'', ''file-menu'', ''folder-error'',
     ''folder-help'', ''toast'', ''download-cancel'', ''upload-status'', ''upload-close'',
     ''upload-results'', ''upload-help'']"

definition first_document :: "bool \<Rightarrow> bool \<Rightarrow> document" where
  "first_document st ed =
     \<lparr>hidden_of = (\<lambda>i.
        if i = ''status-panel'' then \<not> st
        else if i = ''search-box'' then st \<or> ed
        else if i = ''editor-navigation'' then \<not> ed
        else if i = ''toolbar-title'' then \<not> st
        else if i = ''access'' then st
        else i \<in> set hidden_at_start),
      disabled_of = (\<lambda>i. i \<in> {''search'', ''upload-add'', ''folder-confirm''}),
      text_of = (\<lambda>_. no_text), value_of = (\<lambda>_. []), attr_of = (\<lambda>_. no_text),
      rows = [], crumbs = [], results = [], dialog_open = False, inert = False\<rparr>"

definition first_page :: "bool \<Rightarrow> bool \<Rightarrow> int \<Rightarrow> bool \<Rightarrow> atlas" where
  "first_page st ed clock small =
     \<lparr>statusPage = st, editorPage = ed, draft = False, now = clock, narrow = small,
      session = None, expiry = None, countdown = False, listingRequest = None,
      verification = None, transfer = None, upload = None, pickerContext = None,
      dragDepth = 0, dragCancelled = False, directory = [], search = [], cursors = [[]],
      pageIndex = 0, next_cursor = None, displayedQuery = None, displayedEntries = None,
      retryView = None, selected = None, selectedButton = None, menuEntry = None,
      menuButton = None, searchTimer = None, toastTimer = False, verifyTimer = None, detailsTimer = None,
      folderAction = None, folderRequest = None,
      operations = (\<lambda>_. \<lparr>op_entry = \<lparr>kind = OtherKind, path = [], size_of = None, revision = None,
        sha256 = None, updated_at = None, file_count = None\<rparr>, op_rename = False,
        op_snapshot = None, op_sent = False\<rparr>),
      epoch = 0, controllers = 0, aborted = (\<lambda>_. False), row_ids = 0,
      doc = first_document st ed, saved = [], opened = [], logouts = 0\<rparr>"

text \<open>A session as the server describes it, and a page that has accepted it.\<close>

definition example_session :: "json" where
  "example_session = JObj
     [(js ''expires_at'', JInt 2000), (js ''device_name'', JStr (js ''laptop'')),
      (js ''chunk_bytes'', JInt 8388608), (js ''download_limit'', JInt 268435456),
      (js ''upload_limit'', JInt 268435456), (js ''manage_limit'', JInt 10000)]"

definition example_page :: "atlas" where
  "example_page = (case acceptSession example_session (first_page False False 1000000 False) of
     Inl _ \<Rightarrow> first_page False False 1000000 False | Inr s \<Rightarrow> s)"

lemma first_page_simps [simp]:
  "session (first_page st ed t b) = None" "epoch (first_page st ed t b) = 0"
  "controllers (first_page st ed t b) = 0" "aborted (first_page st ed t b) = (\<lambda>_. False)"
  "statusPage (first_page st ed t b) = st" "editorPage (first_page st ed t b) = ed"
  "now (first_page st ed t b) = t" "listingRequest (first_page st ed t b) = None"
  "upload (first_page st ed t b) = None" "transfer (first_page st ed t b) = None"
  "verification (first_page st ed t b) = None" "saved (first_page st ed t b) = []"
  "folderAction (first_page st ed t b) = None" "retryView (first_page st ed t b) = None"
  by (simp_all add: first_page_def)

lemma valid_example_session [simp]: "valid_session example_session"
  "session_of example_session = \<lparr>expires_at = 2000, device_name = js ''laptop'',
     chunk_bytes = 8388608, download_limit = 268435456, upload_limit = Some (JInt 268435456),
     manage_limit = Some (JInt 10000)\<rparr>"
  by (simp_all add: valid_session_def session_of_def example_session_def)

lemma example_page_accepted:
  "acceptSession example_session (first_page False False 1000000 False) = Inr example_page"
proof -
  have "example_session \<noteq> JNull" by (simp add: example_session_def)
  then show ?thesis by (simp add: example_page_def acceptSession_def)
qed

end
