(* ===== verification/Page_Invariant.thy ===== *)
theory Page_Invariant
  imports Atlas_State
begin

text \<open>
  The contract between the handlers of the explorer. \<open>keeps\<close> is what every handler guarantees
  and relies on while it is suspended: epochs grow, and within one epoch an accepted session
  does not go away. \<open>page_ok\<close> is their common invariant: \<open>discreet\<close>, the page shows no name of
  a file, folder or search when there is no session; and \<open>steady\<close>, the rows are the displayed
  entries, every view asks for a page that exists, a download and an upload never overlap, and
  a session has an armed expiry timer. The lemmas say how the building blocks of
  \<^verbatim>\<open>Atlas_State\<close> act on both.
\<close>

section \<open>Guarantee\<close>

definition keeps :: "atlas \<Rightarrow> atlas \<Rightarrow> bool" where
  "keeps s s' \<longleftrightarrow>
     epoch s \<le> epoch s' \<and>
     (epoch s' = epoch s \<longrightarrow> session s \<noteq> None \<longrightarrow> session s' \<noteq> None) \<and>
     (\<forall>i. aborted s i \<longrightarrow> aborted s' i) \<and>
     controllers s \<le> controllers s' \<and>
     statusPage s' = statusPage s \<and> editorPage s' = editorPage s"

interpretation keeps: rely keeps
  by unfold_locales (auto simp: keeps_def)

lemma keeps_core: "core s' = core s \<Longrightarrow> keeps s s'"
  using core_fields [of s' s] by (simp add: keeps_def)

lemma keeps_live: "keeps s s' \<Longrightarrow> epoch s' = epoch s \<Longrightarrow> session s \<noteq> None \<Longrightarrow> session s' \<noteq> None"
  by (simp add: keeps_def)

lemma keeps_lock [simp, intro]: "keeps s (lock st m s)"
  by (simp add: keeps_def lock_aborts)

text \<open>The variables that the guarantee speaks of.\<close>

definition life :: "atlas \<Rightarrow> nat \<times> session_data option \<times> (nat \<Rightarrow> bool) \<times> nat \<times> bool \<times> bool" where
  "life s = (epoch s, session s, aborted s, controllers s, statusPage s, editorPage s)"

lemma life_core: "core s = core s' \<Longrightarrow> life s = life s'"
  using core_fields [of s s'] by (simp add: life_def)

lemma life_fields:
  assumes "life s' = life s"
  shows "epoch s' = epoch s" "session s' = session s" "aborted s' = aborted s"
    "controllers s' = controllers s" "statusPage s' = statusPage s" "editorPage s' = editorPage s"
  using assms by (simp_all add: life_def)

lemma keeps_life: "life s' = life s \<Longrightarrow> keeps s s'"
  by (simp add: keeps_def life_def)

lemmas life_setters [simp] = core_setters [THEN life_core]

lemma life_blocks [simp]:
  "life (updateUploadButton s) = life s" "life (clearDrop s) = life s"
  "life (closeMenu s) = life s" "life (closeDetails s) = life s" "life (toast m b s) = life s"
  "life (hideToast s) = life s" "life (access st m s) = life s"
  "life (listingBusy b s) = life s" "life (clear_listing s) = life s" "life (reset_view s) = life s"
  by (simp_all add: life_def reset_view_def)

lemma life_updates [simp]:
  "life (s\<lparr>listingRequest := x1\<rparr>) = life s" "life (s\<lparr>verification := x2\<rparr>) = life s"
  "life (s\<lparr>transfer := x3\<rparr>) = life s" "life (s\<lparr>upload := x4\<rparr>) = life s"
  "life (s\<lparr>pickerContext := x5\<rparr>) = life s" "life (s\<lparr>dragDepth := x6\<rparr>) = life s"
  "life (s\<lparr>dragCancelled := x7\<rparr>) = life s" "life (s\<lparr>directory := x8\<rparr>) = life s"
  "life (s\<lparr>search := x9\<rparr>) = life s" "life (s\<lparr>cursors := x10\<rparr>) = life s"
  "life (s\<lparr>pageIndex := x11\<rparr>) = life s" "life (s\<lparr>next_cursor := x12\<rparr>) = life s"
  "life (s\<lparr>displayedQuery := x13\<rparr>) = life s" "life (s\<lparr>displayedEntries := x14\<rparr>) = life s"
  "life (s\<lparr>retryView := x15\<rparr>) = life s" "life (s\<lparr>selected := x16\<rparr>) = life s"
  "life (s\<lparr>selectedButton := x17\<rparr>) = life s" "life (s\<lparr>menuEntry := x18\<rparr>) = life s"
  "life (s\<lparr>menuButton := x19\<rparr>) = life s" "life (s\<lparr>searchTimer := x20\<rparr>) = life s"
  "life (s\<lparr>toastTimer := x21\<rparr>) = life s" "life (s\<lparr>detailsTimer := x22\<rparr>) = life s"
  "life (s\<lparr>folderAction := x23\<rparr>) = life s" "life (s\<lparr>folderRequest := x24\<rparr>) = life s"
  "life (s\<lparr>saved := x25\<rparr>) = life s" "life (s\<lparr>opened := x26\<rparr>) = life s"
  "life (s\<lparr>logouts := x27\<rparr>) = life s" "life (s\<lparr>now := x28\<rparr>) = life s"
  "life (s\<lparr>narrow := x29\<rparr>) = life s" "life (s\<lparr>draft := x30\<rparr>) = life s"
  "life (s\<lparr>verifyTimer := x31\<rparr>) = life s"
  "life (operations_update f s) = life s" "life (row_ids_update g s) = life s"
  by (simp_all add: life_def)

section \<open>What may be shown\<close>

text \<open>The elements whose text can hold a name; the last three are inside the folder dialog or
  the drop overlay, and \<open>lock\<close> does not clear them but closes the dialog and hides the overlay.\<close>

definition sheltered :: "string list" where
  "sheltered = [''folder-description'', ''drop-description'', ''drop-path'']"

definition named_ids :: "string list" where
  "named_ids = [''listing-title'', ''toast-message'', ''upload-message'', ''upload-destination''] @
     detail_texts @ sheltered"

definition tidy :: "document \<Rightarrow> bool" where
  "tidy d \<longleftrightarrow> (\<forall>i. i \<notin> set named_ids \<longrightarrow> anonymous (text_of d i)) \<and>
     (\<forall>x. x \<noteq> (''listing-title'', ''title'') \<longrightarrow> anonymous (attr_of d x))"

text \<open>The invariant without a session: no rows, breadcrumbs or upload results, the folder dialog closed,
  the drop overlay and the panels hidden, the search box empty and disabled, and no text outside
  the dialog and the overlay and no attribute that holds a string. The texts of the closed
  dialog and of the hidden overlay, and the value of the dialog's input, may still hold one.\<close>

definition veiled :: "document \<Rightarrow> bool" where
  "veiled d \<longleftrightarrow> rows d = [] \<and> crumbs d = [] \<and> results d = [] \<and> \<not> dialog_open d \<and>
     hidden_of d ''drop-overlay'' \<and> hidden_of d ''explorer'' \<and> hidden_of d ''details'' \<and>
     hidden_of d ''file-menu'' \<and> value_of d ''search'' = [] \<and> disabled_of d ''search'' \<and>
     (\<forall>i. i \<notin> set sheltered \<longrightarrow> anonymous (text_of d i)) \<and> (\<forall>x. anonymous (attr_of d x))"

text \<open>
  What this means for the user. An element inside the folder dialog or the drop overlay is on
  display only while the dialog is open or the overlay is not hidden; nothing that is on display
  holds a string that was received or typed.
\<close>

definition displayed :: "document \<Rightarrow> string \<Rightarrow> bool" where
  "displayed d i \<longleftrightarrow> (i \<in> {''folder-description'', ''folder-name''} \<longrightarrow> dialog_open d) \<and>
     (i \<in> {''drop-description'', ''drop-path''} \<longrightarrow> \<not> hidden_of d ''drop-overlay'')"

definition nameless :: "document \<Rightarrow> bool" where
  "nameless d \<longleftrightarrow> rows d = [] \<and> crumbs d = [] \<and> results d = [] \<and>
     (\<forall>i. displayed d i \<longrightarrow> anonymous (text_of d i)) \<and> (\<forall>x. anonymous (attr_of d x)) \<and>
     (\<forall>i. i \<in> {''search'', ''folder-name''} \<longrightarrow> displayed d i \<longrightarrow> value_of d i = [])"

lemma veiled_nameless: "veiled d \<Longrightarrow> nameless d"
  by (auto simp: veiled_def nameless_def displayed_def sheltered_def)

text \<open>No variable of the page holds a name either.\<close>

definition forgotten :: "atlas \<Rightarrow> bool" where
  "forgotten s \<longleftrightarrow> directory s = [] \<and> search s = [] \<and> cursors s = [[]] \<and> pageIndex s = 0 \<and>
     next_cursor s = None \<and> displayedQuery s = None \<and> displayedEntries s = None \<and>
     retryView s = None \<and> searchTimer s = None \<and> selected s = None \<and> menuEntry s = None \<and>
     folderAction s = None \<and> pickerContext s = None \<and> detailsTimer s = None"

definition discreet :: "atlas \<Rightarrow> bool" where
  "discreet s \<longleftrightarrow> tidy (doc s) \<and> (session s = None \<longrightarrow> veiled (doc s) \<and> forgotten s)"

lemma discreet_live: "session s \<noteq> None \<Longrightarrow> tidy (doc s) \<Longrightarrow> discreet s"
  by (auto simp: discreet_def)

lemma discreet_tidy: "discreet s \<Longrightarrow> tidy (doc s)"
  by (simp add: discreet_def)

section \<open>Building blocks\<close>

lemma tidy_document [simp]:
  "tidy (hidden_of_update f d) = tidy d" "tidy (disabled_of_update f d) = tidy d"
  "tidy (value_of_update g d) = tidy d" "tidy (rows_update r d) = tidy d"
  "tidy (crumbs_update c d) = tidy d" "tidy (results_update x d) = tidy d"
  "tidy (dialog_open_update b d) = tidy d" "tidy (inert_update b d) = tidy d"
  by (simp_all add: tidy_def)

lemma tidy_setters [simp]:
  "tidy (doc (set_hidden i b s)) = tidy (doc s)" "tidy (doc (set_disabled i b s)) = tidy (doc s)"
  "tidy (doc (set_value i v s)) = tidy (doc s)" "tidy (doc (map_rows f s)) = tidy (doc s)"
  "tidy (doc (set_inert b s)) = tidy (doc s)" "tidy (doc (clear_results s)) = tidy (doc s)"
  "tidy (doc (close_dialog s)) = tidy (doc s)" "tidy (doc (set_rows r s)) = tidy (doc s)"
  "tidy (doc (set_crumbs cs s)) = tidy (doc s)" "doc (abort c s) = doc s"
  "doc (new_controller s) = doc s" "doc (reset_view s) = doc s"
  by (simp_all add: tidy_def ui_simps)

lemma tidy_set_text [simp]:
  "tidy (doc s) \<Longrightarrow> i \<in> set named_ids \<or> anonymous t \<Longrightarrow> tidy (doc (set_text i t s))"
  by (auto simp: tidy_def ui_simps)

lemma tidy_set_attr [simp]:
  "tidy (doc s) \<Longrightarrow> (i, a) = (''listing-title'', ''title'') \<or> anonymous t \<Longrightarrow>
   tidy (doc (set_attr i a t s))"
  by (auto simp: tidy_def ui_simps)

lemma named_ids_simps [simp]:
  "''listing-title'' \<in> set named_ids" "''toast-message'' \<in> set named_ids"
  "''upload-message'' \<in> set named_ids" "''upload-destination'' \<in> set named_ids"
  "''detail-name'' \<in> set named_ids" "''detail-path'' \<in> set named_ids"
  "''detail-size'' \<in> set named_ids" "''detail-modified'' \<in> set named_ids"
  "''detail-revision'' \<in> set named_ids" "''detail-hash'' \<in> set named_ids"
  "''folder-description'' \<in> set named_ids" "''drop-description'' \<in> set named_ids"
  "''drop-path'' \<in> set named_ids"
  by (simp_all add: named_ids_def detail_texts_def sheltered_def)

lemma anonymous_bool_text [simp]: "anonymous (bool_text b)"
  by (simp add: bool_text_def)

lemma anonymous_upload_title [simp]: "anonymous (upload_title s)"
  by (simp add: upload_title_def split: option.split)

lemma tidy_updateUploadButton [simp]: "tidy (doc s) \<Longrightarrow> tidy (doc (updateUploadButton s))"
  by (simp add: updateUploadButton_def)

lemma tidy_clearDrop [simp]: "tidy (doc s) \<Longrightarrow> tidy (doc (clearDrop s))"
  by (simp add: clearDrop_def)

lemma tidy_closeMenu [simp]: "tidy (doc s) \<Longrightarrow> tidy (doc (closeMenu s))"
  by (simp add: closeMenu_def expand_more_def)

lemma tidy_clear_detail_texts [simp]: "tidy (doc s) \<Longrightarrow> tidy (doc (clear_detail_texts s))"
  by (auto simp: tidy_def ui_simps)

lemma tidy_closeDetails [simp]: "tidy (doc s) \<Longrightarrow> tidy (doc (closeDetails s))"
  by (simp add: closeDetails_def collapse_rows_def)

lemma tidy_toast [simp]: "tidy (doc s) \<Longrightarrow> tidy (doc (toast m b s))"
  by (simp add: toast_def)

lemma tidy_hideToast [simp]: "tidy (doc s) \<Longrightarrow> tidy (doc (hideToast s))"
  by (simp add: hideToast_def)

lemma anonymous_access_messages:
  "access_messages st = (a, b, c) \<Longrightarrow> anonymous a \<and> anonymous b \<and> anonymous c"
  by (auto simp: access_messages_def split: if_splits)

lemma tidy_access [simp]: "tidy (doc s) \<Longrightarrow> anonymous m \<Longrightarrow> tidy (doc (access st m s))"
  by (cases "access_messages st") (simp add: access_def anonymous_access_messages)

lemma tidy_listingBusy [simp]: "tidy (doc s) \<Longrightarrow> tidy (doc (listingBusy b s))"
  by (simp add: listingBusy_def)

lemma tidy_clear_listing [simp]: "tidy (doc s) \<Longrightarrow> tidy (doc (clear_listing s))"
  by (simp add: clear_listing_def)

lemma tidy_lock [simp]: "tidy (doc s) \<Longrightarrow> anonymous m \<Longrightarrow> tidy (doc (lock st m s))"
  by (simp add: lock_def)

text \<open>Without a session, the page may still change what shows no name.\<close>

lemma forgotten_setters [simp]:
  "forgotten (set_hidden i b s) = forgotten s" "forgotten (set_disabled i b s) = forgotten s"
  "forgotten (set_text i t s) = forgotten s" "forgotten (set_attr i a t s) = forgotten s"
  "forgotten (set_value i v s) = forgotten s" "forgotten (map_rows f s) = forgotten s"
  "forgotten (set_inert b s) = forgotten s" "forgotten (clear_detail_texts s) = forgotten s"
  by (simp_all add: forgotten_def)

lemma discreet_set_text [simp]:
  "discreet s \<Longrightarrow> anonymous t \<Longrightarrow> discreet (set_text i t s)"
  by (simp add: discreet_def veiled_def)

lemma discreet_set_attr [simp]:
  "discreet s \<Longrightarrow> anonymous t \<Longrightarrow> discreet (set_attr i a t s)"
  by (simp add: discreet_def veiled_def)

lemma discreet_set_hidden [simp]:
  "discreet s \<Longrightarrow> b \<or> i \<notin> {''drop-overlay'', ''explorer'', ''details'', ''file-menu''} \<Longrightarrow>
   discreet (set_hidden i b s)"
  by (auto simp: discreet_def veiled_def)

lemma discreet_set_disabled [simp]:
  "discreet s \<Longrightarrow> b \<or> i \<noteq> ''search'' \<Longrightarrow> discreet (set_disabled i b s)"
  by (auto simp: discreet_def veiled_def)

lemma discreet_set_value [simp]:
  "discreet s \<Longrightarrow> i \<noteq> ''search'' \<or> v = [] \<Longrightarrow> discreet (set_value i v s)"
  by (auto simp: discreet_def veiled_def)

lemma discreet_rows [simp]: "discreet s \<Longrightarrow> discreet (map_rows f s)"
  "discreet s \<Longrightarrow> discreet (set_inert b s)" "discreet s \<Longrightarrow> discreet (clear_detail_texts s)"
  by (auto simp: discreet_def veiled_def)

lemma discreet_updates [simp]:
  "discreet (s\<lparr>listingRequest := x1\<rparr>) = discreet s" "discreet (s\<lparr>verification := x2\<rparr>) = discreet s"
  "discreet (s\<lparr>transfer := x3\<rparr>) = discreet s" "discreet (s\<lparr>upload := x4\<rparr>) = discreet s"
  "discreet (s\<lparr>dragDepth := x5\<rparr>) = discreet s" "discreet (s\<lparr>dragCancelled := x6\<rparr>) = discreet s"
  "discreet (s\<lparr>toastTimer := x7\<rparr>) = discreet s" "discreet (s\<lparr>now := x8\<rparr>) = discreet s"
  "discreet (s\<lparr>narrow := x9\<rparr>) = discreet s" "discreet (s\<lparr>selectedButton := x10\<rparr>) = discreet s"
  "discreet (s\<lparr>menuButton := x11\<rparr>) = discreet s" "discreet (s\<lparr>folderRequest := x12\<rparr>) = discreet s"
  "discreet (s\<lparr>logouts := x13\<rparr>) = discreet s" "discreet (s\<lparr>opened := x14\<rparr>) = discreet s"
  "discreet (s\<lparr>saved := x15\<rparr>) = discreet s" "discreet (s\<lparr>draft := x16\<rparr>) = discreet s"
  "discreet (s\<lparr>verifyTimer := x17\<rparr>) = discreet s"
  "discreet (operations_update f s) = discreet s" "discreet (abort c s) = discreet s"
  "discreet (new_controller s) = discreet s"
  by (simp_all add: discreet_def forgotten_def abort_def new_controller_def)

lemma discreet_resets [simp]:
  "discreet s \<Longrightarrow> discreet (s\<lparr>menuEntry := None\<rparr>)" "discreet s \<Longrightarrow> discreet (s\<lparr>selected := None\<rparr>)"
  "discreet s \<Longrightarrow> discreet (s\<lparr>detailsTimer := None\<rparr>)" "discreet s \<Longrightarrow> discreet (s\<lparr>searchTimer := None\<rparr>)"
  "discreet s \<Longrightarrow> discreet (s\<lparr>folderAction := None\<rparr>)" "discreet s \<Longrightarrow> discreet (s\<lparr>pickerContext := None\<rparr>)"
  by (simp_all add: discreet_def forgotten_def)

lemma discreet_blocks [simp]:
  "discreet s \<Longrightarrow> discreet (updateUploadButton s)" "discreet s \<Longrightarrow> discreet (clearDrop s)"
  "discreet s \<Longrightarrow> discreet (closeMenu s)" "discreet s \<Longrightarrow> discreet (closeDetails s)"
  "discreet s \<Longrightarrow> discreet (hideToast s)" "discreet s \<Longrightarrow> discreet (listingBusy b s)"
  "discreet s \<Longrightarrow> anonymous m \<Longrightarrow> discreet (toast m b s)"
  by (simp_all add: updateUploadButton_def clearDrop_def closeMenu_def closeDetails_def
      hideToast_def listingBusy_def toast_def expand_more_def collapse_rows_def)

lemma discreet_access [simp]: "discreet s \<Longrightarrow> anonymous m \<Longrightarrow> discreet (access st m s)"
  by (cases "access_messages st") (simp add: access_def anonymous_access_messages)

text \<open>Locking veils the page.\<close>

lemma lock_clears [simp]:
  "rows (doc (lock st m s)) = []" "crumbs (doc (lock st m s)) = []"
  "results (doc (lock st m s)) = []" "\<not> dialog_open (doc (lock st m s))"
  "selected (lock st m s) = None" "menuEntry (lock st m s) = None"
  "detailsTimer (lock st m s) = None"
  by (simp_all add: lock_def clear_listing_def reset_view_def abort_def)

lemma lock_hides [simp]:
  "hidden_of (doc (lock st m s)) ''drop-overlay''" "hidden_of (doc (lock st m s)) ''explorer''"
  "hidden_of (doc (lock st m s)) ''details''" "hidden_of (doc (lock st m s)) ''file-menu''"
  "value_of (doc (lock st m s)) ''search'' = []" "disabled_of (doc (lock st m s)) ''search''"
  by (simp_all add: lock_def clear_listing_def)

lemma lock_texts:
  "text_of (doc (lock st m s)) ''listing-title'' = caption ''Tous les fichiers''"
  "text_of (doc (lock st m s)) ''toast-message'' = no_text"
  "text_of (doc (lock st m s)) ''upload-message'' = no_text"
  "text_of (doc (lock st m s)) ''upload-destination'' = no_text"
  "list_all (\<lambda>i. text_of (doc (lock st m s)) i = no_text) detail_texts"
  "attr_of (doc (lock st m s)) (''listing-title'', ''title'') = no_text"
  by (simp_all add: lock_def clear_listing_def detail_texts_def)

lemma veiled_lock:
  assumes "tidy (doc s)" and "anonymous m"
  shows "veiled (doc (lock st m s))"
proof -
  let ?d = "doc (lock st m s)"
  have tidy: "tidy ?d" using assms by simp
  have "anonymous (text_of ?d i)" if "i \<in> set named_ids" "i \<notin> set sheltered" for i
    using that lock_texts(5) [of st m s]
    by (auto simp: named_ids_def lock_texts(1-4) list_all_iff)
  with tidy have texts: "\<forall>i. i \<notin> set sheltered \<longrightarrow> anonymous (text_of ?d i)"
    unfolding tidy_def by blast
  have "anonymous (attr_of ?d (''listing-title'', ''title''))" by (simp add: lock_texts)
  with tidy have "\<forall>x. anonymous (attr_of ?d x)" unfolding tidy_def by metis
  with texts show ?thesis unfolding veiled_def by simp
qed

lemma discreet_lock [simp]:
  "tidy (doc s) \<Longrightarrow> anonymous m \<Longrightarrow> discreet (lock st m s)"
  by (simp add: discreet_def veiled_lock forgotten_def)

section \<open>Steadiness\<close>

definition view_ok :: "view \<Rightarrow> bool" where
  "view_ok v \<longleftrightarrow> v_pageIndex v < length (v_cursors v) \<and> v_cursors v ! 0 = [] \<and>
     list_all typed_cursor (tl (v_cursors v))"

definition coherent :: "atlas \<Rightarrow> bool" where
  "coherent s \<longleftrightarrow>
     listed s = (case displayedEntries s of None \<Rightarrow> [] | Some es \<Rightarrow> es) \<and>
     (displayedQuery s = None \<longleftrightarrow> displayedEntries s = None) \<and>
     (\<forall>es. displayedEntries s = Some es \<longrightarrow> length es \<le> 200 \<and> list_all typed_entry es)"

definition paged :: "atlas \<Rightarrow> bool" where
  "paged s \<longleftrightarrow> pageIndex s < length (cursors s) \<and> cursors s ! 0 = [] \<and>
     list_all typed_cursor (tl (cursors s)) \<and> (\<forall>c. next_cursor s = Some c \<longrightarrow> length c \<le> 8194) \<and>
     (\<forall>v. retryView s = Some v \<longrightarrow> view_ok v) \<and> (\<forall>v. searchTimer s = Some v \<longrightarrow> view_ok v)"

definition exclusive :: "atlas \<Rightarrow> bool" where
  "exclusive s \<longleftrightarrow> upload s = None \<or> transfer s = None"

definition guarded :: "atlas \<Rightarrow> bool" where
  "guarded s \<longleftrightarrow> (\<forall>d. session s = Some d \<longrightarrow> chunk_bytes d = 8388608 \<and> download_limit d = 268435456 \<and>
     (\<exists>t. expiry s = Some t \<and> t \<le> expires_at d * 1000))"

definition steady :: "atlas \<Rightarrow> bool" where
  "steady s \<longleftrightarrow> coherent s \<and> paged s \<and> exclusive s \<and> guarded s"

lemmas steady_defs = steady_def coherent_def paged_def exclusive_def guarded_def

lemma steady_core: "core s' = core s \<Longrightarrow> listed s' = listed s \<Longrightarrow> steady s' = steady s"
  using core_fields [of s' s] by (simp add: steady_defs)

lemma steady_setters [simp]:
  "steady (set_hidden i b s) = steady s" "steady (set_disabled i b s) = steady s"
  "steady (set_text i t s) = steady s" "steady (set_value i v s) = steady s"
  "steady (set_attr i a t s) = steady s" "steady (set_crumbs c s) = steady s"
  "steady (set_inert b s) = steady s" "steady (clear_results s) = steady s"
  "steady (close_dialog s) = steady s"
  by (rule steady_core; simp)+

lemma steady_blocks [simp]:
  "steady (updateUploadButton s) = steady s" "steady (clearDrop s) = steady s"
  "steady (closeMenu s) = steady s" "steady (closeDetails s) = steady s"
  "steady (toast m b s) = steady s" "steady (hideToast s) = steady s"
  "steady (access st m s) = steady s" "steady (listingBusy b s) = steady s"
  by (rule steady_core; simp)+

lemma steady_updates [simp]:
  "steady (s\<lparr>listingRequest := x1\<rparr>) = steady s" "steady (s\<lparr>verification := x2\<rparr>) = steady s"
  "steady (s\<lparr>dragDepth := x5\<rparr>) = steady s" "steady (s\<lparr>dragCancelled := x6\<rparr>) = steady s"
  "steady (s\<lparr>toastTimer := x7\<rparr>) = steady s" "steady (s\<lparr>now := x8\<rparr>) = steady s"
  "steady (s\<lparr>narrow := x9\<rparr>) = steady s" "steady (s\<lparr>selectedButton := x10\<rparr>) = steady s"
  "steady (s\<lparr>menuButton := x11\<rparr>) = steady s" "steady (s\<lparr>folderRequest := x12\<rparr>) = steady s"
  "steady (s\<lparr>logouts := x13\<rparr>) = steady s" "steady (s\<lparr>opened := x14\<rparr>) = steady s"
  "steady (s\<lparr>saved := x15\<rparr>) = steady s" "steady (s\<lparr>draft := x16\<rparr>) = steady s"
  "steady (s\<lparr>verifyTimer := x22\<rparr>) = steady s"
  "steady (s\<lparr>menuEntry := x17\<rparr>) = steady s" "steady (s\<lparr>selected := x18\<rparr>) = steady s"
  "steady (s\<lparr>detailsTimer := x19\<rparr>) = steady s" "steady (s\<lparr>folderAction := x20\<rparr>) = steady s"
  "steady (s\<lparr>pickerContext := x21\<rparr>) = steady s"
  "steady (operations_update f s) = steady s" "steady (abort c s) = steady s"
  "steady (new_controller s) = steady s" "steady (row_ids_update g s) = steady s"
  by (simp_all add: steady_defs listed_def abort_def new_controller_def)

lemma steady_resets [simp]:
  "steady s \<Longrightarrow> steady (s\<lparr>searchTimer := None\<rparr>)" "steady s \<Longrightarrow> steady (s\<lparr>retryView := None\<rparr>)"
  "steady s \<Longrightarrow> steady (s\<lparr>upload := None\<rparr>)" "steady s \<Longrightarrow> steady (s\<lparr>transfer := None\<rparr>)"
  "steady s \<Longrightarrow> view_ok v \<Longrightarrow> steady (s\<lparr>searchTimer := Some v\<rparr>)"
  "steady s \<Longrightarrow> view_ok v \<Longrightarrow> steady (s\<lparr>retryView := Some v\<rparr>)"
  by (auto simp: steady_defs listed_def)

lemma steady_lock [simp]: "steady s \<Longrightarrow> steady (lock st m s)"
  by (simp add: steady_defs listed_def)

section \<open>The invariant\<close>

definition page_ok :: "atlas \<Rightarrow> bool" where
  "page_ok s \<longleftrightarrow> discreet s \<and> steady s"

lemma page_ok_lock [simp]: "page_ok s \<Longrightarrow> anonymous m \<Longrightarrow> page_ok (lock st m s)"
  by (simp add: page_ok_def discreet_tidy)

text \<open>A segment that leaves an existing session in place need only write tidily.\<close>

lemma page_ok_live:
  "life s' = life s \<Longrightarrow> session s \<noteq> None \<Longrightarrow> tidy (doc s') \<Longrightarrow> steady s' \<Longrightarrow> page_ok s'"
  using life_fields(2) [of s' s] by (auto simp: page_ok_def intro: discreet_live)

text \<open>What a handler of epoch \<open>current\<close> knows when it resumes.\<close>

definition live_in :: "nat \<Rightarrow> atlas \<Rightarrow> bool" where
  "live_in current s \<longleftrightarrow> page_ok s \<and> current \<le> epoch s \<and> (epoch s = current \<longrightarrow> session s \<noteq> None)"

lemma live_in_ok: "live_in current s \<Longrightarrow> page_ok s"
  by (simp add: live_in_def)

lemma live_in_now: "page_ok s \<Longrightarrow> session s \<noteq> None \<Longrightarrow> live_in (epoch s) s"
  by (simp add: live_in_def)

lemma live_in_keeps: "live_in current s \<Longrightarrow> keeps s s' \<Longrightarrow> page_ok s' \<Longrightarrow> live_in current s'"
  by (auto simp: live_in_def keeps_def)

lemma rg_request_live:
  assumes "live_in current s"
    and "\<And>s' v. live_in current s' \<Longrightarrow> keeps s s' \<Longrightarrow> rg keeps page_ok (ret v) s'"
    and "\<And>s' e. live_in current s' \<Longrightarrow> keeps s s' \<Longrightarrow> rg keeps page_ok (throw e) s'"
  shows "rg keeps page_ok (request q ret throw) s"
proof (rule rg_requestI)
  show "page_ok s" using assms(1) by (rule live_in_ok)
qed (use assms live_in_keeps in blast)+

text \<open>The same for a handler that started in \<open>s0\<close>.\<close>

lemma rg_request_from:
  assumes "keeps s0 s" "page_ok s"
    and "\<And>s' v. keeps s0 s' \<Longrightarrow> page_ok s' \<Longrightarrow> rg keeps page_ok (ret v) s'"
    and "\<And>s' e. keeps s0 s' \<Longrightarrow> page_ok s' \<Longrightarrow> rg keeps page_ok (throw e) s'"
  shows "rg keeps page_ok (request q ret throw) s"
  by (rule rg_requestI; use assms keeps.rely_trans in blast)

text \<open>A handler that may start in any state of the invariant.\<close>

abbreviation safe :: "atlas_handler \<Rightarrow> bool" where
  "safe \<equiv> always keeps page_ok"

lemmas safe_def = always_def [of keeps page_ok]
lemmas safeD = alwaysD [of keeps page_ok]
lemmas safe_ActI = always_ActI [of page_ok keeps]
lemmas safe_AwaitI = always_AwaitI [of keeps page_ok]
lemmas safe_requestI = always_requestI [of keeps page_ok]
lemmas safe_ForkI = keeps.always_ForkI [of page_ok]

text \<open>A segment that has a session and only writes tidily.\<close>

lemma safe_segment:
  assumes "page_ok s" "session s \<noteq> None" "life s' = life s" "tidy (doc s')" "steady s'"
  shows "keeps s s' \<and> page_ok s'"
  using assms page_ok_live [of s' s] by (simp add: keeps_life)

lemma page_ok_toast [simp]: "page_ok s \<Longrightarrow> anonymous m \<Longrightarrow> page_ok (toast m b s)"
  by (simp add: page_ok_def)

lemma page_ok_updateUploadButton [simp]: "page_ok s \<Longrightarrow> page_ok (updateUploadButton s)"
  by (simp add: page_ok_def)

lemma page_ok_named_toast:
  "page_ok s \<Longrightarrow> session s \<noteq> None \<Longrightarrow> page_ok (toast m b s)"
  by (rule page_ok_live [of _ s]) (simp_all add: page_ok_def discreet_tidy)

lemma page_ok_tidy: "page_ok s \<Longrightarrow> tidy (doc s)"
  by (simp add: page_ok_def discreet_tidy)

lemma page_ok_steady: "page_ok s \<Longrightarrow> steady s"
  by (simp add: page_ok_def)

lemma keeps_abort [simp]: "keeps s (abort c s)"
  by (simp add: keeps_def abort_def)

lemma page_ok_abort [simp]: "page_ok (abort c s) = page_ok s"
  by (simp add: page_ok_def)

text \<open>Acceptance of a session keeps the guarantee and the invariant.\<close>

lemma acceptSession_fields:
  assumes "acceptSession v s = Inr s'"
  shows "epoch s' = epoch s" "session s' = Some (session_of v)" "aborted s' = aborted s"
    "controllers s' = controllers s" "statusPage s' = statusPage s" "editorPage s' = editorPage s"
  using assms
  by (auto simp: acceptSession_def show_session_def tick_def split: if_splits)

lemma acceptSession_frame:
  assumes "acceptSession v s = Inr s'"
  shows "listingRequest s' = listingRequest s" "upload s' = upload s" "transfer s' = transfer s"
    "verification s' = verification s" "saved s' = saved s" "folderAction s' = folderAction s"
    "retryView s' = retryView s" "now s' = now s" "displayedQuery s' = displayedQuery s"
    "directory s' = directory s" "search s' = search s" "cursors s' = cursors s"
    "pageIndex s' = pageIndex s"
  using assms
  by (auto simp: acceptSession_def show_session_def tick_def split: if_splits)

lemma keeps_acceptSession: "acceptSession v s = Inr s' \<Longrightarrow> keeps s s'"
  by (simp add: keeps_def acceptSession_fields)

lemma tidy_acceptSession: "acceptSession v s = Inr s' \<Longrightarrow> tidy (doc s) \<Longrightarrow> tidy (doc s')"
  by (auto simp: acceptSession_def show_session_def tick_def split: if_splits)

lemma steady_acceptSession:
  assumes "acceptSession v s = Inr s'" and "steady s"
  shows "steady s'"
proof -
  have *: "displayedEntries s' = displayedEntries s" "displayedQuery s' = displayedQuery s"
    "listed s' = listed s" "pageIndex s' = pageIndex s" "cursors s' = cursors s"
    "retryView s' = retryView s" "searchTimer s' = searchTimer s" "upload s' = upload s"
    "transfer s' = transfer s" "next_cursor s' = next_cursor s"
    using assms(1) by (auto simp: acceptSession_def show_session_def tick_def listed_def split: if_splits)
  have "expiry s' = Some (now s + min 1800000 (expires_at (session_of v) * 1000 - now s))"
    and "valid_session v"
    using assms(1) by (auto simp: acceptSession_def show_session_def tick_def split: if_splits)
  then have "guarded s'"
    using acceptSession_fields(2) [OF assms(1)]
    by (auto simp: guarded_def session_of_def valid_session_def)
  with assms(2) * show ?thesis by (simp add: steady_defs)
qed

lemma page_ok_acceptSession:
  assumes "acceptSession v s = Inr s'" and "page_ok s"
  shows "page_ok s'"
proof -
  have "discreet s'"
    using acceptSession_fields(2) [OF assms(1)] tidy_acceptSession [OF assms(1)] assms(2)
    by (intro discreet_live) (simp_all add: page_ok_def discreet_tidy)
  moreover have "steady s'"
    using steady_acceptSession [OF assms(1)] assms(2) by (simp add: page_ok_def)
  ultimately show ?thesis by (simp add: page_ok_def)
qed

section \<open>The first page\<close>

lemma page_ok_first_page: "page_ok (first_page st ed t b)"
proof -
  have "tidy (first_document st ed)" "veiled (first_document st ed)"
    by (simp_all add: tidy_def veiled_def first_document_def hidden_at_start_def)
  then show ?thesis
    by (simp add: page_ok_def discreet_def forgotten_def steady_defs listed_def first_page_def)
      (simp add: first_document_def)
qed

lemma example_page_fields [simp]:
  "epoch example_page = 0" "controllers example_page = 0" "aborted example_page = (\<lambda>_. False)"
  "session example_page = Some (session_of example_session)"
  "statusPage example_page = False" "editorPage example_page = False"
  using acceptSession_fields [OF example_page_accepted] by simp_all

lemma example_page_free [simp]:
  "listingRequest example_page = None" "upload example_page = None" "transfer example_page = None"
  "verification example_page = None" "saved example_page = []" "folderAction example_page = None"
  "retryView example_page = None" "now example_page = 1000000"
  using acceptSession_frame [OF example_page_accepted] by simp_all

lemma page_ok_example_page: "page_ok example_page"
  using page_ok_acceptSession [OF example_page_accepted page_ok_first_page] .

end
