(* ===== verification/Listing.thy ===== *)
theory Listing
  imports Page_Invariant
begin

text \<open>
  The listing of the explorer (web/atlas.js): validation of entries, formatting of sizes,
  highlighting, breadcrumbs, the details panel, and \<open>load\<close> with the handlers that call it
  (navigation, search, pagination, refresh).
\<close>

section \<open>Entries\<close>

definition validateEntry :: "json \<Rightarrow> bool" where
  "validateEntry e \<longleftrightarrow>
     e \<noteq> JNull \<and>
     (prop_of e ''kind'' = Some (JStr (js ''directory'')) \<or>
      prop_of e ''kind'' = Some (JStr (js ''file''))) \<and>
     is_string (prop_of e ''path'') \<and> 0 < length (str_of (prop_of e ''path'')) \<and>
     length (str_of (prop_of e ''path'')) \<le> 8192 \<and>
     (isSafeInteger (prop_of e ''size'') \<and> 0 \<le> int_of (prop_of e ''size'') \<or>
      prop_of e ''kind'' = Some (JStr (js ''directory'')) \<and> prop_of e ''size'' = Some JNull) \<and>
     (nullish (prop_of e ''updated_at'') \<or>
      isSafeInteger (prop_of e ''updated_at'') \<and> 0 \<le> int_of (prop_of e ''updated_at'') \<and>
      int_of (prop_of e ''updated_at'') \<le> 8640000000000) \<and>
     (prop_of e ''kind'' = Some (JStr (js ''directory'')) \<or>
      isSafeInteger (prop_of e ''revision'') \<and> 0 < int_of (prop_of e ''revision'') \<and>
      hex64 (prop_of e ''sha256''))"

text \<open>The fields of a valid entry.\<close>

definition kind_of :: "json option \<Rightarrow> kind" where
  "kind_of v = (if v = Some (JStr (js ''directory'')) then Directory
     else if v = Some (JStr (js ''file'')) then File else OtherKind)"

definition entry_of :: "json \<Rightarrow> entry" where
  "entry_of e =
     \<lparr>kind = kind_of (prop_of e ''kind''),
      path = str_of (prop_of e ''path''),
      size_of = (if prop_of e ''size'' = Some JNull then None else Some (int_of (prop_of e ''size''))),
      revision = prop_of e ''revision'', sha256 = prop_of e ''sha256'',
      updated_at = prop_of e ''updated_at'', file_count = None\<rparr>"

text \<open>\<open>===\<close> on two values parsed from different responses: objects are never identical.\<close>

fun strict_eq :: "json option \<Rightarrow> json option \<Rightarrow> bool" where
  "strict_eq (Some (JArr _)) _ = False"
| "strict_eq (Some (JObj _)) _ = False"
| "strict_eq x y = (x = y)"

definition same_entry :: "entry \<Rightarrow> entry \<Rightarrow> bool" where
  "same_entry a b \<longleftrightarrow> kind a = kind b \<and> path a = path b \<and> size_of a = size_of b \<and>
     strict_eq (revision a) (revision b) \<and> strict_eq (sha256 a) (sha256 b) \<and>
     strict_eq (updated_at a) (updated_at b)"

section \<open>Formatting\<close>

text \<open>
  The loop of \<open>size\<close>: dividing a double by 1024 is exact, so after \<open>index\<close> rounds the value is
  \<open>value / 1024 ^ index\<close>.
\<close>

function size_index :: "nat \<Rightarrow> nat \<Rightarrow> nat" where
  "size_index v index =
     (if v \<ge> 1024 ^ (index + 1) \<and> index < 5 then size_index v (index + 1) else index)"
  by pat_completeness auto
termination by (relation "measure (\<lambda>(v, i). 5 - i)") auto

declare size_index.simps [simp del]

definition size_units :: "string list" where
  "size_units = [''o'', ''Ko'', ''Mo'', ''Go'', ''To'', ''Po'']"

text \<open>The digits are those of \<open>Intl.NumberFormat\<close>; the text carries value and unit.\<close>

definition size_text :: "int option \<Rightarrow> label" where
  "size_text v =
     (case v of None \<Rightarrow> caption ''-''
      | Some n \<Rightarrow> Text (size_units ! size_index (nat n) 0) [Num n])"

definition modifiedTime :: "json option \<Rightarrow> bool \<Rightarrow> label" where
  "modifiedTime v full =
     (if nullish v then caption ''-''
      else Text (if full then ''long date and time'' else ''short date and time'') [Num (int_of v)])"

definition editable :: "entry \<Rightarrow> bool" where
  "editable e \<longleftrightarrow> kind e = File \<and> (has_extension ''py'' (path e) \<or> has_extension ''c'' (path e))"

definition kindIcon :: "entry \<Rightarrow> string" where
  "kindIcon e =
     (if kind e = Directory then ''directory''
      else if has_extension ''pdf'' (path e) then ''pdf''
      else if list_ex (\<lambda>x. has_extension x (path e))
                [''toml'', ''json'', ''lock'', ''rs'', ''js'', ''yml'', ''yaml'', ''xml'']
      then ''code'' else ''file'')"

text \<open>
  \<open>highlighted(node, text)\<close>: the text around and inside the mark. \<open>lower\<close> is
  \<open>toLocaleLowerCase("fr")\<close>.
\<close>

fun index_of :: "'a list \<Rightarrow> 'a list \<Rightarrow> nat option" where
  "index_of pat [] = (if pat = [] then Some 0 else None)"
| "index_of pat (x # xs) =
     (if prefix pat (x # xs) then Some 0 else map_option Suc (index_of pat xs))"

definition highlighted ::
    "(jstring \<Rightarrow> jstring) \<Rightarrow> jstring \<Rightarrow> jstring \<Rightarrow> jstring \<times> jstring \<times> jstring" where
  "highlighted lower query txt =
     (case (if query = [] then None else index_of (lower query) (lower txt)) of
        None \<Rightarrow> (txt, [], [])
      | Some start \<Rightarrow>
          (take start txt, slice start (start + length query) txt, drop (start + length query) txt))"

text \<open>Breadcrumbs: one button per component of the directory, each leading to its own path.\<close>

fun crumb_steps :: "jstring \<Rightarrow> jstring list \<Rightarrow> (jstring \<times> jstring) list" where
  "crumb_steps p [] = []"
| "crumb_steps p (part # parts) =
     (let p' = p @ (if p = [] then [] else [slash]) @ part in (part, p') # crumb_steps p' parts)"

definition breadcrumbs :: "atlas \<Rightarrow> atlas" where
  "breadcrumbs s = set_crumbs
     ((caption ''Fichiers'', Some []) #
     (if search s \<noteq> [] then [(caption ''/ Recherche'', None)]
      else map (\<lambda>(part, p). (plain part, Some p))
             (crumb_steps [] (filter (\<lambda>part. part \<noteq> []) (split_on slash (directory s)))))) s"

section \<open>Details\<close>

definition detailsLayout :: "atlas \<Rightarrow> atlas" where
  "detailsLayout s =
     (let overlay = (\<not> hidden_of (doc s) ''details'' \<and> narrow s) in
      seq [set_inert overlay, set_hidden ''details-dismiss'' (\<not> overlay), clearDrop,
           updateUploadButton] s)"

definition mark_row :: "nat \<Rightarrow> (row \<Rightarrow> row) \<Rightarrow> atlas \<Rightarrow> atlas" where [ui_simps]:
  "mark_row b f = map_rows (\<lambda>r. if row_id r = b then f r else r)"

definition value_text :: "json option \<Rightarrow> label" where
  "value_text v =
     (if nullish v then no_text
      else case the v of JInt n \<Rightarrow> Text [] [Num n] | JStr x \<Rightarrow> plain x
         | w \<Rightarrow> (case regex_subject w of Some x \<Rightarrow> plain x | None \<Rightarrow> caption ''value''))"

definition details :: "entry \<Rightarrow> nat \<Rightarrow> atlas \<Rightarrow> atlas" where
  "details e button =
     (let folder = (kind e = Directory) in
      seq [closeMenu, closeDetails,
           selected_update (\<lambda>_. Some e), selectedButton_update (\<lambda>_. Some button),
           mark_row button (\<lambda>r. r\<lparr>row_selected := True, row_expanded := True,
                                   row_pressed := (row_pressed r \<or> folder)\<rparr>),
           set_text ''detail-heading''
             (caption (if folder then ''Proprietes du dossier'' else ''Details du fichier'')),
           set_hidden ''detail-download'' folder, set_hidden ''detail-open'' (\<not> folder),
           set_hidden ''detail-edit'' (\<not> editable e),
           set_hidden ''detail-revision-row'' folder, set_hidden ''detail-hash-row'' folder,
           set_hidden ''detail-count-row'' (\<not> folder),
           set_text ''detail-count''
             (case file_count e of None \<Rightarrow> caption ''-'' | Some n \<Rightarrow> Text [] [Num n]),
           set_text ''detail-name'' (plain (basename (path e))),
           set_text ''detail-path'' (plain (path e)),
           set_text ''detail-size'' (size_text (size_of e)),
           set_text ''detail-revision'' (value_text (revision e)),
           set_text ''detail-hash'' (value_text (sha256 e)),
           set_text ''detail-modified'' (modifiedTime (updated_at e) True),
           set_attr ''detail-icon'' ''class'' (caption (kindIcon e)),
           set_hidden ''details'' False, detailsLayout])"

definition selectDirectory :: "entry \<Rightarrow> nat \<Rightarrow> atlas \<Rightarrow> atlas" where
  "selectDirectory e button = seq
     [closeDetails, selected_update (\<lambda>_. Some e), selectedButton_update (\<lambda>_. Some button),
      mark_row button (\<lambda>r. r\<lparr>row_selected := True, row_pressed := True\<rparr>)]"

text \<open>\<open>button.isConnected\<close>.\<close>

definition is_connected :: "nat \<Rightarrow> atlas \<Rightarrow> bool" where
  "is_connected b s \<longleftrightarrow> b \<in> row_id ` set (rows (doc s))"

definition directory_req :: "jstring \<Rightarrow> nat option \<Rightarrow> req" where
  "directory_req p sg =
     (get_req (Url (js ''/v1/web/files/directories'') [(''path'', p)]) sg)\<lparr>req_limit := 32768\<rparr>"

text \<open>The checks of \<open>directoryInfo\<close>; \<open>null\<close> as the whole value throws a \<open>TypeError\<close>.\<close>

definition valid_info :: "jstring \<Rightarrow> json \<Rightarrow> bool" where
  "valid_info p v \<longleftrightarrow>
     prop_of v ''path'' = Some (JStr p) \<and>
     isSafeInteger (prop_of v ''size'') \<and> 0 \<le> int_of (prop_of v ''size'') \<and>
     isSafeInteger (prop_of v ''file_count'') \<and> 1 \<le> int_of (prop_of v ''file_count'') \<and>
     isSafeInteger (prop_of v ''updated_at'') \<and> 0 \<le> int_of (prop_of v ''updated_at'') \<and>
     int_of (prop_of v ''updated_at'') \<le> 8640000000000 \<and>
     (prop_of v ''snapshot'' = Some JNull \<or> hex64 (prop_of v ''snapshot''))"

definition directoryInfo ::
    "entry \<Rightarrow> nat option \<Rightarrow> (json \<Rightarrow> atlas_handler) \<Rightarrow> (exn \<Rightarrow> atlas_handler) \<Rightarrow> atlas_handler" where
  "directoryInfo e sg ret throw =
     request (directory_req (path e) sg)
       (\<lambda>v. if data_of v = JNull then throw OtherError
            else if valid_info (path e) (data_of v) then ret (data_of v)
            else throw (fail ''invalid_response''))
       throw"

text \<open>\<open>{...entry, ...info}\<close>: the fields of \<open>info\<close> replace those of the entry.\<close>

definition override :: "json option \<Rightarrow> json option \<Rightarrow> json option" where
  "override old new = (case new of None \<Rightarrow> old | Some _ \<Rightarrow> new)"

definition merge_info :: "entry \<Rightarrow> json \<Rightarrow> entry" where
  "merge_info e v = e\<lparr>
     kind := (if prop_of v ''kind'' = None then kind e else kind_of (prop_of v ''kind'')),
     size_of := Some (int_of (prop_of v ''size'')),
     revision := override (revision e) (prop_of v ''revision''),
     sha256 := override (sha256 e) (prop_of v ''sha256''),
     updated_at := prop_of v ''updated_at'',
     file_count := Some (int_of (prop_of v ''file_count''))\<rparr>"

section \<open>Loading a page of entries\<close>

definition currentView :: "atlas \<Rightarrow> view" where
  "currentView s = \<lparr>v_directory = directory s, v_search = search s, v_pageIndex = pageIndex s,
     v_cursors = cursors s\<rparr>"

text \<open>\<open>view.cursors[view.pageIndex]\<close>, which is \<open>undefined\<close> out of range.\<close>

definition view_cursor :: "view \<Rightarrow> jstring" where
  "view_cursor v =
     (if v_pageIndex v < length (v_cursors v) then v_cursors v ! v_pageIndex v else js ''undefined'')"

definition view_params :: "view \<Rightarrow> (string \<times> jstring) list" where
  "view_params v =
     [(''directory'', if v_search v \<noteq> [] then [] else v_directory v),
      (''search'', v_search v), (''after'', view_cursor v)]"

definition view_query :: "view \<Rightarrow> jstring" where
  "view_query v = search_params (view_params v)"

definition load_req :: "view \<Rightarrow> nat \<Rightarrow> req" where
  "load_req v controller =
     (get_req (Url (js ''/v1/web/files/entries'') (view_params v)) (Some controller))
       \<lparr>req_limit := 12 * 1024 * 1024\<rparr>"

definition valid_listing :: "json \<Rightarrow> bool" where
  "valid_listing v \<longleftrightarrow>
     (case prop_of v ''entries'' of
        Some (JArr es) \<Rightarrow> length es \<le> 200 \<and> list_all validateEntry es
      | _ \<Rightarrow> False) \<and>
     (prop_of v ''next'' = Some JNull \<or>
      is_string (prop_of v ''next'') \<and> length (str_of (prop_of v ''next'')) \<le> 8194)"

fun array_of :: "json option \<Rightarrow> json list" where
  "array_of (Some (JArr es)) = es"
| "array_of _ = []"

definition listed_entries :: "json \<Rightarrow> entry list" where
  "listed_entries v = map entry_of (array_of (prop_of v ''entries''))"

definition listed_next :: "json \<Rightarrow> jstring option" where
  "listed_next v =
     (if prop_of v ''next'' = Some JNull then None else Some (str_of (prop_of v ''next'')))"

definition has_next :: "atlas \<Rightarrow> bool" where
  "has_next s \<longleftrightarrow> next_cursor s \<noteq> None \<and> next_cursor s \<noteq> Some []"

definition count_text :: "nat \<Rightarrow> atlas \<Rightarrow> label" where
  "count_text n s = Text
     ((if has_next s then ''{}+ '' else ''{} '') @
      (if search s \<noteq> [] then (if n = 1 then ''fichier trouve'' else ''fichiers trouves'')
       else (if n = 1 then ''element'' else ''elements'')) @
      (if pageIndex s \<noteq> 0 then '' page {}'' else []))
     (Num (int n) # (if pageIndex s \<noteq> 0 then [Num (int (pageIndex s) + 1)] else []))"

definition fresh_rows :: "nat \<Rightarrow> entry list \<Rightarrow> row list" where
  "fresh_rows i es = map2 (\<lambda>k e. \<lparr>row_id = k, row_entry = e, row_selected = False,
     row_expanded = False, row_pressed = False, more_expanded = False\<rparr>) [i..<i + length es] es"

definition render_rows :: "entry list \<Rightarrow> atlas \<Rightarrow> atlas" where
  "render_rows es s =
     row_ids_update (\<lambda>i. i + length es) (set_rows (fresh_rows (row_ids s) es) s)"

definition find_entry :: "entry \<Rightarrow> entry list \<Rightarrow> nat option" where
  "find_entry x es =
     (case filter (\<lambda>i. kind (es ! i) = kind x \<and> path (es ! i) = path x) [0..<length es] of
        [] \<Rightarrow> None
      | i # _ \<Rightarrow> Some i)"

text \<open>
  After the rows are replaced, the selected entry is found again among the new ones. \<open>base\<close> is
  the identity of the first new row.
\<close>

definition reselect :: "nat \<Rightarrow> entry list \<Rightarrow> atlas \<Rightarrow> atlas" where
  "reselect base es s =
     (case selected s of None \<Rightarrow> s
      | Some x \<Rightarrow>
          (case find_entry x es of
             None \<Rightarrow> closeDetails s
           | Some i \<Rightarrow>
               if kind x = Directory \<and> hidden_of (doc s) ''details''
               then selectDirectory (es ! i) (base + i) s
               else details (es ! i) (base + i) s))"

text \<open>The properties of a directory whose details stay open are fetched again.\<close>

definition refresh_target :: "entry list \<Rightarrow> atlas \<Rightarrow> nat option" where
  "refresh_target es s =
     (case selected s of None \<Rightarrow> None
      | Some x \<Rightarrow>
          (case find_entry x es of
             None \<Rightarrow> None
           | Some i \<Rightarrow> if kind x = Directory \<and> \<not> hidden_of (doc s) ''details'' then Some i else None))"

definition selected_path :: "atlas \<Rightarrow> jstring option" where
  "selected_path s = map_option path (selected s)"

definition refresh_done :: "nat \<Rightarrow> entry \<Rightarrow> nat \<Rightarrow> json \<Rightarrow> atlas_handler" where
  "refresh_done current e button info = Act (\<lambda>s.
     (if current = epoch s \<and> selected_path s = Some (path e) \<and> is_connected button s \<and>
         \<not> hidden_of (doc s) ''details''
      then details (merge_info e info) button s else s, Done))"

definition refresh_failed :: "nat \<Rightarrow> exn \<Rightarrow> atlas_handler" where
  "refresh_failed current error = Act (\<lambda>s.
     (if current = epoch s \<and> has_code error ''session_expired''
      then lock ''expired'' no_text s else s, Done))"

definition refresh_details :: "nat \<Rightarrow> entry \<Rightarrow> nat \<Rightarrow> atlas_handler" where
  "refresh_details current e button =
     directoryInfo e None (refresh_done current e button) (refresh_failed current)"

definition sameView :: "view \<Rightarrow> atlas \<Rightarrow> bool" where
  "sameView v s \<longleftrightarrow> displayedQuery s = Some (view_query v)"

definition sameEntries :: "view \<Rightarrow> entry list \<Rightarrow> atlas \<Rightarrow> bool" where
  "sameEntries v es s \<longleftrightarrow> sameView v s \<and>
     (case displayedEntries s of None \<Rightarrow> False
      | Some ds \<Rightarrow> length es = length ds \<and> list_all2 same_entry es ds)"

definition adopt_view :: "view \<Rightarrow> jstring option \<Rightarrow> atlas \<Rightarrow> atlas" where
  "adopt_view v nxt s = s\<lparr>directory := v_directory v, search := v_search v,
     pageIndex := v_pageIndex v, cursors := v_cursors v, next_cursor := nxt, retryView := None\<rparr>"

definition listing_title :: "atlas \<Rightarrow> atlas" where
  "listing_title s =
     set_attr ''listing-title'' ''title''
       (if search s \<noteq> [] then Text ''Recherche : {}'' [Str (search s)]
        else if directory s \<noteq> [] then plain (directory s) else caption ''Tous les fichiers'')
       (set_text ''listing-title''
          (if search s \<noteq> [] then caption ''Resultats de recherche''
           else if directory s \<noteq> [] then plain (basename (directory s))
           else caption ''Tous les fichiers'') s)"

text \<open>The part of a successful \<open>load\<close> up to the rows.\<close>

definition show_listing :: "view \<Rightarrow> json \<Rightarrow> atlas \<Rightarrow> atlas" where
  "show_listing v value s =
     (let es = listed_entries value; sameV = sameView v s; sameE = sameEntries v es s in
      seq [(if sameV then id else closeDetails),
           adopt_view v (listed_next value),
           set_value ''search'' (v_search v), set_hidden ''clear-search'' (v_search v = []),
           (if sameV then id else seq [breadcrumbs, listing_title]),
           set_hidden ''listing-message'' True,
           (\<lambda>s. set_text ''count'' (count_text (length es) s) s),
           (if sameE then id else seq [render_rows es, reselect (row_ids s) es])] s)"

text \<open>The part after the rows.\<close>

definition finish_listing :: "view \<Rightarrow> entry list \<Rightarrow> bool \<Rightarrow> atlas \<Rightarrow> atlas" where
  "finish_listing v es sameE = seq
     [displayedQuery_update (\<lambda>_. Some (view_query v)),
      (if sameE then id else displayedEntries_update (\<lambda>_. Some es)),
      set_hidden ''file-table'' (es = []), set_hidden ''empty'' (es \<noteq> []),
      (\<lambda>s. set_text ''empty-title''
         (caption (if search s \<noteq> [] then ''Aucun resultat'' else ''Aucun fichier pour le moment'')) s),
      (\<lambda>s. set_text ''empty-description''
         (caption (if search s \<noteq> [] then ''Essayez un autre nom ou un autre chemin de fichier.''
                   else ''Vos fichiers apparaitront ici apres la premiere synchronisation.'')) s),
      (\<lambda>s. set_hidden ''empty-reset'' (search s = []) s),
      (\<lambda>s. set_hidden ''previous-page'' (pageIndex s = 0) s),
      (\<lambda>s. set_hidden ''next-page'' (\<not> has_next s) s)]"

text \<open>A successful load adopts the view and shows the received entries.\<close>

definition shown :: "view \<Rightarrow> json \<Rightarrow> atlas \<Rightarrow> atlas" where
  "shown v value s =
     finish_listing v (listed_entries value) (sameEntries v (listed_entries value) s)
       (show_listing v value s)"

definition load_finally :: "nat \<Rightarrow> atlas \<Rightarrow> atlas" where
  "load_finally controller s =
     (if listingRequest s = Some controller
      then listingBusy False (s\<lparr>listingRequest := None\<rparr>) else s)"

definition load_error :: "atlas \<Rightarrow> atlas" where
  "load_error s =
     seq [(if displayedQuery s = None then set_text ''count'' (caption ''Liste indisponible'') else id),
          set_hidden ''listing-message'' False,
          set_text ''listing-message''
            (caption (if displayedQuery s = None
               then ''Impossible de charger les fichiers. Reessayez avec le bouton d actualisation en haut de la page.''
               else ''Impossible de charger les fichiers. La liste precedente est conservee. Reessayez avec le bouton d actualisation en haut de la page.''))] s"

definition load_failed :: "nat \<Rightarrow> nat \<Rightarrow> exn \<Rightarrow> atlas_handler \<Rightarrow> atlas_handler" where
  "load_failed controller current error ret = Act (\<lambda>s.
     (load_finally controller
        (if aborted s controller \<or> current \<noteq> epoch s then s
         else if code_in error [''session_expired'', ''authentication_refused'']
         then lock ''expired'' no_text s
         else load_error s), ret))"

text \<open>
  The request for a directory's properties is sent while the rows are drawn; the rest of the
  segment runs before any answer, so the model starts it at the end of the segment.
\<close>

definition load_done :: "view \<Rightarrow> nat \<Rightarrow> nat \<Rightarrow> json \<Rightarrow> atlas_handler \<Rightarrow> atlas_handler" where
  "load_done v controller current value ret = Act (\<lambda>s.
     if current \<noteq> epoch s \<or> aborted s controller then (load_finally controller s, ret)
     else if value = JNull then (s, load_failed controller current OtherError ret)
     else if \<not> valid_listing value
     then (s, load_failed controller current (fail ''invalid_response'') ret)
     else
       let es = listed_entries value in
       (load_finally controller (shown v value s),
        (case (if sameEntries v es s then None
               else refresh_target es (if sameView v s then s else closeDetails s)) of
           None \<Rightarrow> ret
         | Some i \<Rightarrow> Fork (refresh_details current (es ! i) (row_ids s + i)) ret)))"

text \<open>The notice shown when the answer takes longer than 180 ms.\<close>

definition load_waiting :: "nat \<Rightarrow> atlas_handler" where
  "load_waiting controller = Await (Sleep 180) (\<lambda>_. Act (\<lambda>s.
     (if listingRequest s = Some controller \<and> \<not> aborted s controller
      then seq [set_attr ''refresh'' ''is-loading'' (bool_text True),
                set_text ''listing-status''
                  (if displayedQuery s = None then no_text else caption ''Chargement des fichiers...'')] s
      else s, Done)))"

definition load_begin :: "view \<Rightarrow> atlas \<Rightarrow> atlas" where
  "load_begin v s =
     seq [detailsTimer_update (\<lambda>_. None), abort (listingRequest s), closeMenu, new_controller,
          listingRequest_update (\<lambda>_. Some (controllers s)),
          retryView_update (\<lambda>_. Some v), listingBusy True,
          (if displayedQuery s = None
           then seq [set_text ''count'' (caption ''Chargement des fichiers...''),
                     set_hidden ''empty'' True, set_hidden ''file-table'' False]
           else id)] s"

definition load :: "view \<Rightarrow> atlas_handler \<Rightarrow> atlas_handler" where
  "load v ret = Act (\<lambda>s.
     if session s = None then (s, ret)
     else
       (load_begin v s,
        Fork (load_waiting (controllers s))
          (request (load_req v (controllers s))
             (\<lambda>r. load_done v (controllers s) (epoch s) (data_of r) ret)
             (\<lambda>e. load_failed (controllers s) (epoch s) e ret))))"

text \<open>\<open>load()\<close>: the view is the current one.\<close>

definition load_current :: "atlas_handler \<Rightarrow> atlas_handler" where
  "load_current ret = Act (\<lambda>s. (s, load (currentView s) ret))"

section \<open>Navigation, search and pagination\<close>

definition root_view :: "jstring \<Rightarrow> view" where
  "root_view p = \<lparr>v_directory = p, v_search = [], v_pageIndex = 0, v_cursors = [[]]\<rparr>"

definition navigate :: "jstring \<Rightarrow> atlas_handler" where
  "navigate p = Act (\<lambda>s.
     let s = s\<lparr>searchTimer := None\<rparr> in
     if displayedQuery s \<noteq> None \<and> p = directory s \<and> search s = [] \<and>
        listingRequest s = None \<and> retryView s = None
     then (s, Done)
     else (seq [set_value ''search'' [], set_hidden ''clear-search'' True] s, load (root_view p) Done))"

definition refresh_click :: "atlas_handler" where
  "refresh_click = Act (\<lambda>s.
     if listingRequest s = None
     then (s\<lparr>searchTimer := None\<rparr>,
           load (case retryView s of Some v \<Rightarrow> v | None \<Rightarrow> currentView s) Done)
     else (s, Done))"

definition next_view :: "atlas \<Rightarrow> view" where
  "next_view s = (currentView s)\<lparr>v_pageIndex := pageIndex s + 1,
     v_cursors := take (pageIndex s + 1) (cursors s) @ [the (next_cursor s)]\<rparr>"

definition next_page_click :: "atlas_handler" where
  "next_page_click = Act (\<lambda>s.
     (s, if has_next s \<and> listingRequest s = None then load (next_view s) Done else Done))"

definition previous_view :: "atlas \<Rightarrow> view" where
  "previous_view s = (currentView s)\<lparr>v_pageIndex := pageIndex s - 1\<rparr>"

definition previous_page_click :: "atlas_handler" where
  "previous_page_click = Act (\<lambda>s.
     (s, if pageIndex s \<noteq> 0 \<and> listingRequest s = None then load (previous_view s) Done else Done))"

definition searchChanged :: "atlas \<Rightarrow> atlas" where
  "searchChanged s =
     (if session s = None then s
      else
        let v = \<lparr>v_directory = directory s, v_search = trim (value_of (doc s) ''search''),
                 v_pageIndex = 0, v_cursors = [[]]\<rparr> in
        seq [detailsTimer_update (\<lambda>_. None), abort (listingRequest s), closeMenu,
             set_hidden ''clear-search'' (value_of (doc s) ''search'' = []),
             retryView_update (\<lambda>_. Some v), clearDrop, updateUploadButton,
             searchTimer_update (\<lambda>_. Some v)] s)"

text \<open>The user types into the search box.\<close>

definition search_input :: "jstring \<Rightarrow> atlas_handler" where
  "search_input v = Act (\<lambda>s. (searchChanged (set_value ''search'' v s), Done))"

definition clear_search_click :: "atlas_handler" where
  "clear_search_click = Act (\<lambda>s. (searchChanged (set_value ''search'' [] s), Done))"

text \<open>The search timer fires; the browser forgets it.\<close>

definition search_timer_fires :: "view \<Rightarrow> atlas_handler" where
  "search_timer_fires v = Act (\<lambda>s. (s\<lparr>searchTimer := None\<rparr>, load v Done))"

section \<open>The building blocks and the invariant\<close>

lemma core_detailsLayout [simp]: "core (detailsLayout s) = core s"
  by (simp add: detailsLayout_def Let_def)

lemma core_mark_row [simp]: "core (mark_row b f s) = core s"
  by (simp add: mark_row_def)

lemma core_select [simp]: "core (s\<lparr>selected := x, selectedButton := y\<rparr>) = core s"
  by (simp add: core_def)

lemma core_details [simp]: "core (details e b s) = core s"
  by (simp add: details_def Let_def)

lemma core_selectDirectory [simp]: "core (selectDirectory e b s) = core s"
  by (simp add: selectDirectory_def)

lemma core_reselect [simp]: "core (reselect b es s) = core s"
  by (simp add: reselect_def split: option.split)

lemmas details_core [simp] = core_fields [OF core_details]
lemmas selectDirectory_core [simp] = core_fields [OF core_selectDirectory]
lemmas detailsLayout_core [simp] = core_fields [OF core_detailsLayout]
lemmas reselect_core [simp] = core_fields [OF core_reselect]

lemma listed_mark [simp]:
  "(\<And>r. row_entry (f r) = row_entry r) \<Longrightarrow> listed (mark_row b f s) = listed s"
  by (simp add: mark_row_def listed_map_rows)

lemma listed_details [simp]:
  "listed (detailsLayout s) = listed s" "listed (details e b s) = listed s"
  "listed (selectDirectory e b s) = listed s" "listed (reselect i es s) = listed s"
proof -
  show 1: "listed (detailsLayout s) = listed s" for s
    by (simp add: detailsLayout_def Let_def)
  show 2: "listed (details e b s) = listed s" for e b s
    by (simp add: details_def 1 Let_def)
  show 3: "listed (selectDirectory e b s) = listed s" for e b s
    by (simp add: selectDirectory_def)
  show "listed (reselect i es s) = listed s"
    by (simp add: reselect_def 2 3 split: option.split)
qed

lemma tidy_detailsLayout [simp]: "tidy (doc s) \<Longrightarrow> tidy (doc (detailsLayout s))"
  by (simp add: detailsLayout_def Let_def)

lemma tidy_details [simp]: "tidy (doc s) \<Longrightarrow> tidy (doc (details e b s))"
  by (simp add: details_def mark_row_def Let_def split: option.split)

lemma tidy_selectDirectory [simp]: "tidy (doc s) \<Longrightarrow> tidy (doc (selectDirectory e b s))"
  by (simp add: selectDirectory_def mark_row_def)

lemma tidy_breadcrumbs [simp]: "tidy (doc s) \<Longrightarrow> tidy (doc (breadcrumbs s))"
  by (simp add: breadcrumbs_def)

lemma tidy_listing_title [simp]: "tidy (doc s) \<Longrightarrow> tidy (doc (listing_title s))"
  by (simp add: listing_title_def)

lemma anonymous_count_text [simp]: "anonymous (count_text n s)"
  by (simp add: count_text_def)

lemma tidy_reselect [simp]: "tidy (doc s) \<Longrightarrow> tidy (doc (reselect b es s))"
  by (simp add: reselect_def split: option.split)

lemma tidy_show_listing [simp]: "tidy (doc s) \<Longrightarrow> tidy (doc (show_listing v value s))"
  by (simp add: show_listing_def Let_def adopt_view_def render_rows_def)

lemma tidy_finish_listing [simp]: "tidy (doc s) \<Longrightarrow> tidy (doc (finish_listing v es b s))"
  by (simp add: finish_listing_def)

lemma tidy_load_finally [simp]: "tidy (doc s) \<Longrightarrow> tidy (doc (load_finally c s))"
  by (simp add: load_finally_def)

lemma tidy_load_error [simp]: "tidy (doc s) \<Longrightarrow> tidy (doc (load_error s))"
  by (simp add: load_error_def)

lemma tidy_load_begin [simp]: "tidy (doc s) \<Longrightarrow> tidy (doc (load_begin v s))"
  by (simp add: load_begin_def)

lemma life_listing [simp]:
  "life (breadcrumbs s) = life s" "life (listing_title s) = life s"
  "life (adopt_view v n s) = life s" "life (render_rows es s) = life s"
  by (simp_all add: breadcrumbs_def listing_title_def adopt_view_def render_rows_def)

lemmas life_details [simp] = core_details [THEN life_core] core_selectDirectory [THEN life_core]
  core_reselect [THEN life_core] core_detailsLayout [THEN life_core]

lemma life_show_listing [simp]: "life (show_listing v value s) = life s"
  by (simp add: show_listing_def Let_def)

lemma life_finish_listing [simp]: "life (finish_listing v es b s) = life s"
  by (simp add: finish_listing_def)

lemma life_load_finally [simp]: "life (load_finally c s) = life s"
  by (simp add: load_finally_def)

lemma life_load_error [simp]: "life (load_error s) = life s"
  by (simp add: load_error_def)

lemma load_begin_fields [simp]:
  "epoch (load_begin v s) = epoch s" "session (load_begin v s) = session s"
  "statusPage (load_begin v s) = statusPage s" "editorPage (load_begin v s) = editorPage s"
  "controllers (load_begin v s) = Suc (controllers s)"
  "aborted (load_begin v s) i = (aborted s i \<or> listingRequest s = Some i)"
  "listingRequest (load_begin v s) = Some (controllers s)" "retryView (load_begin v s) = Some v"
  by (simp_all add: load_begin_def abort_def new_controller_def)

lemma keeps_load_begin [simp]: "keeps s (load_begin v s)"
  by (simp add: keeps_def)

lemma steady_listing [simp]:
  "steady (detailsLayout s) = steady s" "steady (details e b s) = steady s"
  "steady (selectDirectory e b s) = steady s"
  by (rule steady_core; simp)+

lemma steady_load_finally [simp]: "steady s \<Longrightarrow> steady (load_finally c s)"
  by (simp add: load_finally_def)

lemma steady_load_error [simp]: "steady (load_error s) = steady s"
  by (simp add: load_error_def)

lemma steady_load_begin [simp]: "steady s \<Longrightarrow> view_ok v \<Longrightarrow> steady (load_begin v s)"
  by (simp add: load_begin_def)

lemma listed_fresh_rows [simp]: "map row_entry (fresh_rows i es) = es"
  by (rule nth_equalityI) (simp_all add: fresh_rows_def)

lemma listing_updates [simp]:
  "listed (adopt_view v n s) = listed s" "listed (render_rows es s) = es"
  "listed (breadcrumbs s) = listed s" "listed (listing_title s) = listed s"
  "listed (s\<lparr>displayedQuery := q\<rparr>) = listed s" "listed (s\<lparr>displayedEntries := d\<rparr>) = listed s"
  by (simp_all add: adopt_view_def render_rows_def breadcrumbs_def listing_title_def)
    (simp_all add: listed_def)

lemma core_titles [simp]: "core (breadcrumbs s) = core s" "core (listing_title s) = core s"
  by (simp_all add: breadcrumbs_def listing_title_def)

lemmas breadcrumbs_core [simp] = core_fields [OF core_titles(1)]
lemmas listing_title_core [simp] = core_fields [OF core_titles(2)]

lemma render_rows_core [simp]:
  "core (render_rows es s) = core (s\<lparr>row_ids := row_ids s + length es\<rparr>)"
  by (simp add: render_rows_def core_def ui_simps)

lemma shown_listed:
  "listed (shown v value s) =
     (if sameEntries v (listed_entries value) s then listed s else listed_entries value)"
  by (simp add: shown_def finish_listing_def show_listing_def Let_def)

lemma finish_listing_fields:
  "directory (finish_listing v es b s) = directory s"
  "search (finish_listing v es b s) = search s"
  "pageIndex (finish_listing v es b s) = pageIndex s"
  "cursors (finish_listing v es b s) = cursors s"
  "next_cursor (finish_listing v es b s) = next_cursor s"
  "retryView (finish_listing v es b s) = retryView s"
  "searchTimer (finish_listing v es b s) = searchTimer s"
  "upload (finish_listing v es b s) = upload s"
  "transfer (finish_listing v es b s) = transfer s"
  "expiry (finish_listing v es b s) = expiry s"
  "listingRequest (finish_listing v es b s) = listingRequest s"
  "displayedQuery (finish_listing v es b s) = Some (view_query v)"
  "displayedEntries (finish_listing v es b s) = (if b then displayedEntries s else Some es)"
  by (simp_all add: finish_listing_def)

lemma adopt_view_fields [simp]:
  "directory (adopt_view v n s) = v_directory v"
  "search (adopt_view v n s) = v_search v"
  "pageIndex (adopt_view v n s) = v_pageIndex v"
  "cursors (adopt_view v n s) = v_cursors v"
  "next_cursor (adopt_view v n s) = n"
  "retryView (adopt_view v n s) = None"
  "searchTimer (adopt_view v n s) = searchTimer s"
  "upload (adopt_view v n s) = upload s"
  "transfer (adopt_view v n s) = transfer s"
  "expiry (adopt_view v n s) = expiry s"
  "listingRequest (adopt_view v n s) = listingRequest s"
  "displayedEntries (adopt_view v n s) = displayedEntries s"
  by (simp_all add: adopt_view_def)

lemma render_rows_fields [simp]:
  "directory (render_rows es s) = directory s"
  "search (render_rows es s) = search s"
  "pageIndex (render_rows es s) = pageIndex s"
  "cursors (render_rows es s) = cursors s"
  "next_cursor (render_rows es s) = next_cursor s"
  "retryView (render_rows es s) = retryView s"
  "searchTimer (render_rows es s) = searchTimer s"
  "upload (render_rows es s) = upload s"
  "transfer (render_rows es s) = transfer s"
  "expiry (render_rows es s) = expiry s"
  "listingRequest (render_rows es s) = listingRequest s"
  "displayedEntries (render_rows es s) = displayedEntries s"
  by (simp_all add: render_rows_def)

lemma show_listing_fields:
  "directory (show_listing v value s) = v_directory v"
  "search (show_listing v value s) = v_search v"
  "pageIndex (show_listing v value s) = v_pageIndex v"
  "cursors (show_listing v value s) = v_cursors v"
  "next_cursor (show_listing v value s) = listed_next value"
  "retryView (show_listing v value s) = None"
  "searchTimer (show_listing v value s) = searchTimer s"
  "upload (show_listing v value s) = upload s"
  "transfer (show_listing v value s) = transfer s"
  "expiry (show_listing v value s) = expiry s"
  "listingRequest (show_listing v value s) = listingRequest s"
  "displayedEntries (show_listing v value s) = displayedEntries s"
  by (simp_all add: show_listing_def Let_def)

lemma shown_fields [simp]:
  "directory (shown v value s) = v_directory v" "search (shown v value s) = v_search v"
  "pageIndex (shown v value s) = v_pageIndex v" "cursors (shown v value s) = v_cursors v"
  "next_cursor (shown v value s) = listed_next value" "retryView (shown v value s) = None"
  "displayedQuery (shown v value s) = Some (view_query v)"
  "displayedEntries (shown v value s) =
     (if sameEntries v (listed_entries value) s then displayedEntries s
      else Some (listed_entries value))"
  "searchTimer (shown v value s) = searchTimer s" "upload (shown v value s) = upload s"
  "transfer (shown v value s) = transfer s" "expiry (shown v value s) = expiry s"
  "listingRequest (shown v value s) = listingRequest s"
  by (simp_all add: shown_def finish_listing_fields show_listing_fields)

lemma tidy_shown [simp]: "tidy (doc s) \<Longrightarrow> tidy (doc (shown v value s))"
  by (simp add: shown_def)

lemma life_shown [simp]: "life (shown v value s) = life s"
  by (simp add: shown_def)

lemmas shown_life [simp] = life_fields [OF life_shown]

lemma typed_entry_of: "validateEntry e \<Longrightarrow> typed_entry (entry_of e)"
  by (auto simp: validateEntry_def typed_entry_def entry_of_def kind_of_def time_typed_def dest: isSafeIntegerD)

lemma typed_listing:
  assumes "valid_listing value"
  shows "length (listed_entries value) \<le> 200" "list_all typed_entry (listed_entries value)"
    "listed_next value = Some c \<Longrightarrow> length c \<le> 8194"
  using assms
  by (auto simp: valid_listing_def listed_entries_def listed_next_def list_all_iff typed_entry_of
      split: option.splits json.splits if_splits)

lemma steady_shown [simp]:
  assumes s: "steady s" and v: "view_ok v" and "valid_listing value"
  shows "steady (shown v value s)"
proof -
  have "sameEntries v es s \<Longrightarrow> displayedEntries s \<noteq> None" for es
    by (simp add: sameEntries_def split: option.splits)
  with s have "coherent (shown v value s)"
    by (cases "sameEntries v (listed_entries value) s") (auto simp: steady_def coherent_def shown_listed typed_listing [OF assms(3)])
  moreover have "paged (shown v value s)"
    using s v typed_listing(3) [OF assms(3)] by (simp add: steady_def paged_def view_ok_def)
  moreover have "exclusive (shown v value s)" "guarded (shown v value s)"
    using s by (simp_all add: steady_def exclusive_def guarded_def)
  ultimately show ?thesis by (simp add: steady_def)
qed

section \<open>The handlers keep the guarantee\<close>

lemma rg_refresh_failed:
  "live_in current s \<Longrightarrow> rg keeps page_ok (refresh_failed current error) s"
  by (simp add: refresh_failed_def live_in_def)

text \<open>A segment of a live handler that only writes tidily.\<close>

lemma live_in_life:
  assumes "live_in current s" and "epoch s = current" and "life s' = life s"
    and "tidy (doc s')" and "steady s'"
  shows "live_in current s'" "page_ok s'" "keeps s s'"
  using assms page_ok_live [of s' s] life_fields [of s' s] by (auto simp: live_in_def keeps_life)

lemma live_in_tidy: "live_in current s \<Longrightarrow> tidy (doc s)"
  by (simp add: live_in_def page_ok_def discreet_tidy)

lemma live_in_steady: "live_in current s \<Longrightarrow> steady s"
  by (simp add: live_in_def page_ok_def)

lemma rg_refresh_done:
  "live_in current s \<Longrightarrow> rg keeps page_ok (refresh_done current e b info) s"
  using live_in_life [of current s "details (merge_info e info) b s"]
  by (auto simp: refresh_done_def live_in_ok live_in_tidy live_in_steady)

lemma rg_directoryInfo:
  assumes "live_in current s"
    and "\<And>s' v. live_in current s' \<Longrightarrow> keeps s s' \<Longrightarrow> rg keeps page_ok (ret v) s'"
    and "\<And>s' e. live_in current s' \<Longrightarrow> keeps s s' \<Longrightarrow> rg keeps page_ok (throw e) s'"
  shows "rg keeps page_ok (directoryInfo e sg ret throw) s"
  unfolding directoryInfo_def using assms by (intro rg_request_live) auto

lemma rg_refresh_details:
  "live_in current s \<Longrightarrow> rg keeps page_ok (refresh_details current e b) s"
  unfolding refresh_details_def
  by (rule rg_directoryInfo) (blast intro: rg_refresh_done rg_refresh_failed)+

lemma page_ok_load_finally [simp]: "page_ok s \<Longrightarrow> page_ok (load_finally c s)"
  by (simp add: page_ok_def load_finally_def)

lemma keeps_load_finally: "keeps s s1 \<Longrightarrow> keeps s (load_finally c s1)"
  by (erule keeps.rely_trans) (simp add: keeps_life)

lemma rg_load_failed:
  assumes live: "live_in current s"
    and ret: "\<And>s'. keeps s s' \<Longrightarrow> page_ok s' \<Longrightarrow> rg keeps page_ok ret s'"
  shows "rg keeps page_ok (load_failed c current error ret) s"
proof -
  let ?s1 = "if aborted s c \<or> current \<noteq> epoch s then s
    else if code_in error [''session_expired'', ''authentication_refused'']
    then lock ''expired'' no_text s else load_error s"
  have "keeps s ?s1" "page_ok ?s1"
    using live live_in_life [OF live, of "load_error s"] live_in_tidy [OF live] live_in_steady [OF live]
    by (auto simp: live_in_ok)
  then show ?thesis
    unfolding load_failed_def by (simp add: ret keeps_load_finally)
qed

lemma rg_load_done:
  assumes live: "live_in current s" and v: "view_ok v"
    and ret: "\<And>s'. keeps s s' \<Longrightarrow> page_ok s' \<Longrightarrow> rg keeps page_ok ret s'"
  shows "rg keeps page_ok (load_done v c current value ret) s"
proof -
  consider (stale) "current \<noteq> epoch s \<or> aborted s c"
    | (bad) "current = epoch s" "\<not> aborted s c" "value = JNull \<or> \<not> valid_listing value"
    | (good) "current = epoch s" "\<not> aborted s c" "value \<noteq> JNull" "valid_listing value"
    by blast
  then show ?thesis
  proof cases
    case stale
    with live show ?thesis unfolding load_done_def by (simp add: ret keeps_life live_in_ok)
  next
    case bad
    with live ret show ?thesis unfolding load_done_def by (auto intro: rg_load_failed)
  next
    case good
    let ?s1 = "load_finally c (shown v value s)"
    have 1: "live_in current ?s1" "page_ok ?s1" "keeps s ?s1"
      using live_in_life [OF live, of ?s1] live_in_tidy [OF live] live_in_steady [OF live] good v
      by simp_all
    have "rg keeps page_ok (Fork (refresh_details current e b) ret) ?s1" for e b
      using ret [OF 1(3) 1(2)] rg_refresh_details [OF 1(1)]
      by (simp add: refresh_details_def directoryInfo_def request_def)
    with good 1 ret show ?thesis
      unfolding load_done_def by (auto simp: Let_def simp del: rg_Fork split: option.split)
  qed
qed

lemma page_ok_live_text [simp]:
  "page_ok s \<Longrightarrow> anonymous t \<Longrightarrow> page_ok (set_text i t s)"
  "page_ok s \<Longrightarrow> anonymous t \<Longrightarrow> page_ok (set_attr i a t s)"
  by (simp_all add: page_ok_def)

lemma rg_load_waiting: "page_ok s \<Longrightarrow> rg keeps page_ok (load_waiting c) s"
  by (simp add: load_waiting_def keeps_life)

lemma rg_load:
  assumes "page_ok s" and v: "view_ok v"
    and ret: "\<And>s'. keeps s s' \<Longrightarrow> page_ok s' \<Longrightarrow> rg keeps page_ok ret s'"
  shows "rg keeps page_ok (load v ret) s"
proof (cases "session s = None")
  case True
  with assms show ?thesis by (simp add: load_def)
next
  case False
  let ?s1 = "load_begin v s"
  have k: "keeps s ?s1" by simp
  have "discreet ?s1" using False assms(1) by (auto simp: page_ok_def discreet_tidy intro: discreet_live)
  then have live: "live_in (epoch s) ?s1"
    using False assms(1) v by (simp add: live_in_def page_ok_def)
  have "rg keeps page_ok (request (load_req v (controllers s))
      (\<lambda>r. load_done v (controllers s) (epoch s) (data_of r) ret)
      (\<lambda>e. load_failed (controllers s) (epoch s) e ret)) ?s1"
    by (rule rg_request_live [OF live]; rule rg_load_done rg_load_failed;
        blast intro: v ret keeps.rely_trans [OF k] keeps.rely_trans)
  moreover have "rg keeps page_ok (load_waiting (controllers s)) ?s1"
    using live by (simp add: live_in_ok rg_load_waiting)
  ultimately show ?thesis using False k by (auto simp: load_def load_waiting_def)
qed

lemma rg_load_Done: "page_ok s \<Longrightarrow> view_ok v \<Longrightarrow> rg keeps page_ok (load v Done) s"
  by (rule rg_load) simp_all

text \<open>Every view that a handler asks for exists.\<close>

lemma view_ok_root [simp]: "view_ok (root_view p)"
  by (simp add: view_ok_def root_view_def)

lemma view_ok_current [simp]: "page_ok s \<Longrightarrow> view_ok (currentView s)"
  by (simp add: view_ok_def currentView_def page_ok_def steady_defs)

lemma view_ok_retry: "page_ok s \<Longrightarrow> retryView s = Some v \<Longrightarrow> view_ok v"
  by (simp add: page_ok_def steady_defs)

lemma view_ok_next [simp]: "page_ok s \<Longrightarrow> has_next s \<Longrightarrow> view_ok (next_view s)"
  by (cases "cursors s")
    (auto simp: view_ok_def next_view_def currentView_def page_ok_def steady_defs nth_append has_next_def
      typed_cursor_def list_all_iff dest: in_set_takeD)

lemma view_ok_previous [simp]: "page_ok s \<Longrightarrow> view_ok (previous_view s)"
  by (auto simp: view_ok_def previous_view_def currentView_def page_ok_def steady_defs)

lemma rg_load_current:
  assumes "page_ok s" and "\<And>s'. keeps s s' \<Longrightarrow> page_ok s' \<Longrightarrow> rg keeps page_ok ret s'"
  shows "rg keeps page_ok (load_current ret) s"
  using assms by (simp add: load_current_def rg_load)

lemma page_ok_resets [simp]:
  "page_ok s \<Longrightarrow> page_ok (s\<lparr>searchTimer := None\<rparr>)" "page_ok s \<Longrightarrow> page_ok (s\<lparr>detailsTimer := None\<rparr>)"
  "page_ok s \<Longrightarrow> page_ok (set_value ''search'' [] s)"
  "page_ok s \<Longrightarrow> page_ok (set_hidden ''clear-search'' b s)"
  by (simp_all add: page_ok_def)

lemma rg_navigate: "page_ok s \<Longrightarrow> rg keeps page_ok (navigate p) s"
  by (simp add: navigate_def Let_def keeps_life rg_load_Done)

lemma rg_refresh_click: "page_ok s \<Longrightarrow> rg keeps page_ok refresh_click s"
  by (auto simp: refresh_click_def keeps_life intro!: rg_load_Done dest: view_ok_retry split: option.split)

lemma rg_next_page_click: "page_ok s \<Longrightarrow> rg keeps page_ok next_page_click s"
  by (simp add: next_page_click_def rg_load_Done)

lemma rg_previous_page_click: "page_ok s \<Longrightarrow> rg keeps page_ok previous_page_click s"
  by (simp add: previous_page_click_def rg_load_Done)

lemma life_searchChanged:
  "epoch (searchChanged s) = epoch s" "session (searchChanged s) = session s"
  "controllers (searchChanged s) = controllers s" "statusPage (searchChanged s) = statusPage s"
  "editorPage (searchChanged s) = editorPage s"
  "aborted (searchChanged s) i = (aborted s i \<or> session s \<noteq> None \<and> listingRequest s = Some i)"
  by (simp_all add: searchChanged_def Let_def abort_def)

lemma page_ok_searchChanged: "page_ok s \<Longrightarrow> page_ok (searchChanged s)"
proof (cases "session s = None")
  case False
  assume ok: "page_ok s"
  have "steady (searchChanged s)" and "tidy (doc (searchChanged s))"
    using ok by (simp_all add: searchChanged_def Let_def view_ok_def page_ok_def discreet_tidy)
  then show ?thesis using False by (auto simp: page_ok_def life_searchChanged intro: discreet_live)
qed (simp add: searchChanged_def)

lemma keeps_searchChanged: "keeps s (searchChanged s)"
  by (simp add: keeps_def life_searchChanged)

lemma rg_search_input:
  assumes ok: "page_ok s" and "\<not> disabled_of (doc s) ''search''"
  shows "rg keeps page_ok (search_input v) s"
proof -
  have "session s \<noteq> None" using assms by (auto simp: page_ok_def discreet_def veiled_def)
  then have "page_ok (set_value ''search'' v s)"
    using ok by (intro page_ok_live [of _ s]) (simp_all add: page_ok_def discreet_tidy)
  then show ?thesis
    using keeps_searchChanged [of "set_value ''search'' v s"]
      keeps.rely_trans [of s "set_value ''search'' v s"]
    by (simp add: search_input_def page_ok_searchChanged keeps_life)
qed

lemma rg_clear_search_click: "page_ok s \<Longrightarrow> rg keeps page_ok clear_search_click s"
  using keeps_searchChanged [of "set_value ''search'' [] s"]
    keeps.rely_trans [of s "set_value ''search'' [] s"]
  by (simp add: clear_search_click_def page_ok_searchChanged keeps_life)

lemma view_ok_timer: "page_ok s \<Longrightarrow> searchTimer s = Some v \<Longrightarrow> view_ok v"
  by (simp add: page_ok_def steady_defs)

lemma rg_search_timer_fires:
  "page_ok s \<Longrightarrow> searchTimer s = Some v \<Longrightarrow> rg keeps page_ok (search_timer_fires v) s"
  by (simp add: search_timer_fires_def keeps_life rg_load_Done view_ok_timer)

section \<open>Functional behaviour\<close>

lemma index_of_bound: "index_of pat xs = Some i \<Longrightarrow> i + length pat \<le> length xs"
  by (induction pat xs arbitrary: i rule: index_of.induct)
    (auto split: if_splits dest: prefix_length_le)

lemma index_of_finds: "index_of pat xs = Some i \<Longrightarrow> take (length pat) (drop i xs) = pat"
  by (induction pat xs arbitrary: i rule: index_of.induct)
    (auto split: if_splits simp: prefix_def)

lemma size_index_bounds:
  "i \<le> 5 \<Longrightarrow> 1024 ^ i \<le> v \<or> i = 0 \<Longrightarrow>
   size_index v i \<le> 5 \<and> (1024 ^ size_index v i \<le> v \<or> size_index v i = 0) \<and>
   (v < 1024 ^ (size_index v i + 1) \<or> size_index v i = 5)"
proof (induction v i rule: size_index.induct)
  case (1 v i)
  show ?case
  proof (cases "v \<ge> 1024 ^ (i + 1) \<and> i < 5")
    case True
    then have "size_index v i = size_index v (i + 1)" by (subst size_index.simps) simp
    with 1 True show ?thesis by simp
  next
    case False
    then have "size_index v i = i" by (subst size_index.simps) auto
    with 1 False show ?thesis by (auto simp: not_le)
  qed
qed

lemma crumb_steps_parts: "map fst (crumb_steps p parts) = parts"
  by (induction parts arbitrary: p) (auto simp: Let_def)

lemma crumb_steps_paths:
  "\<forall>x \<in> set parts. x \<noteq> [] \<Longrightarrow> i < length parts \<Longrightarrow> p \<noteq> [] \<Longrightarrow>
   snd (crumb_steps p parts ! i) = join_with [slash] (p # take (Suc i) parts)"
proof (induction parts arbitrary: p i)
  case (Cons part parts)
  let ?p = "p @ [slash] @ part"
  show ?case
  proof (cases i)
    case (Suc j)
    have "join_with [slash] ((p @ slash # part) # ys) = join_with [slash] (p # part # ys)" for ys
      by (cases ys) auto
    then show ?thesis using Cons Suc by (simp add: Let_def)
  qed (use Cons in \<open>simp add: Let_def\<close>)
qed simp

lemma crumb_steps_path:
  assumes "\<forall>x \<in> set parts. x \<noteq> []" and "i < length parts"
  shows "snd (crumb_steps [] parts ! i) = join_with [slash] (take (Suc i) parts)"
proof (cases parts)
  case (Cons part rest)
  then show ?thesis
    using assms crumb_steps_paths [of rest _ part] by (cases i) (auto simp: Let_def)
qed (use assms in simp)

text \<open>Highlighting never changes what is read: the text before the mark, the mark and the
  text after it are the whole text, and the lower-cased mark position holds the lower-cased
  search when lower-casing keeps lengths.\<close>

theorem highlighted_parts:
  assumes "\<And>x. length (lower x) = length x"
    and "highlighted lower query txt = (before, mark, after)"
  shows "before @ mark @ after = txt \<and>
    (mark \<noteq> [] \<longrightarrow> take (length query) (drop (length before) (lower txt)) = lower query)"
proof (cases "query = [] \<or> index_of (lower query) (lower txt) = None")
  case True
  then show ?thesis using assms(2) by (auto simp: highlighted_def split: option.splits if_splits)
next
  case False
  then obtain i where i: "index_of (lower query) (lower txt) = Some i" "query \<noteq> []" by auto
  then have "i + length query \<le> length txt" "take (length query) (drop i (lower txt)) = lower query"
    using index_of_bound [OF i(1)] index_of_finds [OF i(1)] assms(1) by simp_all
  then show ?thesis
    using assms(2) i take_slice_extend [of i "i + length query" "txt"]
    by (auto simp: highlighted_def append_assoc [symmetric] simp del: append_assoc)
qed

theorem highlighted_parts_witness:
  "highlighted (map lower_unit) (js ''RE'') (js ''Lire.py'') = (js ''Li'', js ''re'', js ''.py'') \<and>
   js ''Li'' @ js ''re'' @ js ''.py'' = js ''Lire.py''"
proof -
  have "highlighted (map lower_unit) (js ''RE'') (js ''Lire.py'') = (js ''Li'', js ''re'', js ''.py'')"
    by code_simp
  then show ?thesis
    using highlighted_parts [of "map lower_unit" "js ''RE''" "js ''Lire.py''"] by simp
qed

text \<open>The unit of a displayed size is the largest of o, Ko, ..., Po that does not exceed the
  value: the loop stops after at most five divisions by 1024.\<close>

theorem size_text_unit:
  assumes "0 \<le> n"
  shows "\<exists>i < length size_units. size_text (Some n) = Text (size_units ! i) [Num n] \<and>
    (1024 ^ i \<le> nat n \<or> i = 0) \<and> (nat n < 1024 ^ (i + 1) \<or> i = 5)"
  using size_index_bounds [of 0 "nat n"]
  by (intro exI [of _ "size_index (nat n) 0"]) (auto simp: size_text_def size_units_def)

theorem size_text_unit_witness:
  "size_text (Some 2048) = Text ''Ko'' [Num 2048] \<and>
   (\<exists>i < length size_units. size_text (Some 2048) = Text (size_units ! i) [Num 2048])"
proof -
  have "size_text (Some 2048) = Text ''Ko'' [Num 2048]"
    by (simp add: size_text_def size_index.simps size_units_def)
  then show ?thesis using size_text_unit [of 2048] by auto
qed

text \<open>The request that a load waits for, and what its answer does.\<close>

lemma load_suspends:
  assumes "session s \<noteq> None" and "Await (Fetch q) k \<in> set (snd (run (load v Done) s))"
  shows "q = load_req v (controllers s)"
    "k = (\<lambda>a. case a of
        Net n \<Rightarrow> (case request_result (load_req v (controllers s)) n of
                     Inl e \<Rightarrow> load_failed (controllers s) (epoch s) e Done
                   | Inr r \<Rightarrow> load_done v (controllers s) (epoch s) (data_of r) Done)
      | _ \<Rightarrow> load_failed (controllers s) (epoch s) OtherError Done)"
  using assms by (auto simp: load_def load_waiting_def request_def)

lemma load_starts:
  assumes "session s \<noteq> None"
  shows "fst (run (load v Done) s) = load_begin v s"
    "\<exists>k. Await (Fetch (load_req v (controllers s))) k \<in> set (snd (run (load v Done) s))"
  using assms by (auto simp: load_def load_waiting_def request_def)

text \<open>The example page asks for the root directory.\<close>

lemma example_load:
  obtains k where
    "Await (Fetch (load_req (root_view []) 0)) k \<in> set (snd (run (load (root_view []) Done) example_page))"
    "fst (run (load (root_view []) Done) example_page) = load_begin (root_view []) example_page"
  using load_starts [of example_page "root_view []"] by auto

lemma page_ok_load_begin:
  assumes "page_ok s" "session s \<noteq> None" "view_ok v"
  shows "page_ok (load_begin v s)"
  using assms by (auto simp: page_ok_def discreet_tidy intro: discreet_live)

definition example_listing :: json where
  "example_listing = JObj [(js ''entries'', JArr [JObj [(js ''kind'', JStr (js ''directory'')),
     (js ''path'', JStr (js ''docs'')), (js ''size'', JNull)]]), (js ''next'', JNull)]"

definition example_response :: "json \<Rightarrow> response" where
  "example_response v = \<lparr>status = 200, chunks = Some [[123, 125]], broken = None, parsed = Some v\<rparr>"

lemma request_example_response:
  "\<not> is_local q \<Longrightarrow> \<not> is_raw q \<Longrightarrow> 2 \<le> req_limit q \<Longrightarrow>
   request_result q (Inr (example_response v)) = Inr (Data v)"
  by (simp add: request_result_def example_response_def bytes_eq ok_def)

text \<open>What the listing shows and where it stands.\<close>

definition listing_of ::
    "atlas \<Rightarrow> entry list \<times> jstring option \<times> jstring \<times> jstring \<times> jstring list \<times> nat \<times> jstring option" where
  "listing_of s = (listed s, displayedQuery s, directory s, search s, cursors s, pageIndex s,
     next_cursor s)"

lemma listing_of_load_finally [simp]:
  "listing_of (load_finally c s) = listing_of s" "retryView (load_finally c s) = retryView s"
  by (simp_all add: load_finally_def listing_of_def) (simp add: listed_def)

lemma listing_of_load_error [simp]:
  "listing_of (load_error s) = listing_of s" "retryView (load_error s) = retryView s"
  by (simp_all add: load_error_def listing_of_def)

lemma listingRequest_load_finally [simp]:
  "listingRequest (load_finally c s) =
     (if listingRequest s = Some c then None else listingRequest s)"
  by (simp add: load_finally_def)

lemma listingRequest_load_error [simp]:
  "listingRequest (load_error s) = listingRequest s"
  by (simp add: load_error_def)

text \<open>C23. A stale answer changes nothing: if the page was locked since the request, or the request
  was aborted by a newer navigation or search, then whatever the answer is, the list, the view
  and the page stay as they are and nothing else is started.\<close>

theorem load_stale_answer:
  assumes "session s \<noteq> None" and "Await (Fetch q) k \<in> set (snd (run (load v Done) s))"
    and "epoch s' \<noteq> epoch s \<or> aborted s' (controllers s)"
  shows "listing_of (fst (run (k r) s')) = listing_of s' \<and>
    retryView (fst (run (k r) s')) = retryView s' \<and> snd (run (k r) s') = []"
proof -
  have stale: "run (load_failed (controllers s) (epoch s) e Done) s' = (load_finally (controllers s) s', [])"
    "run (load_done v (controllers s) (epoch s) w Done) s' = (load_finally (controllers s) s', [])"
    for e w using assms(3) by (auto simp: load_failed_def load_done_def)
  have "run (k r) s' = (load_finally (controllers s) s', [])"
    unfolding load_suspends(2) [OF assms(1,2)] by (cases r) (simp_all add: stale split: sum.split)
  then show ?thesis by simp
qed

theorem load_stale_answer_witness:
  "\<exists>k. Await (Fetch (load_req (root_view []) 0)) k
        \<in> set (snd (run (load (root_view []) Done) example_page)) \<and>
     listing_of (fst (run (k (Net (Inr (example_response example_listing))))
        (lock ''expired'' no_text example_page))) = listing_of (lock ''expired'' no_text example_page)"
proof -
  obtain k where k: "Await (Fetch (load_req (root_view []) 0)) k
      \<in> set (snd (run (load (root_view []) Done) example_page))" by (rule example_load)
  show ?thesis
    using k load_stale_answer [OF _ k, of "lock ''expired'' no_text example_page"] by auto
qed

text \<open>C24. A failed load keeps the previous list or locks the page. Let the page still wait for the
  answer to a load. If the request fails because the session is over or refused, the page locks:
  there is no session, no rows, no list and nothing to retry any more. If it fails with any other
  error, or if the server sends something that is no valid listing, the rows, the query and the
  position are unchanged, the wanted view stays ready for the refresh button, and an error
  message appears. In every case the request is over and nothing else is started.\<close>

theorem load_failure_keeps_list:
  assumes "session s \<noteq> None" and "Await (Fetch q) k \<in> set (snd (run (load v Done) s))"
    and "epoch s' = epoch s" and "\<not> aborted s' (controllers s)"
    and "listingRequest s' = Some (controllers s)"
    and "case request_result q n of Inl e \<Rightarrow> True | Inr r \<Rightarrow> \<not> valid_listing (data_of r)"
  shows "\<exists>t. run (k (Net n)) s' = (t, []) \<and> listingRequest t = None \<and>
    (if \<exists>e. request_result q n = Inl e \<and> code_in e [''session_expired'', ''authentication_refused'']
     then session t = None \<and> rows (doc t) = [] \<and> displayedEntries t = None \<and> retryView t = None \<and> epoch t = Suc (epoch s')
     else listing_of t = listing_of s' \<and> rows (doc t) = rows (doc s') \<and> retryView t = retryView s' \<and>
       session t = session s' \<and> \<not> hidden_of (doc t) ''listing-message'')"
proof -
  have invalid: "\<not> code_in e [''session_expired'', ''authentication_refused'']" if "e \<in> {OtherError, fail ''invalid_response''}" for e
    using that by (auto simp: code_in_def)
  have failed: "run (load_failed (controllers s) (epoch s) e Done) s' = (load_finally (controllers s)
      (if code_in e [''session_expired'', ''authentication_refused''] then lock ''expired'' no_text s' else load_error s'), [])" for e
    using assms(3,4) by (simp add: load_failed_def)
  have locked: "session (load_finally c (lock st m s')) = None \<and> rows (doc (load_finally c (lock st m s'))) = [] \<and>
      displayedEntries (load_finally c (lock st m s')) = None \<and> retryView (load_finally c (lock st m s')) = None \<and>
      epoch (load_finally c (lock st m s')) = Suc (epoch s') \<and> listingRequest (load_finally c (lock st m s')) = None" for c st m
    by (simp add: load_finally_def)
  have kept: "rows (doc (load_finally c (load_error s'))) = rows (doc s')" "session (load_finally c (load_error s')) = session s'"
    "\<not> hidden_of (doc (load_finally c (load_error s'))) ''listing-message''" for c
    by (simp_all add: load_finally_def load_error_def)
  have resumed: "run (k (Net n)) s' = run (case request_result q n of
      Inl e \<Rightarrow> load_failed (controllers s) (epoch s) e Done
    | Inr r \<Rightarrow> load_done v (controllers s) (epoch s) (data_of r) Done) s'"
    using load_suspends [OF assms(1,2)] by (simp split: sum.split)
  show ?thesis
  proof (cases "request_result q n")
    case (Inl e)
    with resumed failed locked kept assms(5) show ?thesis by auto
  next
    case (Inr r)
    with assms(6) have "run (load_done v (controllers s) (epoch s) (data_of r) Done) s' =
        run (load_failed (controllers s) (epoch s) (if data_of r = JNull then OtherError else fail ''invalid_response'') Done) s'"
      using assms(3,4) by (simp add: load_done_def)
    with Inr resumed failed kept invalid assms(5) show ?thesis by auto
  qed
qed

theorem load_failure_keeps_list_witness:
  "\<exists>k. Await (Fetch (load_req (root_view []) 0)) k
        \<in> set (snd (run (load (root_view []) Done) example_page)) \<and>
     retryView (fst (run (k (Net (Inl AbortError))) (load_begin (root_view []) example_page))) =
       Some (root_view [])"
proof -
  obtain k where k: "Await (Fetch (load_req (root_view []) 0)) k
      \<in> set (snd (run (load (root_view []) Done) example_page))" by (rule example_load)
  have "request_result (load_req (root_view []) 0) (Inl AbortError) = Inl AbortError"
    by (simp add: request_result_def)
  then show ?thesis
    using k load_failure_keeps_list [OF _ k, of "load_begin (root_view []) example_page" "Inl AbortError"]
    by (auto simp: code_in_def)
qed

text \<open>C22. A valid answer in time is adopted: the page stands at the requested view, shows exactly
  the received entries (or keeps rows equal to them field by field), remembers the cursor of
  the following page, and the request is over with nothing left to retry.\<close>

theorem load_success_adopts:
  assumes "session s \<noteq> None" and "Await (Fetch q) k \<in> set (snd (run (load v Done) s))"
    and "page_ok s'" and "epoch s' = epoch s" and "\<not> aborted s' (controllers s)"
    and "listingRequest s' = Some (controllers s)"
    and "request_result q n = Inr (Data value)" and "valid_listing value"
  shows "let t = fst (run (k (Net n)) s') in
    currentView t = v \<and> displayedQuery t = Some (view_query v) \<and>
    (listed t = listed_entries value \<or> list_all2 same_entry (listed_entries value) (listed t)) \<and>
    next_cursor t = listed_next value \<and> retryView t = None \<and> listingRequest t = None"
proof -
  have "value \<noteq> JNull" using assms(8) by (auto simp: valid_listing_def)
  then have t: "fst (run (k (Net n)) s') = load_finally (controllers s) (shown v value s')"
    using assms(4-) load_suspends(1) [OF assms(1,2)] unfolding load_suspends(2) [OF assms(1,2)]
    by (simp add: load_done_def Let_def refresh_details_def directoryInfo_def request_def
        split: option.split)
  have view: "currentView (load_finally c x) = currentView x"
    "displayedQuery (load_finally c x) = displayedQuery x"
    "listed (load_finally c x) = listed x" "next_cursor (load_finally c x) = next_cursor x"
    for c x
    using listing_of_load_finally(1) [of c x] by (simp_all add: currentView_def listing_of_def)
  have "currentView (shown v value s') = v" by (simp add: currentView_def)
  moreover have "listed (shown v value s') = listed_entries value \<or>
      list_all2 same_entry (listed_entries value) (listed (shown v value s'))"
    using assms(3)
    by (auto simp: shown_listed sameEntries_def page_ok_def steady_defs split: option.splits)
  ultimately show ?thesis using t view assms(6) by (simp add: Let_def)
qed

theorem load_success_adopts_witness:
  "\<exists>k. Await (Fetch (load_req (root_view []) 0)) k
        \<in> set (snd (run (load (root_view []) Done) example_page)) \<and>
     displayedQuery (fst (run (k (Net (Inr (example_response example_listing))))
       (load_begin (root_view []) example_page))) = Some (view_query (root_view []))"
proof -
  obtain k where k: "Await (Fetch (load_req (root_view []) 0)) k
      \<in> set (snd (run (load (root_view []) Done) example_page))" by (rule example_load)
  have "request_result (load_req (root_view []) 0) (Inr (example_response example_listing)) =
      Inr (Data example_listing)"
    by (simp add: request_example_response load_req_def get_req_def)
  moreover have "valid_listing example_listing"
    by (simp add: example_listing_def valid_listing_def validateEntry_def)
  ultimately show ?thesis
    using k load_success_adopts [OF _ k, of "load_begin (root_view []) example_page"]
    by (auto simp: Let_def page_ok_load_begin page_ok_example_page)
qed

text \<open>The breadcrumbs of a directory are its components, and the button of a component leads
  to the path made of the components up to it; the last one leads to the directory itself.\<close>

theorem breadcrumbs_lead_back:
  assumes "search s = []" and "i < length (filter (\<lambda>x. x \<noteq> []) (split_on slash (directory s)))"
  shows "let parts = filter (\<lambda>x. x \<noteq> []) (split_on slash (directory s)) in
    length (crumbs (doc (breadcrumbs s))) = Suc (length parts) \<and>
    crumbs (doc (breadcrumbs s)) ! Suc i =
      (plain (parts ! i), Some (join_with [slash] (take (Suc i) parts)))"
proof -
  let ?parts = "filter (\<lambda>x. x \<noteq> []) (split_on slash (directory s))"
  have len: "length (crumb_steps [] ?parts) = length ?parts"
    using arg_cong [OF crumb_steps_parts [of "[]" ?parts], of length] by simp
  have "fst (crumb_steps [] ?parts ! i) = ?parts ! i"
    using arg_cong [OF crumb_steps_parts [of "[]" ?parts], of "\<lambda>l. l ! i"] assms(2) len by simp
  moreover have "snd (crumb_steps [] ?parts ! i) = join_with [slash] (take (Suc i) ?parts)"
    using assms(2) by (intro crumb_steps_path) auto
  ultimately show ?thesis
    using assms len by (simp add: breadcrumbs_def Let_def split_beta)
qed

theorem breadcrumbs_lead_back_witness:
  "crumbs (doc (breadcrumbs (example_page\<lparr>search := [], directory := js ''a/b''\<rparr>))) ! 2 =
     (plain (js ''b''), Some (js ''a/b''))"
proof -
  have parts: "filter (\<lambda>x. x \<noteq> []) (split_on slash (js ''a/b'')) = [js ''a'', js ''b'']"
    by code_simp
  moreover have "js ''a'' @ slash # js ''b'' = js ''a/b''" by code_simp
  ultimately show ?thesis
    using breadcrumbs_lead_back [of "example_page\<lparr>search := [], directory := js ''a/b''\<rparr>" 1]
    by (simp add: Let_def numeral_2_eq_2)
qed

text \<open>The next-page button followed by the previous-page button asks again for the page that is
  shown: the request of the view two steps on is the current one.\<close>

theorem next_then_previous:
  assumes "page_ok s" and "next_cursor s \<noteq> None"
  shows "view_query (previous_view (shown (next_view s) value s)) = view_query (currentView s) \<and>
    view_cursor (next_view s) = the (next_cursor s)"
proof -
  have i: "pageIndex s < length (cursors s)" using assms(1) by (simp add: page_ok_def steady_defs)
  then have "(take (Suc (pageIndex s)) (cursors s) @ [the (next_cursor s)]) ! pageIndex s = cursors s ! pageIndex s"
    by (simp add: nth_append)
  with i show ?thesis
    by (simp add: view_query_def view_params_def view_cursor_def previous_view_def next_view_def
        currentView_def nth_append)
qed

theorem next_then_previous_witness:
  "view_cursor (next_view (example_page\<lparr>next_cursor := Some (js ''c'')\<rparr>)) = js ''c''"
proof -
  have "page_ok (example_page\<lparr>next_cursor := Some (js ''c'')\<rparr>)"
    using page_ok_example_page
    by (intro page_ok_live [of _ example_page])
      (simp_all add: page_ok_def discreet_tidy steady_defs listed_def)
  then show ?thesis
    using next_then_previous [of "example_page\<lparr>next_cursor := Some (js ''c'')\<rparr>"] by simp
qed

end
