(* ===== verification/Authorize.thy ===== *)
theory Authorize
  imports Listing
begin

text \<open>
  The authorization of a device through the local bridge (\<open>authorizeUpload\<close> of web/atlas.js): the
  server's session for the scope, or a challenge that the local client proves to the server.
  Device verification uses the same requests.
\<close>

section \<open>The local bridge and challenges\<close>

definition local_req :: "nat option \<Rightarrow> nat \<Rightarrow> (string \<times> jstring) list \<Rightarrow> req" where
  "local_req sg timeout headers =
     (get_req (Url (js ''http://127.0.0.1:47831/v1/status'') []) sg)
       \<lparr>is_local := True, req_timeout := timeout,
        req_headers := (''X-MySync-Bridge'', js ''1'') # headers\<rparr>"

definition valid_challenge :: "json \<Rightarrow> bool" where
  "valid_challenge v \<longleftrightarrow> hex64 (prop_of v ''challenge_id'') \<and> is_string (prop_of v ''ticket'') \<and>
     length (str_of (prop_of v ''ticket'')) \<le> 2048"

definition challenge_id :: "json \<Rightarrow> jstring" where
  "challenge_id v = the (subject (prop_of v ''challenge_id''))"

definition ticket_header :: "json \<Rightarrow> (string \<times> jstring) list" where
  "ticket_header v = [(''X-MySync-Challenge'', str_of (prop_of v ''ticket''))]"

text \<open>\<open>if (!local.response.ok) localError = local.data.error\<close> inside a \<open>try\<close> that swallows errors.\<close>

fun local_error :: "reply \<Rightarrow> json option" where
  "local_error (Local r d) = (if ok r then None else prop_of d ''error'')"
| "local_error _ = None"

definition is_code :: "json option \<Rightarrow> string \<Rightarrow> bool" where
  "is_code v c \<longleftrightarrow> v = Some (JStr (js c))"

section \<open>Authorization for a scope\<close>

definition scope_url :: "string \<Rightarrow> jstring \<Rightarrow> url" where
  "scope_url scope rest = Url (js (''/v1/web/files/'' @ scope @ ''/'') @ rest) []"

definition scope_session :: "string \<Rightarrow> nat \<Rightarrow> req" where
  "scope_session scope controller = get_req (scope_url scope (js ''session'')) (Some controller)"

definition scope_proof :: "string \<Rightarrow> nat \<Rightarrow> json \<Rightarrow> req" where
  "scope_proof scope controller challenge =
     get_req (scope_url scope (js ''challenges/'' @ challenge_id challenge)) (Some controller)"

definition proof_error :: "json option \<Rightarrow> exn \<Rightarrow> exn" where
  "proof_error localError error =
     (if has_code error ''pending'' \<and>
         list_ex (is_code localError) [''files_write_disabled'', ''files_manage_disabled'', ''files_read_disabled'']
      then Failure localError
      else if has_code error ''pending'' \<and> is_code localError ''invalid_challenge''
      then fail ''local_rejected''
      else error)"

definition confirm :: "string \<Rightarrow> nat \<Rightarrow> json \<Rightarrow> atlas_handler \<Rightarrow> (exn \<Rightarrow> atlas_handler) \<Rightarrow>
    json option \<Rightarrow> atlas_handler" where
  "confirm scope controller challenge ret throw localError = Act (\<lambda>s.
     (s, if aborted s controller then throw (fail ''cancelled'')
         else request (scope_proof scope controller challenge) (\<lambda>_. ret)
                (\<lambda>error. throw (proof_error localError error))))"

definition authorizeUpload ::
    "string \<Rightarrow> nat \<Rightarrow> atlas_handler \<Rightarrow> (exn \<Rightarrow> atlas_handler) \<Rightarrow> atlas_handler" where
  "authorizeUpload scope controller ret throw =
     request (scope_session scope controller) (\<lambda>_. ret)
       (\<lambda>error.
          if \<not> has_code error (''files_'' @ scope @ ''_required'') then throw error
          else post (scope_url scope (js ''challenges'')) (Some controller)
            (\<lambda>r. if data_of r = JNull then throw OtherError
                 else if \<not> valid_challenge (data_of r) then throw (fail ''invalid_response'')
                 else request (local_req (Some controller) 30000 (ticket_header (data_of r)))
                   (\<lambda>l. confirm scope controller (data_of r) ret throw (local_error l))
                   (\<lambda>_. confirm scope controller (data_of r) ret throw None))
            throw)"

section \<open>Rules\<close>

lemma safe_authorizeUpload:
  assumes "safe ret" and "\<And>e. safe (throw e)"
  shows "safe (authorizeUpload scope c ret throw)"
  unfolding authorizeUpload_def post_def confirm_def
  using assms by (auto intro!: safe_requestI safe_ActI)

lemma honours_authorizeUpload:
  assumes "honours A G ret" and "\<And>e. honours A G (throw e)"
    and "\<And>s p. G s (s, p)"
  shows "honours A G (authorizeUpload scope c ret throw)"
  unfolding authorizeUpload_def post_def confirm_def
  by (auto intro!: honours_requestI assms)

text \<open>A request that changes nothing on the server's files.\<close>

definition harmless :: "req \<Rightarrow> bool" where
  "harmless q \<longleftrightarrow> req_method q = GET \<or>
     req_method q = POST \<and> (\<exists>scope. req_url q = scope_url scope (js ''challenges''))"

text \<open>The server has authorized the scope: it confirmed the session or a challenge of it.\<close>

definition authorized :: "string \<Rightarrow> nat \<Rightarrow> (query \<times> answer) list \<Rightarrow> bool" where
  "authorized scope c h \<longleftrightarrow>
     (\<exists>q n v. (Fetch q, Net n) \<in> set h \<and> request_result q n = Inr v \<and>
        (q = scope_session scope c \<or> (\<exists>ch. valid_challenge ch \<and> q = scope_proof scope c ch)))"

lemma authorizedI:
  "request_result q n = Inr v \<Longrightarrow>
   q = scope_session scope c \<or> (\<exists>ch. valid_challenge ch \<and> q = scope_proof scope c ch) \<Longrightarrow>
   authorized scope c (h @ [(Fetch q, Net n)])"
  by (auto simp: authorized_def)

lemma protocol_authorizeUpload:
  assumes allow: "\<And>h q. harmless q \<Longrightarrow> Q h (Fetch q)"
    and ret: "\<And>h. authorized scope c h \<Longrightarrow> protocol Q ret h"
    and throw: "\<And>h e. protocol Q (throw e) h"
  shows "protocol Q (authorizeUpload scope c ret throw) h"
proof -
  have get: "harmless (scope_session scope c)" "harmless (scope_proof scope c ch)"
    "harmless (local_req sg t hs)" "harmless (post_req (scope_url scope (js ''challenges'')) sg)" for ch sg t hs
    by (auto simp: harmless_def scope_session_def scope_proof_def local_req_def get_req_def post_req_def)
  have confirm: "protocol Q (confirm scope c ch ret throw le) h" if "valid_challenge ch" for ch le h
    unfolding confirm_def using that
    by (auto intro!: protocol_requestI allow get throw ret authorizedI)
  show ?thesis
    unfolding authorizeUpload_def post_def
    by (rule protocol_requestI)
      (auto intro!: allow get throw ret protocol_requestI confirm authorizedI)
qed

section \<open>Examples\<close>

definition example_challenge :: json where
  "example_challenge = JObj [(js ''challenge_id'', JStr (replicate 64 (unit_of CHR ''a''))),
     (js ''ticket'', JStr (js ''t''))]"

definition example_probe :: response where
  "example_probe = \<lparr>status = 401, chunks = Some [[123, 125]], broken = None,
     parsed = Some (JObj [(js ''error'', JStr (js ''challenge_required''))])\<rparr>"

lemma valid_example_challenge: "valid_challenge example_challenge" "example_challenge \<noteq> JNull"
proof -
  have "hex_unit (unit_of CHR ''a'')" by (simp add: hex_unit_def)
  then show "valid_challenge example_challenge"
    by (simp add: valid_challenge_def example_challenge_def hex64_def subject_def hex_of_length_def list_all_iff)
qed (simp add: example_challenge_def)

end
