(* ===== verification/Upload.thy ===== *)
theory Upload
  imports Authorize
begin

text \<open>
  Uploads (\<open>sendFiles\<close> of web/atlas.js) and the ways to start one: the file picker and drag and
  drop. A selected \<open>File\<close> is an unchanging sequence of bytes with a name; reading it can fail.
\<close>

section \<open>Files and jobs\<close>

record upload_file =
  file_name :: jstring
  file_bytes :: "byte list"

text \<open>The constants of one call of \<open>sendFiles\<close>.\<close>

record upload_job =
  job_controller :: nat
  job_epoch :: nat
  job_limit :: int
  job_chunk :: nat
  job_destination :: jstring
  job_count :: nat

definition file_size :: "upload_file \<Rightarrow> nat" where
  "file_size f = length (file_bytes f)"

definition upload_path :: "upload_job \<Rightarrow> upload_file \<Rightarrow> jstring" where
  "upload_path job f =
     (if job_destination job \<noteq> [] then job_destination job @ [slash] else []) @ file_name f"

definition reserved_names :: "jstring list" where
  "reserved_names = map js [''.'', ''..'', ''.mysync-conflicts'', ''.mysync-staging'']"

text \<open>\<open>/[/\\\0]/\<close> matches a slash, a backslash or a NUL.\<close>

definition acceptable_name :: "upload_job \<Rightarrow> upload_file \<Rightarrow> bool" where
  "acceptable_name job f \<longleftrightarrow>
     file_name f \<noteq> [] \<and> slash \<notin> set (file_name f) \<and> unit_of (CHR 0x5C) \<notin> set (file_name f) \<and>
     0 \<notin> set (file_name f) \<and> file_name f \<notin> set reserved_names \<and>
     length (utf8 (file_name f)) \<le> 255 \<and> length (utf8 (upload_path job f)) \<le> 4096"

definition acceptable :: "upload_job \<Rightarrow> upload_file \<Rightarrow> bool" where
  "acceptable job f \<longleftrightarrow> acceptable_name job f \<and> int (file_size f) \<le> job_limit job"

definition live :: "upload_job \<Rightarrow> atlas \<Rightarrow> bool" where
  "live job s \<longleftrightarrow> job_epoch job = epoch s \<and> session s \<noteq> None"

text \<open>\<open>check()\<close> and the statements after it, which run in the same segment.\<close>

definition checked :: "upload_job \<Rightarrow> (exn \<Rightarrow> atlas_handler) \<Rightarrow> (atlas \<Rightarrow> atlas \<times> atlas_handler) \<Rightarrow>
    atlas_handler" where
  "checked job throw f = Act (\<lambda>s.
     if \<not> live job s \<or> aborted s (job_controller job) then (s, throw (fail ''cancelled'')) else f s)"

definition add_result :: "jstring \<Rightarrow> string \<Rightarrow> bool \<Rightarrow> atlas \<Rightarrow> atlas" where
  "add_result name message err = seq
     [doc_update (results_update (\<lambda>rs. rs @ [(Text message [Str name], err)])),
      set_hidden ''upload-results'' False]"

definition upload_progress :: "int list \<Rightarrow> atlas \<Rightarrow> atlas" where
  "upload_progress v = set_attr ''upload-progress'' ''value'' (Text [] (map Num v))"

definition uploadErrors :: "exn \<Rightarrow> string" where
  "uploadErrors error =
     (if has_code error ''file_exists'' then ''Ce nom existe deja. Le fichier existant a ete conserve ; renommez le fichier a envoyer.''
      else if has_code error ''path_conflict'' then ''Un fichier ou dossier occupe deja ce chemin.''
      else if has_code error ''invalid_upload'' then ''Nom ou taille de fichier non pris en charge.''
      else if has_code error ''integrity_failed'' then ''Le contenu recu ne correspond pas a son empreinte. Reessayez.''
      else if has_code error ''upload_limit'' then ''Trop d envois en attente. Reessayez apres leur expiration.''
      else if has_code error ''files_write_disabled'' then ''L envoi n est pas autorise sur cet appareil.''
      else if has_code error ''files_read_disabled'' then ''La lecture web doit etre autorisee sur cet appareil.''
      else if has_code error ''local_rejected'' then ''Le client local doit etre mis a jour pour prendre en charge l envoi.''
      else if has_code error ''pending'' then ''L autorisation d envoi n a pas ete confirmee. Verifiez le client local et reessayez.''
      else if has_code error ''files_write_required'' then ''L autorisation d envoi a expire. Reessayez.''
      else if has_code error ''invalid_response'' then ''Reponse du serveur invalide. Actualisez la liste avant de reessayer.''
      else ''Envoi interrompu. Verifiez la connexion et reessayez.'')"

section \<open>One file\<close>

definition json_headers :: "(string \<times> jstring) list" where
  "json_headers = [(''Content-Type'', js ''application/json'')]"

definition start_body :: "upload_job \<Rightarrow> upload_file \<Rightarrow> jstring \<Rightarrow> json" where
  "start_body job f sha = JObj [(js ''path'', JStr (upload_path job f)),
     (js ''size'', JInt (int (file_size f))), (js ''sha256'', JStr sha)]"

definition start_req :: "upload_job \<Rightarrow> upload_file \<Rightarrow> jstring \<Rightarrow> req" where
  "start_req job f sha =
     (get_req (Url (js ''/v1/web/files/uploads'') []) (Some (job_controller job)))
       \<lparr>req_method := POST, req_headers := json_headers, req_body := JsonBody (start_body job f sha)\<rparr>"

definition upload_url :: "json option \<Rightarrow> jstring" where
  "upload_url i = js ''/v1/web/files/uploads/'' @ the (subject i)"

definition put_req :: "upload_job \<Rightarrow> json option \<Rightarrow> nat \<Rightarrow> byte list \<Rightarrow> req" where
  "put_req job i offset data =
     (get_req (Url (upload_url i) [(''offset'', dec offset)]) (Some (job_controller job)))
       \<lparr>req_method := PUT, req_timeout := 30000,
        req_headers := [(''Content-Type'', js ''application/octet-stream'')], req_body := RawBody data\<rparr>"

definition commit_url :: "json option \<Rightarrow> url" where
  "commit_url i = Url (upload_url i @ js ''/commit'') []"

definition delete_req :: "json option \<Rightarrow> req" where
  "delete_req i = (get_req (Url (upload_url i) []) None)\<lparr>req_method := DELETE, req_timeout := 5000\<rparr>"

text \<open>
  The \<open>while\<close> loop over the slices of a file. As in a download, a round that makes no progress
  cannot happen with the session's chunk size and is not continued. \<open>throw\<close> gets the upload's
  identifier, which the clean-up needs.
\<close>

function send_chunks :: "upload_job \<Rightarrow> nat \<Rightarrow> upload_file \<Rightarrow> json option \<Rightarrow> atlas_handler \<Rightarrow>
    (exn \<Rightarrow> atlas_handler) \<Rightarrow> nat \<Rightarrow> atlas_handler" where
  "send_chunks job index f i ret throw offset =
     (if offset < file_size f then
        checked job throw (\<lambda>s.
          (set_text ''upload-message'' (Text ''Envoi {}/{} {}''
             [Num (int index + 1), Num (int (job_count job)), Str (file_name f)]) s,
           request
             (put_req job i offset (slice offset (min (offset + job_chunk job) (file_size f)) (file_bytes f)))
             (\<lambda>r. if data_of r = JNull then throw OtherError
                  else if \<not> strict_eq (prop_of (data_of r) ''id'') i \<or>
                    prop_of (data_of r) ''offset'' \<noteq>
                      Some (JInt (int (min (offset + job_chunk job) (file_size f))))
                  then throw (fail ''invalid_response'')
                  else Act (\<lambda>s.
                    (upload_progress
                       [int (min (offset + job_chunk job) (file_size f)), int (file_size f)] s,
                     if offset < min (offset + job_chunk job) (file_size f)
                     then send_chunks job index f i ret throw (min (offset + job_chunk job) (file_size f))
                     else Done)))
             throw))
      else ret)"
  by pat_completeness auto
termination by (relation "measure (\<lambda>(_, _, f, _, _, _, offset). file_size f - offset)") auto

declare send_chunks.simps [simp del]

definition valid_start :: "json \<Rightarrow> bool" where
  "valid_start v \<longleftrightarrow> uuid_form (prop_of v ''id'') \<and> prop_of v ''offset'' = Some (JInt 0)"

definition valid_commit :: "upload_job \<Rightarrow> upload_file \<Rightarrow> jstring \<Rightarrow> json \<Rightarrow> bool" where
  "valid_commit job f sha v \<longleftrightarrow>
     prop_of v ''path'' = Some (JStr (upload_path job f)) \<and> prop_of v ''sha256'' = Some (JStr sha) \<and>
     prop_of v ''size'' = Some (JInt (int (file_size f))) \<and> \<not> truthy (prop_of v ''deleted'') \<and>
     isSafeInteger (prop_of v ''revision'') \<and> 0 < int_of (prop_of v ''revision'')"

text \<open>\<open>finally\<close> of one file: an upload that was started and not committed is deleted.\<close>

definition cleanup :: "upload_job \<Rightarrow> json option option \<Rightarrow> atlas_handler \<Rightarrow> atlas_handler" where
  "cleanup job active k = Act (\<lambda>s.
     (s, case active of None \<Rightarrow> k
         | Some i \<Rightarrow> if live job s then request (delete_req i) (\<lambda>_. k) (\<lambda>_. k) else k))"

text \<open>\<open>catch\<close> and \<open>finally\<close> of one file. \<open>stop\<close> is the outer handler of errors, \<open>next\<close> the next file.\<close>

definition file_failed :: "upload_job \<Rightarrow> upload_file \<Rightarrow> (exn \<Rightarrow> bool \<Rightarrow> atlas_handler) \<Rightarrow> atlas_handler \<Rightarrow>
    json option option \<Rightarrow> bool \<Rightarrow> exn \<Rightarrow> atlas_handler" where
  "file_failed job f stop nxt active committing error = Act (\<lambda>s.
     if aborted s (job_controller job) \<or> \<not> live job s \<or>
        code_in error [''session_expired'', ''authentication_refused'', ''files_write_required'']
     then (s, cleanup job active (stop error committing))
     else
       (add_result (file_name f)
          (if committing then ''Envoi non confirme. Actualisez la liste avant de reessayer.''
           else uploadErrors error) True s,
        cleanup job active nxt))"

definition file_done :: "upload_job \<Rightarrow> upload_file \<Rightarrow> (exn \<Rightarrow> bool \<Rightarrow> atlas_handler) \<Rightarrow> atlas_handler \<Rightarrow>
    atlas_handler \<Rightarrow> atlas_handler" where
  "file_done job f stop failed accepted =
     checked job (file_failed job f stop failed None False) (\<lambda>s.
       (seq [upload_progress [100], add_result (file_name f) ''Envoye'' False] s, accepted))"

definition commit_file :: "upload_job \<Rightarrow> upload_file \<Rightarrow> jstring \<Rightarrow> json option \<Rightarrow>
    (exn \<Rightarrow> bool \<Rightarrow> atlas_handler) \<Rightarrow> atlas_handler \<Rightarrow> atlas_handler \<Rightarrow> atlas_handler" where
  "commit_file job f sha i stop failed accepted =
     checked job (file_failed job f stop failed (Some i) False) (\<lambda>s.
       (set_text ''upload-message'' (Text ''Confirmation {}'' [Str (file_name f)]) s,
        post (commit_url i) (Some (job_controller job))
          (\<lambda>r. if data_of r = JNull then file_failed job f stop failed (Some i) True OtherError
               else if \<not> valid_commit job f sha (data_of r)
               then file_failed job f stop failed (Some i) True (fail ''invalid_response'')
               else file_done job f stop failed accepted)
          (file_failed job f stop failed (Some i) True)))"

definition start_file :: "upload_job \<Rightarrow> nat \<Rightarrow> upload_file \<Rightarrow> jstring \<Rightarrow>
    (exn \<Rightarrow> bool \<Rightarrow> atlas_handler) \<Rightarrow> atlas_handler \<Rightarrow> atlas_handler \<Rightarrow> atlas_handler" where
  "start_file job index f sha stop failed accepted =
     checked job (file_failed job f stop failed None False) (\<lambda>s.
       (s, request (start_req job f sha)
          (\<lambda>r. if data_of r = JNull then file_failed job f stop failed None False OtherError
               else if \<not> valid_start (data_of r)
               then file_failed job f stop failed None False (fail ''invalid_response'')
               else let i = prop_of (data_of r) ''id'' in
                 send_chunks job index f i (commit_file job f sha i stop failed accepted)
                   (file_failed job f stop failed (Some i) False) 0)
          (file_failed job f stop failed None False)))"

text \<open>Reading, hashing and sending one file; the first segment is that of the loop.\<close>

definition send_file :: "upload_job \<Rightarrow> nat \<Rightarrow> upload_file \<Rightarrow> (exn \<Rightarrow> bool \<Rightarrow> atlas_handler) \<Rightarrow>
    atlas_handler \<Rightarrow> atlas_handler \<Rightarrow> atlas_handler" where
  "send_file job index f stop failed accepted = Act (\<lambda>s.
     (seq [set_text ''upload-message'' (Text ''Preparation {}/{} {}''
             [Num (int index + 1), Num (int (job_count job)), Str (file_name f)]),
           upload_progress [0]] s,
      Await (ReadFile index) (\<lambda>a.
        if a = Settled True then
          Await (Sha256 (file_bytes f)) (\<lambda>a. case a of
             Digest d \<Rightarrow> start_file job index f (hex_string d) stop failed accepted
           | _ \<Rightarrow> file_failed job f stop failed None False OtherError)
        else file_failed job f stop failed None False OtherError)))"

section \<open>All files\<close>

text \<open>The end of \<open>sendFiles\<close>: its \<open>finally\<close> block, in the segment that reaches it.\<close>

definition close_upload :: "upload_job \<Rightarrow> atlas \<Rightarrow> atlas \<times> atlas_handler" where
  "close_upload job s =
     (let s1 = (if upload s = Some (job_controller job) then s\<lparr>upload := None\<rparr> else s) in
      if live job s1
      then (seq [set_hidden ''upload-cancel'' True, set_hidden ''upload-close'' False,
                 set_hidden ''upload-progress'' True, updateUploadButton] s1,
            if listingRequest s1 = None \<and> retryView s1 = None then load_current Done else Done)
      else (s1, Done))"

definition stop_message :: "upload_job \<Rightarrow> nat \<Rightarrow> exn \<Rightarrow> bool \<Rightarrow> atlas \<Rightarrow> label" where
  "stop_message job sent error committing s =
     (if aborted s (job_controller job)
      then (if committing then caption ''Envoi interrompu pendant la confirmation. Verifiez la liste.''
            else Text (if sent = 1 then ''Envoi annule {} fichier deja envoye''
                       else ''Envoi annule {} fichiers deja envoyes'') [Num (int sent)])
      else caption (uploadErrors error))"

definition upload_stopped :: "upload_job \<Rightarrow> nat \<Rightarrow> exn \<Rightarrow> bool \<Rightarrow> atlas_handler" where
  "upload_stopped job sent error committing = Act (\<lambda>s.
     close_upload job
       (if \<not> live job s then s
        else if code_in error [''session_expired'', ''authentication_refused'']
        then lock ''expired'' no_text s
        else seq [set_text ''upload-message'' (stop_message job sent error committing s),
                  set_hidden ''upload-help''
                    (\<not> code_in error [''files_write_disabled'', ''files_read_disabled'', ''local_rejected''])] s))"

definition sent_text :: "nat \<Rightarrow> nat \<Rightarrow> label" where
  "sent_text sent rejected =
     Text ((if sent = 1 then ''{} fichier envoye'' else ''{} fichiers envoyes'') @
       (if rejected = 0 then [] else if rejected = 1 then '' {} non envoye'' else '' {} non envoyes''))
     (Num (int sent) # (if rejected = 0 then [] else [Num (int rejected)]))"

definition upload_finished :: "upload_job \<Rightarrow> nat \<Rightarrow> nat \<Rightarrow> atlas_handler" where
  "upload_finished job sent rejected =
     checked job (\<lambda>e. upload_stopped job sent e False) (\<lambda>s.
       close_upload job
         (set_text ''upload-message'' (sent_text sent rejected) s))"

text \<open>The loop over the files, from \<open>index\<close> on.\<close>

primrec send_all :: "upload_job \<Rightarrow> upload_file list \<Rightarrow> nat \<Rightarrow> nat \<Rightarrow> nat \<Rightarrow> atlas_handler" where
  "send_all job [] index sent rejected = upload_finished job sent rejected"
| "send_all job (f # fs) index sent rejected =
     checked job (\<lambda>e. upload_stopped job sent e False) (\<lambda>s.
       if acceptable job f
       then (s, send_file job index f (upload_stopped job sent)
                  (send_all job fs (index + 1) sent (rejected + 1))
                  (send_all job fs (index + 1) (sent + 1) rejected))
       else (add_result (file_name f)
               (if int (file_size f) > job_limit job then ''Limite de 256 Mio par fichier depassee.''
                else ''Nom de fichier non pris en charge.'') True s,
             send_all job fs (index + 1) sent (rejected + 1)))"

definition new_job :: "upload_file list \<Rightarrow> jstring \<Rightarrow> session_data \<Rightarrow> atlas \<Rightarrow> upload_job" where
  "new_job files destination d s =
     \<lparr>job_controller = controllers s, job_epoch = epoch s, job_limit = int_of (upload_limit d),
      job_chunk = chunk_bytes d, job_destination = destination, job_count = length files\<rparr>"

definition upload_begin :: "jstring \<Rightarrow> atlas \<Rightarrow> atlas" where
  "upload_begin destination s = seq
     [new_controller, upload_update (\<lambda>_. Some (controllers s)), clearDrop, updateUploadButton,
      set_hidden ''upload-status'' False, clear_results, set_hidden ''upload-results'' True,
      set_hidden ''upload-help'' True, set_hidden ''upload-close'' True, set_hidden ''upload-cancel'' False,
      set_hidden ''upload-progress'' False, upload_progress [0],
      set_text ''upload-destination''
        (if destination \<noteq> [] then Text ''Vers Fichiers / {}'' [Str destination]
         else caption ''Vers Tous les fichiers''),
      set_text ''upload-message'' (caption ''Verification de l autorisation d envoi...'')] s"

definition sendFiles :: "upload_file list \<Rightarrow> jstring \<Rightarrow> atlas_handler" where
  "sendFiles files destination = Act (\<lambda>s.
     if \<not> canUpload s \<or> files = [] then (s, Done)
     else if length files > 50 then (toast (caption ''Ajoutez au maximum 50 fichiers a la fois.'') False s, Done)
     else let job = new_job files destination (the (session s)) s in
       (upload_begin destination s,
        authorizeUpload ''write'' (controllers s)
          (send_all job files 0 0 0) (\<lambda>e. upload_stopped job 0 e False)))"

section \<open>The picker and drag and drop\<close>

definition upload_add_click :: "atlas_handler" where
  "upload_add_click = Act (\<lambda>s.
     if \<not> canUpload s then (s, Done)
     else (set_value ''upload-input'' [] (s\<lparr>pickerContext := Some (directory s, epoch s)\<rparr>), Done))"

definition upload_input_change :: "upload_file list \<Rightarrow> atlas_handler" where
  "upload_input_change files = Act (\<lambda>s.
     let s1 = set_value ''upload-input'' [] (s\<lparr>pickerContext := None\<rparr>) in
     case pickerContext s of
       None \<Rightarrow> (s1, Done)
     | Some (dir, ep) \<Rightarrow>
         if files = [] \<or> ep \<noteq> epoch s then (s1, Done)
         else if \<not> canUpload s1 \<or> directory s1 \<noteq> dir
         then (toast (caption ''Le dossier a change. Selectionnez a nouveau vos fichiers.'') False s1, Done)
         else (s1, sendFiles files dir))"

definition upload_cancel_click :: "atlas_handler" where
  "upload_cancel_click = Act (\<lambda>s. (abort (upload s) s, Done))"

definition upload_close_click :: "atlas_handler" where
  "upload_close_click = Act (\<lambda>s. (clear_results (set_hidden ''upload-status'' True s), Done))"

text \<open>\<open>event.dataTransfer.dropEffect\<close> of a file drag over an element, inside the target or not.\<close>

definition drop_copies :: "bool \<Rightarrow> atlas \<Rightarrow> bool" where
  "drop_copies inside s \<longleftrightarrow> canUpload s \<and> \<not> dragCancelled s \<and> inside"

definition drag_reset :: "atlas \<Rightarrow> atlas" where
  "drag_reset s = (clearDrop s)\<lparr>dragCancelled := False\<rparr>"

text \<open>\<open>dragend\<close>, and \<open>dragleave\<close> of the whole document.\<close>

definition drag_end :: "atlas_handler" where
  "drag_end = Act (\<lambda>s. (drag_reset s, Done))"

definition drag_enter :: "atlas_handler" where
  "drag_enter = Act (\<lambda>s.
     if \<not> canUpload s \<or> dragCancelled s then (s, Done)
     else (seq [dragDepth_update (\<lambda>n. n + 1), closeMenu,
        set_text ''drop-description''
          (if directory s \<noteq> [] then Text ''Ils seront ajoutes au dossier {}'' [Str (basename (directory s))]
           else caption ''Ils seront ajoutes a Tous les fichiers''),
        set_text ''drop-path''
          (if directory s \<noteq> []
           then Text ''Fichiers / {}'' [Str (join_with (js '' / '') (split_on slash (directory s)))]
           else caption ''Fichiers''),
        set_hidden ''drop-overlay'' False] s, Done))"

definition drag_leave :: "atlas_handler" where
  "drag_leave = Act (\<lambda>s.
     let s1 = s\<lparr>dragDepth := dragDepth s - 1\<rparr> in
     (if dragDepth s1 \<le> 0 then clearDrop s1 else s1, Done))"

text \<open>
  A drop of files on the target: the target's listener, then the document's. \<open>folders\<close> says
  whether one of the dropped items is a directory.
\<close>

definition drop_files :: "bool \<Rightarrow> upload_file list \<Rightarrow> atlas_handler" where
  "drop_files folders files = Fork
     (Act (\<lambda>s.
        (clearDrop s,
         if \<not> canUpload s \<or> dragCancelled s then Done
         else if folders
         then Act (\<lambda>s. (toast (caption ''Deposez des fichiers uniquement. L envoi de dossiers n est pas pris en charge.'') False s, Done))
         else sendFiles files (directory s))))
     drag_end"

text \<open>Escape while the overlay is shown.\<close>

definition drag_escape :: "atlas_handler" where
  "drag_escape = Act (\<lambda>s.
     if \<not> hidden_of (doc s) ''drop-overlay'' then ((clearDrop s)\<lparr>dragCancelled := True\<rparr>, Done)
     else (s, Done))"

section \<open>The guarantee\<close>

lemma safe_checked_rgI:
  assumes "\<And>e. safe (throw e)"
    and "\<And>s. page_ok s \<Longrightarrow> session s \<noteq> None \<Longrightarrow>
      keeps s (fst (f s)) \<and> rg keeps page_ok (snd (f s)) (fst (f s))"
  shows "safe (checked job throw f)"
  unfolding checked_def safe_def using assms by (auto simp: live_def safeD)

lemma safe_checkedI:
  assumes "\<And>e. safe (throw e)"
    and "\<And>s. page_ok s \<Longrightarrow> session s \<noteq> None \<Longrightarrow>
      keeps s (fst (f s)) \<and> page_ok (fst (f s)) \<and> safe (snd (f s))"
  shows "safe (checked job throw f)"
  using assms by (intro safe_checked_rgI) (auto dest: safeD)

lemma tidy_add_result [simp]: "tidy (doc s) \<Longrightarrow> tidy (doc (add_result n m b s))"
  by (simp add: add_result_def)

lemma steady_results [simp]: "steady (doc_update (results_update f) s) = steady s"
  by (simp add: steady_defs listed_def)

lemma steady_add_result [simp]: "steady (add_result n m b s) = steady s"
  by (simp add: add_result_def)

lemma life_results [simp]: "life (doc_update f s) = life s"
  by (simp add: life_def)

lemma life_add_result [simp]: "life (add_result n m b s) = life s"
  by (simp add: add_result_def)

lemma upload_progress_frames [simp]:
  "tidy (doc s) \<Longrightarrow> tidy (doc (upload_progress v s))" "life (upload_progress v s) = life s"
  "steady (upload_progress v s) = steady s" "page_ok s \<Longrightarrow> page_ok (upload_progress v s)"
proof -
  have "anonymous (Text [] (map Num v))" by (induction v) simp_all
  then show "tidy (doc s) \<Longrightarrow> tidy (doc (upload_progress v s))"
    "page_ok s \<Longrightarrow> page_ok (upload_progress v s)"
    by (simp_all add: upload_progress_def)
qed (simp_all add: upload_progress_def)

text \<open>Segments under \<open>check\<close>: the session exists.\<close>

lemma safe_live_segment:
  assumes "page_ok s" "session s \<noteq> None"
  shows "keeps s (set_text i t s)" "i \<in> set named_ids \<Longrightarrow> page_ok (set_text i t s)"
    "keeps s (add_result n m b s)" "page_ok (add_result n m b s)"
  using assms safe_segment [OF assms, of "set_text i t s"] safe_segment [OF assms, of "add_result n m b s"]
  by (simp_all add: page_ok_tidy page_ok_steady keeps_life)

lemma safe_send_chunks:
  assumes "safe ret" and "\<And>e. safe (throw e)"
  shows "safe (send_chunks job index f i ret throw offset)"
  using assms
proof (induction job index f i ret throw offset rule: send_chunks.induct)
  case (1 job index f i ret throw offset)
  show ?case
    by (subst send_chunks.simps)
      (use 1 in \<open>auto intro!: safe_checkedI safe_requestI safe_ActI simp: safe_live_segment keeps_life\<close>)
qed

lemma safe_cleanup: "safe k \<Longrightarrow> safe (cleanup job active k)"
  unfolding cleanup_def by (auto intro!: safe_ActI safe_requestI split: option.split)

lemma safe_file_failed:
  assumes "\<And>e b. safe (stop e b)" and "safe nxt"
  shows "safe (file_failed job f stop nxt active committing error)"
  unfolding file_failed_def using assms
  by (auto intro!: safe_ActI safe_cleanup simp: live_def safe_live_segment)

lemma safe_send_file:
  assumes stop: "\<And>e b. safe (stop e b)" and failed: "safe failed" and accepted: "safe accepted"
    and s: "page_ok s" "session s \<noteq> None"
  shows "rg keeps page_ok (send_file job index f stop failed accepted) s"
proof -
  note ff = safe_file_failed [OF stop failed]
  have dn: "safe (file_done job f stop failed accepted)"
    unfolding file_done_def using ff accepted
    by (intro safe_checkedI)
      (auto simp: keeps_life page_ok_tidy page_ok_steady intro: page_ok_live)
  have commit: "safe (commit_file job f sha i stop failed accepted)" for sha i
    unfolding commit_file_def post_def
    by (rule safe_checkedI) (auto simp: ff dn safe_live_segment intro!: safe_requestI)
  have start: "safe (start_file job index f sha stop failed accepted)" for sha
    unfolding start_file_def
    by (rule safe_checkedI) (auto simp: ff Let_def intro!: safe_requestI safe_send_chunks commit)
  have rest: "safe (Await (ReadFile index) (\<lambda>a. if a = Settled True then
          Await (Sha256 (file_bytes f)) (\<lambda>a. case a of
             Digest d \<Rightarrow> start_file job index f (hex_string d) stop failed accepted
           | _ \<Rightarrow> file_failed job f stop failed None False OtherError)
        else file_failed job f stop failed None False OtherError))"
    by (auto simp: ff start intro!: safe_AwaitI split: answer.split)
  let ?s = "seq [set_text ''upload-message'' (Text ''Preparation {}/{} {}''
             [Num (int index + 1), Num (int (job_count job)), Str (file_name f)]),
           upload_progress [0]] s"
  have "keeps s ?s \<and> page_ok ?s" using s by (intro safe_segment) (simp_all add: page_ok_tidy page_ok_steady)
  then show ?thesis
    unfolding send_file_def rg_Act fst_conv snd_conv using safeD [OF rest] by blast
qed

lemma safe_load_current: "safe ret \<Longrightarrow> safe (load_current ret)"
  by (auto simp: safe_def intro: rg_load_current)

lemma close_upload_segment:
  assumes "page_ok s" and "keeps s0 s"
  shows "keeps s0 (fst (close_upload job s)) \<and> page_ok (fst (close_upload job s)) \<and>
    safe (snd (close_upload job s))"
proof -
  define s1 where "s1 = (if upload s = Some (job_controller job) then s\<lparr>upload := None\<rparr> else s)"
  define s2 where "s2 = seq [set_hidden ''upload-cancel'' True, set_hidden ''upload-close'' False,
                 set_hidden ''upload-progress'' True, updateUploadButton] s1"
  have 1: "page_ok s1" "life s1 = life s" using assms(1) by (simp_all add: s1_def page_ok_def)
  then have 2: "page_ok s2" "life s2 = life s" by (simp_all add: s2_def page_ok_def)
  have eq: "close_upload job s = (if live job s1
      then (s2, if listingRequest s1 = None \<and> retryView s1 = None then load_current Done else Done)
      else (s1, Done))"
    by (simp only: close_upload_def Let_def s1_def [symmetric] s2_def [symmetric])
  show ?thesis
    unfolding eq using 1 2 keeps.rely_trans [OF assms(2) keeps_life] by (simp add: safe_load_current)
qed

lemma page_ok_message:
  "page_ok s \<Longrightarrow> session s \<noteq> None \<Longrightarrow>
   page_ok (set_hidden ''upload-help'' b (set_text ''upload-message'' m s))"
  by (rule page_ok_live [of _ s]) (simp_all add: page_ok_tidy page_ok_steady)

lemma safe_upload_stopped: "safe (upload_stopped job sent error committing)"
  unfolding upload_stopped_def
  by (rule safe_ActI, rule close_upload_segment)
    (auto simp: live_def keeps_life page_ok_message)

lemma safe_upload_finished: "safe (upload_finished job sent rejected)"
  unfolding upload_finished_def
  by (rule safe_checkedI, rule safe_upload_stopped, rule close_upload_segment)
    (simp_all add: safe_live_segment)

lemma safe_send_all: "safe (send_all job files index sent rejected)"
proof (induction files arbitrary: index sent rejected)
  case (Cons f fs)
  show ?case
    unfolding send_all.simps
    by (rule safe_checked_rgI, rule safe_upload_stopped)
      (auto simp: safe_live_segment intro!: safe_send_file safe_upload_stopped Cons safeD [OF Cons])
qed (simp add: safe_upload_finished)

lemma upload_begin_fields [simp]:
  "epoch (upload_begin d s) = epoch s" "session (upload_begin d s) = session s"
  "aborted (upload_begin d s) = aborted s" "controllers (upload_begin d s) = Suc (controllers s)"
  "statusPage (upload_begin d s) = statusPage s" "editorPage (upload_begin d s) = editorPage s"
  "upload (upload_begin d s) = Some (controllers s)"
  by (simp_all add: upload_begin_def new_controller_def upload_progress_def)

lemma page_ok_upload_begin:
  assumes "page_ok s" "session s \<noteq> None" "transfer s = None"
  shows "page_ok (upload_begin d s)"
proof -
  have "tidy (doc (upload_begin d s))"
    using assms(1) by (simp add: upload_begin_def page_ok_tidy)
  moreover have "steady ((new_controller s)\<lparr>upload := x\<rparr>)" for x
    using assms(1,3) by (simp add: steady_defs listed_def page_ok_def new_controller_def)
  then have "steady (upload_begin d s)" by (simp add: upload_begin_def)
  ultimately show ?thesis using assms(2) by (auto simp: page_ok_def intro: discreet_live)
qed

lemma canUpload_session: "canUpload s \<Longrightarrow> session s \<noteq> None \<and> upload s = None \<and> transfer s = None"
  by (auto simp: canUpload_def split: option.splits)

lemma safe_sendFiles: "safe (sendFiles files destination)"
  unfolding sendFiles_def
proof (rule safe_ActI, goal_cases)
  case (1 s)
  have "keeps s (upload_begin destination s)" by (simp add: keeps_def)
  with 1 show ?case
    by (auto simp: Let_def keeps_life page_ok_upload_begin dest!: canUpload_session
        intro!: safe_authorizeUpload safe_send_all safe_upload_stopped)
qed

lemma page_ok_picker [simp]: "page_ok s \<Longrightarrow> page_ok (set_value ''upload-input'' [] (s\<lparr>pickerContext := None\<rparr>))"
  by (simp add: page_ok_def)

lemma safe_upload_add_click: "safe upload_add_click"
  unfolding upload_add_click_def
  by (rule safe_ActI) (auto dest!: canUpload_session simp: keeps_life page_ok_tidy page_ok_steady
      intro!: page_ok_live)

lemma safe_upload_input_change: "safe (upload_input_change files)"
  unfolding upload_input_change_def
  by (rule safe_ActI) (auto simp: Let_def keeps_life safe_sendFiles split: option.split prod.split)

lemma safe_upload_cancel_click: "safe upload_cancel_click"
  unfolding upload_cancel_click_def by (rule safe_ActI) simp

lemma page_ok_clear [simp]:
  "page_ok s \<Longrightarrow> page_ok (clear_results (set_hidden ''upload-status'' True s))"
  "page_ok s \<Longrightarrow> page_ok (clearDrop s)" "page_ok s \<Longrightarrow> page_ok (s\<lparr>dragCancelled := b\<rparr>)"
  "page_ok s \<Longrightarrow> page_ok (s\<lparr>dragDepth := n\<rparr>)"
  by (auto simp: page_ok_def discreet_def veiled_def forgotten_def)

lemma safe_upload_close_click: "safe upload_close_click"
  unfolding upload_close_click_def by (rule safe_ActI) (simp add: keeps_life)

lemma safe_drag_end: "safe drag_end"
  unfolding drag_end_def drag_reset_def by (rule safe_ActI) (simp add: keeps_life)

lemma safe_drag_enter: "safe drag_enter"
  unfolding drag_enter_def
proof (rule safe_ActI, goal_cases)
  case (1 s)
  have "steady (dragDepth_update f s) = steady s" "life (dragDepth_update f s) = life s" for f
    by (simp_all add: steady_defs listed_def life_def)
  with 1 show ?case
    by (auto dest!: canUpload_session simp: keeps_life page_ok_tidy page_ok_steady
        intro!: page_ok_live [of _ s])
qed

lemma safe_drag_leave: "safe drag_leave"
  unfolding drag_leave_def by (rule safe_ActI) (simp add: Let_def keeps_life)

lemma safe_drag_escape: "safe drag_escape"
  unfolding drag_escape_def by (rule safe_ActI) (simp add: keeps_life)

lemma safe_drop_files: "safe (drop_files folders files)"
  unfolding drop_files_def
  by (intro safe_ForkI safe_drag_end safe_ActI) (auto simp: keeps_life safe_sendFiles intro!: safe_ActI)

section \<open>What is committed\<close>

text \<open>
  What the requests of a history have announced to the server and sent to it since: the body
  of the last start request and the bytes of the later PUT requests.
\<close>

fun announce :: "(json \<times> byte list) option \<Rightarrow> query \<times> answer \<Rightarrow> (json \<times> byte list) option" where
  "announce st (Fetch q, a) =
     (case (req_method q, req_body q) of
        (POST, JsonBody j) \<Rightarrow> if req_url q = Url (js ''/v1/web/files/uploads'') [] then Some (j, []) else st
      | (PUT, RawBody b) \<Rightarrow> map_option (\<lambda>(j, data). (j, data @ b)) st
      | _ \<Rightarrow> st)"
| "announce st _ = st"

definition announced :: "(query \<times> answer) list \<Rightarrow> (json \<times> byte list) option" where
  "announced h = foldl announce None h"

lemma announced_snoc [simp]: "announced (h @ [x]) = announce (announced h) x"
  by (simp add: announced_def)

text \<open>The contract of a commit: the device is authorized, one of the files is announced under its
  path with its size and digest, and its bytes have been sent, all of them and in order.\<close>

definition commit_ready :: "upload_file list \<Rightarrow> jstring \<Rightarrow> (query \<times> answer) list \<Rightarrow> bool" where
  "commit_ready files destination h \<longleftrightarrow>
     (\<exists>job f digest. f \<in> set files \<and> job_destination job = destination \<and> acceptable job f \<and>
        (\<exists>c. authorized ''write'' c h) \<and> (Sha256 (file_bytes f), Digest digest) \<in> set h \<and>
        announced h = Some (start_body job f (hex_string digest), file_bytes f))"

definition uploads_url :: url where
  "uploads_url = Url (js ''/v1/web/files/uploads'') []"

definition commits :: "upload_file list \<Rightarrow> jstring \<Rightarrow> (query \<times> answer) list \<Rightarrow> query \<Rightarrow> bool" where
  "commits files destination h q \<longleftrightarrow>
     (\<forall>r. q = Fetch r \<longrightarrow> req_method r = POST \<longrightarrow>
        (\<forall>i. req_url r = commit_url i \<longrightarrow> commit_ready files destination h) \<and>
        (req_url r = uploads_url \<longrightarrow>
           (\<exists>job f sha. f \<in> set files \<and> job_destination job = destination \<and> r = start_req job f sha)))"

lemma authorized_append [simp]: "authorized scope c h \<Longrightarrow> authorized scope c (h @ h')"
  by (auto simp: authorized_def)

lemma protocol_checkedI:
  "(\<And>e. protocol Q (throw e) h) \<Longrightarrow> (\<And>s. protocol Q (snd (f s)) h) \<Longrightarrow> protocol Q (checked job throw f) h"
  by (simp add: checked_def)

lemma js_append: "js (x @ y) = js x @ js y"
  by (simp add: js_def)

lemma uploads_not_commit [simp]: "commit_url i \<noteq> uploads_url" "uploads_url \<noteq> commit_url i"
  by (auto simp: uploads_url_def commit_url_def upload_url_def dest: arg_cong [of _ _ length])

lemma commits_harmless: "harmless q \<Longrightarrow> commits files destination h (Fetch q)"
proof -
  have "scope_url scope (js ''challenges'') \<noteq> uploads_url" "uploads_url \<noteq> scope_url scope (js ''challenges'')" for scope
    by (auto simp: scope_url_def uploads_url_def dest: arg_cong [of _ _ length])
  moreover have "scope_url scope (js ''challenges'') \<noteq> commit_url i" for scope i
  proof
    assume "scope_url scope (js ''challenges'') = commit_url i"
    then have "js (''/v1/web/files/'' @ scope @ ''/'') @ js ''challenges'' = upload_url i @ js ''/commit''"
      by (simp add: scope_url_def commit_url_def)
    then have "last (js (''/v1/web/files/'' @ scope @ ''/'') @ js ''challenges'') = last (upload_url i @ js ''/commit'')"
      by simp
    then show False by (simp add: js_def)
  qed
  moreover note this [symmetric]
  ultimately show "harmless q \<Longrightarrow> commits files destination h (Fetch q)"
    by (auto simp: harmless_def commits_def)
qed

lemma protocol_load:
  assumes "\<And>h q. harmless q \<Longrightarrow> Q h (Fetch q)" and "\<And>h n. Q h (Sleep n)"
    and ret: "\<And>h. protocol Q ret h"
  shows "protocol Q (load v ret) h"
proof -
  have get: "Q h (Fetch (load_req v c))" "Q h (Fetch (directory_req p sg))" for h v c p sg
    by (auto intro!: assms(1) simp: harmless_def load_req_def directory_req_def get_req_def)
  have failed: "protocol Q (load_failed c t e ret) h" for c t e h
    by (simp add: load_failed_def ret)
  have details: "protocol Q (refresh_details t e b) h" for t e b h
    unfolding refresh_details_def directoryInfo_def
    by (auto intro!: protocol_requestI get simp: refresh_done_def refresh_failed_def)
  have "protocol Q (load_done v c t w ret) h" for c t w h
    by (auto simp: load_done_def failed details ret Let_def split: option.split)
  then show ?thesis
    by (auto simp: load_def load_waiting_def assms(2) failed ret intro!: protocol_requestI get)
qed

lemma protocol_load_current:
  "(\<And>h q. harmless q \<Longrightarrow> Q h (Fetch q)) \<Longrightarrow> (\<And>h n. Q h (Sleep n)) \<Longrightarrow> (\<And>h. protocol Q ret h) \<Longrightarrow>
   protocol Q (load_current ret) h"
  by (simp add: load_current_def protocol_load)

lemma commits_Sleep: "commits files dst h (Sleep n)"
  by (simp add: commits_def)

lemma protocol_close_upload: "protocol (commits files dst) (snd (close_upload job s)) h"
  by (auto simp: close_upload_def Let_def commits_harmless commits_Sleep intro!: protocol_load_current)

lemma protocol_upload_stopped: "protocol (commits files dst) (upload_stopped job sent e b) h"
  by (simp add: upload_stopped_def protocol_close_upload)

lemma protocol_upload_finished: "protocol (commits files dst) (upload_finished job sent rejected) h"
  by (simp add: upload_finished_def protocol_checkedI protocol_upload_stopped protocol_close_upload)

lemma commits_other:
  "req_method q \<noteq> POST \<Longrightarrow> commits files dst h (Fetch q)"
  "commits files dst h (Sha256 b)" "commits files dst h (ReadFile n)"
  by (simp_all add: commits_def)

lemma commits_start:
  assumes "f \<in> set files" "job_destination job = dst"
  shows "commits files dst h (Fetch (start_req job f sha))"
proof -
  have "req_url (start_req job f sha) = uploads_url"
    by (simp add: start_req_def get_req_def uploads_url_def)
  with assms show ?thesis by (auto simp: commits_def)
qed

lemma protocol_cleanup:
  "(\<And>h. good h \<Longrightarrow> protocol (commits files dst) k h) \<Longrightarrow> good h \<Longrightarrow>
   (\<And>h x. good h \<Longrightarrow> good (h @ [x])) \<Longrightarrow> protocol (commits files dst) (cleanup job active k) h"
  by (auto simp: cleanup_def delete_req_def get_req_def commits_other
      intro!: protocol_requestI split: option.split)

text \<open>After the last slice, the bytes sent since the start are those of the file.\<close>

lemma protocol_send_chunks:
  assumes "announced h = Some (j, take offset (file_bytes f))" and "offset \<le> file_size f" and "good h"
    and "\<And>h. announced h = Some (j, file_bytes f) \<Longrightarrow> good h \<Longrightarrow> protocol (commits files dst) ret h"
    and "\<And>h e. good h \<Longrightarrow> protocol (commits files dst) (throw e) h"
    and "\<And>h x. good h \<Longrightarrow> good (h @ [x])"
  shows "protocol (commits files dst) (send_chunks job index f i ret throw offset) h"
  using assms
proof (induction job index f i ret throw offset arbitrary: h rule: send_chunks.induct)
  case (1 job index f i ret throw offset)
  let ?upto = "min (offset + job_chunk job) (file_size f)"
  let ?q = "put_req job i offset (slice offset ?upto (file_bytes f))"
  have sent: "announced (h @ [(Fetch ?q, a)]) = Some (j, take ?upto (file_bytes f))" if "offset < file_size f" for a
    using 1(2) that take_slice_extend [of offset ?upto "file_bytes f"] by (simp add: put_req_def get_req_def)
  have put: "commits files dst h (Fetch ?q)" by (simp add: commits_other put_req_def get_req_def)
  show ?case
  proof (cases "offset < file_size f")
    case True
    have IH: "protocol (commits files dst) (send_chunks job index f i ret throw ?upto) (h @ [(Fetch ?q, a)])"
      if "offset < ?upto" "data_of r \<noteq> JNull" "strict_eq (prop_of (data_of r) ''id'') i"
        "prop_of (data_of r) ''offset'' = Some (JInt (int ?upto))" for a r
      by (rule 1(1) [OF True that(2) _ that(1)]) (use True that sent 1(3-) in auto)
    show ?thesis
      by (subst send_chunks.simps)
        (use True put IH 1(3-) in \<open>auto intro!: protocol_checkedI protocol_requestI\<close>)
  next
    case False
    with 1(2,3) have "announced h = Some (j, file_bytes f)" by (simp add: file_size_def)
    with False 1(4,5) show ?thesis by (subst send_chunks.simps) simp
  qed
qed

lemma protocol_file_failed:
  assumes "\<And>h e b. good h \<Longrightarrow> protocol (commits files dst) (stop e b) h"
    and "\<And>h. good h \<Longrightarrow> protocol (commits files dst) nxt h"
    and "\<And>h x. good h \<Longrightarrow> good (h @ [x])" and "good h"
  shows "protocol (commits files dst) (file_failed job f stop nxt active b e) h"
  using assms by (auto simp: file_failed_def intro!: protocol_cleanup [where good = good])

lemma protocol_send_file:
  assumes f: "f \<in> set files" "acceptable job f" "job_destination job = dst"
    and stop: "\<And>h e b. protocol (commits files dst) (stop e b) h"
    and failed: "\<And>h. authorized ''write'' c h \<Longrightarrow> protocol (commits files dst) failed h"
    and accepted: "\<And>h. authorized ''write'' c h \<Longrightarrow> protocol (commits files dst) accepted h"
    and h: "authorized ''write'' c h"
  shows "protocol (commits files dst) (send_file job index f stop failed accepted) h"
proof -
  let ?P = "protocol (commits files dst)"
  have ff: "?P (file_failed job f stop failed active b e) h" if "authorized ''write'' c h" for active b e h
    by (rule protocol_file_failed [where good = "authorized ''write'' c"])
      (use that stop failed in auto)
  have dn: "?P (file_done job f stop failed accepted) h" if "authorized ''write'' c h" for h
    unfolding file_done_def using that by (auto intro!: protocol_checkedI ff accepted)
  have commit: "?P (commit_file job f (hex_string d) i stop failed accepted) h"
    if "authorized ''write'' c h" "(Sha256 (file_bytes f), Digest d) \<in> set h"
      "announced h = Some (start_body job f (hex_string d), file_bytes f)" for d i h
  proof -
    have "commit_ready files dst h" using that f unfolding commit_ready_def by blast
    then show ?thesis
      unfolding commit_file_def post_def using that
      by (auto intro!: protocol_checkedI protocol_requestI ff dn simp: commits_def post_req_def get_req_def)
  qed
  have start: "?P (start_file job index f (hex_string d) stop failed accepted) h"
    if "authorized ''write'' c h" "(Sha256 (file_bytes f), Digest d) \<in> set h" for d h
  proof -
    let ?q = "start_req job f (hex_string d)"
    have "announced (h @ [(Fetch ?q, a)]) = Some (start_body job f (hex_string d), take 0 (file_bytes f))" for a
      by (simp add: start_req_def get_req_def)
    then have "?P (send_chunks job index f i (commit_file job f (hex_string d) i stop failed accepted)
        (file_failed job f stop failed (Some i) False) 0) (h @ [(Fetch ?q, a)])" for i a
      by (rule protocol_send_chunks [where good = "\<lambda>h. authorized ''write'' c h \<and>
          (Sha256 (file_bytes f), Digest d) \<in> set h"]) (use that ff commit in auto)
    with that show ?thesis
      unfolding start_file_def
      by (auto intro!: protocol_checkedI protocol_requestI ff commits_start f(1,3) simp: Let_def)
  qed
  show ?thesis
    unfolding send_file_def using h
    by (auto simp: commits_other ff start split: answer.split)
qed

lemma protocol_send_all:
  assumes "set fs \<subseteq> set files" "job_destination job = dst" "authorized ''write'' c h"
  shows "protocol (commits files dst) (send_all job fs index sent rejected) h"
  using assms
proof (induction fs arbitrary: index sent rejected h)
  case (Cons f fs)
  then have IH: "authorized ''write'' c h \<Longrightarrow>
    protocol (commits files dst) (send_all job fs index sent rejected) h" for index sent rejected h
    by simp
  have "protocol (commits files dst) (send_file job index f (upload_stopped job sent)
      (send_all job fs (index + 1) sent (rejected + 1))
      (send_all job fs (index + 1) (sent + 1) rejected)) h" if "acceptable job f"
    using Cons.prems that
    by (intro protocol_send_file [where c = c] IH protocol_upload_stopped) simp_all
  with Cons.prems(3) show ?case
    by (auto intro!: protocol_checkedI protocol_upload_stopped IH)
qed (simp add: protocol_upload_finished)

lemma protocol_sendFiles: "protocol (commits files dst) (sendFiles files dst) []"
  by (auto simp: sendFiles_def Let_def new_job_def commits_harmless
      intro!: protocol_authorizeUpload protocol_send_all protocol_upload_stopped)

text \<open>C3. A commit is sent only for a complete, authorized and faithful upload: whatever the server
  answers and whatever happens on the page meanwhile, when \<open>sendFiles\<close> asks to commit, the
  device's write authorization was confirmed, the last announced upload names one of the
  selected files under an acceptable path with its true size and digest, and the bytes sent
  since are exactly the bytes of that file, in order.\<close>

theorem upload_commits_complete_files:
  assumes "local_run (sendFiles files destination) h (Await (Fetch q) k)"
    and "req_method q = POST" and "req_url q = commit_url i"
  shows "\<exists>job f digest. f \<in> set files \<and> job_destination job = destination \<and> acceptable job f \<and>
    (\<exists>c. authorized ''write'' c h) \<and> (Sha256 (file_bytes f), Digest digest) \<in> set h \<and>
    announced h = Some (start_body job f (hex_string digest), file_bytes f)"
  using protocol_sound [OF assms(1) protocol_sendFiles] assms(2,3)
  by (auto simp: commits_def commit_ready_def)

text \<open>A page that shows the empty root directory and a small file.\<close>

definition ready_page :: atlas where
  "ready_page = example_page\<lparr>displayedQuery := Some (js ''q''), displayedEntries := Some []\<rparr>"

definition small_file :: upload_file where
  "small_file = \<lparr>file_name = js ''a.txt'', file_bytes = [1, 2]\<rparr>"

lemma canUpload_ready_page: "canUpload ready_page"
proof -
  have *: "canUpload (s\<lparr>displayedQuery := Some (js ''q''), displayedEntries := Some []\<rparr>)"
    if "acceptSession example_session (first_page False False 1000000 False) = Inr s" for s
    using that
    by (auto simp: acceptSession_def canUpload_def show_session_def tick_def first_page_def
        first_document_def trim_def upload_size_def split: if_splits)
  show ?thesis unfolding ready_page_def by (rule * [OF example_page_accepted])
qed

lemma ready_page_fields [simp]: "controllers ready_page = 0" "epoch ready_page = 0"
  "session ready_page = Some (session_of example_session)" "aborted ready_page = (\<lambda>_. False)"
  "pickerContext ready_page = pickerContext example_page"
  by (simp_all add: ready_page_def)

text \<open>An exchange in which the example file is announced and sent, up to the request to commit.\<close>

definition example_job :: upload_job where
  "example_job = new_job [small_file] [] (session_of example_session) ready_page"

definition example_id :: "json option" where
  "example_id = Some (JStr (js ''00000000-0000-0000-0000-000000000000''))"

definition example_upload :: "(query \<times> answer) list" where
  "example_upload =
     [(Fetch (scope_session ''write'' 0), Net (Inr (example_response JNull))),
      (ReadFile 0, Settled True), (Sha256 [1, 2], Digest [3]),
      (Fetch (start_req example_job small_file (hex_string [3])),
       Net (Inr (example_response (JObj [(js ''id'', the example_id), (js ''offset'', JInt 0)])))),
      (Fetch (put_req example_job example_id 0 [1, 2]),
       Net (Inr (example_response (JObj [(js ''id'', the example_id), (js ''offset'', JInt 2)]))))]"

lemma example_job_simps [simp]:
  "job_controller example_job = 0" "job_epoch example_job = 0" "job_limit example_job = 268435456"
  "job_chunk example_job = 8388608" "job_destination example_job = []" "job_count example_job = 1"
  by (simp_all add: example_job_def new_job_def)

lemma unit_zero: "0 = unit_of c \<longleftrightarrow> (of_char c :: nat) = 0"
  by (metis unat_unit_of unat_0 unat_eq_zero)

lemma acceptable_small_file [simp]: "acceptable example_job small_file"
proof -
  have "upload_path example_job small_file = js ''a.txt''" by (simp add: upload_path_def small_file_def)
  moreover have "slash \<notin> set (js ''a.txt'')" "unit_of (CHR 0x5C) \<notin> set (js ''a.txt'')" "0 \<notin> set (js ''a.txt'')"
    "js ''a.txt'' \<notin> set reserved_names"
    by (simp_all add: reserved_names_def) (simp_all add: js_def unit_zero)
  moreover have "length (utf8 (js ''a.txt'')) \<le> 255" using utf8_length_bounds [of "js ''a.txt''"] by simp
  ultimately show ?thesis
    by (simp add: acceptable_def acceptable_name_def small_file_def file_size_def)
qed

lemma uuid_example [simp]: "uuid_form example_id"
  unfolding example_id_def by code_simp

lemma local_run_checkedI:
  "live job s \<Longrightarrow> \<not> aborted s (job_controller job) \<Longrightarrow> local_run (snd (f s)) h p \<Longrightarrow>
   local_run (checked job throw f) h p"
  unfolding checked_def by (rule local_run_ActI [of _ s]) simp

lemma live_example: "live example_job ready_page" "\<not> aborted ready_page (job_controller example_job)"
  by (simp_all add: live_def)

lemmas example_checkedI = local_run_checkedI [OF live_example]

lemma small_file_simps [simp]: "file_size small_file = 2" "file_bytes small_file = [1, 2]"
  by (simp_all add: file_size_def small_file_def)

lemma example_results:
  "request_result (put_req j i x y) (Inr (example_response v)) = Inr (Data v)"
  "request_result (start_req j f z) (Inr (example_response v)) = Inr (Data v)"
  "request_result (scope_session sc n) (Inr (example_response v)) = Inr (Data v)"
  by (rule request_example_response; simp add: put_req_def start_req_def scope_session_def get_req_def)+

lemma example_chunks:
  assumes "local_run ret h p"
  shows "local_run (send_chunks example_job 0 small_file example_id ret fl 0)
    ((Fetch (put_req example_job example_id 0 [1, 2]),
      Net (Inr (example_response (JObj [(js ''id'', the example_id), (js ''offset'', JInt 2)])))) # h) p"
proof -
  let ?part = "JObj [(js ''id'', the example_id), (js ''offset'', JInt 2)]"
  have part: "data_of (Data ?part) \<noteq> JNull" "strict_eq (prop_of (data_of (Data ?part)) ''id'') example_id"
    "prop_of (data_of (Data ?part)) ''offset'' = Some (JInt 2)"
    by (simp_all add: example_id_def)
  have sl: "slice 0 2 [1, 2] = ([1, 2] :: byte list)" by (simp add: slice_def)
  have "send_chunks example_job 0 small_file example_id ret fl 2 = ret"
    by (subst send_chunks.simps) simp
  then show ?thesis
    using assms part
    by (subst send_chunks.simps)
      (simp add: sl, intro example_checkedI, simp,
       rule local_run_requestI [OF example_results(1)], simp, rule local_run_ActI, simp)
qed

lemma example_start:
  assumes "local_run (commit_file example_job small_file sha example_id stop failed accepted) h p"
  shows "local_run (start_file example_job 0 small_file sha stop failed accepted)
    ((Fetch (start_req example_job small_file sha),
      Net (Inr (example_response (JObj [(js ''id'', the example_id), (js ''offset'', JInt 0)])))) #
     (Fetch (put_req example_job example_id 0 [1, 2]),
      Net (Inr (example_response (JObj [(js ''id'', the example_id), (js ''offset'', JInt 2)])))) # h) p"
proof -
  let ?started = "JObj [(js ''id'', the example_id), (js ''offset'', JInt 0)]"
  have started: "data_of (Data ?started) \<noteq> JNull" "prop_of (data_of (Data ?started)) ''id'' = example_id"
    "valid_start (data_of (Data ?started))"
    using uuid_example by (simp_all add: example_id_def valid_start_def)
  then show ?thesis
    unfolding start_file_def
    by (intro example_checkedI) (simp only: snd_conv, rule local_run_requestI [OF example_results(2)],
        simp only: started Let_def if_False not_True_eq_False, rule example_chunks [OF assms])
qed

lemma example_upload_run:
  "\<exists>k. local_run (sendFiles [small_file] []) example_upload
     (Await (Fetch (post_req (commit_url example_id) (Some 0))) k)"
proof -
  let ?stop = "upload_stopped example_job 0"
  let ?failed = "send_all example_job [] 1 0 1" and ?accepted = "send_all example_job [] 1 1 0"
  obtain k where k: "local_run (commit_file example_job small_file (hex_string [3]) example_id ?stop ?failed ?accepted)
      [] (Await (Fetch (post_req (commit_url example_id) (Some 0))) k)"
    unfolding commit_file_def post_def request_def example_job_simps
    by (atomize_elim, rule exI, rule example_checkedI, unfold snd_conv, rule local_run.here)
  have "local_run (send_file example_job 0 small_file ?stop ?failed ?accepted) (tl example_upload)
      (Await (Fetch (post_req (commit_url example_id) (Some 0))) k)"
    unfolding send_file_def example_upload_def list.sel
    by (rule local_run_ActI [of _ ready_page], unfold snd_conv, rule local_run_AwaitI,
        simp only: if_True simp_thms small_file_simps, rule local_run_AwaitI,
        simp only: answer.case, rule example_start [OF k])
  then have "local_run (send_all example_job [small_file] 0 0 0) (tl example_upload)
      (Await (Fetch (post_req (commit_url example_id) (Some 0))) k)"
    unfolding send_all.simps by (intro example_checkedI) (simp add: live_def)
  then have "local_run (authorizeUpload ''write'' 0 (send_all example_job [small_file] 0 0 0) th) example_upload
      (Await (Fetch (post_req (commit_url example_id) (Some 0))) k)" for th
    unfolding authorizeUpload_def example_upload_def list.sel
    by (intro local_run_requestI [OF example_results(3)])
  then have "local_run (sendFiles [small_file] []) example_upload
      (Await (Fetch (post_req (commit_url example_id) (Some 0))) k)"
    unfolding sendFiles_def
    by (intro local_run_ActI [of _ ready_page])
      (simp add: canUpload_ready_page Let_def del: send_all.simps valid_example_session flip: example_job_def)
  then show ?thesis by blast
qed

theorem upload_commits_complete_files_witness:
  "\<exists>job f digest. f \<in> set [small_file] \<and> job_destination job = [] \<and> acceptable job f \<and>
    (Sha256 (file_bytes f), Digest digest) \<in> set example_upload \<and>
    announced example_upload = Some (start_body job f (hex_string digest), file_bytes f)"
proof -
  obtain k where run: "local_run (sendFiles [small_file] []) example_upload
     (Await (Fetch (post_req (commit_url example_id) (Some 0))) k)" using example_upload_run ..
  show ?thesis
    using upload_commits_complete_files [OF run, of example_id]
    by (auto simp: post_req_def get_req_def)
qed

text \<open>C27. Files chosen in the picker go to the folder that was open when the picker was opened: an
  upload starts only if that folder is still the open one, in the same session epoch, and the
  page could upload at that moment; at most fifty files are accepted. The page then names this
  folder as the destination, and whatever the server answers and whatever happens meanwhile,
  every upload that the handler announces to the server is one of the chosen files under a path
  in exactly this folder.\<close>

theorem picker_uploads_into_open_folder:
  assumes "upload (fst (run (upload_input_change files) s)) \<noteq> upload s"
  shows "pickerContext s = Some (directory s, epoch s) \<and> session s \<noteq> None \<and> upload s = None \<and>
    transfer s = None \<and> 0 < length files \<and> length files \<le> 50 \<and>
    text_of (doc (fst (run (upload_input_change files) s))) ''upload-destination'' =
      (if directory s = [] then caption ''Vers Tous les fichiers'' else Text ''Vers Fichiers / {}'' [Str (directory s)]) \<and>
    (\<forall>p h q k. p \<in> set (snd (run (upload_input_change files) s)) \<longrightarrow> local_run p h (Await (Fetch q) k) \<longrightarrow>
       req_method q = POST \<longrightarrow> req_url q = Url (js ''/v1/web/files/uploads'') [] \<longrightarrow>
       (\<exists>f sha. f \<in> set files \<and> req_body q = JsonBody (JObj
          [(js ''path'', JStr ((if directory s = [] then [] else directory s @ [slash]) @ file_name f)),
           (js ''size'', JInt (int (length (file_bytes f)))), (js ''sha256'', JStr sha)])))"
proof -
  let ?s1 = "set_value ''upload-input'' [] (s\<lparr>pickerContext := None\<rparr>)"
  have same: "directory ?s1 = directory s" "upload ?s1 = upload s" "session ?s1 = session s"
    "transfer ?s1 = transfer s" by simp_all
  obtain dir ep where p: "pickerContext s = Some (dir, ep)"
    using assms by (cases "pickerContext s") (auto simp: upload_input_change_def Let_def)
  with assms have started: "files \<noteq> []" "ep = epoch s" "canUpload ?s1" "dir = directory s"
    by (auto simp: upload_input_change_def Let_def split: if_splits)
  moreover from this p assms have few: "length files \<le> 50"
    by (auto simp: upload_input_change_def sendFiles_def Let_def split: if_splits)
  moreover from p started have go: "run (upload_input_change files) s = run (sendFiles files (directory s)) ?s1"
    by (simp add: upload_input_change_def Let_def)
  moreover have "text_of (doc (fst (run (sendFiles files (directory s)) ?s1))) ''upload-destination'' =
      (if directory s = [] then caption ''Vers Tous les fichiers'' else Text ''Vers Fichiers / {}'' [Str (directory s)])"
    using started few by (simp add: sendFiles_def authorizeUpload_def request_def Let_def upload_begin_def upload_progress_def)
  moreover have "\<exists>f sha. f \<in> set files \<and> req_body q = JsonBody (JObj
      [(js ''path'', JStr ((if directory s = [] then [] else directory s @ [slash]) @ file_name f)),
       (js ''size'', JInt (int (length (file_bytes f)))), (js ''sha256'', JStr sha)])"
    if "p \<in> set (snd (run (sendFiles files (directory s)) ?s1))" "local_run p h (Await (Fetch q) k)"
      "req_method q = POST" "req_url q = Url (js ''/v1/web/files/uploads'') []" for p h q k
  proof -
    have "commits files (directory s) h (Fetch q)"
      using protocol_sound [OF that(2)] protocol_run [OF protocol_sendFiles that(1)] by blast
    with that(3,4) obtain job f sha where "f \<in> set files" "job_destination job = directory s" "q = start_req job f sha"
      by (auto simp: commits_def uploads_url_def)
    then show ?thesis
      by (auto simp: start_req_def get_req_def start_body_def upload_path_def file_size_def)
  qed
  ultimately show ?thesis using p canUpload_session [of ?s1] same by simp
qed

theorem picker_uploads_into_open_folder_witness:
  "upload (fst (run (upload_input_change [small_file])
     (ready_page\<lparr>pickerContext := Some (directory ready_page, 0)\<rparr>))) = Some 0 \<and>
   session ready_page \<noteq> None"
proof -
  let ?s = "ready_page\<lparr>pickerContext := Some (directory ready_page, 0)\<rparr>"
  have can: "canUpload (set_value ''upload-input'' [] (?s\<lparr>pickerContext := None\<rparr>))"
    using canUpload_ready_page by (simp add: canUpload_def)
  have auth: "run (authorizeUpload scope c ret throw) s = (s, [authorizeUpload scope c ret throw])"
    for scope c ret throw s by (simp add: authorizeUpload_def request_def)
  have "upload (fst (run (upload_input_change [small_file]) ?s)) = Some 0"
    using can by (simp add: upload_input_change_def sendFiles_def Let_def auth)
  moreover have "upload ?s = None" using canUpload_session [OF canUpload_ready_page] by simp
  ultimately show ?thesis using picker_uploads_into_open_folder [of "[small_file]" ?s] by simp
qed

end
