(* ===== verification/Download.thy ===== *)
theory Download
  imports Listing
begin

text \<open>
  Downloads (\<open>download\<close> of web/atlas.js): the chunks of a file are fetched one after the other
  into a buffer, the digest of the buffer is compared with the listed one, the session is
  checked once more and only then is the file handed to the browser.
\<close>

section \<open>The handler\<close>

text \<open>\<open>entry.size\<close> as an array length and in arithmetic, where \<open>null\<close> counts as zero.\<close>

definition byte_size :: "entry \<Rightarrow> nat" where
  "byte_size e = (case size_of e of None \<Rightarrow> 0 | Some n \<Rightarrow> nat n)"

text \<open>The revision of a listed file is a positive integer.\<close>

definition chunk_req :: "entry \<Rightarrow> nat \<Rightarrow> nat \<Rightarrow> nat \<Rightarrow> req" where
  "chunk_req e limit controller offset =
     (get_req (Url (js ''/v1/web/files/chunk'')
        [(''path'', path e), (''revision'', dec (nat (int_of (revision e)))), (''offset'', dec offset)])
        (Some controller))
       \<lparr>is_raw := True, req_limit := limit, req_timeout := 30000\<rparr>"

fun raw_of :: "reply \<Rightarrow> byte list" where
  "raw_of (Raw b) = b"
| "raw_of _ = []"

text \<open>The progress text carries the operands of the percentage, not its rounding.\<close>

definition progress_text :: "nat \<Rightarrow> entry \<Rightarrow> label" where
  "progress_text offset e =
     (if byte_size e = 0 then Text ''Preparation du telechargement {} %'' [Num 100]
      else Text ''Preparation du telechargement {} / {} %'' [Num (int offset), Num (int (byte_size e))])"

text \<open>
  The \<open>do ... while\<close> loop. The chunk size of a session is 8388608, so a round that does not
  finish the file makes progress; without progress the loop of the source would not end, and
  the model stops it.
\<close>

function chunk_loop :: "entry \<Rightarrow> nat \<Rightarrow> nat \<Rightarrow> (byte list \<Rightarrow> atlas_handler) \<Rightarrow> (exn \<Rightarrow> atlas_handler) \<Rightarrow>
    byte list \<Rightarrow> nat \<Rightarrow> atlas_handler" where
  "chunk_loop e limit controller ret throw data offset =
     request (chunk_req e limit controller offset)
       (\<lambda>r. if length (raw_of r) \<noteq> min limit (byte_size e - offset)
            then throw (fail ''invalid_response'')
            else Act (\<lambda>s.
              (toast (progress_text (offset + length (raw_of r)) e) True s,
               if offset + length (raw_of r) < byte_size e \<and> 0 < length (raw_of r)
               then chunk_loop e limit controller ret throw
                      (overwrite data offset (raw_of r)) (offset + length (raw_of r))
               else ret (overwrite data offset (raw_of r)))))
       throw"
  by pat_completeness auto
termination by (relation "measure (\<lambda>(e, _, _, _, _, _, offset). byte_size e - offset)") auto

declare chunk_loop.simps [simp del]

definition session_req :: "nat option \<Rightarrow> req" where
  "session_req sg = get_req (Url (js ''/v1/web/files/session'') []) sg"

definition download_finally :: "nat \<Rightarrow> atlas \<Rightarrow> atlas" where
  "download_finally controller s =
     updateUploadButton (if transfer s = Some controller then s\<lparr>transfer := None\<rparr> else s)"

definition download_failed :: "nat \<Rightarrow> nat \<Rightarrow> exn \<Rightarrow> atlas_handler" where
  "download_failed controller current error = Act (\<lambda>s.
     (download_finally controller
        (if current \<noteq> epoch s \<or> session s = None then s
         else if code_in error [''session_expired'', ''authentication_refused'']
         then lock ''expired'' no_text s
         else toast (caption
           (if aborted s controller then ''Telechargement annule.''
            else if has_code error ''revision_changed''
            then ''Ce fichier a change. Actualisez la liste avant de reessayer.''
            else if has_code error ''integrity_failed''
            then ''Le fichier recu ne correspond pas a son empreinte. Telechargement interrompu.''
            else ''Telechargement interrompu. Verifiez la connexion et reessayez.'')) False s), Done))"

definition save_file :: "jstring \<Rightarrow> byte list \<Rightarrow> atlas \<Rightarrow> atlas" where
  "save_file name data = saved_update (\<lambda>xs. xs @ [(name, data)])"

definition download_save :: "entry \<Rightarrow> nat \<Rightarrow> nat \<Rightarrow> byte list \<Rightarrow> atlas_handler" where
  "download_save e controller current data = Act (\<lambda>s.
     (download_finally controller
        (if aborted s controller \<or> current \<noteq> epoch s \<or> session s = None then s
         else toast (Text ''Telechargement lance {}'' [Str (basename (path e))]) False
                (save_file (basename (path e)) data s)), Done))"

definition download_verify :: "entry \<Rightarrow> nat \<Rightarrow> nat \<Rightarrow> byte list \<Rightarrow> atlas_handler" where
  "download_verify e controller current data =
     Await (Sha256 data) (\<lambda>a. case a of
        Digest digest \<Rightarrow>
          if sha256 e \<noteq> Some (JStr (hex_string digest))
          then download_failed controller current (fail ''integrity_failed'')
          else request (session_req (Some controller))
                 (\<lambda>_. download_save e controller current data)
                 (download_failed controller current)
      | _ \<Rightarrow> download_failed controller current OtherError)"

definition download_begin :: "entry \<Rightarrow> atlas \<Rightarrow> atlas" where
  "download_begin e s = seq
     [new_controller, transfer_update (\<lambda>_. Some (controllers s)), updateUploadButton,
      toast (Text ''Preparation du telechargement {}'' [Str (basename (path e))]) True] s"

definition download :: "entry \<Rightarrow> atlas_handler" where
  "download e = Act (\<lambda>s.
     case session s of
       None \<Rightarrow> (s, Done)
     | Some d \<Rightarrow>
         if upload s \<noteq> None
         then (toast (caption ''Attendez la fin de l envoi ou annulez-le avant de telecharger.'') False s, Done)
         else if transfer s \<noteq> None
         then (toast (caption ''Un telechargement est deja en preparation.'') True s, Done)
         else if int (byte_size e) > download_limit d
         then (toast (caption ''Ce fichier depasse la limite web de 256 Mio. Retrouvez-le dans votre dossier synchronise.'') False s, Done)
         else (download_begin e s,
               chunk_loop e (chunk_bytes d) (controllers s)
                 (download_verify e (controllers s) (epoch s))
                 (download_failed (controllers s) (epoch s))
                 (replicate (byte_size e) 0) 0))"

text \<open>\<open>download-cancel\<close>.\<close>

definition download_cancel_click :: "atlas_handler" where
  "download_cancel_click = Act (\<lambda>s. (abort (transfer s) s, Done))"

section \<open>The guarantee\<close>

lemma anonymous_progress [simp]: "anonymous (progress_text offset e)"
  by (simp add: progress_text_def)

lemma page_ok_download_finally [simp]: "page_ok s \<Longrightarrow> page_ok (download_finally c s)"
  by (simp add: download_finally_def page_ok_def)

lemma life_download_finally [simp]: "life (download_finally c s) = life s"
  by (simp add: download_finally_def)

lemma keeps_download_finally: "keeps s t \<Longrightarrow> keeps s (download_finally c t)"
  by (erule keeps.rely_trans) (simp add: keeps_life)

lemma rg_download_failed: "page_ok s \<Longrightarrow> rg keeps page_ok (download_failed c current error) s"
  by (simp add: download_failed_def keeps_download_finally keeps_life)

lemma page_ok_save_file: "page_ok s \<Longrightarrow> page_ok (save_file n d s)"
  by (simp add: save_file_def page_ok_def discreet_def forgotten_def steady_defs listed_def)

lemma life_save_file [simp]: "life (save_file n d s) = life s"
  by (simp add: save_file_def life_def)

lemma rg_download_save: "page_ok s \<Longrightarrow> rg keeps page_ok (download_save e c current data) s"
  by (auto simp: download_save_def keeps_life page_ok_save_file page_ok_named_toast
      life_fields(2) [OF life_save_file])

lemma rg_download_verify: "page_ok s \<Longrightarrow> rg keeps page_ok (download_verify e c current data) s"
  by (auto simp: download_verify_def rg_download_failed
      intro!: rg_requestI rg_download_save split: answer.split)

lemma rg_chunk_loop:
  assumes "page_ok s" and "\<And>d s'. page_ok s' \<Longrightarrow> rg keeps page_ok (ret d) s'"
    and "\<And>x s'. page_ok s' \<Longrightarrow> rg keeps page_ok (throw x) s'"
  shows "rg keeps page_ok (chunk_loop e limit c ret throw data offset) s"
  using assms
proof (induction e limit c ret throw data offset arbitrary: s rule: chunk_loop.induct)
  case (1 e limit c ret throw data offset)
  let ?k = "\<lambda>r. if length (raw_of r) \<noteq> min limit (byte_size e - offset)
            then throw (fail ''invalid_response'')
            else Act (\<lambda>s.
              (toast (progress_text (offset + length (raw_of r)) e) True s,
               if offset + length (raw_of r) < byte_size e \<and> 0 < length (raw_of r)
               then chunk_loop e limit c ret throw
                      (overwrite data offset (raw_of r)) (offset + length (raw_of r))
               else ret (overwrite data offset (raw_of r))))"
  have "rg keeps page_ok (?k r) s'" if "page_ok s'" for r s'
    using that 1 by (auto simp: keeps_life simp del: length_greater_0_conv)
  with 1 show ?case
    by (subst chunk_loop.simps, intro rg_requestI) auto
qed

lemma download_begin_fields [simp]:
  "epoch (download_begin e s) = epoch s" "session (download_begin e s) = session s"
  "aborted (download_begin e s) = aborted s" "controllers (download_begin e s) = Suc (controllers s)"
  "statusPage (download_begin e s) = statusPage s" "editorPage (download_begin e s) = editorPage s"
  "transfer (download_begin e s) = Some (controllers s)" "saved (download_begin e s) = saved s"
  by (simp_all add: download_begin_def new_controller_def)

lemma page_ok_download_begin:
  assumes "page_ok s" "session s \<noteq> None" "upload s = None"
  shows "page_ok (download_begin e s)"
proof -
  have "tidy (doc (download_begin e s))"
    using assms(1) by (simp add: download_begin_def page_ok_def discreet_tidy)
  moreover have "steady ((new_controller s)\<lparr>transfer := x\<rparr>)" for x
    using assms(1,3) by (simp add: steady_defs listed_def page_ok_def new_controller_def)
  then have "steady (download_begin e s)" by (simp add: download_begin_def)
  ultimately show ?thesis using assms(2) by (auto simp: page_ok_def intro: discreet_live)
qed

lemma rg_download: "page_ok s \<Longrightarrow> rg keeps page_ok (download e) s"
  by (auto simp: download_def keeps_life page_ok_download_begin keeps_def
      intro!: rg_chunk_loop rg_download_verify rg_download_failed split: option.split)

lemma rg_download_cancel_click: "page_ok s \<Longrightarrow> rg keeps page_ok download_cancel_click s"
  by (simp add: download_cancel_click_def)

section \<open>What is saved\<close>

text \<open>\<open>A\<close>: the browser's SHA-256 is the function \<open>sha\<close>.\<close>

definition digests :: "(byte list \<Rightarrow> byte list) \<Rightarrow> query \<Rightarrow> answer \<Rightarrow> bool" where
  "digests sha q a \<longleftrightarrow> (\<forall>data d. q = Sha256 data \<longrightarrow> a = Digest d \<longrightarrow> d = sha data)"

text \<open>A segment saves nothing, or the file under its name with the listed size and digest, in a
  page that has a session.\<close>

definition saves :: "(byte list \<Rightarrow> byte list) \<Rightarrow> entry \<Rightarrow> atlas \<Rightarrow> atlas \<times> atlas_handler \<Rightarrow> bool" where
  "saves sha e s x \<longleftrightarrow> saved (fst x) = saved s \<or>
     (\<exists>data. saved (fst x) = saved s @ [(basename (path e), data)] \<and>
        length data = byte_size e \<and> sha256 e = Some (JStr (hex_string (sha data))) \<and>
        session s \<noteq> None)"

lemma saved_download_finally [simp]: "saved (download_finally c s) = saved s"
  by (simp add: download_finally_def)

lemma honours_download_failed: "honours A (saves sha e) (download_failed c current error)"
  by (simp add: download_failed_def saves_def)

lemma honours_download_verify:
  assumes "length data = byte_size e"
  shows "honours (digests sha) (saves sha e) (download_verify e c current data)"
  using assms
  by (auto simp: download_verify_def download_save_def save_file_def saves_def digests_def
      honours_download_failed intro!: honours_requestI split: answer.splits)

lemma honours_chunk_loop:
  assumes "length data = byte_size e" and "offset \<le> byte_size e"
    and "\<And>d. length d = byte_size e \<Longrightarrow> honours A G (ret d)" and "\<And>x. honours A G (throw x)"
    and "\<And>s m p. waiting p \<Longrightarrow> G s (toast m True s, p)" and "\<And>d. waiting (ret d)"
  shows "honours A G (chunk_loop e limit c ret throw data offset)"
  using assms
proof (induction e limit c ret throw data offset rule: chunk_loop.induct)
  case (1 e limit c ret throw data offset)
  have len: "length (overwrite data offset part) = byte_size e"
    if "length part = min limit (byte_size e - offset)" for part
    using that 1 by simp
  have "waiting (chunk_loop e limit c ret throw d i)" for d i
    by (subst chunk_loop.simps) (simp add: request_def)
  then show ?case
    by (subst chunk_loop.simps, intro honours_requestI)
      (use 1 len in \<open>auto simp del: length_greater_0_conv\<close>)
qed

lemma waiting_download_verify [simp]: "waiting (download_verify e c t d)"
  by (simp add: download_verify_def)

lemma honours_download: "honours (digests sha) (saves sha e) (download e)"
proof -
  have "honours (digests sha) (saves sha e) (chunk_loop e n c (download_verify e c t)
      (download_failed c t) (replicate (byte_size e) 0) 0)" for n c t
    by (rule honours_chunk_loop)
      (auto simp: honours_download_verify honours_download_failed saves_def)
  then show ?thesis by (auto simp: download_def saves_def split: option.split)
qed

text \<open>C2. Nothing unverified is handed to the browser: however the server answers, however chunks
  are cut or corrupted and whatever else happens on the page meanwhile, a download saves
  nothing, or bytes of the listed size whose SHA-256 is the listed one, under the file's own
  name and only while there is a session.\<close>

theorem download_saves_verified:
  assumes "local_run (download e) h (Act f)" and "\<forall>(q, a) \<in> set h. digests sha q a"
  shows "saved (fst (f s)) = saved s \<or>
    (\<exists>data. saved (fst (f s)) = saved s @ [(basename (path e), data)] \<and>
       length data = byte_size e \<and> sha256 e = Some (JStr (hex_string (sha data))) \<and>
       session s \<noteq> None)"
  using honours_sound [OF assms(1) honours_download assms(2)] unfolding saves_def .

section \<open>An honest server\<close>

text \<open>The offsets a download asks for, and the answers of a server that holds \<open>content\<close>.\<close>

function chunk_offsets :: "nat \<Rightarrow> nat \<Rightarrow> nat \<Rightarrow> nat list" where
  "chunk_offsets limit sz offset =
     offset # (if offset + limit < sz \<and> 0 < limit then chunk_offsets limit sz (offset + limit) else [])"
  by pat_completeness auto
termination by (relation "measure (\<lambda>(_, sz, offset). sz - offset)") auto

declare chunk_offsets.simps [simp del]

definition chunk_response :: "byte list \<Rightarrow> nat \<Rightarrow> nat \<Rightarrow> response" where
  "chunk_response content limit offset =
     \<lparr>status = 200, chunks = Some [slice offset (offset + limit) content], broken = None,
      parsed = None\<rparr>"

definition chunk_answers :: "byte list \<Rightarrow> nat \<Rightarrow> nat \<Rightarrow> answer list" where
  "chunk_answers content limit offset =
     map (\<lambda>i. Net (Inr (chunk_response content limit i)))
       (chunk_offsets limit (length content) offset)"

lemma request_chunk:
  "request_result (chunk_req e limit c offset) (Inr (chunk_response content limit i)) =
     Inr (Raw (slice i (i + limit) content))"
  by (simp add: request_result_def chunk_req_def get_req_def chunk_response_def bytes_eq ok_def)

lemma overwrite_slice:
  assumes "take offset data = take offset content" and "length data = length content"
    and "offset \<le> length content" and "part = slice offset (offset + limit) content"
  shows "take (offset + length part) (overwrite data offset part) = take (offset + length part) content"
    "length (overwrite data offset part) = length content"
proof -
  have part: "offset + length part \<le> length content" using assms(3,4) by simp
  then have "take (offset + length part) (overwrite data offset part) = take offset content @ part"
    using assms(1,2) by (simp add: take_overwrite)
  also have "\<dots> = take (offset + length part) content"
    using assms(3,4) by (simp add: slice_def take_add min_def)
  finally show "take (offset + length part) (overwrite data offset part) = take (offset + length part) content" .
  show "length (overwrite data offset part) = length content" using part assms(2) by simp
qed

lemma exec_chunk_loop:
  assumes "length content = byte_size e" and "0 < limit" and "offset \<le> byte_size e"
    and "take offset data = take offset content" and "length data = length content"
  shows "\<exists>t. core t = core s \<and>
    exec (chunk_loop e limit c ret throw data offset) s (chunk_answers content limit offset @ rs) =
      (let (s', qs, us) = exec (ret content) t rs in
       (s', map (\<lambda>i. Fetch (chunk_req e limit c i)) (chunk_offsets limit (byte_size e) offset) @ qs, us))"
  using assms
proof (induction e limit c ret throw data offset arbitrary: s rule: chunk_loop.induct)
  case (1 e limit c ret throw data offset)
  define part where "part = slice offset (offset + limit) content"
  define data' where "data' = overwrite data offset part"
  let ?s = "toast (progress_text (offset + length part) e) True s"
  have len: "length part = min limit (byte_size e - offset)" using 1(2) by (simp add: part_def)
  have data': "take (offset + length part) data' = take (offset + length part) content"
    "length data' = length content"
    unfolding data'_def using overwrite_slice [OF _ _ _ part_def, of data] 1(2-) by auto
  show ?case
  proof (cases "offset + limit < byte_size e")
    case True
    then have l: "length part = limit" using len by simp
    have "\<exists>t. core t = core ?s \<and>
      exec (chunk_loop e limit c ret throw data' (offset + limit)) ?s
        (chunk_answers content limit (offset + limit) @ rs) =
      (let (s', qs, us) = exec (ret content) t rs in
       (s', map (\<lambda>i. Fetch (chunk_req e limit c i)) (chunk_offsets limit (byte_size e) (offset + limit)) @ qs, us))"
      using 1(1) [of "Raw part" ?s] True l data' 1(2-) by (simp add: data'_def)
    then show ?thesis
      using True l 1(2,3)
      by (subst chunk_loop.simps)
        (simp add: chunk_answers_def chunk_offsets.simps [of limit "byte_size e" offset]
          exec_request request_chunk flip: part_def data'_def,
         auto simp: split_beta Let_def)
  next
    case False
    then have l: "offset + length part = byte_size e" using len 1(4) by simp
    with data' 1(2) have "data' = content" by simp
    then show ?thesis
      using False l len 1(2,3)
      by (subst chunk_loop.simps)
        (simp add: chunk_answers_def chunk_offsets.simps [of limit "byte_size e" offset]
          exec_request request_chunk flip: part_def data'_def,
         auto simp: split_beta Let_def intro: exI [of _ ?s])
  qed
qed

lemma core_honest: "core t = core s \<Longrightarrow> transfer t = transfer s \<and> aborted t = aborted s \<and>
    epoch t = epoch s \<and> session t = session s \<and> saved t = saved s"
  using core_fields [of t s] by simp

text \<open>The state in which a download can start.\<close>

definition can_download :: "entry \<Rightarrow> atlas \<Rightarrow> bool" where
  "can_download e s \<longleftrightarrow> upload s = None \<and> transfer s = None \<and>
     (case session s of None \<Rightarrow> False
      | Some d \<Rightarrow> int (byte_size e) \<le> download_limit d \<and> 0 < chunk_bytes d)"

text \<open>C21. A download from an honest server succeeds: it asks for consecutive chunks until the file
  is complete, then for the digest and the session, and saves exactly the server's bytes; the
  handler is over and the page is free for another transfer.\<close>

theorem download_honest:
  assumes "can_download e s" and "session s = Some d" and "length content = byte_size e"
    and "sha256 e = Some (JStr (hex_string (sha content)))"
    and "request_result (session_req (Some (controllers s))) n = Inr v"
    and "\<not> aborted s (controllers s)"
  shows "exec (download e) s
      (chunk_answers content (chunk_bytes d) 0 @ [Digest (sha content), Net n]) = (s', qs, left) \<Longrightarrow>
    saved s' = saved s @ [(basename (path e), content)] \<and> transfer s' = None \<and> left = [] \<and>
    qs = map (\<lambda>i. Fetch (chunk_req e (chunk_bytes d) (controllers s) i))
           (chunk_offsets (chunk_bytes d) (byte_size e) 0) @
         [Sha256 content, Fetch (session_req (Some (controllers s)))]"
proof -
  let ?c = "controllers s"
  from assms(1,2) have pos: "0 < chunk_bytes d" and free: "upload s = None" "transfer s = None"
    and lim: "int (byte_size e) \<le> download_limit d" by (simp_all add: can_download_def)
  obtain t where t: "core t = core (download_begin e s)" and run:
    "exec (chunk_loop e (chunk_bytes d) ?c (download_verify e ?c (epoch s)) (download_failed ?c (epoch s))
        (replicate (byte_size e) 0) 0) (download_begin e s)
        (chunk_answers content (chunk_bytes d) 0 @ [Digest (sha content), Net n]) =
      (let (s', qs, us) = exec (download_verify e ?c (epoch s) content) t [Digest (sha content), Net n] in
       (s', map (\<lambda>i. Fetch (chunk_req e (chunk_bytes d) ?c i))
              (chunk_offsets (chunk_bytes d) (byte_size e) 0) @ qs, us))"
    using exec_chunk_loop [OF assms(3) pos, of 0 "replicate (byte_size e) 0" "download_begin e s" ?c
        "download_verify e ?c (epoch s)" "download_failed ?c (epoch s)" "[Digest (sha content), Net n]"] assms(3)
    by auto
  have t': "transfer t = Some ?c" "\<not> aborted t ?c" "epoch t = epoch s" "session t = Some d" "saved t = saved s"
    using core_honest [OF t] assms(2,6) by simp_all
  have "exec (download_verify e ?c (epoch s) content) t [Digest (sha content), Net n] =
      (download_finally ?c (toast (Text ''Telechargement lance {}'' [Str (basename (path e))]) False
         (save_file (basename (path e)) content t)),
       [Sha256 content, Fetch (session_req (Some ?c))], [])"
    using assms(4,5) t' by (simp add: download_verify_def exec_request download_save_def)
  moreover have "transfer (download_finally ?c (toast m b (save_file x y t))) = None"
    and "saved (download_finally ?c (toast m b (save_file x y t))) = saved s @ [(x, y)]" for m b x y
    using t' by (simp_all add: download_finally_def save_file_def)
  moreover assume "exec (download e) s
      (chunk_answers content (chunk_bytes d) 0 @ [Digest (sha content), Net n]) = (s', qs, left)"
  ultimately show ?thesis
    using run lim free assms(2) by (auto simp: download_def Let_def)
qed

definition example_file :: entry where
  "example_file = \<lparr>kind = File, path = js ''docs/a.txt'', size_of = Some 3, revision = Some (JInt 7),
     sha256 = Some (JStr (hex_string [6])), updated_at = None, file_count = None\<rparr>"

theorem download_honest_witness:
  "saved (fst (exec (download example_file) example_page
     [Net (Inr (chunk_response [1, 2, 3] 8388608 0)), Digest [6], Net (Inr (example_response example_session))])) =
   [(js ''a.txt'', [1, 2, 3])]"
proof -
  let ?sha = "\<lambda>x. [sum_list x] :: byte list"
  let ?n = "Inr (example_response example_session)"
  have "request_result (session_req (Some 0)) ?n = Inr (Data example_session)"
    by (simp add: request_example_response session_req_def get_req_def)
  moreover have "byte_size example_file = 3" "sha256 example_file = Some (JStr (hex_string [6]))"
    by (simp_all add: byte_size_def example_file_def)
  moreover have "basename (path example_file) = js ''a.txt''"
    by (simp add: example_file_def) code_simp
  moreover have "chunk_answers [1, 2, 3] 8388608 0 = [Net (Inr (chunk_response [1, 2, 3] 8388608 0))]"
    by (simp add: chunk_answers_def chunk_offsets.simps)
  ultimately show ?thesis
    using download_honest [of example_file example_page _ "[1, 2, 3]" ?sha ?n]
    by (cases "exec (download example_file) example_page
      [Net (Inr (chunk_response [1, 2, 3] 8388608 0)), Digest [6], Net ?n]")
      (auto simp: can_download_def)
qed

text \<open>The slot of the controller is free in a state.\<close>

definition released :: "nat \<Rightarrow> atlas \<Rightarrow> atlas \<times> atlas_handler \<Rightarrow> bool" where
  "released c s x \<longleftrightarrow> (snd x = Done \<longrightarrow> transfer (fst x) \<noteq> Some c)"

lemma honours_released:
  assumes "length data = byte_size e" and "offset \<le> byte_size e"
  shows "honours (\<lambda>_ _. True) (released c) (chunk_loop e limit c (download_verify e c t)
    (download_failed c t) data offset)"
proof -
  have fin: "transfer (download_finally c s) \<noteq> Some c" for s
    by (simp add: download_finally_def)
  have failed: "honours (\<lambda>_ _. True) (released c) (download_failed c t x)" for x
    by (simp add: download_failed_def released_def fin)
  have "honours (\<lambda>_ _. True) (released c) (download_verify e c t d)" for d
    by (auto simp: download_verify_def download_save_def released_def fin failed
        intro!: honours_requestI split: answer.split)
  then show ?thesis
    using assms failed by (intro honours_chunk_loop) (auto simp: released_def)
qed

text \<open>C26. A download never keeps the transfer slot: whatever the answers and the interference, the
  segment that ends the handler leaves the slot free of its controller, so that later
  downloads and uploads are not refused because of it.\<close>

theorem download_releases_slot:
  assumes "local_run (chunk_loop e limit c (download_verify e c t) (download_failed c t)
      (replicate (byte_size e) 0) 0) h (Act f)"
    and "snd (f s) = Done"
  shows "transfer (fst (f s)) \<noteq> Some c"
  using honours_sound [OF assms(1) honours_released, of s] assms(2) by (simp add: released_def)

theorem download_releases_slot_witness:
  "\<exists>f. local_run (chunk_loop example_file 8 0 (download_verify example_file 0 0) (download_failed 0 0)
      (replicate (byte_size example_file) 0) 0)
      [(Fetch (chunk_req example_file 8 0 0), Net (Inl AbortError))] (Act f) \<and>
    transfer (fst (f (example_page\<lparr>transfer := Some 0\<rparr>))) \<noteq> Some 0"
proof -
  let ?p = "chunk_loop example_file 8 0 (download_verify example_file 0 0) (download_failed 0 0)
      (replicate (byte_size example_file) 0) 0"
  have "request_result (chunk_req example_file 8 0 0) (Inl AbortError) = Inl AbortError"
    by (simp add: request_result_def)
  then have "local_run ?p [(Fetch (chunk_req example_file 8 0 0), Net (Inl AbortError))]
      (download_failed 0 0 AbortError)"
    by (subst chunk_loop.simps) (erule local_run_request_failsI, rule local_run.here)
  moreover obtain f where f: "download_failed 0 0 AbortError = Act f" "\<And>s. snd (f s) = Done"
    by (simp add: download_failed_def)
  ultimately have run: "local_run ?p [(Fetch (chunk_req example_file 8 0 0), Net (Inl AbortError))] (Act f)"
    by simp
  show ?thesis using run download_releases_slot [OF run f(2)] by blast
qed

text \<open>The exchange of the example download up to the segment that saves.\<close>

lemma example_download:
  "local_run (download example_file)
     [(Fetch (chunk_req example_file 8388608 0 0), Net (Inr (chunk_response [1, 2, 3] 8388608 0))),
      (Sha256 [1, 2, 3], Digest [6]),
      (Fetch (session_req (Some 0)), Net (Inr (example_response example_session)))]
     (download_save example_file 0 0 [1, 2, 3])"
proof -
  have sz: "byte_size example_file = 3" by (simp add: byte_size_def example_file_def)
  have slice: "slice 0 8388608 [1, 2, 3] = ([1, 2, 3] :: byte list)"
    "overwrite (replicate 3 0) 0 [1, 2, 3] = ([1, 2, 3] :: byte list)"
    by (simp_all add: slice_def overwrite_def)
  have session: "request_result (session_req (Some 0)) (Inr (example_response example_session)) =
      Inr (Data example_session)"
    by (simp add: request_example_response session_req_def get_req_def)
  have "local_run (download_verify example_file 0 0 [1, 2, 3])
     [(Sha256 [1, 2, 3], Digest [6]),
      (Fetch (session_req (Some 0)), Net (Inr (example_response example_session)))]
     (download_save example_file 0 0 [1, 2, 3])"
    unfolding download_verify_def
    by (rule local_run_AwaitI, simp add: example_file_def)
      (rule local_run_requestI [OF session], rule local_run.here)
  then have "local_run (chunk_loop example_file 8388608 0 (download_verify example_file 0 0)
      (download_failed 0 0) (replicate (byte_size example_file) 0) 0)
     [(Fetch (chunk_req example_file 8388608 0 0), Net (Inr (chunk_response [1, 2, 3] 8388608 0))),
      (Sha256 [1, 2, 3], Digest [6]),
      (Fetch (session_req (Some 0)), Net (Inr (example_response example_session)))]
     (download_save example_file 0 0 [1, 2, 3])"
    by (subst chunk_loop.simps)
      (rule local_run_requestI [OF request_chunk], simp add: sz slice, rule local_run_ActI, simp add: sz slice)
  then show ?thesis
    unfolding download_def by (intro local_run_ActI [of _ example_page]) (simp add: sz)
qed

theorem download_saves_verified_witness:
  "\<exists>f data. local_run (download example_file)
     [(Fetch (chunk_req example_file 8388608 0 0), Net (Inr (chunk_response [1, 2, 3] 8388608 0))),
      (Sha256 [1, 2, 3], Digest [6]),
      (Fetch (session_req (Some 0)), Net (Inr (example_response example_session)))] (Act f) \<and>
     saved (fst (f example_page)) = [(basename (path example_file), data)] \<and>
     length data = byte_size example_file \<and> sha256 example_file = Some (JStr (hex_string [sum_list data]))"
proof -
  obtain f where f: "download_save example_file 0 0 [1, 2, 3] = Act f"
    "saved (fst (f example_page)) \<noteq> saved example_page"
    by (simp add: download_save_def save_file_def)
  note run = example_download [unfolded f(1)]
  show ?thesis
    using run f(2) download_saves_verified [OF run, of "\<lambda>x. [sum_list x]" example_page]
    by (auto simp: digests_def)
qed

end
