(* ===== verification/Access.thy ===== *)
theory Access
  imports Upload Download
begin

text \<open>
  Access to the files (web/atlas.js): restoring a session, verifying the device through the
  local client, logging out, and the events that lock the page.
\<close>

section \<open>Restoring a session\<close>

text \<open>\<open>folder\<close> is the \<open>directory\<close> parameter of the page's address.\<close>

definition restore :: "jstring \<Rightarrow> atlas_handler" where
  "restore folder = Act (\<lambda>s.
     (s, request (session_req None)
       (\<lambda>r. Act (\<lambda>t.
          if epoch t \<noteq> epoch s then (t, Done)
          else case acceptSession (data_of r) t of
            Inl _ \<Rightarrow> (t, Done)
          | Inr u \<Rightarrow>
              (u, if editorPage u then Await OpenEditor (\<lambda>_. Done)
                  else if \<not> statusPage u then load ((currentView u)\<lparr>v_directory := folder\<rparr>) Done
                  else Done)))
       (\<lambda>_. Done)))"

section \<open>Verifying the device\<close>

text \<open>
  \<open>denied()\<close>. A browser without \<open>navigator.permissions\<close> behaves as one whose queries throw.
\<close>

definition denied :: "(bool \<Rightarrow> atlas_handler) \<Rightarrow> atlas_handler" where
  "denied ret =
     Await (Permission ''loopback-network'') (\<lambda>a.
       if a = PermissionState (Some True) then ret True
       else Await (Permission ''local-network-access'') (\<lambda>b.
         ret (b = PermissionState (Some True))))"

definition verify_begin :: "atlas \<Rightarrow> atlas" where
  "verify_begin s = seq
     [new_controller, verification_update (\<lambda>_. Some (controllers s)),
      set_disabled ''file-verify'' True, set_text ''file-verify'' (caption ''Verification...''),
      set_hidden ''file-cancel'' False, set_text ''access-message'' (caption ''Verification en cours...''),
      verifyTimer_update (\<lambda>_. Some (epoch s))] s"

text \<open>\<open>finally\<close>.\<close>

definition verify_finally :: "nat \<Rightarrow> nat \<Rightarrow> atlas \<Rightarrow> atlas" where
  "verify_finally controller current s =
     (let s1 = s\<lparr>verifyTimer := None\<rparr>;
          s2 = (if verification s1 = Some controller then s1\<lparr>verification := None\<rparr> else s1) in
      if current = epoch s2
      then seq [set_disabled ''file-verify'' False, set_hidden ''file-cancel'' True,
                set_text ''file-verify'' (caption ''Reessayer'')] s2
      else s2)"

definition verify_end :: "nat \<Rightarrow> nat \<Rightarrow> atlas_handler" where
  "verify_end controller current = Act (\<lambda>s. (verify_finally controller current s, Done))"

definition access_failed :: "nat \<Rightarrow> nat \<Rightarrow> bool \<Rightarrow> exn \<Rightarrow> bool \<Rightarrow> atlas_handler" where
  "access_failed controller current local error refused = Act (\<lambda>s.
     (verify_finally controller current
        (if refused then access ''denied'' no_text s
         else if has_code error ''files_read_disabled'' then access ''disabled'' no_text s
         else if has_code error ''local_rejected'' then access ''rejected'' no_text s
         else if local then access ''unavailable'' no_text s
         else access ''initial'' (caption
           (if code_in error [''challenge_limit'', ''status_busy'']
            then ''Trop de verifications rapprochees. Attendez une minute avant de reessayer.''
            else ''Autorisation non confirmee par le serveur. Verifiez la connexion, l approbation de l appareil et l activation de la lecture web.'')) s),
      Done))"

text \<open>
  \<open>catch\<close>: within an epoch only the cancel button aborts the controller, so \<open>userCancelled\<close> is
  that the controller is aborted. \<open>local\<close> tells the stage.
\<close>

definition logout_req :: req where
  "logout_req = post_req (Url (js ''/v1/web/files/logout'') []) None"

definition verify_failed :: "nat \<Rightarrow> nat \<Rightarrow> bool \<Rightarrow> exn \<Rightarrow> atlas_handler" where
  "verify_failed controller current local error = Act (\<lambda>s.
     if current \<noteq> epoch s then (verify_finally controller current s, Done)
     else if aborted s controller
     then (access ''initial'' (caption ''Verification annulee.'') s,
           request logout_req (\<lambda>_. verify_end controller current) (\<lambda>_. verify_end controller current))
     else if local then (s, denied (access_failed controller current True error))
     else (s, access_failed controller current False error False))"

definition read_proof :: "nat \<Rightarrow> json \<Rightarrow> req" where
  "read_proof controller challenge =
     (get_req (Url (js ''/v1/web/files/challenges/'' @ challenge_id challenge) []) (Some controller))
       \<lparr>req_timeout := 3000\<rparr>"

definition read_error :: "json option \<Rightarrow> exn \<Rightarrow> exn" where
  "read_error localError error =
     (if has_code error ''pending'' \<and> is_code localError ''files_read_disabled''
      then fail ''files_read_disabled''
      else if has_code error ''pending'' \<and> is_code localError ''invalid_challenge''
      then fail ''local_rejected''
      else error)"

definition verify_accept :: "nat \<Rightarrow> nat \<Rightarrow> json \<Rightarrow> atlas_handler" where
  "verify_accept controller current v = Act (\<lambda>s.
     if current \<noteq> epoch s \<or> aborted s controller then (verify_finally controller current s, Done)
     else case acceptSession v s of
       Inl e \<Rightarrow> (s, verify_failed controller current False e)
     | Inr t \<Rightarrow>
         (t, if editorPage t
             then Await OpenEditor (\<lambda>a. if a = Settled True then verify_end controller current
                    else verify_failed controller current False OtherError)
             else load_current (verify_end controller current)))"

definition verify_confirm :: "nat \<Rightarrow> nat \<Rightarrow> json \<Rightarrow> json option \<Rightarrow> atlas_handler" where
  "verify_confirm controller current challenge localError = Act (\<lambda>s.
     (s, if aborted s controller then verify_failed controller current False (fail ''cancelled'')
         else request (read_proof controller challenge)
           (\<lambda>r. verify_accept controller current (data_of r))
           (\<lambda>e. verify_failed controller current False (read_error localError e))))"

definition verify_challenge :: "nat \<Rightarrow> nat \<Rightarrow> json \<Rightarrow> atlas_handler" where
  "verify_challenge controller current challenge =
     (if challenge = JNull then verify_failed controller current False OtherError
      else if \<not> valid_challenge challenge
      then verify_failed controller current False (fail ''invalid_response'')
      else Act (\<lambda>s.
        (set_text ''access-message'' (caption ''Verification de l autorisation de lecture...'') s,
         request (local_req (Some controller) 10000 (ticket_header challenge))
           (\<lambda>l. verify_confirm controller current challenge (local_error l))
           (\<lambda>_. verify_confirm controller current challenge None))))"

text \<open>The answer of the probe: the bridge asks for a challenge.\<close>

definition probe_error :: "reply \<Rightarrow> exn option" where
  "probe_error r =
     (case r of
        Local resp d \<Rightarrow>
          if status resp \<noteq> 401 then Some (fail ''local_unverified'')
          else if d = JNull then Some OtherError
          else if prop_of d ''error'' \<noteq> Some (JStr (js ''challenge_required'')) then Some (fail ''local_unverified'')
          else None
      | _ \<Rightarrow> Some OtherError)"

definition verify_server :: "nat \<Rightarrow> nat \<Rightarrow> atlas_handler" where
  "verify_server controller current =
     post (Url (js ''/v1/web/files/session'') []) (Some controller)
       (\<lambda>_. post (Url (js ''/v1/web/files/challenges'') []) (Some controller)
          (\<lambda>r. verify_challenge controller current (data_of r))
          (verify_failed controller current False))
       (verify_failed controller current False)"

definition verify_click :: "atlas_handler" where
  "verify_click = Act (\<lambda>s.
     if verification s \<noteq> None then (s, Done)
     else
       (verify_begin s,
        request (local_req (Some (controllers s)) 30000 [])
          (\<lambda>r. case probe_error r of
             Some e \<Rightarrow> verify_failed (controllers s) (epoch s) True e
           | None \<Rightarrow> Act (\<lambda>t. (t\<lparr>verifyTimer := None\<rparr>, verify_server (controllers s) (epoch s))))
          (verify_failed (controllers s) (epoch s) True)))"

text \<open>\<open>file-cancel\<close>, and the notice after three seconds.\<close>

definition verify_cancel_click :: "atlas_handler" where
  "verify_cancel_click = Act (\<lambda>s. (abort (verification s) s, Done))"

definition verify_timer_fires :: "nat \<Rightarrow> atlas_handler" where
  "verify_timer_fires current = Act (\<lambda>s.
     let s1 = s\<lparr>verifyTimer := None\<rparr> in
     (if current = epoch s1
      then set_text ''access-message'' (caption ''En attente de l acces local. Verifiez les demandes d autorisation du navigateur.'') s1
      else s1, Done))"

section \<open>Leaving\<close>

definition logout_click :: "atlas_handler" where
  "logout_click = Act (\<lambda>s.
     (set_disabled ''file-verify'' True (lock ''initial'' (caption ''Deconnexion en cours...'') s),
      request logout_req
        (\<lambda>_. Act (\<lambda>s. (seq [logouts_update Suc, access ''initial'' (caption ''Vous etes deconnecte.''),
             set_disabled ''file-verify'' False] s, Done)))
        (\<lambda>_. Act (\<lambda>s. (seq [access ''initial'' (caption ''Deconnexion serveur non confirmee. Reessayez lorsque la connexion est retablie.''),
             set_hidden ''logout'' False, set_disabled ''file-verify'' False] s, Done)))))"

text \<open>Another tab logs out; the session's timer fires; the page is hidden.\<close>

definition logout_message :: "atlas_handler" where
  "logout_message = Act (\<lambda>s. (lock ''expired'' no_text s, Done))"

definition expiry_fires :: "atlas_handler" where
  "expiry_fires = Act (\<lambda>s. (lock ''expired'' no_text s, Done))"

definition pagehide :: "atlas_handler" where
  "pagehide = Act (\<lambda>s. (lock ''initial'' no_text s, Done))"

definition page_visible :: "atlas_handler" where
  "page_visible = Act (\<lambda>s.
     (case session s of
        Some d \<Rightarrow> if expires_at d * 1000 \<le> now s then lock ''expired'' no_text s else s
      | None \<Rightarrow> s, Done))"

definition countdown_fires :: "atlas_handler" where
  "countdown_fires = Act (\<lambda>s.
     (case session s of Some d \<Rightarrow> tick (expires_at d) s | None \<Rightarrow> s, Done))"

section \<open>The guarantee\<close>

lemma page_ok_access [simp]:
  "page_ok s \<Longrightarrow> anonymous m \<Longrightarrow> page_ok (access st m s)"
  "page_ok s \<Longrightarrow> page_ok (set_disabled ''file-verify'' b s)"
  "page_ok s \<Longrightarrow> page_ok (set_hidden ''file-cancel'' b s)"
  "page_ok s \<Longrightarrow> page_ok (set_hidden ''logout'' b s)"
  "page_ok (s\<lparr>verifyTimer := v\<rparr>) = page_ok s" "page_ok (s\<lparr>verification := c\<rparr>) = page_ok s"
  "page_ok (new_controller s) = page_ok s"
  by (auto simp: page_ok_def)

lemma safe_load: "safe ret \<Longrightarrow> view_ok v \<Longrightarrow> safe (load v ret)"
  by (auto simp: safe_def intro: rg_load)

lemma acceptSession_segment:
  "acceptSession v s = Inr t \<Longrightarrow> page_ok s \<Longrightarrow> keeps s t \<and> page_ok t"
  by (simp add: keeps_acceptSession page_ok_acceptSession)

lemma safe_restore: "safe (restore folder)"
proof -
  have "view_ok ((currentView u)\<lparr>v_directory := folder\<rparr>)"
    if "acceptSession v s = Inr u" "page_ok s" for u v s
    using view_ok_current [OF page_ok_acceptSession [OF that]] by (simp add: view_ok_def)
  then show ?thesis
    unfolding restore_def
    by (intro safe_ActI)
      (auto intro!: safe_requestI safe_ActI safe_AwaitI safe_load dest: acceptSession_segment split: sum.split)
qed

lemma verify_finally_frames [simp]:
  "page_ok s \<Longrightarrow> page_ok (verify_finally c t s)" "life (verify_finally c t s) = life s"
  by (simp_all add: verify_finally_def Let_def)

lemma safe_verify_end: "safe (verify_end c t)"
  unfolding verify_end_def by (rule safe_ActI) (simp add: keeps_life)

lemma safe_access_failed: "safe (access_failed c t b e r)"
  unfolding access_failed_def by (rule safe_ActI) (simp add: keeps_life)

lemma safe_verify_failed: "safe (verify_failed c t b e)"
  unfolding verify_failed_def denied_def
  by (rule safe_ActI)
    (auto simp: keeps_life safe_access_failed safe_verify_end intro!: safe_AwaitI safe_requestI)

lemma safe_verify_accept: "safe (verify_accept c t v)"
  unfolding verify_accept_def
  by (rule safe_ActI)
    (auto simp: keeps_life safe_verify_failed safe_verify_end dest: acceptSession_segment
      intro!: safe_AwaitI safe_load_current split: sum.split)

lemma safe_verify_challenge: "safe (verify_challenge c t ch)"
  unfolding verify_challenge_def verify_confirm_def
  by (auto simp: keeps_life safe_verify_failed safe_verify_accept intro!: safe_ActI safe_requestI)

lemma safe_verify_server: "safe (verify_server c t)"
  unfolding verify_server_def post_def
  by (intro safe_requestI safe_verify_challenge safe_verify_failed)

lemma safe_verify_click: "safe verify_click"
  unfolding verify_click_def
proof (rule safe_ActI, goal_cases)
  case (1 s)
  have "keeps s (verify_begin s)" by (simp add: keeps_def verify_begin_def new_controller_def)
  moreover have "page_ok (verify_begin s)" using 1 by (simp add: verify_begin_def)
  ultimately show ?case using 1
    by (auto simp: keeps_life safe_verify_failed safe_verify_server intro!: safe_requestI safe_ActI
        split: option.split)
qed

lemma safe_verify_cancel_click: "safe verify_cancel_click"
  unfolding verify_cancel_click_def by (rule safe_ActI) simp

lemma safe_verify_timer_fires: "safe (verify_timer_fires t)"
  unfolding verify_timer_fires_def by (rule safe_ActI) (simp add: Let_def keeps_life)

lemma safe_logout_click: "safe logout_click"
proof -
  have keeps: "keeps s (set_disabled i b (lock st m s))" for i b st m s
    using keeps.rely_trans [OF keeps_lock keeps_life] by simp
  have "page_ok (logouts_update f s) = page_ok s" "life (logouts_update f s) = life s" for f s
    by (simp_all add: page_ok_def discreet_def forgotten_def steady_defs listed_def life_def)
  then show ?thesis
    unfolding logout_click_def
    by (intro safe_ActI) (auto simp: keeps keeps_life intro!: safe_requestI safe_ActI)
qed

lemma safe_leaving: "safe logout_message" "safe expiry_fires" "safe pagehide" "safe page_visible"
  unfolding logout_message_def expiry_fires_def pagehide_def page_visible_def
  by (rule safe_ActI; simp split: option.split)+

lemma safe_countdown_fires: "safe countdown_fires"
  unfolding countdown_fires_def
  by (rule safe_ActI) (simp add: tick_def keeps_life split: option.split)

section \<open>Sessions come from the server's confirmation\<close>

text \<open>A segment opens a session only with a value that the server returned for a challenge which
  it had issued.\<close>

definition opens_confirmed :: "(query \<times> answer) list \<Rightarrow> atlas \<Rightarrow> atlas \<times> atlas_handler \<Rightarrow> bool" where
  "opens_confirmed h s x \<longleftrightarrow> session (fst x) = session s \<or> session (fst x) = None \<or>
     (\<exists>c challenge n v. (Fetch (read_proof c challenge), Net n) \<in> set h \<and>
        request_result (read_proof c challenge) n = Inr (Data v) \<and> valid_challenge challenge \<and>
        valid_session v \<and> session (fst x) = Some (session_of v) \<and> now s < expires_at (session_of v) * 1000)"

lemma opens_lock [simp]: "opens_confirmed h s (lock st m s, p)"
  by (simp add: opens_confirmed_def)

lemma opens_same: "session t = session s \<Longrightarrow> opens_confirmed h s (t, p)"
  by (simp add: opens_confirmed_def)

lemma session_verify_finally [simp]: "session (verify_finally c t s) = session s"
  using life_fields(2) [of "verify_finally c t s" s] by simp

lemma traced_load:
  assumes "\<And>h. traced opens_confirmed ret h"
  shows "traced opens_confirmed (load v ret) h"
proof -
  have fin: "session (load_finally c s) = session s" "session (load_error s) = session s" for c s
    using life_fields(2) [of "load_finally c s" s] life_fields(2) [of "load_error s" s] by simp_all
  have failed: "traced opens_confirmed (load_failed c t e ret) h" for c t e h
    by (simp add: load_failed_def assms fin opens_confirmed_def)
  have details: "traced opens_confirmed (refresh_details t e b) h" for t e b h
    unfolding refresh_details_def directoryInfo_def
    by (auto intro!: traced_requestI simp: refresh_done_def refresh_failed_def opens_confirmed_def)
  have "traced opens_confirmed (load_done v c t w ret) h" for c t w h
    by (auto simp: load_done_def failed details assms Let_def fin opens_same split: option.split)
  then show ?thesis
    by (auto simp: load_def load_waiting_def assms failed opens_same intro!: traced_requestI)
qed

lemma traced_verify_failed: "traced opens_confirmed (verify_failed c t b e) h"
  unfolding verify_failed_def denied_def access_failed_def verify_end_def
  by (auto intro!: traced_requestI simp: opens_same)

lemma traced_verify_accept:
  assumes "(Fetch (read_proof c ch), Net n) \<in> set h" "request_result (read_proof c ch) n = Inr v"
    and "valid_challenge ch"
  shows "traced opens_confirmed (verify_accept c t (data_of v)) h"
proof -
  obtain d where v: "v = Data d"
    using request_result_data [OF assms(2)] by (auto simp: read_proof_def get_req_def)
  have "traced opens_confirmed (load_current (verify_end c t)) h" for h
    by (auto simp: load_current_def verify_end_def opens_same intro!: traced_load)
  moreover have "opens_confirmed h s (u, p)" if "acceptSession d s = Inr u" for s u p
  proof -
    have "session u = Some (session_of d)" using acceptSession_fields(2) [OF that] .
    moreover have "valid_session d" "now s < expires_at (session_of d) * 1000"
      using that by (auto simp: acceptSession_def split: if_splits)
    ultimately show ?thesis using assms unfolding opens_confirmed_def v by auto
  qed
  ultimately show ?thesis
    unfolding verify_accept_def v
    by (auto simp: opens_same traced_verify_failed verify_end_def split: sum.split)
qed

lemma traced_verify_click: "traced opens_confirmed verify_click []"
proof -
  have confirm: "traced opens_confirmed (verify_confirm c t ch le) h" if "valid_challenge ch" for c t ch le h
    unfolding verify_confirm_def using that
    by (auto intro!: traced_requestI traced_verify_failed traced_verify_accept simp: opens_same)
  have "traced opens_confirmed (verify_challenge c t ch) h" for c t ch h
    unfolding verify_challenge_def
    by (auto intro!: traced_requestI traced_verify_failed confirm simp: opens_same)
  then have "traced opens_confirmed (verify_server c t) h" for c t h
    unfolding verify_server_def post_def by (auto intro!: traced_requestI traced_verify_failed)
  then show ?thesis
    unfolding verify_click_def
    by (auto intro!: traced_requestI simp: opens_same traced_verify_failed verify_begin_def new_controller_def
        split: option.split)
qed

text \<open>C4. Verification opens a session only on the server's word: whatever the local client, the
  network and the rest of the page do, a segment of the verification handler that opens a
  session does so with a well-formed, unexpired session that the server returned as the result
  of a challenge.\<close>

theorem verification_needs_server:
  assumes "local_run verify_click h (Act f)" and "session (fst (f s)) \<noteq> session s"
    and "session (fst (f s)) \<noteq> None"
  shows "\<exists>c challenge n v. (Fetch (read_proof c challenge), Net n) \<in> set h \<and>
    request_result (read_proof c challenge) n = Inr (Data v) \<and> valid_challenge challenge \<and>
    valid_session v \<and> session (fst (f s)) = Some (session_of v) \<and>
    now s < expires_at (session_of v) * 1000"
  using traced_sound [OF assms(1) traced_verify_click, of s] assms(2,3)
  unfolding opens_confirmed_def by blast

text \<open>A complete verification: probe, session, challenge, local proof, confirmation.\<close>

definition example_verification :: "(query \<times> answer) list" where
  "example_verification =
     [(Fetch (local_req (Some 0) 30000 []), Net (Inr example_probe)),
      (Fetch (post_req (Url (js ''/v1/web/files/session'') []) (Some 0)), Net (Inr (example_response JNull))),
      (Fetch (post_req (Url (js ''/v1/web/files/challenges'') []) (Some 0)),
       Net (Inr (example_response example_challenge))),
      (Fetch (local_req (Some 0) 10000 (ticket_header example_challenge)), Net (Inl OtherError)),
      (Fetch (read_proof 0 example_challenge), Net (Inr (example_response example_session)))]"

lemma example_verification_run:
  "local_run verify_click example_verification (verify_accept 0 0 example_session)"
proof -
  have post: "request_result (post_req u sg) (Inr (example_response v)) = Inr (Data v)"
    "request_result (read_proof c ch) (Inr (example_response v)) = Inr (Data v)" for u sg v c ch
    by (rule request_example_response; simp add: post_req_def read_proof_def get_req_def)+
  have probe: "request_result (local_req sg t hs) (Inr example_probe) =
      Inr (Local example_probe (JObj [(js ''error'', JStr (js ''challenge_required''))]))" for sg t hs
    by (simp add: request_result_def local_req_def get_req_def example_probe_def bytes_eq)
  have lost: "request_result q (Inl OtherError) = Inl OtherError" for q by (simp add: request_result_def)
  have "local_run (verify_confirm 0 0 example_challenge None)
      [(Fetch (read_proof 0 example_challenge), Net (Inr (example_response example_session)))]
      (verify_accept 0 0 example_session)"
    unfolding verify_confirm_def
    by (rule local_run_ActI [of _ "first_page False False 0 False"], simp)
      (rule local_run_requestI [OF post(2)], simp, rule local_run.here)
  then have "local_run (verify_challenge 0 0 example_challenge) (drop 3 example_verification)
      (verify_accept 0 0 example_session)"
    unfolding verify_challenge_def example_verification_def
    by (simp add: valid_example_challenge)
      (rule local_run_ActI [of _ "first_page False False 0 False"], simp, rule local_run_request_failsI [OF lost])
  then have "local_run (verify_server 0 0) (drop 1 example_verification) (verify_accept 0 0 example_session)"
    unfolding verify_server_def post_def example_verification_def
    by (simp, intro local_run_requestI [OF post(1)], simp)
  then show ?thesis
    unfolding verify_click_def example_verification_def
    by (intro local_run_ActI [of _ "first_page False False 0 False"], simp)
      (rule local_run_requestI [OF probe], simp add: probe_error_def example_probe_def,
       rule local_run_ActI [of _ "first_page False False 0 False"], simp)
qed

theorem verification_needs_server_witness:
  "\<exists>f c challenge n v. local_run verify_click example_verification (Act f) \<and>
     (Fetch (read_proof c challenge), Net n) \<in> set example_verification \<and>
     session (fst (f (first_page False False 1000000 False))) = Some (session_of v)"
proof -
  let ?s = "first_page False False 1000000 False"
  obtain f where f: "verify_accept 0 0 example_session = Act f" "fst (f ?s) = example_page"
    using example_page_accepted by (simp add: verify_accept_def)
  note run = example_verification_run [unfolded f(1)]
  show ?thesis
    using run verification_needs_server [OF run, of ?s] f(2) by fastforce
qed

text \<open>C25. A session is accepted only if it is well formed and not yet expired; it is then shown and
  its lock is armed at its expiry or after thirty minutes, whichever comes first. Otherwise the
  page is left as it was and the error tells why.\<close>

theorem acceptSession_spec:
  "case acceptSession v s of
     Inl e \<Rightarrow>
       (v = JNull \<and> e = OtherError) \<or>
       (v \<noteq> JNull \<and> \<not> valid_session v \<and> e = fail ''invalid_response'') \<or>
       (valid_session v \<and> expires_at (session_of v) * 1000 \<le> now s \<and> e = fail ''session_expired'')
   | Inr t \<Rightarrow>
       valid_session v \<and> now s < expires_at (session_of v) * 1000 \<and> session t = Some (session_of v) \<and>
       expiry t = Some (min (now s + 1800000) (expires_at (session_of v) * 1000)) \<and>
       epoch t = epoch s \<and> listed t = listed s \<and>
       (\<not> editorPage s \<longrightarrow> \<not> statusPage s \<longrightarrow>
          \<not> hidden_of (doc t) ''explorer'' \<and> hidden_of (doc t) ''access'' \<and> \<not> disabled_of (doc t) ''search'')"
proof (cases "v \<noteq> JNull \<and> valid_session v \<and> now s < expires_at (session_of v) * 1000")
  case True
  then have "\<not> min 1800000 (expires_at (session_of v) * 1000 - now s) \<le> 0" by (auto simp: min_def)
  with True show ?thesis
    by (simp add: acceptSession_def show_session_def tick_def min_def)
      (simp add: listed_def)
next
  case False
  then show ?thesis by (auto simp: acceptSession_def)
qed

theorem acceptSession_spec_witness:
  "\<exists>t. acceptSession example_session (first_page False False 1000000 False) = Inr t \<and>
     expiry t = Some 2000000 \<and> \<not> hidden_of (doc t) ''explorer''"
  using acceptSession_spec [of example_session "first_page False False 1000000 False"]
  by (simp add: example_page_accepted)

end
