(* ===== verification/Folders.thy ===== *)
theory Folders
  imports Upload
begin

text \<open>
  Renaming and deleting folders (\<open>editDirectory\<close>, \<open>closeFolderDialog\<close> and the submission of the
  folder form in web/atlas.js). An operation is an object that the dialog's handlers share; its
  entry and action never change, its snapshot and \<open>sent\<close> flag do.
\<close>

section \<open>The dialog\<close>

definition set_operation :: "nat \<Rightarrow> (operation \<Rightarrow> operation) \<Rightarrow> atlas \<Rightarrow> atlas" where
  "set_operation op f = operations_update (\<lambda>ops. ops(op := f (ops op)))"

definition show_dialog :: "atlas \<Rightarrow> atlas" where
  "show_dialog = doc_update (dialog_open_update (\<lambda>_. True))"

definition closeFolderDialog :: "atlas_handler" where
  "closeFolderDialog = Act (\<lambda>s.
     case folderAction s of
       Some op \<Rightarrow>
         if op_sent (operations s op) then (s, Done)
         else (seq [abort (folderRequest s), folderAction_update (\<lambda>_. None), close_dialog] s, Done)
     | None \<Rightarrow> (seq [abort (folderRequest s), folderAction_update (\<lambda>_. None), close_dialog] s, Done))"

definition folder_begin :: "entry \<Rightarrow> bool \<Rightarrow> atlas \<Rightarrow> atlas" where
  "folder_begin e rename s = seq
     [new_controller, folderRequest_update (\<lambda>_. Some (controllers s)),
      set_operation (controllers s) (\<lambda>_. \<lparr>op_entry = e, op_rename = rename, op_snapshot = None,
        op_sent = False\<rparr>),
      folderAction_update (\<lambda>_. Some (controllers s)),
      set_text ''folder-title'' (caption (if rename then ''Renommer le dossier'' else ''Supprimer le dossier'')),
      set_text ''folder-description'' (Text ''Chargement des proprietes {}'' [Str (path e)]),
      set_hidden ''folder-name-field'' (\<not> rename), set_value ''folder-name'' (basename (path e)),
      set_disabled ''folder-name'' False,
      set_text ''folder-confirm'' (caption (if rename then ''Renommer'' else ''Supprimer'')),
      set_disabled ''folder-confirm'' True, set_disabled ''folder-cancel'' False,
      set_hidden ''folder-error'' True, set_hidden ''folder-help'' True, show_dialog] s"

definition folder_info_failed :: "nat \<Rightarrow> nat \<Rightarrow> exn \<Rightarrow> atlas \<Rightarrow> atlas" where
  "folder_info_failed op current error s =
     (if current \<noteq> epoch s \<or> folderAction s \<noteq> Some op \<or> aborted s op then s
      else if has_code error ''session_expired'' then lock ''expired'' no_text s
      else seq [set_text ''folder-error'' (caption
             (if has_code error ''directory_too_large''
              then ''La gestion web est limitee a 10 000 fichiers par dossier. Utilisez votre dossier synchronise.''
              else ''Proprietes indisponibles. Fermez cette fenetre, actualisez la liste et reessayez.'')),
           set_hidden ''folder-error'' False] s)"

definition folder_question :: "entry \<Rightarrow> bool \<Rightarrow> int \<Rightarrow> label" where
  "folder_question e rename n = Text
     (if rename then ''Le nouveau nom s appliquera au dossier {} et a ses {} fichiers, sous-dossiers compris.''
      else ''Supprimer {} et ses {} fichiers, sous-dossiers compris ? La suppression sera synchronisee sur les appareils. Les fichiers seront conserves 30 jours dans la corbeille serveur.'')
     [Str (path e), Num n]"

text \<open>The controller and the operation of one dialog are created together and share their number.\<close>

definition folder_info_done :: "entry \<Rightarrow> bool \<Rightarrow> nat \<Rightarrow> nat \<Rightarrow> json \<Rightarrow> atlas \<Rightarrow> atlas" where
  "folder_info_done e rename op current info s =
     (if current \<noteq> epoch s \<or> folderAction s \<noteq> Some op then s
      else let s1 = seq
          [set_operation op (op_snapshot_update (\<lambda>_. prop_of info ''snapshot'')),
           set_text ''folder-description'' (folder_question e rename (int_of (prop_of info ''file_count'')))] s in
        if prop_of info ''snapshot'' = Some JNull
        then folder_info_failed op current (fail ''directory_too_large'') s1
        else set_disabled ''folder-confirm'' False s1)"

definition editDirectory :: "entry \<Rightarrow> bool \<Rightarrow> atlas_handler" where
  "editDirectory e rename = Act (\<lambda>s.
     if session s = None \<or> folderAction s \<noteq> None \<or> upload s \<noteq> None \<or> transfer s \<noteq> None
     then (toast (caption ''Attendez la fin de l operation en cours.'') False s, Done)
     else
       (folder_begin e rename s,
        directoryInfo e (Some (controllers s))
          (\<lambda>info. Act (\<lambda>t. (folder_info_done e rename (controllers s) (epoch s) info t, Done)))
          (\<lambda>error. Act (\<lambda>t. (folder_info_failed (controllers s) (epoch s) error t, Done)))))"

section \<open>Submission\<close>

definition valid_folder_name :: "entry \<Rightarrow> jstring \<Rightarrow> bool" where
  "valid_folder_name e name \<longleftrightarrow>
     name \<noteq> [] \<and> name \<noteq> basename (path e) \<and> slash \<notin> set name \<and> unit_of (CHR 0x5C) \<notin> set name \<and>
     length (utf8 name) \<le> 255 \<and> name \<notin> set reserved_names"

definition folder_url :: "bool \<Rightarrow> url" where
  "folder_url rename = Url (js (''/v1/web/files/directories/'' @ (if rename then ''rename'' else ''delete''))) []"

definition folder_req :: "operation \<Rightarrow> jstring \<Rightarrow> nat \<Rightarrow> req" where
  "folder_req op name controller =
     (get_req (folder_url (op_rename op)) (Some controller))
       \<lparr>req_method := POST, req_limit := 32768, req_headers := json_headers,
        req_body := JsonBody (JObj
          ([(js ''path'', JStr (path (op_entry op)))] @
           (case op_snapshot op of None \<Rightarrow> [] | Some v \<Rightarrow> [(js ''snapshot'', v)]) @
           (if op_rename op then [(js ''name'', JStr name)] else [])))\<rparr>"

definition folder_result_ok :: "json \<Rightarrow> bool" where
  "folder_result_ok v \<longleftrightarrow> is_string (prop_of v ''path'') \<and> isSafeInteger (prop_of v ''file_count'') \<and>
     1 \<le> int_of (prop_of v ''file_count'')"

text \<open>\<open>finally\<close>.\<close>

definition folder_finally :: "nat \<Rightarrow> atlas \<Rightarrow> atlas" where
  "folder_finally op s =
     (if folderAction s = Some op
      then seq [set_operation op (op_sent_update (\<lambda>_. False)), set_disabled ''folder-cancel'' False,
                set_disabled ''folder-name'' False] s
      else s)"

definition folder_message :: "bool \<Rightarrow> exn \<Rightarrow> string" where
  "folder_message sent error =
     (if has_code error ''directory_changed'' then ''Le contenu du dossier a change. Fermez cette fenetre et actualisez la liste avant de reessayer.''
      else if has_code error ''directory_exists'' then ''Ce nom est deja utilise par un dossier ou un fichier. Choisissez un autre nom.''
      else if has_code error ''directory_not_found'' then ''Ce dossier n existe plus. Fermez cette fenetre et actualisez la liste.''
      else if has_code error ''invalid_name'' then ''Le nouveau nom ou les chemins resultants depassent les limites autorisees.''
      else if has_code error ''directory_too_large'' then ''La gestion web est limitee a 10 000 fichiers par dossier.''
      else if has_code error ''files_manage_disabled'' then ''La gestion des dossiers n est pas autorisee sur cet appareil.''
      else if has_code error ''files_read_disabled'' then ''La lecture web doit aussi etre autorisee sur cet appareil.''
      else if has_code error ''local_rejected'' then ''Mettez a jour le client local pour autoriser la gestion des dossiers.''
      else if has_code error ''files_manage_required'' then ''L autorisation de gestion a expire. Reessayez.''
      else if sent then ''Operation non confirmee. Fermez cette fenetre et actualisez la liste pour verifier le resultat.''
      else ''Autorisation non confirmee. Verifiez le client local et reessayez.'')"

definition folder_failed :: "nat \<Rightarrow> nat \<Rightarrow> nat \<Rightarrow> exn \<Rightarrow> atlas_handler" where
  "folder_failed op controller current error = Act (\<lambda>s.
     (folder_finally op
        (if current \<noteq> epoch s \<or> folderAction s \<noteq> Some op \<or> aborted s controller then s
         else if code_in error [''session_expired'', ''authentication_refused'']
         then lock ''expired'' no_text s
         else seq
           [set_text ''folder-error'' (caption (folder_message (op_sent (operations s op)) error)),
            set_hidden ''folder-error'' False,
            set_hidden ''folder-help''
              (\<not> code_in error [''files_manage_disabled'', ''files_read_disabled'', ''local_rejected'']),
            set_disabled ''folder-confirm''
              (\<not> (\<not> op_sent (operations s op) \<or> code_in error [''directory_exists'', ''invalid_name'']))] s),
      Done))"

definition folder_done :: "nat \<Rightarrow> nat \<Rightarrow> bool \<Rightarrow> atlas_handler" where
  "folder_done op current rename = Act (\<lambda>s.
     if current \<noteq> epoch s \<or> folderAction s \<noteq> Some op then (folder_finally op s, Done)
     else
       (seq [folderAction_update (\<lambda>_. None), close_dialog,
             toast (caption (if rename then ''Dossier renomme.''
               else ''Dossier supprime. Les fichiers sont dans la corbeille serveur.'')) False] s,
        load_current (Act (\<lambda>s. (folder_finally op s, Done)))))"

definition folder_send :: "nat \<Rightarrow> nat \<Rightarrow> nat \<Rightarrow> entry \<Rightarrow> bool \<Rightarrow> jstring \<Rightarrow> atlas_handler" where
  "folder_send op controller current e rename name = Act (\<lambda>s.
     if aborted s controller \<or> current \<noteq> epoch s \<or> folderAction s \<noteq> Some op
     then (folder_finally op s, Done)
     else
       (seq [set_operation op (op_sent_update (\<lambda>_. True)), set_disabled ''folder-cancel'' True] s,
        request (folder_req ((operations s op)\<lparr>op_entry := e, op_rename := rename\<rparr>) name controller)
          (\<lambda>r. if data_of r = JNull then folder_failed op controller current OtherError
               else if \<not> folder_result_ok (data_of r)
               then folder_failed op controller current (fail ''invalid_response'')
               else folder_done op current rename)
          (folder_failed op controller current)))"

definition folder_submit :: "atlas_handler" where
  "folder_submit = Act (\<lambda>s.
     case folderAction s of
       None \<Rightarrow> (s, Done)
     | Some op \<Rightarrow>
         let e = op_entry (operations s op); rename = op_rename (operations s op);
             name = value_of (doc s) ''folder-name'' in
         if \<not> truthy (op_snapshot (operations s op)) \<or> disabled_of (doc s) ''folder-confirm'' \<or>
            session s = None
         then (s, Done)
         else if rename \<and> \<not> valid_folder_name e name
         then (seq [set_text ''folder-error'' (caption ''Saisissez un nouveau nom valide, sans separateur de dossier (255 octets maximum).''),
                    set_hidden ''folder-error'' False] s, Done)
         else
           (seq [new_controller, folderRequest_update (\<lambda>_. Some (controllers s)),
                 set_disabled ''folder-confirm'' True, set_disabled ''folder-name'' True,
                 set_hidden ''folder-error'' True, set_hidden ''folder-help'' True] s,
            authorizeUpload ''manage'' (controllers s)
              (folder_send op (controllers s) (epoch s) e rename name)
              (folder_failed op (controllers s) (epoch s))))"

text \<open>The user types a folder name.\<close>

definition folder_name_input :: "jstring \<Rightarrow> atlas_handler" where
  "folder_name_input v = Act (\<lambda>s. (set_value ''folder-name'' v s, Done))"

section \<open>The guarantee\<close>

lemma set_operation_frames [simp]:
  "life (set_operation op f s) = life s" "discreet (set_operation op f s) = discreet s"
  "steady (set_operation op f s) = steady s" "doc (set_operation op f s) = doc s"
  "session (set_operation op f s) = session s" "folderAction (set_operation op f s) = folderAction s"
  "page_ok (set_operation op f s) = page_ok s"
  by (simp_all add: set_operation_def page_ok_def)

lemma show_dialog_frames [simp]:
  "life (show_dialog s) = life s" "steady (show_dialog s) = steady s"
  "tidy (doc (show_dialog s)) = tidy (doc s)"
  by (simp_all add: show_dialog_def life_def steady_defs listed_def)

lemma page_ok_dialog [simp]:
  "page_ok s \<Longrightarrow> page_ok (close_dialog s)" "page_ok s \<Longrightarrow> page_ok (s\<lparr>folderAction := None\<rparr>)"
  "page_ok s \<Longrightarrow> page_ok (set_value ''folder-name'' v s)"
  "page_ok s \<Longrightarrow> page_ok (set_disabled ''folder-confirm'' b s)"
  "page_ok s \<Longrightarrow> page_ok (set_disabled ''folder-cancel'' b s)"
  "page_ok s \<Longrightarrow> page_ok (set_disabled ''folder-name'' b s)"
  "page_ok s \<Longrightarrow> page_ok (set_hidden ''folder-error'' b s)"
  "page_ok s \<Longrightarrow> page_ok (set_hidden ''folder-help'' b s)"
  by (auto simp: page_ok_def discreet_def veiled_def forgotten_def)

lemma safe_closeFolderDialog: "safe closeFolderDialog"
proof -
  have "keeps s (abort c s)" "life (close_dialog (t\<lparr>folderAction := None\<rparr>)) = life t" for s t :: atlas and c
    by simp_all
  then have "keeps s (close_dialog ((abort c s)\<lparr>folderAction := None\<rparr>))" for s :: atlas and c
    using keeps.rely_trans [of s "abort c s"] keeps_life by blast
  then show ?thesis
    unfolding closeFolderDialog_def by (intro safe_ActI) (simp split: option.split)
qed

lemma folder_info_failed_segment:
  "page_ok s \<Longrightarrow> keeps s (folder_info_failed op current error s) \<and> page_ok (folder_info_failed op current error s)"
  by (auto simp: folder_info_failed_def keeps_life)

lemma forgotten_folder: "page_ok s \<Longrightarrow> folderAction s \<noteq> None \<Longrightarrow> session s \<noteq> None"
  by (auto simp: page_ok_def discreet_def forgotten_def)

lemma folder_info_done_segment:
  assumes "page_ok s"
  shows "keeps s (folder_info_done e rename op current info s) \<and>
    page_ok (folder_info_done e rename op current info s)"
proof (cases "current \<noteq> epoch s \<or> folderAction s \<noteq> Some op")
  case False
  define s1 where "s1 = seq [set_operation op (op_snapshot_update (\<lambda>_. prop_of info ''snapshot'')),
    set_text ''folder-description'' (folder_question e rename (int_of (prop_of info ''file_count'')))] s"
  have 1: "keeps s s1 \<and> page_ok s1"
    using assms False forgotten_folder by (intro safe_segment) (auto simp: s1_def page_ok_tidy page_ok_steady)
  then have "keeps s (folder_info_failed op current x s1) \<and> page_ok (folder_info_failed op current x s1)"
    and "keeps s (set_disabled ''folder-confirm'' False s1)" for x
    using folder_info_failed_segment [of s1] keeps.rely_trans [of s s1] by (auto simp: keeps_life)
  moreover have "folder_info_done e rename op current info s =
      (if prop_of info ''snapshot'' = Some JNull
       then folder_info_failed op current (fail ''directory_too_large'') s1
       else set_disabled ''folder-confirm'' False s1)"
    using False by (simp only: folder_info_done_def Let_def s1_def [symmetric] if_False)
  ultimately show ?thesis using 1 by simp
qed (use assms in \<open>simp add: folder_info_done_def\<close>)

lemma folder_begin_fields [simp]:
  "epoch (folder_begin e r s) = epoch s" "session (folder_begin e r s) = session s"
  "aborted (folder_begin e r s) = aborted s" "controllers (folder_begin e r s) = Suc (controllers s)"
  "statusPage (folder_begin e r s) = statusPage s" "editorPage (folder_begin e r s) = editorPage s"
  by (simp_all add: folder_begin_def new_controller_def set_operation_def show_dialog_def)

lemma page_ok_folder_begin:
  assumes "page_ok s" "session s \<noteq> None"
  shows "page_ok (folder_begin e r s)"
proof -
  have "tidy (doc (folder_begin e r s))" "steady (folder_begin e r s)"
    using assms(1) by (simp_all add: folder_begin_def page_ok_tidy page_ok_steady)
  then show ?thesis using assms(2) by (auto simp: page_ok_def intro: discreet_live)
qed

lemma safe_editDirectory: "safe (editDirectory e rename)"
  unfolding editDirectory_def
proof (rule safe_ActI, goal_cases)
  case (1 s)
  have "keeps s (folder_begin e rename s)" by (simp add: keeps_def)
  with 1 show ?case
    unfolding directoryInfo_def
    by (auto simp: page_ok_folder_begin keeps_life folder_info_done_segment folder_info_failed_segment
        intro!: safe_requestI safe_ActI)
qed

lemma folder_finally_frames [simp]:
  "page_ok s \<Longrightarrow> page_ok (folder_finally op s)" "life (folder_finally op s) = life s"
  by (simp_all add: folder_finally_def)

lemma keeps_folder_finally: "keeps s t \<Longrightarrow> keeps s (folder_finally op t)"
  by (erule keeps.rely_trans) (simp add: keeps_life)

lemma safe_folder_failed: "safe (folder_failed op c current error)"
  unfolding folder_failed_def
  by (rule safe_ActI) (simp add: keeps_folder_finally keeps_life)

lemma safe_folder_send: "safe (folder_send op c current e rename name)"
proof -
  have "safe (folder_done op current rename)"
    unfolding folder_done_def
    by (auto intro!: safe_ActI safe_load_current simp: keeps_life)
  then show ?thesis
    unfolding folder_send_def
    by (intro safe_ActI) (auto simp: keeps_life safe_folder_failed intro!: safe_requestI)
qed

lemma safe_folder_submit: "safe folder_submit"
  unfolding folder_submit_def
proof (rule safe_ActI, goal_cases)
  case (1 s)
  have "page_ok (s\<lparr>folderRequest := x\<rparr>) = page_ok s" "page_ok (new_controller s) = page_ok s" for x s
    by (simp_all add: page_ok_def)
  moreover have "keeps s (seq [new_controller, folderRequest_update (\<lambda>_. Some (controllers s)),
                 set_disabled ''folder-confirm'' True, set_disabled ''folder-name'' True,
                 set_hidden ''folder-error'' True, set_hidden ''folder-help'' True] s)"
    by (simp add: keeps_def new_controller_def)
  ultimately show ?case using 1
    by (auto simp: Let_def keeps_life intro!: safe_authorizeUpload safe_folder_send safe_folder_failed
        split: option.split)
qed

lemma safe_folder_name_input: "safe (folder_name_input v)"
  unfolding folder_name_input_def by (rule safe_ActI) (simp add: keeps_life)

section \<open>What is sent\<close>

text \<open>The contract of a request that renames or deletes a folder.\<close>

definition manages :: "(query \<times> answer) list \<Rightarrow> query \<Rightarrow> bool" where
  "manages h q \<longleftrightarrow>
     (\<forall>r b. q = Fetch r \<longrightarrow> req_method r = POST \<longrightarrow> req_url r = folder_url b \<longrightarrow>
        (\<exists>op name c. authorized ''manage'' c h \<and> r = folder_req op name c \<and>
           (op_rename op \<longrightarrow> valid_folder_name (op_entry op) name)))"

lemma manages_harmless: "harmless q \<Longrightarrow> manages h (Fetch q)"
proof -
  have "scope_url scope (js ''challenges'') \<noteq> folder_url b" for scope b
  proof
    assume "scope_url scope (js ''challenges'') = folder_url b"
    then have "last (js (''/v1/web/files/'' @ scope @ ''/'') @ js ''challenges'') =
        last (js (''/v1/web/files/directories/'' @ (if b then ''rename'' else ''delete'')))"
      by (simp add: scope_url_def folder_url_def)
    then show False by (simp add: js_def split: if_splits)
  qed
  then show "harmless q \<Longrightarrow> manages h (Fetch q)" by (auto simp: harmless_def manages_def)
qed

lemma manages_folder_req:
  assumes "authorized ''manage'' c h" and "op_rename op \<longrightarrow> valid_folder_name (op_entry op) name"
  shows "manages h (Fetch (folder_req op name c))"
  unfolding manages_def using assms by blast

lemma protocol_folder_send:
  assumes "authorized ''manage'' c h" and "rename \<longrightarrow> valid_folder_name e name"
  shows "protocol manages (folder_send op c current e rename name) h"
proof -
  have failed: "protocol manages (folder_failed op c current x) h" for x h current
    by (simp add: folder_failed_def)
  have "manages h (Sleep n)" for h n by (simp add: manages_def)
  then have "protocol manages (folder_done op current rename) h" for h
    by (auto simp: folder_done_def intro!: protocol_load_current manages_harmless)
  moreover have "manages h (Fetch (folder_req (x\<lparr>op_entry := e, op_rename := rename\<rparr>) name c))" for x
    using assms by (intro manages_folder_req) simp_all
  ultimately show ?thesis
    by (auto simp: folder_send_def failed intro!: protocol_requestI)
qed

lemma protocol_folder_submit: "protocol manages folder_submit []"
  by (auto simp: folder_submit_def Let_def folder_failed_def manages_harmless split: option.split
      intro!: protocol_authorizeUpload protocol_folder_send)

text \<open>C20. A folder is renamed or deleted on the server only after the device's management
  authorization was confirmed for this submission, and a new name sent for a rename is a valid
  one: not empty, not the old name, without separators, at most 255 bytes and not reserved.\<close>

theorem folder_changes_authorized:
  assumes "local_run folder_submit h (Await (Fetch q) k)"
    and "req_method q = POST" and "req_url q = folder_url b"
  shows "\<exists>op name c. authorized ''manage'' c h \<and> q = folder_req op name c \<and>
    (op_rename op \<longrightarrow> valid_folder_name (op_entry op) name)"
  using protocol_sound [OF assms(1) protocol_folder_submit] assms(2,3) unfolding manages_def by blast

text \<open>A dialog about the folder \<open>docs\<close>, ready to be confirmed.\<close>

definition example_operation :: operation where
  "example_operation = \<lparr>op_entry = entry_of (JObj [(js ''kind'', JStr (js ''directory'')),
     (js ''path'', JStr (js ''docs'')), (js ''size'', JNull)]), op_rename = False, op_snapshot = Some (JStr (js ''s'')), op_sent = False\<rparr>"

definition dialog_page :: atlas where
  "dialog_page = set_disabled ''folder-confirm'' False
     (example_page\<lparr>folderAction := Some 0, operations := (\<lambda>_. example_operation)\<rparr>)"

theorem folder_changes_authorized_witness:
  "\<exists>k op name c. local_run folder_submit
     [(Fetch (scope_session ''manage'' 0), Net (Inr (example_response JNull)))]
     (Await (Fetch (folder_req example_operation (value_of (doc dialog_page) ''folder-name'') 0)) k) \<and>
   authorized ''manage'' c [(Fetch (scope_session ''manage'' 0), Net (Inr (example_response JNull)))] \<and>
   folder_req example_operation (value_of (doc dialog_page) ''folder-name'') 0 = folder_req op name c"
proof -
  let ?name = "value_of (doc dialog_page) ''folder-name''"
  let ?h = "[(Fetch (scope_session ''manage'' 0), Net (Inr (example_response JNull)))]"
  have page: "folderAction dialog_page = Some 0" "operations dialog_page = (\<lambda>_. example_operation)"
    "session dialog_page \<noteq> None" "\<not> disabled_of (doc dialog_page) ''folder-confirm''"
    "controllers dialog_page = 0" "epoch dialog_page = 0" "\<not> aborted dialog_page 0"
    by (simp_all add: dialog_page_def)
  have op: "example_operation\<lparr>op_entry := op_entry example_operation, op_rename := False\<rparr> = example_operation"
    "op_rename example_operation = False" "truthy (op_snapshot example_operation)"
    by (simp_all add: example_operation_def)
  obtain k where "local_run (folder_send 0 0 0 (op_entry example_operation) False ?name) []
      (Await (Fetch (folder_req example_operation ?name 0)) k)"
    unfolding folder_send_def request_def
    by (atomize_elim, rule exI, rule local_run_ActI [of _ dialog_page], simp only: page op simp_thms if_False snd_conv,
        rule local_run.here)
  then have "local_run (authorizeUpload ''manage'' 0 (folder_send 0 0 0 (op_entry example_operation) False ?name) th) ?h
      (Await (Fetch (folder_req example_operation ?name 0)) k)" for th
    unfolding authorizeUpload_def by (rule local_run_requestI [OF example_results(3)])
  then have run: "local_run folder_submit ?h (Await (Fetch (folder_req example_operation ?name 0)) k)"
    unfolding folder_submit_def
    by (intro local_run_ActI [of _ dialog_page]) (simp add: page op Let_def)
  have "req_method (folder_req example_operation ?name 0) = POST"
    "req_url (folder_req example_operation ?name 0) = folder_url False"
    by (simp_all add: folder_req_def get_req_def op)
  then show ?thesis using run folder_changes_authorized [OF run] by blast
qed

end
