(* ===== verification/Preferences.thy ===== *)
theory Preferences
  imports Page_Invariant
begin

text \<open>
  The theme and the side panel (the first lines of web/atlas.js). Both are remembered in the
  browser's local storage, which all tabs share and which may be out of service; the
  functions take the storage as it is when they run and return it as they leave it.
\<close>

section \<open>Local storage\<close>

record storage =
  items :: "string \<Rightarrow> string option"
  refused :: bool     \<comment> \<open>every access throws\<close>

text \<open>\<open>preference(key)\<close> and \<open>preference(key, value)\<close>; \<open>None\<close> is \<open>null\<close> or \<open>undefined\<close>.\<close>

definition preference :: "string \<Rightarrow> storage \<Rightarrow> string option" where
  "preference key st = (if refused st then None else items st key)"

definition set_preference :: "string \<Rightarrow> string \<Rightarrow> storage \<Rightarrow> storage" where
  "set_preference key v st = (if refused st then st else items_update (\<lambda>m. m(key \<mapsto> v)) st)"

text \<open>A preference that is neither absent nor the empty string.\<close>

definition has_preference :: "string \<Rightarrow> storage \<Rightarrow> bool" where
  "has_preference key st \<longleftrightarrow> preference key st \<noteq> None \<and> preference key st \<noteq> Some []"

section \<open>Theme\<close>

definition theme :: "bool \<Rightarrow> atlas \<Rightarrow> atlas" where
  "theme dark =
     (let hint = caption (if dark then ''Passer au theme clair'' else ''Passer au theme sombre'') in
      seq [set_attr ''html'' ''data-theme'' (caption (if dark then ''dark'' else ''light'')),
           set_attr ''theme-toggle'' ''icon'' (caption (if dark then ''sun'' else ''moon'')),
           set_attr ''theme-toggle'' ''aria-label'' hint, set_attr ''theme-toggle'' ''title'' hint])"

definition is_dark :: "atlas \<Rightarrow> bool" where
  "is_dark s \<longleftrightarrow> attr_of (doc s) (''html'', ''data-theme'') = caption ''dark''"

definition theme_start :: "bool \<Rightarrow> storage \<Rightarrow> atlas \<Rightarrow> atlas" where
  "theme_start system_dark st =
     theme (if has_preference ''mysync-theme'' st then preference ''mysync-theme'' st = Some ''dark''
            else system_dark)"

definition theme_click :: "storage \<times> atlas \<Rightarrow> storage \<times> atlas" where
  "theme_click = (\<lambda>(st, s).
     let dark = (\<not> is_dark s) in
     (set_preference ''mysync-theme'' (if dark then ''dark'' else ''light'') st, theme dark s))"

definition theme_change :: "bool \<Rightarrow> storage \<times> atlas \<Rightarrow> storage \<times> atlas" where
  "theme_change system_dark = (\<lambda>(st, s).
     (st, if has_preference ''mysync-theme'' st then s else theme system_dark s))"

section \<open>Side panel\<close>

definition sidebar :: "bool \<Rightarrow> atlas \<Rightarrow> atlas" where
  "sidebar closed =
     (let hint = caption (if closed then ''Afficher le menu'' else ''Masquer le menu'') in
      seq [set_attr ''body'' ''sidebar-collapsed'' (bool_text closed),
           set_hidden ''sidebar'' closed,
           set_attr ''sidebar-toggle'' ''aria-expanded'' (bool_text (\<not> closed)),
           set_attr ''sidebar-toggle'' ''aria-label'' hint, set_attr ''sidebar-toggle'' ''title'' hint,
           set_attr ''sidebar-toggle'' ''icon'' (caption (if closed then ''right'' else ''left''))])"

definition collapsed :: "atlas \<Rightarrow> bool" where
  "collapsed s \<longleftrightarrow> attr_of (doc s) (''body'', ''sidebar-collapsed'') = bool_text True"

definition sidebar_start :: "storage \<Rightarrow> atlas \<Rightarrow> atlas" where
  "sidebar_start st s = seq
     [sidebar (preference ''mysync-sidebar'' st = Some ''closed'' \<or>
               narrow s \<and> preference ''mysync-sidebar'' st \<noteq> Some ''open''),
      set_attr ''body'' ''code-editor-page'' (bool_text (editorPage s)),
      (if editorPage s then sidebar True else id)] s"

definition sidebar_click :: "storage \<times> atlas \<Rightarrow> storage \<times> atlas" where
  "sidebar_click = (\<lambda>(st, s).
     let closed = (\<not> collapsed s) in
     (set_preference ''mysync-sidebar'' (if closed then ''closed'' else ''open'') st, sidebar closed s))"

section \<open>What they leave alone\<close>

lemma core_preferences [simp]: "core (theme b s) = core s" "core (sidebar b s) = core s"
  by (simp_all add: theme_def sidebar_def Let_def)

lemma core_start [simp]: "core (theme_start d st s) = core s" "core (sidebar_start st s) = core s"
  by (simp_all add: theme_start_def sidebar_start_def)

lemmas preferences_core [simp] = core_preferences [THEN core_fields(2)]
  core_preferences [THEN core_fields(5)]

lemma preferences_read [simp]:
  "is_dark (theme b s) = b" "collapsed (sidebar b s) = b"
  "hidden_of (doc (sidebar b s)) ''sidebar'' = b"
  "is_dark (sidebar b s) = is_dark s" "collapsed (theme b s) = collapsed s"
  by (simp_all add: is_dark_def theme_def collapsed_def sidebar_def bool_text_def Let_def)

lemma preference_set [simp]:
  "preference k (set_preference k' v st) =
     (if k = k' \<and> \<not> refused st then Some v else preference k st)"
  "refused (set_preference k' v st) = refused st"
  by (simp_all add: preference_def set_preference_def)

lemma page_ok_preferences [simp]:
  "page_ok s \<Longrightarrow> page_ok (theme b s)" "page_ok s \<Longrightarrow> page_ok (sidebar b s)"
  by (simp_all add: page_ok_def theme_def sidebar_def Let_def)

text \<open>A preference handler on the page, whatever the storage holds at that moment.\<close>

definition with_storage ::
    "(storage \<times> atlas \<Rightarrow> storage \<times> atlas) \<Rightarrow> storage \<Rightarrow> atlas_handler" where
  "with_storage f st = Act (\<lambda>s. (snd (f (st, s)), Done))"

lemma safe_preferences:
  "safe (with_storage theme_click st)" "safe (with_storage (theme_change b) st)"
  "safe (with_storage sidebar_click st)"
  unfolding with_storage_def theme_click_def theme_change_def sidebar_click_def
  by (rule safe_ActI; simp add: Let_def keeps_core)+

section \<open>Properties\<close>

text \<open>The theme and the side panel survive a reload: when the storage works, a click on a
  toggle leaves a storage from which a page of any kind, whatever the system theme and the width
  of its window, starts with the theme that the click chose, and with the side panel as the
  click left it unless it is the editor, which starts with the panel closed.\<close>

theorem preferences_survive_reload:
  assumes "\<not> refused st"
  shows "is_dark (theme_start system_dark (fst (theme_click (st, s))) t) = is_dark (snd (theme_click (st, s))) \<and>
    collapsed (sidebar_start (fst (sidebar_click (st, s))) t) =
      (editorPage t \<or> collapsed (snd (sidebar_click (st, s))))"
proof -
  have "collapsed (set_attr ''body'' ''code-editor-page'' x u) = collapsed u" for x u
    by (simp add: collapsed_def)
  then show ?thesis
    using assms by (simp add: theme_start_def theme_click_def sidebar_start_def sidebar_click_def
        has_preference_def Let_def)
qed

theorem preferences_survive_reload_witness:
  "is_dark (theme_start False
     (fst (theme_click (\<lparr>items = (\<lambda>_. None), refused = False\<rparr>, first_page False False 0 False)))
     (first_page True False 0 True))"
proof -
  have "\<not> is_dark (first_page False False 0 False)"
    by (simp add: is_dark_def first_page_def first_document_def)
  then show ?thesis
    using preferences_survive_reload [of "\<lparr>items = (\<lambda>_. None), refused = False\<rparr>" False
        "first_page False False 0 False" "first_page True False 0 True"]
    by (simp add: theme_click_def Let_def)
qed

end
