(* ===== verification/Menu.thy ===== *)
theory Menu
  imports Complex_Main Download Folders Preferences "HOL-Library.Signed_Division"
begin

text \<open>
  The rows of the listing, their menu and the details panel (web/atlas.js): clicks and double
  clicks on a row, \<open>openMenu\<close> with the keyboard and click handlers of the menu, the buttons of
  the details panel, \<open>openEditor\<close>, and the events that close menus and notices. All buttons of
  a row share the row's identity.
\<close>

section \<open>Opening files elsewhere\<close>

definition open_url :: "url \<Rightarrow> atlas \<Rightarrow> atlas" where
  "open_url u = opened_update (\<lambda>us. us @ [u])"

definition openEditor :: "entry \<Rightarrow> atlas_handler" where
  "openEditor e = Act (\<lambda>s.
     let s = s\<lparr>detailsTimer := None\<rparr> in
     (if session s = None \<or> \<not> editable e then s
      else if upload s \<noteq> None \<or> transfer s \<noteq> None
      then toast (caption ''Attendez la fin du transfert avant d ouvrir l editeur.'') False s
      else if byte_size e > 262144
      then toast (caption ''L editeur accepte les fichiers jusqu a 256 Kio.'') False s
      else open_url (Url (js ''/editor'') [(''path'', path e), (''directory'', directory s)]) s, Done))"

definition open_pdf :: "entry \<Rightarrow> atlas_handler" where
  "open_pdf e = Act (\<lambda>s.
     let s = s\<lparr>detailsTimer := None\<rparr> in
     (case session s of
        None \<Rightarrow> s
      | Some d \<Rightarrow>
          if int (byte_size e) > download_limit d
          then toast (caption ''Ce fichier depasse la limite web de 256 Mio. Retrouvez-le dans votre dossier synchronise.'') False s
          else open_url (Url (js ''/v1/web/files/pdf'')
                 [(''path'', path e), (''revision'', dec (nat (int_of (revision e))))]) s, Done))"

section \<open>Rows\<close>

definition opens_twice :: "entry \<Rightarrow> bool" where
  "opens_twice e \<longleftrightarrow> list_ex (\<lambda>x. has_extension x (path e)) [''pdf'', ''py'', ''c'']"

text \<open>\<open>selectEntry(event)\<close>; \<open>mouse\<close> is \<open>event.detail\<close>, zero for the keyboard.\<close>

definition select_entry :: "bool \<Rightarrow> entry \<Rightarrow> nat \<Rightarrow> atlas_handler" where
  "select_entry mouse e button = Act (\<lambda>s.
     let s = s\<lparr>detailsTimer := None\<rparr> in
     (if kind e = Directory then selectDirectory e button s
      else if opens_twice e \<and> mouse \<and> narrow s then s\<lparr>detailsTimer := Some (epoch s, e, button)\<rparr>
      else details e button s, Done))"

definition details_timer_fires :: "nat \<Rightarrow> entry \<Rightarrow> nat \<Rightarrow> atlas_handler" where
  "details_timer_fires current e button = Act (\<lambda>s.
     let s = s\<lparr>detailsTimer := None\<rparr> in
     (if current = epoch s \<and> session s \<noteq> None \<and> is_connected button s then details e button s else s,
      Done))"

datatype target = EntryButton | MoreButton | Elsewhere

text \<open>The click on the entry's button, and the one on the row around the buttons.\<close>

definition row_click :: "target \<Rightarrow> bool \<Rightarrow> bool \<Rightarrow> entry \<Rightarrow> nat \<Rightarrow> atlas_handler" where
  "row_click tgt mouse text_selected e button =
     (if tgt = EntryButton \<or> tgt = Elsewhere \<and> \<not> text_selected then select_entry mouse e button
      else Done)"

text \<open>The three double-click handlers of a row exclude each other by kind and extension.\<close>

definition row_dblclick :: "target \<Rightarrow> entry \<Rightarrow> atlas_handler" where
  "row_dblclick tgt e =
     (if tgt = MoreButton then Done
      else if editable e then openEditor e
      else if kind e = Directory then navigate (path e)
      else if kind e = File \<and> has_extension ''pdf'' (path e) then open_pdf e
      else Done)"

definition row_enter :: "entry \<Rightarrow> atlas_handler" where
  "row_enter e = (if kind e = Directory then navigate (path e) else Done)"

section \<open>The menu\<close>

datatype action = Edit | Open | Download | Details | Copy | Rename | Delete

fun action_id :: "action \<Rightarrow> string" where
  "action_id Edit = ''menu-edit''"
| "action_id Open = ''menu-open''"
| "action_id Download = ''menu-download''"
| "action_id Details = ''menu-details''"
| "action_id Copy = ''menu-copy''"
| "action_id Rename = ''menu-rename''"
| "action_id Delete = ''menu-delete''"

text \<open>The buttons of the menu in the order of the page, and those that can be used.\<close>

definition actions :: "action list" where
  "actions = [Edit, Open, Download, Details, Copy, Rename, Delete]"

definition usable :: "atlas \<Rightarrow> action list" where
  "usable s = filter (\<lambda>a. \<not> hidden_of (doc s) (action_id a) \<and> \<not> disabled_of (doc s) (action_id a)) actions"

definition can_manage :: "atlas \<Rightarrow> bool" where
  "can_manage s = (case session s of None \<Rightarrow> False | Some d \<Rightarrow> truthy (manage_limit d))"

definition forbid :: "action \<Rightarrow> atlas \<Rightarrow> atlas" where
  "forbid a s = seq
     [set_disabled (action_id a) (\<not> can_manage s),
      set_attr (action_id a) ''title''
        (if can_manage s then no_text else caption ''La gestion necessite une mise a jour du serveur'')] s"

definition openMenu :: "entry \<Rightarrow> nat \<Rightarrow> atlas_handler" where
  "openMenu e button = Act (\<lambda>s.
     (if menuButton s = Some button then closeMenu s
      else
        let folder = (kind e = Directory) in
        seq [closeMenu, menuEntry_update (\<lambda>_. Some e), menuButton_update (\<lambda>_. Some button),
             (if folder then selectDirectory e button else id),
             set_attr ''file-menu'' ''aria-label''
               (caption (if folder then ''Actions du dossier'' else ''Actions du fichier'')),
             set_hidden (action_id Open) (\<not> folder), set_hidden (action_id Rename) (\<not> folder),
             set_hidden (action_id Delete) (\<not> folder),
             set_hidden (action_id Download) folder, set_hidden (action_id Copy) folder,
             set_hidden (action_id Edit) (\<not> editable e),
             set_text (action_id Details) (caption (if folder then ''Proprietes'' else ''Voir les details'')),
             forbid Rename, forbid Delete,
             set_hidden ''file-menu'' False, expand_more (Some button) True] s, Done))"

text \<open>The place of the menu, from the sizes of window, menu and button.\<close>

definition menu_left :: "real \<Rightarrow> real \<Rightarrow> real \<Rightarrow> real" where
  "menu_left innerWidth width right = max 8 (min (innerWidth - width - 8) (right - width))"

definition menu_top :: "real \<Rightarrow> real \<Rightarrow> real \<Rightarrow> real \<Rightarrow> real" where
  "menu_top innerHeight height button_top bottom =
     max 8 (if bottom + height + 8 > innerHeight then button_top - height - 4 else bottom + 4)"

datatype key = ArrowDown | ArrowUp | Home | EndKey | Tab | OtherKey

text \<open>
  The index that the arrow keys move to among \<open>n\<close> usable buttons, from \<open>index\<close>, which is
  -1 when none of them has the focus. \<open>%\<close> truncates towards zero.
\<close>

definition menu_focus :: "key \<Rightarrow> int \<Rightarrow> int \<Rightarrow> int" where
  "menu_focus k index n =
     (if k = Home then 0 else if k = EndKey then n - 1
      else (index + (if k = ArrowDown then 1 else - 1) + n) smod n)"

definition menu_key :: "key \<Rightarrow> atlas_handler" where
  "menu_key k = Act (\<lambda>s. (if k = Tab then closeMenu s else s, Done))"

section \<open>Menu actions\<close>

definition menu_details_done :: "nat \<Rightarrow> entry \<Rightarrow> entry \<Rightarrow> nat \<Rightarrow> atlas_handler" where
  "menu_details_done current e full button = Act (\<lambda>s.
     (if current = epoch s \<and> session s \<noteq> None \<and> is_connected button s \<and>
         (kind e \<noteq> Directory \<or> selected_path s = Some (path e))
      then details full button s else s, Done))"

definition menu_details_failed :: "nat \<Rightarrow> exn \<Rightarrow> atlas_handler" where
  "menu_details_failed current error = Act (\<lambda>s.
     (if current = epoch s \<and> session s \<noteq> None
      then (if has_code error ''session_expired'' then lock ''expired'' no_text s
            else toast (caption ''Proprietes indisponibles. Actualisez la liste et reessayez.'') False s)
      else s, Done))"

definition menu_details :: "entry \<Rightarrow> nat \<Rightarrow> atlas_handler" where
  "menu_details e button = Act (\<lambda>s.
     (s, if kind e = Directory
         then directoryInfo e None (\<lambda>info. menu_details_done (epoch s) e (merge_info e info) button)
                (menu_details_failed (epoch s))
         else menu_details_done (epoch s) e e button))"

text \<open>A browser without a clipboard behaves as one that refuses the copy.\<close>

definition menu_copy :: "entry \<Rightarrow> nat \<Rightarrow> atlas_handler" where
  "menu_copy e button = Act (\<lambda>s.
     (s, Await (Clipboard (path e)) (\<lambda>a. Act (\<lambda>t.
       (if epoch s = epoch t \<and> session t \<noteq> None
        then (if a = Settled True then toast (caption ''Chemin copie.'') False t
              else toast (caption ''Copie indisponible. Le chemin complet est affiche dans les details.'') False
                     (details e button t))
        else t, Done)))))"

fun menu_action :: "action \<Rightarrow> entry \<Rightarrow> nat \<Rightarrow> atlas_handler" where
  "menu_action Open e button = navigate (path e)"
| "menu_action Edit e button = openEditor e"
| "menu_action Details e button = menu_details e button"
| "menu_action Rename e button = editDirectory e True"
| "menu_action Delete e button = editDirectory e False"
| "menu_action Download e button = download e"
| "menu_action Copy e button = menu_copy e button"

text \<open>\<open>menuEntry\<close> and \<open>menuButton\<close> are set and cleared together.\<close>

definition menu_click :: "action \<Rightarrow> atlas_handler" where
  "menu_click a = Act (\<lambda>s.
     case (menuEntry s, menuButton s) of
       (Some e, Some button) \<Rightarrow> (closeMenu s, menu_action a e button)
     | _ \<Rightarrow> (s, Done))"

section \<open>Closing, the details panel and the navigation links\<close>

definition pointer_outside :: "atlas_handler" where
  "pointer_outside = Act (\<lambda>s. (closeMenu s, Done))"

text \<open>\<open>tiny\<close> is \<open>(max-width: 760px)\<close>.\<close>

definition escape_key :: "bool \<Rightarrow> atlas_handler" where
  "escape_key tiny = Act (\<lambda>s.
     (if \<not> hidden_of (doc s) ''file-menu'' then closeMenu s
      else if \<not> hidden_of (doc s) ''details'' then closeDetails s
      else if tiny \<and> \<not> hidden_of (doc s) ''sidebar'' then sidebar True s
      else s, Done))"

text \<open>The window changes its size, and with it the answer to \<open>(max-width: 1100px)\<close>.\<close>

definition resize :: "bool \<Rightarrow> atlas_handler" where
  "resize small = Act (\<lambda>s. (detailsLayout (closeMenu (s\<lparr>narrow := small\<rparr>)), Done))"

definition scroll :: "atlas_handler" where
  "scroll = Act (\<lambda>s. (closeMenu s, Done))"

definition details_close_click :: "atlas_handler" where
  "details_close_click = Act (\<lambda>s. (closeDetails s, Done))"

definition detail_download_click :: "atlas_handler" where
  "detail_download_click = Act (\<lambda>s. (s, case selected s of Some e \<Rightarrow> download e | None \<Rightarrow> Done))"

definition detail_open_click :: "atlas_handler" where
  "detail_open_click = Act (\<lambda>s.
     (s, case selected s of
           Some e \<Rightarrow> if kind e = Directory then navigate (path e) else Done
         | None \<Rightarrow> Done))"

definition detail_edit_click :: "atlas_handler" where
  "detail_edit_click = Act (\<lambda>s. (s, case selected s of Some e \<Rightarrow> openEditor e | None \<Rightarrow> Done))"

definition toast_close_click :: "atlas_handler" where
  "toast_close_click = Act (\<lambda>s. (hideToast s, Done))"

text \<open>\<open>unmodified\<close>: the main button without modifier keys. Otherwise the browser follows the link.\<close>

definition files_nav_click :: "bool \<Rightarrow> atlas_handler" where
  "files_nav_click unmodified = Act (\<lambda>s.
     (s, if \<not> statusPage s \<and> \<not> editorPage s \<and> session s \<noteq> None \<and> unmodified
         then navigate [] else Done))"

section \<open>The handlers keep the guarantee\<close>

text \<open>A row is shown, something is selected or the menu has an entry only under a session.\<close>

lemma page_ok_session:
  assumes "page_ok s"
    and "is_connected b s \<or> selected s \<noteq> None \<or> menuEntry s \<noteq> None \<or> detailsTimer s \<noteq> None"
  shows "session s \<noteq> None"
  using assms by (auto simp: page_ok_def discreet_def veiled_def forgotten_def is_connected_def)

lemma page_ok_menu_blocks [simp]:
  "page_ok s \<Longrightarrow> page_ok (closeMenu s)" "page_ok s \<Longrightarrow> page_ok (closeDetails s)"
  "page_ok s \<Longrightarrow> page_ok (hideToast s)" "page_ok s \<Longrightarrow> page_ok (s\<lparr>detailsTimer := None\<rparr>)"
  "page_ok (open_url u s) = page_ok s" "page_ok (s\<lparr>narrow := b\<rparr>) = page_ok s"
  by (simp_all add: page_ok_def open_url_def)
    (simp add: discreet_def forgotten_def steady_defs listed_def)

lemma page_ok_detailsLayout [simp]: "page_ok s \<Longrightarrow> page_ok (detailsLayout s)"
  by (simp add: page_ok_def) (simp add: detailsLayout_def Let_def)

lemma life_open_url [simp]: "life (open_url u s) = life s"
  by (simp add: open_url_def life_def)

lemma page_ok_details [simp]: "page_ok s \<Longrightarrow> session s \<noteq> None \<Longrightarrow> page_ok (details e b s)"
  and page_ok_selectDirectory [simp]: "page_ok s \<Longrightarrow> session s \<noteq> None \<Longrightarrow> page_ok (selectDirectory e b s)"
  by (rule page_ok_live [of _ s]; simp add: page_ok_tidy page_ok_steady)+

lemma safe_openEditor: "safe (openEditor e)"
  unfolding openEditor_def by (rule safe_ActI) (simp add: Let_def keeps_life)

lemma safe_open_pdf: "safe (open_pdf e)"
  unfolding open_pdf_def by (rule safe_ActI) (simp add: Let_def keeps_life split: option.split)

lemma rg_select_entry:
  assumes "page_ok s" "session s \<noteq> None"
  shows "rg keeps page_ok (select_entry mouse e b) s"
  using assms page_ok_live [of "s\<lparr>detailsTimer := Some (epoch s, e, b)\<rparr>" s]
  by (simp add: select_entry_def Let_def keeps_life page_ok_tidy page_ok_steady)

lemma safe_details_timer_fires: "safe (details_timer_fires current e b)"
  unfolding details_timer_fires_def by (rule safe_ActI) (simp add: Let_def keeps_life)

lemma rg_row_click:
  "page_ok s \<Longrightarrow> session s \<noteq> None \<Longrightarrow> rg keeps page_ok (row_click tgt mouse sel e b) s"
  by (simp add: row_click_def rg_select_entry)

lemma safe_navigate: "safe (navigate p)" and safe_download: "safe (download e)"
  by (simp_all add: safe_def rg_navigate rg_download)

lemma safe_row_dblclick: "safe (row_dblclick tgt e)"
  by (simp add: row_dblclick_def safe_openEditor safe_open_pdf safe_navigate)

lemma safe_row_enter: "safe (row_enter e)"
  by (simp add: row_enter_def safe_navigate)

lemma forbid_frames [simp]:
  "life (forbid a s) = life s" "tidy (doc s) \<Longrightarrow> tidy (doc (forbid a s))" "steady (forbid a s) = steady s"
  by (simp_all add: forbid_def)

lemma rg_openMenu:
  assumes "page_ok s" "session s \<noteq> None"
  shows "rg keeps page_ok (openMenu e b) s"
proof -
  have expand: "life (expand_more c x t) = life t" "tidy (doc (expand_more c x t)) = tidy (doc t)"
    "steady (expand_more c x t) = steady t" for c x t
    by (simp_all add: expand_more_def)
      (rule steady_core; simp add: listed_map_rows)
  show ?thesis
    using assms unfolding openMenu_def
    by (auto simp: Let_def keeps_life expand page_ok_tidy page_ok_steady intro!: page_ok_live [of _ s])
qed

lemma safe_menu_key: "safe (menu_key k)"
  unfolding menu_key_def by (rule safe_ActI) (simp add: keeps_life)

lemma safe_directoryInfo:
  "(\<And>v. safe (ret v)) \<Longrightarrow> (\<And>e. safe (throw e)) \<Longrightarrow> safe (directoryInfo e sg ret throw)"
  unfolding directoryInfo_def by (rule safe_requestI) auto

lemma safe_menu_details: "safe (menu_details e b)"
proof -
  have "safe (menu_details_done c e x b)" "safe (menu_details_failed c err)" for c x err
    unfolding menu_details_done_def menu_details_failed_def
    by (rule safe_ActI; simp add: keeps_life)+
  then show ?thesis
    unfolding menu_details_def by (auto intro!: safe_ActI safe_directoryInfo)
qed

lemma safe_menu_copy: "safe (menu_copy e b)"
  unfolding menu_copy_def by (auto intro!: safe_ActI safe_AwaitI simp: keeps_life)

lemma safe_menu_action: "safe (menu_action a e b)"
  by (cases a) (simp_all add: safe_navigate safe_openEditor safe_menu_details safe_editDirectory
      safe_download safe_menu_copy)

lemma safe_menu_click: "safe (menu_click a)"
  unfolding menu_click_def
  by (rule safe_ActI) (simp add: safe_menu_action keeps_life split: option.split)

lemma safe_closing:
  "safe pointer_outside" "safe (escape_key tiny)" "safe (resize small)" "safe scroll"
  "safe details_close_click" "safe toast_close_click"
  unfolding pointer_outside_def escape_key_def resize_def scroll_def details_close_click_def
    toast_close_click_def
  by (rule safe_ActI; simp add: keeps_life keeps_core)+

lemma safe_detail_clicks:
  "safe detail_download_click" "safe detail_open_click" "safe detail_edit_click"
  unfolding detail_download_click_def detail_open_click_def detail_edit_click_def
  by (rule safe_ActI; simp add: safe_download safe_navigate safe_openEditor split: option.split)+

lemma safe_files_nav_click: "safe (files_nav_click u)"
  unfolding files_nav_click_def by (rule safe_ActI) (simp add: safe_navigate)

section \<open>Properties\<close>

text \<open>The menu stays in the window: when the window is wide and high enough for the menu and a
  margin of eight pixels, and the button is inside the window, the whole menu is.\<close>

theorem menu_on_screen:
  assumes "width + 16 \<le> innerWidth" and "height + 16 \<le> innerHeight"
    and "button_top \<le> bottom" and "bottom \<le> innerHeight"
  shows "8 \<le> menu_left innerWidth width right \<and>
    menu_left innerWidth width right + width \<le> innerWidth - 8 \<and>
    8 \<le> menu_top innerHeight height button_top bottom \<and>
    menu_top innerHeight height button_top bottom + height \<le> innerHeight - 4"
  using assms by (auto simp: menu_left_def menu_top_def)

theorem menu_on_screen_witness:
  "8 \<le> menu_top 600 200 550 580 \<and> menu_top 600 200 550 580 + 200 \<le> 596"
  using menu_on_screen [of 180 800 200 600 550 580 790] by simp

lemma smod_small: "0 \<le> a \<Longrightarrow> 0 < n \<Longrightarrow> a smod n = a mod (n :: int)"
  by (cases "a = 0") (simp_all add: signed_modulo_int_def signed_divide_int_def minus_div_mult_eq_mod)

lemma menu_focus_mod:
  assumes "0 \<le> index" and "index < n"
  shows "menu_focus ArrowDown index n = (index + 1) mod n"
    and "menu_focus ArrowUp index n = (index - 1) mod n"
proof -
  have "(index + 1 + n) smod n = (index + 1) mod n" "(index - 1 + n) smod n = (index - 1) mod n"
    using assms by (simp_all add: smod_small)
  then show "menu_focus ArrowDown index n = (index + 1) mod n"
    "menu_focus ArrowUp index n = (index - 1) mod n"
    by (simp_all add: menu_focus_def)
qed

lemma menu_focus_range:
  assumes "0 < n" and "- 1 \<le> index" and "index < n"
  shows "0 \<le> menu_focus k index n" and "menu_focus k index n < n"
proof -
  have "0 \<le> menu_focus k index n \<and> menu_focus k index n < n"
  proof (cases "index + (if k = ArrowDown then 1 else - 1) + n < 0")
    case True
    then have "n = 1" "index = - 1" using assms by (auto split: if_splits)
    then show ?thesis
      by (auto simp: menu_focus_def signed_modulo_int_def signed_divide_int_def)
  next
    case False
    then show ?thesis using assms by (auto simp: menu_focus_def smod_small)
  qed
  then show "0 \<le> menu_focus k index n" and "menu_focus k index n < n" by simp_all
qed

lemma menu_focus_steps:
  assumes "0 \<le> index" and "index < n"
  shows "((\<lambda>i. menu_focus ArrowDown i n) ^^ k) index = (index + int k) mod n"
proof (induction k)
  case 0
  then show ?case using assms by simp
next
  case (Suc k)
  have "0 < n" using assms by simp
  then show ?case using Suc by (simp add: menu_focus_mod mod_add_right_eq mod_add_left_eq add.commute add.left_commute)
qed

text \<open>The arrow keys cycle through the usable buttons of the menu: from any of the \<open>n\<close> buttons,
  or from none, every key leads to one of them; down and up undo each other; and pressing down
  \<open>n\<close> times comes back to the start.\<close>

theorem menu_keys_cycle:
  assumes "0 < n" and "- 1 \<le> index" and "index < n"
  shows "0 \<le> menu_focus k index n \<and> menu_focus k index n < n \<and>
    (0 \<le> index \<longrightarrow> menu_focus ArrowUp (menu_focus ArrowDown index n) n = index \<and>
       menu_focus ArrowDown (menu_focus ArrowUp index n) n = index \<and>
       ((\<lambda>i. menu_focus ArrowDown i n) ^^ nat n) index = index)"
  using assms
  by (auto simp: menu_focus_range menu_focus_steps menu_focus_mod mod_diff_left_eq mod_add_left_eq)

theorem menu_keys_cycle_witness:
  "menu_focus ArrowDown 3 4 = 0 \<and> menu_focus ArrowUp (menu_focus ArrowDown 3 4) 4 = 3"
  using menu_keys_cycle [of 4 3] by (simp add: menu_focus_def smod_small)

text \<open>The buttons that no handler hides or disables are as the page has them.\<close>

definition menu_ready :: "atlas \<Rightarrow> bool" where
  "menu_ready s \<longleftrightarrow> \<not> hidden_of (doc s) (action_id Details) \<and>
     list_all (\<lambda>a. \<not> disabled_of (doc s) (action_id a)) [Edit, Open, Download, Details, Copy]"

lemma closeDetails_disabled:
  "i \<noteq> ''upload-add'' \<Longrightarrow> disabled_of (doc (closeDetails s)) i = disabled_of (doc s) i"
  by (simp add: closeDetails_def updateUploadButton_def collapse_rows_def)

text \<open>The menu of an entry offers exactly the actions that apply to it: opening, properties and,
  when the server allows it, renaming and deleting for a folder; editing when it is a Python or
  C source, downloading, details and copying the path for a file. There is always one.\<close>

theorem menu_offers:
  assumes "menu_ready s" and "menuButton s \<noteq> Some b"
  shows "usable (fst (run (openMenu e b) s)) =
    (if kind e = Directory then [Open, Details] @ (if can_manage s then [Rename, Delete] else [])
     else (if editable e then [Edit] else []) @ [Download, Details, Copy]) \<and>
    menu_ready (fst (run (openMenu e b) s))"
proof -
  have "kind e = Directory \<Longrightarrow> \<not> editable e" by (simp add: editable_def)
  then show ?thesis
    using assms
    by (auto simp: closeDetails_disabled openMenu_def Let_def menu_ready_def usable_def actions_def forbid_def can_manage_def
        selectDirectory_def expand_more_def mark_row_def)
qed

theorem menu_offers_witness:
  "usable (fst (run (openMenu (example_file\<lparr>kind := Directory\<rparr>) 7) (first_page False False 0 False))) =
     [Open, Details]"
  using menu_offers [of "first_page False False 0 False" 7 "example_file\<lparr>kind := Directory\<rparr>"]
  by (simp add: menu_ready_def can_manage_def first_page_def first_document_def hidden_at_start_def)

text \<open>The editor is opened exactly for a Python or C source of at most 256 KiB, under a session and
  while nothing is transferred; the address then names the file and the open folder. Nothing
  else is opened.\<close>

theorem openEditor_spec:
  "opened (fst (run (openEditor e) s)) = opened s @
    (if session s \<noteq> None \<and> editable e \<and> upload s = None \<and> transfer s = None \<and> byte_size e \<le> 262144
     then [Url (js ''/editor'') [(''path'', path e), (''directory'', directory s)]] else [])"
  by (simp add: openEditor_def open_url_def Let_def)

end
