(* ===== verification/Explorer.thy ===== *)
theory Explorer
  imports Access Menu
begin

text \<open>
  The explorer page as a whole: the states in which its script has just started, and every
  event that can happen to it with the handler the event starts. Handlers run interleaved, in
  any order and number; the network, the local client, the clipboard and the timers answer
  whenever and whatever they like. The invariant \<open>page_ok\<close> holds in every reachable state, and
  the theorems of the last section read it off.
\<close>

section \<open>Start\<close>

text \<open>A page is of one kind: the explorer, the status page or the editor.\<close>

definition started :: "atlas \<Rightarrow> bool" where
  "started s \<longleftrightarrow> (\<exists>st ed clock small dark store. \<not> (st \<and> ed) \<and>
     s = sidebar_start store (theme_start dark store (first_page st ed clock small)))"

definition pageshow :: "bool \<Rightarrow> jstring \<Rightarrow> atlas_handler" where
  "pageshow persisted folder = (if persisted then restore folder else Done)"

text \<open>The clock advances; the editor reports whether it holds unsaved text.\<close>

definition clock_tick :: "int \<Rightarrow> atlas_handler" where
  "clock_tick t = Act (\<lambda>s. (if now s \<le> t then s\<lparr>now := t\<rparr> else s, Done))"

definition draft_changes :: "bool \<Rightarrow> atlas_handler" where
  "draft_changes b = Act (\<lambda>s. (s\<lparr>draft := b\<rparr>, Done))"

definition toast_timer_fires :: "atlas_handler" where
  "toast_timer_fires = Act (\<lambda>s. (hideToast s, Done))"

section \<open>Events\<close>

text \<open>
  An event needs what its source needs: a row, a breadcrumb, a timer that is armed, a search
  box that accepts input. Nothing else is assumed about when events happen; in particular a
  hidden button may be clicked.
\<close>

inductive atlas_event :: "atlas \<Rightarrow> atlas_handler \<Rightarrow> bool" where
  restored: "atlas_event s (restore folder)"
| shown_again: "atlas_event s (pageshow persisted folder)"
| row_clicked: "r \<in> set (rows (doc s)) \<Longrightarrow>
    atlas_event s (row_click tgt mouse sel (row_entry r) (row_id r))"
| row_dblclicked: "r \<in> set (rows (doc s)) \<Longrightarrow> atlas_event s (row_dblclick tgt (row_entry r))"
| row_entered: "r \<in> set (rows (doc s)) \<Longrightarrow> atlas_event s (row_enter (row_entry r))"
| more_clicked: "r \<in> set (rows (doc s)) \<Longrightarrow> atlas_event s (openMenu (row_entry r) (row_id r))"
| crumb_clicked: "(l, Some p) \<in> set (crumbs (doc s)) \<Longrightarrow> atlas_event s (navigate p)"
| details_due: "detailsTimer s = Some (current, e, b) \<Longrightarrow> atlas_event s (details_timer_fires current e b)"
| menu_clicked: "atlas_event s (menu_click a)"
| menu_keyed: "atlas_event s (menu_key k)"
| pointed: "atlas_event s pointer_outside"
| escaped: "atlas_event s (escape_key tiny)"
| resized: "atlas_event s (resize small)"
| scrolled: "atlas_event s scroll"
| details_closed: "atlas_event s details_close_click"
| details_download: "atlas_event s detail_download_click"
| details_open: "atlas_event s detail_open_click"
| details_edit: "atlas_event s detail_edit_click"
| navigated: "atlas_event s (files_nav_click unmodified)"
| refreshed: "atlas_event s refresh_click"
| next_page: "atlas_event s next_page_click"
| previous_page: "atlas_event s previous_page_click"
| searched: "\<not> disabled_of (doc s) ''search'' \<Longrightarrow> atlas_event s (search_input v)"
| search_cleared: "atlas_event s clear_search_click"
| search_due: "searchTimer s = Some v \<Longrightarrow> atlas_event s (search_timer_fires v)"
| toast_closed: "atlas_event s toast_close_click"
| toast_due: "toastTimer s \<Longrightarrow> atlas_event s toast_timer_fires"
| download_cancelled: "atlas_event s download_cancel_click"
| upload_added: "atlas_event s upload_add_click"
| upload_picked: "atlas_event s (upload_input_change files)"
| upload_cancelled: "atlas_event s upload_cancel_click"
| upload_closed: "atlas_event s upload_close_click"
| drag_ended: "atlas_event s drag_end"
| drag_entered: "atlas_event s drag_enter"
| drag_left: "atlas_event s drag_leave"
| dropped: "atlas_event s (drop_files folders files)"
| drag_escaped: "atlas_event s drag_escape"
| folder_closed: "atlas_event s closeFolderDialog"
| folder_submitted: "atlas_event s folder_submit"
| folder_typed: "atlas_event s (folder_name_input v)"
| verified: "atlas_event s verify_click"
| verify_cancelled: "atlas_event s verify_cancel_click"
| verify_due: "verifyTimer s = Some current \<Longrightarrow> atlas_event s (verify_timer_fires current)"
| logged_out: "atlas_event s logout_click"
| logged_out_elsewhere: "atlas_event s logout_message"
| expired: "expiry s = Some t \<Longrightarrow> t \<le> now s \<Longrightarrow> atlas_event s expiry_fires"
| counted_down: "countdown s \<Longrightarrow> atlas_event s countdown_fires"
| hidden_away: "atlas_event s pagehide"
| visible: "atlas_event s page_visible"
| theme_toggled: "atlas_event s (with_storage theme_click st)"
| theme_changed: "atlas_event s (with_storage (theme_change dark) st)"
| sidebar_toggled: "atlas_event s (with_storage sidebar_click st)"
| clock: "atlas_event s (clock_tick t)"
| drafted: "atlas_event s (draft_changes b)"

inductive_cases atlas_eventE: "atlas_event s p"

section \<open>The invariant\<close>

lemma page_ok_started: "started s \<Longrightarrow> page_ok s"
  by (auto simp: started_def sidebar_start_def theme_start_def page_ok_first_page page_ok_live_text)

lemma safe_pageshow: "safe (pageshow persisted folder)"
  by (simp add: pageshow_def safe_restore)

lemma safe_environment: "safe (clock_tick t)" "safe (draft_changes b)" "safe toast_timer_fires"
  unfolding clock_tick_def draft_changes_def toast_timer_fires_def
  by (rule safe_ActI; simp add: keeps_life page_ok_def)+

lemmas safe_handlers = safe_restore safe_pageshow safe_row_dblclick safe_row_enter safe_navigate
  safe_details_timer_fires safe_menu_click safe_menu_key safe_closing safe_detail_clicks
  safe_files_nav_click safe_upload_add_click safe_upload_input_change safe_upload_cancel_click
  safe_upload_close_click safe_drag_end safe_drag_enter safe_drag_leave safe_drop_files
  safe_drag_escape safe_closeFolderDialog safe_folder_submit safe_folder_name_input
  safe_verify_click safe_verify_cancel_click safe_verify_timer_fires safe_logout_click safe_leaving
  safe_countdown_fires safe_preferences safe_environment

lemma row_session: "page_ok s \<Longrightarrow> r \<in> set (rows (doc s)) \<Longrightarrow> session s \<noteq> None"
  using page_ok_session [of s "row_id r"] by (auto simp: is_connected_def)

lemma atlas_event_rg: "atlas_event s p \<Longrightarrow> page_ok s \<Longrightarrow> rg keeps page_ok p s"
  by (erule atlas_eventE)
    (simp_all add: safe_handlers safeD rg_row_click rg_openMenu row_session rg_refresh_click
      rg_next_page_click rg_previous_page_click rg_search_input rg_clear_search_click
      rg_search_timer_fires rg_download_cancel_click)

interpretation page: async_invariant keeps started atlas_event page_ok
  by unfold_locales (simp_all add: page_ok_started atlas_event_rg)

section \<open>Properties of every execution\<close>

lemma started_first: "\<not> (st \<and> ed) \<Longrightarrow>
    started (sidebar_start \<lparr>items = (\<lambda>_. None), refused = False\<rparr>
      (theme_start False \<lparr>items = (\<lambda>_. None), refused = False\<rparr> (first_page st ed t b)))"
  unfolding started_def by blast

text \<open>An execution that restores a session from the server.\<close>

definition example_start :: atlas where
  "example_start = sidebar_start \<lparr>items = (\<lambda>_. None), refused = False\<rparr>
     (theme_start False \<lparr>items = (\<lambda>_. None), refused = False\<rparr> (first_page False False 1000000 False))"

lemma example_start_fields [simp]:
  "session example_start = None" "epoch example_start = 0" "now example_start = 1000000"
  "statusPage example_start = False" "editorPage example_start = False"
  "controllers example_start = 0" "expiry example_start = None" "upload example_start = None"
  "transfer example_start = None" "pageIndex example_start = 0" "cursors example_start = [[]]" "search example_start = []"
proof -
  have "core example_start = core (first_page False False 1000000 False)"
    by (simp add: example_start_def)
  note same = core_fields [OF this]
  show "session example_start = None" "epoch example_start = 0" "now example_start = 1000000"
    "statusPage example_start = False" "editorPage example_start = False"
    "controllers example_start = 0" "expiry example_start = None" "upload example_start = None"
    "transfer example_start = None" "pageIndex example_start = 0" "cursors example_start = [[]]" "search example_start = []"
    by (simp_all add: same) (simp_all add: first_page_def)
qed

lemma reachable_start: "reachable started atlas_event example_start []"
  by (rule reachable.start) (simp add: example_start_def started_first)

definition example_accepted :: atlas where
  "example_accepted = (case acceptSession example_session example_start of
     Inl _ \<Rightarrow> example_start | Inr s \<Rightarrow> s)"

lemma example_accepted: "acceptSession example_session example_start = Inr example_accepted"
proof -
  have "example_session \<noteq> JNull" by (simp add: example_session_def)
  then show ?thesis by (simp add: example_accepted_def acceptSession_def)
qed

lemmas example_accepted_fields [simp] =
  acceptSession_fields [OF example_accepted] acceptSession_frame [OF example_accepted]

definition example_view :: view where
  "example_view = \<lparr>v_directory = [], v_search = [], v_pageIndex = 0, v_cursors = [[]]\<rparr>"

definition example_loading :: "atlas \<times> atlas_handler list" where
  "example_loading = run (load example_view Done) example_accepted"

lemma reachable_restored:
  "reachable started atlas_event (fst example_loading) (snd example_loading)"
proof -
  let ?q = "session_req None" and ?a = "Net (Inr (example_response example_session))"
  obtain k where k: "run (restore []) example_start = (example_start, [Await (Fetch ?q) k])"
    and kr: "run (k ?a) example_start = example_loading"
  proof -
    have 1: "request_result ?q (Inr (example_response example_session)) = Inr (Data example_session)"
      by (rule request_example_response) (simp_all add: session_req_def get_req_def)
    have 2: "(currentView example_accepted)\<lparr>v_directory := []\<rparr> = example_view"
      by (simp add: currentView_def example_view_def)
    show ?thesis
      by (rule that, simp add: restore_def request_def)
        (simp add: 1 2 example_accepted example_loading_def)
  qed
  have "reachable started atlas_event (fst (run (restore []) example_start))
      ([] @ snd (run (restore []) example_start))"
    by (rule reachable.event [OF reachable_start]) (rule atlas_event.restored)
  then have "reachable started atlas_event example_start ([] @ Await (Fetch ?q) k # [])"
    by (simp add: k)
  from reachable.resume [OF this, of ?a] show ?thesis by (simp add: kr)
qed

text \<open>C1. Privacy: in every reachable state of the files page or the status page without a session,
  whatever handlers are suspended, nothing on display names a file, a folder or a search: there
  are no rows, breadcrumbs or upload results, no attribute and no text that is on display holds
  a string that was received or typed, and an input that is on display is empty; the panels,
  the menu, the folder dialog and the drop overlay, whose own texts \<open>lock\<close> does not clear, are
  closed; and none of the variables that stand for the open folder, the search, the list, the
  selection and the pending actions holds one.\<close>

theorem locked_page_shows_no_names:
  assumes "reachable started atlas_event s ts" and "session s = None" and "\<not> editorPage s"
  shows "nameless (doc s) \<and> hidden_of (doc s) ''explorer'' \<and> hidden_of (doc s) ''details'' \<and>
    hidden_of (doc s) ''file-menu'' \<and> \<not> dialog_open (doc s) \<and> hidden_of (doc s) ''drop-overlay'' \<and> forgotten s"
proof -
  have "veiled (doc s)" "forgotten s"
    using page.invariant [OF assms(1)] assms(2) by (simp_all add: page_ok_def discreet_def)
  then show ?thesis using veiled_nameless by (simp add: veiled_def)
qed

theorem locked_page_shows_no_names_witness:
  "\<exists>s. reachable started atlas_event s [] \<and> nameless (doc s) \<and> epoch s = 1"
proof -
  let ?s = "fst (run pagehide example_start)"
  have "reachable started atlas_event ?s ([] @ snd (run pagehide example_start))"
    by (rule reachable.event [OF reachable_start]) (rule atlas_event.hidden_away)
  then have "reachable started atlas_event ?s []" by (simp add: pagehide_def)
  moreover from this have "nameless (doc ?s)"
    using locked_page_shows_no_names by (simp add: pagehide_def)
  ultimately show ?thesis by (auto simp: pagehide_def)
qed

text \<open>C28. What is listed is what was received: in every reachable state the rows of the table are
  the displayed entries, in order, there are displayed entries exactly when there is a
  displayed query, and the current page, like every view that waits to be loaded, has a cursor,
  the first one being the empty cursor.\<close>

theorem rows_are_displayed_entries:
  assumes "reachable started atlas_event s ts"
  shows "map row_entry (rows (doc s)) = (case displayedEntries s of None \<Rightarrow> [] | Some es \<Rightarrow> es) \<and>
    (displayedQuery s = None \<longleftrightarrow> displayedEntries s = None) \<and>
    pageIndex s < length (cursors s) \<and> hd (cursors s) = [] \<and>
    (\<forall>v. retryView s = Some v \<or> searchTimer s = Some v \<longrightarrow> v_pageIndex v < length (v_cursors v))"
proof -
  have "steady s" using page.invariant [OF assms] by (rule page_ok_steady)
  then show ?thesis
    by (cases "cursors s") (auto simp: steady_def coherent_def paged_def view_ok_def listed_def)
qed

theorem rows_are_displayed_entries_witness:
  "rows (doc example_start) = [] \<and> pageIndex example_start < length (cursors example_start)"
proof -
  have "displayedEntries example_start = None"
    using core_fields(21) [of example_start "first_page False False 1000000 False"]
    by (simp add: example_start_def) (simp add: first_page_def)
  then show ?thesis using rows_are_displayed_entries [OF reachable_start] by simp
qed

text \<open>C19. The listing is well typed: in every reachable state the table has at most 200 rows and every
  row holds an entry of the right type, whatever the server sent (a file or a directory with a
  path of 1 to 8192 code units, a size that is a non-negative safe integer or, for a directory,
  unknown, a time that a date can represent, and for a file a positive revision and a SHA-256);
  and every page after the first, of the current view and of the views that wait to be loaded,
  has a cursor of 1 to 8194 code units.\<close>

theorem listing_well_typed:
  assumes "reachable started atlas_event s ts"
  shows "length (rows (doc s)) \<le> 200 \<and> list_all (\<lambda>r. typed_entry (row_entry r)) (rows (doc s)) \<and>
    list_all typed_cursor (tl (cursors s)) \<and>
    (\<forall>v. retryView s = Some v \<or> searchTimer s = Some v \<longrightarrow> list_all typed_cursor (tl (v_cursors v)))"
proof -
  have s: "steady s" using page.invariant [OF assms] by (rule page_ok_steady)
  then have "length (listed s) \<le> 200 \<and> list_all typed_entry (listed s)"
    by (auto simp: steady_def coherent_def split: option.splits)
  then show ?thesis
    using s by (auto simp: listed_def list_all_iff steady_def paged_def view_ok_def)
qed

theorem listing_well_typed_witness:
  "\<exists>s ts. reachable started atlas_event s ts \<and> map row_entry (rows (doc s)) = listed_entries example_listing \<and>
     list_all (\<lambda>r. typed_entry (row_entry r)) (rows (doc s))"
proof -
  let ?s = "fst example_loading" and ?a = "Net (Inr (example_response example_listing))"
  obtain k where ts: "snd example_loading = [load_waiting 0] @ Await (Fetch (load_req example_view 0)) k # []"
    by (simp add: example_loading_def load_def load_waiting_def request_def)
  have "request_result (load_req example_view 0) (Inr (example_response example_listing)) = Inr (Data example_listing)"
    by (rule request_example_response) (simp_all add: load_req_def get_req_def)
  with ts have k: "k ?a = load_done example_view 0 0 example_listing Done"
    by (auto simp: example_loading_def load_def load_waiting_def request_def)
  have start: "aborted example_start 0 = False" "listingRequest example_start = None" "displayedQuery example_start = None"
    using core_fields [of example_start "first_page False False 1000000 False"]
    by (simp_all add: example_start_def) (simp_all add: first_page_def)
  have "displayedQuery ?s = None" "epoch ?s = 0" "\<not> aborted ?s 0"
    by (simp_all add: example_loading_def load_def load_waiting_def request_def start, simp_all add: load_begin_def start abort_def new_controller_def)
  moreover have "steady ?s" using page.invariant [OF reachable_restored] by (rule page_ok_steady)
  ultimately have fresh: "epoch ?s = 0" "\<not> aborted ?s 0" "displayedEntries ?s = None"
    by (auto simp: steady_def coherent_def)
  have valid: "valid_listing example_listing" "example_listing \<noteq> JNull"
    by (simp_all add: example_listing_def valid_listing_def validateEntry_def)
  let ?t = "fst (run (k ?a) ?s)"
  have "?t = load_finally 0 (shown example_view example_listing ?s)"
    unfolding k load_done_def using fresh valid
    by (simp add: refresh_details_def directoryInfo_def request_def Let_def split: option.split)
  then have rows: "map row_entry (rows (doc ?t)) = listed_entries example_listing"
    using shown_listed [of example_view example_listing ?s] fresh(3)
    by (simp add: sameEntries_def listed_def load_finally_def)
  have reach: "reachable started atlas_event ?t ([load_waiting 0] @ snd (run (k ?a) ?s) @ [])"
    by (rule reachable.resume, rule reachable_restored [unfolded ts])
  from listing_well_typed [OF reach] reach rows show ?thesis by blast
qed

text \<open>C29. One transfer at a time: no reachable state has both an upload and a download, and a page
  with a session has the web limits of the protocol and a timer that locks it no later than the
  session expires.\<close>

theorem transfers_exclude_each_other:
  assumes "reachable started atlas_event s ts"
  shows "\<not> (upload s \<noteq> None \<and> transfer s \<noteq> None) \<and>
    (case session s of
       None \<Rightarrow> True
     | Some d \<Rightarrow> chunk_bytes d = 8388608 \<and> download_limit d = 268435456 \<and>
         (\<exists>t. expiry s = Some t \<and> t \<le> expires_at d * 1000))"
proof -
  have "steady s" using page.invariant [OF assms] by (rule page_ok_steady)
  then show ?thesis
    by (auto simp: steady_def exclusive_def guarded_def split: option.split)
qed

theorem transfers_exclude_each_other_witness:
  "\<exists>s ts. reachable started atlas_event s ts \<and> session s \<noteq> None \<and> (\<exists>t. expiry s = Some t \<and> t \<le> 2000000)"
proof -
  have "session (fst example_loading) = Some (session_of example_session)"
    by (simp add: example_loading_def load_def load_waiting_def request_def)
  then show ?thesis
    using transfers_exclude_each_other [OF reachable_restored] reachable_restored by fastforce
qed

text \<open>C30. Sessions end only with an epoch: whatever suspended handler gets whatever answer, the
  epoch never decreases, a session is lost only if the epoch grows, an aborted request stays
  aborted, and the kind of the page never changes. Together with the epochs that handlers
  compare, an answer to a question of an earlier session is never acted upon in a later one.\<close>

theorem resumed_handlers_keep_session:
  assumes "reachable started atlas_event s (xs @ Await q k # ys)"
    and "s' = fst (run (k r) s)"
  shows "epoch s \<le> epoch s' \<and> (session s \<noteq> None \<and> session s' = None \<longrightarrow> epoch s < epoch s') \<and>
    (\<forall>i. aborted s i \<longrightarrow> aborted s' i) \<and> statusPage s' = statusPage s \<and> editorPage s' = editorPage s"
  using page.resume_guarantee [OF assms(1), of r] assms(2) unfolding keeps_def by (metis le_neq_implies_less)

theorem resumed_handlers_keep_session_witness:
  "\<exists>q k ys. reachable started atlas_event (fst example_loading) ([] @ Await q k # ys) \<and>
     (\<forall>r. epoch (fst example_loading) \<le> epoch (fst (run (k r) (fst example_loading))))"
proof -
  obtain q k ys where *: "snd example_loading = [] @ Await q k # ys"
    by (simp add: example_loading_def load_def load_waiting_def request_def)
  show ?thesis
    using reachable_restored [unfolded *] resumed_handlers_keep_session [OF reachable_restored [unfolded *] refl]
    by blast
qed

end
