(* ===== verification/Code.thy ===== *)
theory Code
  imports Atlas_State
begin

text \<open>
  The code input (web/editor-src/code.js): detection of the indentation unit, the guides drawn
  in the leading white space, the Tab key, the status line and the settings. CodeMirror itself
  is not modelled: the functions take from it what the source reads (the selected ranges, the
  line around a position, whether a completion was accepted) and return what the source tells
  it to do.
\<close>

section \<open>Indentation\<close>

abbreviation newline :: "16 word" where
  "newline \<equiv> 10"

abbreviation tab_unit :: "16 word" where
  "tab_unit \<equiv> 9"

abbreviation space_unit :: "16 word" where
  "space_unit \<equiv> 32"

text \<open>\<open>line.match(/^[\t ]*/)[0]\<close>.\<close>

definition leading :: "jstring \<Rightarrow> jstring" where
  "leading line = takeWhile (\<lambda>u. u = tab_unit \<or> u = space_unit) line"

definition indents :: "jstring \<Rightarrow> jstring list" where
  "indents txt = filter (\<lambda>i. i \<noteq> [])
     (map leading (filter (list_ex (\<lambda>u. \<not> js_space u)) (split_on newline txt)))"

definition space_widths :: "jstring list \<Rightarrow> nat list" where
  "space_widths is = map length (filter (list_all (\<lambda>u. u = space_unit)) is)"

definition indentation :: "jstring \<Rightarrow> jstring" where
  "indentation txt =
     (let is = indents txt; widths = space_widths is;
          width = (if widths = [] then 4 else Min (set widths)) in
      if 2 * length (filter (\<lambda>i. hd i = tab_unit) is) > length is then [tab_unit]
      else replicate (if width \<in> {2, 4, 8} then width else 4) space_unit)"

text \<open>The tab size of a unit, and the entry of the settings list that stands for it.\<close>

definition tab_size :: "jstring \<Rightarrow> nat" where
  "tab_size unit = (if unit = [tab_unit] then 4 else length unit)"

definition indent_setting :: "jstring \<Rightarrow> jstring" where
  "indent_setting unit = (if unit = [tab_unit] then js ''tab'' else dec (length unit))"

text \<open>The user chooses another entry of the list, which offers \<open>tab\<close>, 2, 4 and 8.\<close>

datatype indent_choice = TabChoice | Spaces nat

definition indent_change :: "indent_choice \<Rightarrow> jstring" where
  "indent_change c = (case c of TabChoice \<Rightarrow> [tab_unit] | Spaces n \<Rightarrow> replicate n space_unit)"

section \<open>Indentation guides\<close>

text \<open>
  The inner loop of \<open>build\<close> on the leading white space of a line: the marked ranges, relative
  to the start of the line. \<open>i\<close> counts the characters read.
\<close>

fun guides :: "nat \<Rightarrow> nat \<Rightarrow> nat \<Rightarrow> nat \<Rightarrow> jstring \<Rightarrow> (nat \<times> nat) list" where
  "guides width start column i [] = []"
| "guides width start column i (u # us) =
     (if column < 256 then
        (let column = column + (if u = tab_unit then width - column mod width else 1) in
         if column mod width = 0
         then (start, i + 1) # guides width (i + 1) column (i + 1) us
         else guides width start column (i + 1) us)
      else [])"

record line =
  line_from :: nat
  line_to :: nat
  line_text :: jstring

text \<open>
  The outer loop over a visible range: \<open>lineAt\<close> is CodeMirror's. The loop ends because the line
  around a position reaches beyond it.
\<close>

partial_function (option) visible_lines ::
    "(nat \<Rightarrow> line) \<Rightarrow> nat \<Rightarrow> nat \<Rightarrow> line list option" where
  "visible_lines lineAt last_pos pos =
     (if pos \<le> last_pos
      then Option.bind (visible_lines lineAt last_pos (line_to (lineAt pos) + 1))
             (\<lambda>ls. Some (lineAt pos # ls))
      else Some [])"

definition line_guides :: "nat \<Rightarrow> line \<Rightarrow> (nat \<times> nat) list" where
  "line_guides width l =
     map (\<lambda>(a, b). (line_from l + a, line_from l + b)) (guides width 0 0 0 (leading (line_text l)))"

definition build :: "(nat \<Rightarrow> line) \<Rightarrow> nat \<Rightarrow> (nat \<times> nat) list \<Rightarrow> (nat \<times> nat) list option" where
  "build lineAt width visibleRanges =
     map_option (concat \<circ> map (line_guides width) \<circ> concat)
       (those (map (\<lambda>(first_pos, last_pos). visible_lines lineAt last_pos first_pos) visibleRanges))"

section \<open>The Tab key\<close>

record range =
  r_from :: nat
  r_to :: nat
  r_head :: nat

datatype tab_result =
    Unhandled                              \<comment> \<open>the browser moves the focus\<close>
  | Completed
  | IndentMore
  | InsertTab
  | Insert "(nat \<times> nat \<times> jstring) list" "nat list"   \<comment> \<open>replacements, and cursors before mapping\<close>

definition tab_spaces :: "jstring \<Rightarrow> nat \<Rightarrow> jstring" where
  "tab_spaces unit column = replicate (length unit - column mod length unit) space_unit"

text \<open>\<open>accepted\<close>: a completion was active and CodeMirror accepted it.\<close>

definition tab :: "jstring \<Rightarrow> bool \<Rightarrow> bool \<Rightarrow> (nat \<Rightarrow> line) \<Rightarrow> range list \<Rightarrow> tab_result" where
  "tab unit readOnly accepted lineAt ranges =
     (if readOnly then Unhandled
      else if accepted then Completed
      else if list_ex (\<lambda>r. r_from r \<noteq> r_to r) ranges then IndentMore
      else if unit = [tab_unit] then InsertTab
      else
        let spaces = (\<lambda>r. tab_spaces unit (r_head r - line_from (lineAt (r_head r)))) in
        Insert (map (\<lambda>r. (r_from r, r_to r, spaces r)) ranges)
               (map (\<lambda>r. r_from r + length (spaces r)) ranges))"

section \<open>Status line and buttons\<close>

definition position_text :: "nat \<Rightarrow> nat \<Rightarrow> nat \<Rightarrow> range list \<Rightarrow> label" where
  "position_text number start head ranges =
     (let count = sum_list (map (\<lambda>r. r_to r - r_from r) ranges) in
      Text (''Ln {}, Col {}'' @ (if count \<noteq> 0 then '' {} car. selectionnes'' else []) @
            (if length ranges > 1 then '' {} curseurs'' else []))
        ([Num (int number), Num (int head - int start + 1)] @
         (if count \<noteq> 0 then [Num (int count)] else []) @
         (if length ranges > 1 then [Num (int (length ranges))] else [])))"

definition lines_text :: "nat \<Rightarrow> label" where
  "lines_text n = Text (if n > 1 then ''{} lignes'' else ''{} ligne'') [Num (int n)]"

text \<open>The disabled state of the undo, redo and re-indent buttons.\<close>

definition buttons_disabled :: "bool \<Rightarrow> nat \<Rightarrow> nat \<Rightarrow> bool \<times> bool \<times> bool" where
  "buttons_disabled is_editable undos redos = (\<not> is_editable \<or> undos = 0, \<not> is_editable \<or> redos = 0, \<not> is_editable)"

section \<open>Completion\<close>

text \<open>
  \<open>complete(context)\<close>: the place where the completed text starts, if anything is offered.
  \<open>node\<close> is the name of the syntax node, \<open>word\<close> the start of the identifier before the cursor.
\<close>

definition contains :: "string \<Rightarrow> string \<Rightarrow> bool" where
  "contains pat txt \<longleftrightarrow> (\<exists>i \<in> set [0..<length txt + 1]. take (length pat) (drop i txt) = pat)"

definition complete_from :: "string \<Rightarrow> nat option \<Rightarrow> bool \<Rightarrow> nat \<Rightarrow> nat option" where
  "complete_from node word explicit pos =
     (if contains ''String'' node \<or> contains ''Comment'' node then None
      else case word of
        Some start \<Rightarrow> Some start
      | None \<Rightarrow> if explicit then Some pos else None)"

text \<open>The offered templates, by their labels, and for C its words with their kinds.\<close>

definition snippets :: "bool \<Rightarrow> string list" where
  "snippets python = (if python then [''def'', ''class'', ''for'', ''if'', ''try'', ''main'']
     else [''for'', ''if'', ''while'', ''main'', ''struct''])"

definition cWords :: "string list" where
  "cWords = [''auto'', ''break'', ''case'', ''char'', ''const'', ''continue'', ''default'', ''do'', ''double'',
     ''else'', ''enum'', ''extern'', ''float'', ''for'', ''goto'', ''if'', ''inline'', ''int'', ''long'', ''register'',
     ''restrict'', ''return'', ''short'', ''signed'', ''sizeof'', ''static'', ''struct'', ''switch'', ''typedef'',
     ''union'', ''unsigned'', ''void'', ''volatile'', ''while'', ''_Bool'', ''_Complex'', ''_Atomic'', ''size_t'',
     ''NULL'', ''EOF'', ''printf'', ''fprintf'', ''snprintf'', ''scanf'', ''puts'', ''putchar'', ''getchar'', ''fgets'',
     ''fopen'', ''fclose'', ''malloc'', ''calloc'', ''realloc'', ''free'', ''memcpy'', ''memmove'', ''memset'',
     ''strlen'', ''strcmp'', ''strcpy'', ''exit'', ''abs'']"

definition starts_with :: "string \<Rightarrow> string \<Rightarrow> bool" where
  "starts_with pat str \<longleftrightarrow> take (length pat) str = pat"

definition word_kind :: "string \<Rightarrow> string" where
  "word_kind w = (if list_ex (\<lambda>f. starts_with f w) [''printf'', ''puts'', ''malloc'', ''free'', ''fopen'']
     then ''function'' else ''keyword'')"

definition completions :: "bool \<Rightarrow> (string \<times> string) list" where
  "completions python = map (\<lambda>l. (l, ''text'')) (snippets python) @
     (if python then [] else map (\<lambda>w. (w, word_kind w)) cWords)"

section \<open>Properties\<close>

text \<open>The detected unit is a tab exactly when more than half of the indented lines start with
  one, and otherwise two, four or eight spaces: the narrowest indentation by spaces when it has
  one of these widths. Choosing in the settings list the entry shown for the unit gives the unit.\<close>

theorem indentation_detects:
  "(indentation txt = [tab_unit] \<longleftrightarrow>
      2 * length (filter (\<lambda>i. hd i = tab_unit) (indents txt)) > length (indents txt)) \<and>
   (indentation txt = [tab_unit] \<or> indentation txt \<in> (\<lambda>n. replicate n space_unit) ` {2, 4, 8}) \<and>
   (\<forall>w \<in> {2, 4, 8}. w \<in> set (space_widths (indents txt)) \<and> (\<forall>v \<in> set (space_widths (indents txt)). w \<le> v) \<longrightarrow>
      indentation txt \<in> {[tab_unit], replicate w space_unit}) \<and>
   indent_change (if indentation txt = [tab_unit] then TabChoice else Spaces (tab_size (indentation txt))) =
     indentation txt"
proof -
  let ?tabs = "2 * length (filter (\<lambda>i. hd i = tab_unit) (indents txt)) > length (indents txt)"
  define ws where "ws = space_widths (indents txt)"
  define w where "w = (if ws = [] then 4 else Min (set ws))"
  have eq: "indentation txt = (if ?tabs then [tab_unit]
      else replicate (if w \<in> {2, 4, 8} then w else 4) space_unit)"
    by (simp add: indentation_def Let_def ws_def w_def)
  have no_tab: "replicate n space_unit \<noteq> [tab_unit]" for n
    by (cases n) simp_all
  have "Min (set ws) = v" if "v \<in> set ws" "\<forall>x \<in> set ws. v \<le> x" for v
    using that by (intro Min_eqI) auto
  then have least: "w = v" if "v \<in> set ws" "\<forall>x \<in> set ws. v \<le> x" for v
    using that by (auto simp: w_def)
  show ?thesis
    unfolding eq using no_tab least
    by (auto simp: indent_change_def tab_size_def ws_def)
qed

theorem indentation_detects_witness:
  "indentation [105, newline, space_unit, space_unit, 121] = [space_unit, space_unit]"
proof -
  have "indents [105, newline, space_unit, space_unit, 121] = [[space_unit, space_unit]]"
    by (simp add: indents_def leading_def js_space_def)
  then show ?thesis
    using indentation_detects [of "[105, newline, space_unit, space_unit, 121]"]
    by (simp add: space_widths_def) (auto simp: numeral_2_eq_2)
qed

text \<open>The column after the first \<open>k\<close> characters of white space, from column \<open>c\<close>.\<close>

definition advance :: "nat \<Rightarrow> 16 word \<Rightarrow> nat \<Rightarrow> nat" where
  "advance width u c = c + (if u = tab_unit then width - c mod width else 1)"

definition column_at :: "nat \<Rightarrow> nat \<Rightarrow> jstring \<Rightarrow> nat \<Rightarrow> nat" where
  "column_at width c us k = fold (advance width) (take k us) c"

definition stops :: "nat \<Rightarrow> nat \<Rightarrow> jstring \<Rightarrow> nat list" where
  "stops width c us = filter (\<lambda>k. column_at width c us k mod width = 0 \<and> column_at width c us (k - 1) < 256)
     [1..<length us + 1]"

lemma column_at_mono: "width > 0 \<Longrightarrow> column_at width c us k \<ge> c"
  unfolding column_at_def
proof (induction us arbitrary: c k)
  case (Cons u us)
  have "c \<le> advance width u c" by (simp add: advance_def)
  then show ?case
    using Cons by (cases k) (auto intro: order.trans)
qed simp

lemma stops_Nil [simp]: "stops width c [] = []"
  by (simp add: stops_def)

lemma stops_late: "width > 0 \<Longrightarrow> 256 \<le> c \<Longrightarrow> stops width c us = []"
  unfolding stops_def filter_empty_conv by (metis column_at_mono leD order.trans)

lemma stops_Cons:
  assumes "width > 0"
  shows "stops width c (u # us) =
    (if c < 256 then (if advance width u c mod width = 0 then [1] else []) @
       map Suc (stops width (advance width u c) us) else [])"
proof (cases "c < 256")
  case True
  let ?P = "\<lambda>k. column_at width c (u # us) k mod width = 0 \<and> column_at width c (u # us) (k - 1) < 256"
  have step: "column_at width c (u # us) (Suc k) = column_at width (advance width u c) us k" for k
    by (simp add: column_at_def)
  have "[1..<length (u # us) + 1] = 1 # map Suc [1..<length us + 1]"
    by (simp add: upt_conv_Cons map_Suc_upt del: upt_Suc)
  moreover have "?P 1 \<longleftrightarrow> advance width u c mod width = 0"
    using True by (simp add: column_at_def)
  moreover have "filter ?P (map Suc [1..<length us + 1]) = map Suc (stops width (advance width u c) us)"
  proof -
    have "?P (Suc k) \<longleftrightarrow> column_at width (advance width u c) us k mod width = 0 \<and>
        column_at width (advance width u c) us (k - 1) < 256" if "k \<in> set [1..<length us + 1]" for k
    proof -
      have "k \<noteq> 0" using that by (intro notI) (cases us, simp_all)
      then obtain j where "k = Suc j" by (cases k rule: nat.exhaust) auto
      then show ?thesis using step [of k] step [of j] by simp
    qed
    then have "filter (?P \<circ> Suc) [1..<length us + 1] = stops width (advance width u c) us"
      unfolding stops_def o_def by (rule filter_cong [OF refl])
    then show ?thesis by (simp only: filter_map)
  qed
  ultimately show ?thesis using True by (simp add: stops_def del: upt_Suc)
next
  case False
  then show ?thesis using stops_late [OF assms, of c "u # us"] by simp
qed

lemma guides_Cons:
  "guides width start c i (u # us) =
     (if c < 256 then
        (if advance width u c mod width = 0
         then (start, i + 1) # guides width (i + 1) (advance width u c) (i + 1) us
         else guides width start (advance width u c) (i + 1) us)
      else [])"
  by (simp add: advance_def Let_def)

lemma guides_stops:
  assumes "width > 0"
  shows "guides width start c i us =
    zip (start # map ((+) i) (stops width c us)) (map ((+) i) (stops width c us))"
proof (induction us arbitrary: start c i)
  case (Cons u us)
  have shift: "map ((+) i) (map Suc ks) = map ((+) (i + 1)) ks" for ks by simp
  show ?case
    unfolding guides_Cons stops_Cons [OF assms] Cons.IH
    by (simp add: shift del: map_map)
qed simp

text \<open>C37. The guides of a line mark its leading white space from tab stop to tab stop: the ranges
  follow each other without gap from the start of the line, and they end exactly after the
  characters that reach a multiple of the tab size, among those that begin before column 256.\<close>

theorem guides_mark_tab_stops:
  assumes "width > 0"
  shows "guides width 0 0 0 blanks = zip (0 # stops width 0 blanks) (stops width 0 blanks)"
  using guides_stops [OF assms, of 0 0 0 blanks] by (simp add: map_idI)

theorem guides_mark_tab_stops_witness:
  "guides 4 0 0 0 [tab_unit, space_unit, tab_unit, space_unit] = [(0, 1), (1, 3)]"
  using guides_mark_tab_stops [of 4 "[tab_unit, space_unit, tab_unit, space_unit]"]
  by (simp add: stops_Cons advance_def)

text \<open>The loop over a visible range ends, with lines that follow each other and cover the range.\<close>

lemma visible_lines_total:
  assumes "\<And>p. p \<le> last_pos \<Longrightarrow> p \<le> line_to (lineAt p)"
  shows "\<exists>ls. visible_lines lineAt last_pos pos = Some ls \<and> set ls \<subseteq> lineAt ` {pos..last_pos} \<and>
    (\<forall>p \<in> {pos..last_pos}. \<exists>l \<in> set ls. p \<le> line_to l) \<and>
    (\<forall>l \<in> set ls. pos \<le> line_to l) \<and> sorted_wrt (\<lambda>l m. line_to l < line_to m) ls"
proof (induction "last_pos + 1 - pos" arbitrary: pos rule: less_induct)
  case less
  show ?case
  proof (cases "pos \<le> last_pos")
    case True
    let ?l = "lineAt pos"
    from True assms have to: "pos \<le> line_to ?l" by blast
    then have "last_pos + 1 - (line_to ?l + 1) < last_pos + 1 - pos" using True by linarith
    from less [OF this] obtain ls where ls: "visible_lines lineAt last_pos (line_to ?l + 1) = Some ls"
      "set ls \<subseteq> lineAt ` {line_to ?l + 1..last_pos}"
      "\<forall>p \<in> {line_to ?l + 1..last_pos}. \<exists>l \<in> set ls. p \<le> line_to l"
      "\<forall>l \<in> set ls. line_to ?l + 1 \<le> line_to l" "sorted_wrt (\<lambda>l m. line_to l < line_to m) ls"
      by blast
    have "visible_lines lineAt last_pos pos = Some (?l # ls)"
      using True ls(1) by (subst visible_lines.simps) simp
    moreover have "\<exists>l \<in> set (?l # ls). p \<le> line_to l" if "p \<in> {pos..last_pos}" for p
      using ls(3) that by (cases "p \<le> line_to ?l") auto
    moreover have "set (?l # ls) \<subseteq> lineAt ` {pos..last_pos}"
      using ls(2) to True by auto
    ultimately show ?thesis
      using ls(4,5) to by fastforce
  qed (simp add: visible_lines.simps)
qed

lemma zip_increasing:
  "sorted_wrt (<) (x # xs) \<Longrightarrow> (a, b) \<in> set (zip (x # xs) xs) \<Longrightarrow> a < b \<and> b \<in> set (xs :: nat list)"
  by (induction xs arbitrary: x) auto

lemma guides_inside:
  assumes "width > 0" and "(a, b) \<in> set (guides width 0 0 0 blanks)"
  shows "a < b \<and> b \<le> length blanks"
proof -
  have "sorted_wrt (<) (0 # stops width 0 blanks)"
    by (auto simp: stops_def sorted_wrt_filter simp del: upt_Suc)
  moreover have "(a, b) \<in> set (zip (0 # stops width 0 blanks) (stops width 0 blanks))"
    using assms guides_stops [OF assms(1), of 0 0 0 blanks] by (simp add: map_idI)
  ultimately have "a < b \<and> b \<in> set (stops width 0 blanks)" by (rule zip_increasing)
  then show ?thesis by (auto simp: stops_def simp del: upt_Suc)
qed

text \<open>C40. Drawing the guides ends: when the line that CodeMirror returns for a position reaches it, the
  loops over the visible ranges stop, and every guide is a non-empty range inside the leading
  white space of a line of some visible range.\<close>

theorem build_ends:
  assumes "\<And>p. p \<le> line_to (lineAt p)" and "width > 0"
  shows "\<exists>gs. build lineAt width visibleRanges = Some gs \<and>
    (\<forall>(a, b) \<in> set gs. a < b \<and> (\<exists>(first_pos, last_pos) \<in> set visibleRanges. \<exists>p \<in> {first_pos..last_pos}.
       line_from (lineAt p) \<le> a \<and> b \<le> line_from (lineAt p) + length (leading (line_text (lineAt p)))))"
proof -
  define P where "P l \<longleftrightarrow> (\<exists>(first_pos, last_pos) \<in> set visibleRanges. \<exists>p \<in> {first_pos..last_pos}. l = lineAt p)" for l
  have "\<exists>ls. those (map (\<lambda>(first_pos, last_pos). visible_lines lineAt last_pos first_pos) rs) = Some ls \<and>
      (\<forall>l \<in> set (concat ls). P l)" if "set rs \<subseteq> set visibleRanges" for rs
    using that
  proof (induction rs)
    case (Cons r rs)
    obtain first_pos last_pos where r: "r = (first_pos, last_pos)" by fastforce
    obtain ls where "visible_lines lineAt last_pos first_pos = Some ls" "set ls \<subseteq> lineAt ` {first_pos..last_pos}"
      using visible_lines_total [of last_pos lineAt first_pos] assms(1) by blast
    moreover from this(2) have "\<forall>l \<in> set ls. P l" using Cons.prems r unfolding P_def by fastforce
    ultimately show ?case using Cons r by auto
  qed simp
  then obtain ls where ls: "those (map (\<lambda>(first_pos, last_pos). visible_lines lineAt last_pos first_pos) visibleRanges) = Some ls"
    "\<forall>l \<in> set (concat ls). P l" by blast
  have "a < b \<and> line_from l \<le> a \<and> b \<le> line_from l + length (leading (line_text l))"
    if "(a, b) \<in> set (line_guides width l)" for a b l
    using that guides_inside [OF assms(2)] by (auto simp: line_guides_def)
  with ls(2) have "\<forall>(a, b) \<in> set ((concat \<circ> map (line_guides width) \<circ> concat) ls). a < b \<and>
      (\<exists>l. P l \<and> line_from l \<le> a \<and> b \<le> line_from l + length (leading (line_text l)))"
    by fastforce
  then show ?thesis unfolding build_def ls(1) P_def by fastforce
qed

theorem build_ends_witness:
  "\<exists>gs. build (\<lambda>p. \<lparr>line_from = p div 5 * 5, line_to = p div 5 * 5 + 4, line_text = replicate 4 space_unit\<rparr>) 2 [(0, 3), (7, 12)] = Some gs"
proof -
  have "p \<le> p div 5 * 5 + 4" for p :: nat by presburger
  then show ?thesis
    using build_ends [of "\<lambda>p. \<lparr>line_from = p div 5 * 5, line_to = p div 5 * 5 + 4, line_text = replicate 4 space_unit\<rparr>" 2 "[(0, 3), (7, 12)]"]
    by auto
qed

text \<open>Tab leads to the next tab stop: on empty selections, with a unit of spaces, each cursor
  gets between one and \<open>unit\<close> spaces, after which its column is a multiple of the unit.\<close>

theorem tab_reaches_next_stop:
  assumes "tab unit readOnly accepted lineAt ranges = Insert changes carets"
    and "unit \<noteq> []" and "r \<in> set ranges"
    and "column = r_head r - line_from (lineAt (r_head r))"
  shows "(r_from r, r_to r, tab_spaces unit column) \<in> set changes \<and> r_from r = r_to r \<and>
    r_from r + length (tab_spaces unit column) \<in> set carets \<and>
    1 \<le> length (tab_spaces unit column) \<and> length (tab_spaces unit column) \<le> length unit \<and>
    (column + length (tab_spaces unit column)) mod length unit = 0"
proof -
  let ?n = "length unit"
  have "column mod ?n < ?n" using assms(2) by simp
  then have bounds: "1 \<le> ?n - column mod ?n" "?n - column mod ?n \<le> ?n" by linarith+
  have "column + (?n - column mod ?n) = column div ?n * ?n + ?n"
    using \<open>column mod ?n < ?n\<close> div_mult_mod_eq [of column ?n] by linarith
  then have "(column + (?n - column mod ?n)) mod ?n = 0" by simp
  with bounds show ?thesis
    using assms(1,3,4)
    by (auto simp: tab_def tab_spaces_def Let_def list_ex_iff simp del: Nat.add_diff_assoc
        split: if_splits)
qed

theorem tab_reaches_next_stop_witness:
  "(3 + length (tab_spaces [space_unit, space_unit, space_unit, space_unit] 3)) mod 4 = 0"
proof -
  have "tab [space_unit, space_unit, space_unit, space_unit] False False
      (\<lambda>_. \<lparr>line_from = 10, line_to = 20, line_text = []\<rparr>) [\<lparr>r_from = 13, r_to = 13, r_head = 13\<rparr>] =
      Insert [(13, 13, [space_unit])] [14]"
    by (simp add: tab_def tab_spaces_def)
  from tab_reaches_next_stop [OF this, of "\<lparr>r_from = 13, r_to = 13, r_head = 13\<rparr>" 3]
  show ?thesis by simp
qed

end
