(* ===== verification/Code_Input.thy ===== *)
theory Code_Input
  imports Code
begin

text \<open>
  The code input as an object (web/editor-src/code.js, \<open>createCode\<close>): its variables, the state of
  the CodeMirror view that it creates, configures and reconfigures, what it shows in the status
  line, and its key bindings, buttons and settings. CodeMirror is the library: an \<open>update\<close> is what
  one of its updates did, and the record \<open>codemirror\<close> holds the functions that the source reads
  its documents with. The result is that the view, the guides and the status line are always in
  step with the variables, whatever the user and CodeMirror do.
\<close>

section \<open>State\<close>

record codemirror =
  cm_normal :: "jstring \<Rightarrow> jstring"            \<comment> \<open>the document made of a text\<close>
  cm_line :: "jstring \<Rightarrow> nat \<Rightarrow> line"           \<comment> \<open>\<open>doc.lineAt\<close>\<close>
  cm_number :: "jstring \<Rightarrow> nat \<Rightarrow> nat"         \<comment> \<open>its \<open>number\<close>\<close>
  cm_lines :: "jstring \<Rightarrow> nat"                 \<comment> \<open>\<open>doc.lines\<close>\<close>

text \<open>What the compartments and the other configurable extensions are set to.\<close>

record config =
  c_unit :: jstring
  c_tab :: nat
  c_wrap :: bool
  c_whitespace :: bool
  c_readOnly :: bool
  c_editable :: bool
  c_dark :: bool

datatype callback = OnChange | OnSave | OnRun

record code_input =
  the_unit :: jstring                     \<comment> \<open>\<open>unit\<close>\<close>
  is_editable :: bool                    \<comment> \<open>\<open>editable\<close>\<close>
  wrap_pressed :: bool
  whitespace_pressed :: bool
  indent_value :: jstring
  page_dark :: bool                      \<comment> \<open>\<open>data-theme\<close> of the document\<close>
  theme_pending :: bool                  \<comment> \<open>the observer has not been called yet\<close>
  in_doc :: jstring
  selection :: "range list"
  main_head :: nat
  undos :: nat
  redos :: nat
  visible :: "(nat \<times> nat) list"
  config_of :: config
  decorations :: "(nat \<times> nat) list option"
  shown_position :: label
  shown_lines :: label
  shown_disabled :: "bool \<times> bool \<times> bool"   \<comment> \<open>undo, redo, re-indent\<close>
  callbacks :: "callback list"

section \<open>The view\<close>

text \<open>\<open>extensions()\<close>.\<close>

definition extensions :: "code_input \<Rightarrow> config" where
  "extensions s = \<lparr>c_unit = the_unit s, c_tab = tab_size (the_unit s), c_wrap = wrap_pressed s,
     c_whitespace = whitespace_pressed s, c_readOnly = \<not> is_editable s, c_editable = is_editable s,
     c_dark = page_dark s\<rparr>"

text \<open>The plugin of the guides.\<close>

definition build_view :: "codemirror \<Rightarrow> code_input \<Rightarrow> code_input" where
  "build_view cm s = s\<lparr>decorations := build (cm_line cm (in_doc s)) (c_tab (config_of s)) (visible s)\<rparr>"

definition plugin_update :: "codemirror \<Rightarrow> bool \<Rightarrow> bool \<Rightarrow> nat \<Rightarrow> code_input \<Rightarrow> code_input" where
  "plugin_update cm doc_changed viewport_changed old_tab s =
     (if doc_changed \<or> viewport_changed \<or> old_tab \<noteq> c_tab (config_of s) then build_view cm s else s)"

definition show_status :: "codemirror \<Rightarrow> code_input \<Rightarrow> code_input" where
  "show_status cm s = s\<lparr>
     shown_position := position_text (cm_number cm (in_doc s) (main_head s))
       (line_from (cm_line cm (in_doc s) (main_head s))) (main_head s) (selection s),
     shown_lines := lines_text (cm_lines cm (in_doc s)),
     shown_disabled := buttons_disabled (is_editable s) (undos s) (redos s)\<rparr>"

definition call :: "callback \<Rightarrow> code_input \<Rightarrow> code_input" where
  "call c s = s\<lparr>callbacks := callbacks s @ [c]\<rparr>"

text \<open>\<open>EditorView.updateListener\<close>.\<close>

definition listener :: "codemirror \<Rightarrow> bool \<Rightarrow> bool \<Rightarrow> nat \<Rightarrow> code_input \<Rightarrow> code_input" where
  "listener cm doc_changed selection_set transactions s =
     (let s = (if doc_changed then call OnChange s else s) in
      if doc_changed \<or> selection_set \<or> transactions \<noteq> 0 then show_status cm s else s)"

text \<open>
  An update of the view. What it does not report stays: the document unless \<open>docChanged\<close>, the
  visible ranges unless \<open>viewportChanged\<close>, and everything of the state without transactions.
\<close>

record update =
  docChanged :: bool
  selectionSet :: bool
  viewportChanged :: bool
  transactions :: nat
  new_doc :: jstring
  new_selection :: "range list"
  new_head :: nat
  new_undos :: nat
  new_redos :: nat
  new_visible :: "(nat \<times> nat) list"

definition transact :: "update \<Rightarrow> code_input \<Rightarrow> code_input" where
  "transact u s =
     (let s = (if viewportChanged u then s\<lparr>visible := new_visible u\<rparr> else s) in
      if transactions u = 0 then s
      else s\<lparr>in_doc := (if docChanged u then new_doc u else in_doc s), selection := new_selection u,
             main_head := new_head u, undos := new_undos u, redos := new_redos u\<rparr>)"

definition view_update :: "codemirror \<Rightarrow> (config \<Rightarrow> config) \<Rightarrow> update \<Rightarrow> code_input \<Rightarrow> code_input" where
  "view_update cm f u s =
     listener cm (docChanged u \<and> transactions u \<noteq> 0) (selectionSet u \<and> transactions u \<noteq> 0) (transactions u)
       (plugin_update cm (docChanged u \<and> transactions u \<noteq> 0) (viewportChanged u) (c_tab (config_of s))
          (transact u (s\<lparr>config_of := f (config_of s)\<rparr>)))"

text \<open>\<open>view.dispatch({effects})\<close>: one transaction, which may move what is visible.\<close>

definition reconfigure ::
    "codemirror \<Rightarrow> (nat \<times> nat) list option \<Rightarrow> (config \<Rightarrow> config) \<Rightarrow> code_input \<Rightarrow> code_input" where
  "reconfigure cm vis f s = view_update cm f
     \<lparr>docChanged = False, selectionSet = False, viewportChanged = (vis \<noteq> None), transactions = 1, new_doc = [],
      new_selection = selection s, new_head = main_head s, new_undos = undos s, new_redos = redos s,
      new_visible = (case vis of None \<Rightarrow> [] | Some v \<Rightarrow> v)\<rparr> s"

text \<open>\<open>EditorState.create\<close>, shown by a new view or by \<open>setState\<close>, which makes the plugin anew.\<close>

definition create_state :: "codemirror \<Rightarrow> (nat \<times> nat) list \<Rightarrow> jstring \<Rightarrow> code_input \<Rightarrow> code_input" where
  "create_state cm vis str s = build_view cm (s\<lparr>in_doc := cm_normal cm str,
     selection := [\<lparr>r_from = 0, r_to = 0, r_head = 0\<rparr>], main_head := 0, undos := 0, redos := 0,
     visible := vis, config_of := extensions s\<rparr>)"

section \<open>The object\<close>

definition first_input :: "codemirror \<Rightarrow> bool \<Rightarrow> (nat \<times> nat) list \<Rightarrow> code_input" where
  "first_input cm dark vis = show_status cm (create_state cm vis []
     \<lparr>the_unit = replicate 4 space_unit, is_editable = False, wrap_pressed = False, whitespace_pressed = False,
      indent_value = js ''4'', page_dark = dark, theme_pending = False, in_doc = [], selection = [],
      main_head = 0, undos = 0, redos = 0, visible = [],
      config_of = \<lparr>c_unit = [], c_tab = 0, c_wrap = False, c_whitespace = False, c_readOnly = False,
        c_editable = False, c_dark = False\<rparr>,
      decorations = None, shown_position = no_text, shown_lines = no_text,
      shown_disabled = (False, False, False), callbacks = []\<rparr>)"

definition set_input_value :: "codemirror \<Rightarrow> (nat \<times> nat) list \<Rightarrow> jstring \<Rightarrow> code_input \<Rightarrow> code_input" where
  "set_input_value cm vis str s = show_status cm (create_state cm vis str
     (s\<lparr>the_unit := indentation str, indent_value := indent_setting (indentation str)\<rparr>))"

definition set_readOnly :: "codemirror \<Rightarrow> (nat \<times> nat) list option \<Rightarrow> bool \<Rightarrow> code_input \<Rightarrow> code_input" where
  "set_readOnly cm vis v s =
     (let s = s\<lparr>is_editable := \<not> v\<rparr> in
      show_status cm (if c_readOnly (config_of s) \<noteq> v
                 then reconfigure cm vis (\<lambda>c. c\<lparr>c_readOnly := v, c_editable := \<not> v\<rparr>) s else s))"

definition wrap_click :: "codemirror \<Rightarrow> (nat \<times> nat) list option \<Rightarrow> code_input \<Rightarrow> code_input" where
  "wrap_click cm vis s =
     (let enabled = \<not> wrap_pressed s in
      reconfigure cm vis (c_wrap_update (\<lambda>_. enabled)) (s\<lparr>wrap_pressed := enabled\<rparr>))"

definition whitespace_click :: "codemirror \<Rightarrow> (nat \<times> nat) list option \<Rightarrow> code_input \<Rightarrow> code_input" where
  "whitespace_click cm vis s =
     (let enabled = \<not> whitespace_pressed s in
      reconfigure cm vis (c_whitespace_update (\<lambda>_. enabled)) (s\<lparr>whitespace_pressed := enabled\<rparr>))"

text \<open>The user has chosen \<open>c\<close> in the list.\<close>

definition choice_value :: "indent_choice \<Rightarrow> jstring" where
  "choice_value c = (case c of TabChoice \<Rightarrow> js ''tab'' | Spaces n \<Rightarrow> dec n)"

definition indent_select :: "codemirror \<Rightarrow> (nat \<times> nat) list option \<Rightarrow> indent_choice \<Rightarrow> code_input \<Rightarrow> code_input" where
  "indent_select cm vis c s =
     (let unit = indent_change c in
      reconfigure cm vis (\<lambda>f. f\<lparr>c_unit := unit, c_tab := tab_size unit\<rparr>)
        (s\<lparr>indent_value := choice_value c, the_unit := unit\<rparr>))"

text \<open>The page changes its theme, of which the observer is told later.\<close>

definition page_theme :: "bool \<Rightarrow> code_input \<Rightarrow> code_input" where
  "page_theme dark s = s\<lparr>page_dark := dark, theme_pending := True\<rparr>"

definition theme_observed :: "codemirror \<Rightarrow> (nat \<times> nat) list option \<Rightarrow> code_input \<Rightarrow> code_input" where
  "theme_observed cm vis s =
     reconfigure cm vis (c_dark_update (\<lambda>_. page_dark s)) (s\<lparr>theme_pending := False\<rparr>)"

section \<open>Keys and buttons\<close>

text \<open>A command of the source, or one of CodeMirror by its name.\<close>

datatype command = Save | Run | Tab | Library string

record binding =
  bound_key :: string
  bound_run :: command
  bound_shift :: "command option"
  prevents_default :: bool

definition bound :: "string \<Rightarrow> command \<Rightarrow> bool \<Rightarrow> binding" where
  "bound k c p = \<lparr>bound_key = k, bound_run = c, bound_shift = None, prevents_default = p\<rparr>"

text \<open>The bindings of the source, which come before those of CodeMirror.\<close>

definition bindings :: "binding list" where
  "bindings =
     [bound ''Mod-s'' Save False, bound ''Mod-Shift-z'' (Library ''redo'') True, bound ''Mod-Enter'' Run False,
      (bound ''Tab'' Tab False)\<lparr>bound_shift := Some (Library ''indentLess'')\<rparr>,
      bound ''Mod-d'' (Library ''selectNextOccurrence'') True, bound ''Mod-/'' (Library ''toggleComment'') False,
      bound ''Mod-h'' (Library ''openSearchPanel'') True, bound ''Mod-g'' (Library ''gotoLine'') True,
      bound ''Mod-Shift-i'' (Library ''indentSelection'') False]"

definition toolbar :: "(string \<times> string) list" where
  "toolbar = [(''editor-undo'', ''undo''), (''editor-redo'', ''redo''), (''editor-find'', ''openSearchPanel''),
     (''editor-goto'', ''gotoLine''), (''editor-reindent'', ''indentSelection'')]"

text \<open>
  A command and whether it handled the key. \<open>us\<close> and \<open>b\<close> are the updates that CodeMirror makes
  for it and the result of its own command; \<open>accepted\<close> as for \<open>tab\<close>.
\<close>

definition run_command ::
    "codemirror \<Rightarrow> bool \<Rightarrow> update list \<Rightarrow> bool \<Rightarrow> command \<Rightarrow> code_input \<Rightarrow> bool \<times> code_input" where
  "run_command cm accepted us b c s =
     (let moved = fold (view_update cm id) us s in
      case c of
        Save \<Rightarrow> (True, call OnSave s)
      | Run \<Rightarrow> (True, call OnRun s)
      | Tab \<Rightarrow>
          (case tab (the_unit s) (c_readOnly (config_of s)) accepted (cm_line cm (in_doc s)) (selection s) of
             Unhandled \<Rightarrow> (False, s)
           | Insert changes carets \<Rightarrow> (True, moved)
           | Completed \<Rightarrow> (True, moved)
           | IndentMore \<Rightarrow> (b, moved)
           | InsertTab \<Rightarrow> (b, moved))
      | Library name \<Rightarrow> (b, moved))"

text \<open>A click on a button of the toolbar: the view gets the focus and runs the command.\<close>

definition toolbar_click :: "codemirror \<Rightarrow> update list \<Rightarrow> string \<Rightarrow> code_input \<Rightarrow> code_input" where
  "toolbar_click cm us i s =
     (case map_of toolbar i of
        None \<Rightarrow> s
      | Some name \<Rightarrow> snd (run_command cm False us True (Library name) s))"

section \<open>What can happen to it\<close>

inductive input_event :: "codemirror \<Rightarrow> code_input \<Rightarrow> code_input \<Rightarrow> bool" for cm where
  updated: "input_event cm s (view_update cm id u s)"
| key_pressed: "b \<in> set bindings \<Longrightarrow> c = bound_run b \<or> bound_shift b = Some c \<Longrightarrow>
    input_event cm s (snd (run_command cm accepted us r c s))"
| button_clicked: "input_event cm s (toolbar_click cm us i s)"
| wrap_clicked: "input_event cm s (wrap_click cm vis s)"
| whitespace_clicked: "input_event cm s (whitespace_click cm vis s)"
| indent_chosen: "input_event cm s (indent_select cm vis c s)"
| loaded: "input_event cm s (set_input_value cm vis' str s)"
| made_readOnly: "input_event cm s (set_readOnly cm vis v s)"
| theme_changed: "input_event cm s (page_theme dark s)"
| theme_reported: "input_event cm s (theme_observed cm vis s)"

inductive_cases input_eventE: "input_event cm s s'"

section \<open>In step\<close>

definition status_shown :: "codemirror \<Rightarrow> code_input \<Rightarrow> bool" where
  "status_shown cm s \<longleftrightarrow>
     shown_position s = position_text (cm_number cm (in_doc s) (main_head s))
       (line_from (cm_line cm (in_doc s) (main_head s))) (main_head s) (selection s) \<and>
     shown_lines s = lines_text (cm_lines cm (in_doc s)) \<and>
     shown_disabled s = (\<not> is_editable s \<or> undos s = 0, \<not> is_editable s \<or> redos s = 0, \<not> is_editable s)"

text \<open>The configuration apart from the theme.\<close>

definition settings :: "config \<Rightarrow> jstring \<times> nat \<times> bool \<times> bool \<times> bool \<times> bool" where
  "settings c = (c_unit c, c_tab c, c_wrap c, c_whitespace c, c_readOnly c, c_editable c)"

definition in_step :: "codemirror \<Rightarrow> code_input \<Rightarrow> bool" where
  "in_step cm s \<longleftrightarrow>
     settings (config_of s) = settings (extensions s) \<and> (theme_pending s \<or> c_dark (config_of s) = page_dark s) \<and>
     indent_value s = indent_setting (the_unit s) \<and>
     decorations s = build (cm_line cm (in_doc s)) (tab_size (the_unit s)) (visible s) \<and> status_shown cm s"

lemma status_shown_show_status [simp]: "status_shown cm (show_status cm s)"
  by (simp add: status_shown_def show_status_def buttons_disabled_def)

lemma show_status_fields [simp]:
  "config_of (show_status cm s) = config_of s" "extensions (show_status cm s) = extensions s"
  "page_dark (show_status cm s) = page_dark s" "theme_pending (show_status cm s) = theme_pending s"
  "indent_value (show_status cm s) = indent_value s" "the_unit (show_status cm s) = the_unit s"
  "decorations (show_status cm s) = decorations s" "in_doc (show_status cm s) = in_doc s"
  "visible (show_status cm s) = visible s" "callbacks (show_status cm s) = callbacks s"
  "undos (show_status cm s) = undos s" "redos (show_status cm s) = redos s"
  by (simp_all add: show_status_def extensions_def)

lemma indent_setting_choice: "indent_setting (indent_change c) = choice_value c"
proof -
  have "replicate n space_unit \<noteq> [tab_unit]" for n by (cases n) auto
  then show ?thesis by (cases c) (auto simp: indent_setting_def indent_change_def choice_value_def)
qed

lemmas dispatch_defs = view_update_def listener_def plugin_update_def transact_def build_view_def call_def Let_def

lemma view_update_fields [simp]:
  "config_of (view_update cm f u s) = f (config_of s)" "page_dark (view_update cm f u s) = page_dark s"
  "theme_pending (view_update cm f u s) = theme_pending s" "indent_value (view_update cm f u s) = indent_value s"
  "the_unit (view_update cm f u s) = the_unit s" "is_editable (view_update cm f u s) = is_editable s"
  "wrap_pressed (view_update cm f u s) = wrap_pressed s"
  "whitespace_pressed (view_update cm f u s) = whitespace_pressed s"
  by (simp_all add: dispatch_defs) (simp_all add: show_status_def)

lemma extensions_view_update [simp]: "extensions (view_update cm f u s) = extensions s"
  by (simp add: extensions_def)

lemma decorations_view_update:
  "decorations s = build (cm_line cm (in_doc s)) (c_tab (config_of s)) (visible s) \<Longrightarrow>
   decorations (view_update cm f u s) = build (cm_line cm (in_doc (view_update cm f u s)))
     (c_tab (f (config_of s))) (visible (view_update cm f u s))"
  by (cases "transactions u = 0"; cases "docChanged u"; cases "viewportChanged u";
      cases "c_tab (config_of s) = c_tab (f (config_of s))"; simp add: dispatch_defs)

lemma status_shown_view_update:
  assumes "status_shown cm s \<or> transactions u \<noteq> 0"
  shows "status_shown cm (view_update cm f u s)"
proof (cases "transactions u = 0")
  case True
  with assms show ?thesis by (simp add: dispatch_defs) (simp add: status_shown_def)
qed (simp add: view_update_def listener_def)

text \<open>An update leaves the view in step when the variables are those of the new configuration.\<close>

lemma in_step_view_update:
  assumes "status_shown cm s \<or> transactions u \<noteq> 0"
    and "decorations s = build (cm_line cm (in_doc s)) (c_tab (config_of s)) (visible s)"
    and "settings (f (config_of s)) = settings (extensions s)"
    and "theme_pending s \<or> c_dark (f (config_of s)) = page_dark s"
    and "indent_value s = indent_setting (the_unit s)"
  shows "in_step cm (view_update cm f u s)"
proof -
  have "c_tab (f (config_of s)) = tab_size (the_unit s)"
    using assms(3) by (simp add: extensions_def settings_def)
  with assms decorations_view_update [OF assms(2), of f u] status_shown_view_update [OF assms(1)] show ?thesis
    by (simp add: in_step_def)
qed

lemma in_stepD:
  assumes "in_step cm s"
  shows "decorations s = build (cm_line cm (in_doc s)) (c_tab (config_of s)) (visible s)"
    "settings (config_of s) = settings (extensions s)" "theme_pending s \<or> c_dark (config_of s) = page_dark s"
    "indent_value s = indent_setting (the_unit s)" "status_shown cm s"
proof -
  have "settings (config_of s) = settings (extensions s)" using assms by (simp add: in_step_def)
  then have "c_tab (config_of s) = tab_size (the_unit s)"
    by (simp add: extensions_def settings_def)
  with assms show "decorations s = build (cm_line cm (in_doc s)) (c_tab (config_of s)) (visible s)"
    by (simp add: in_step_def)
qed (use assms in \<open>simp_all add: in_step_def\<close>)

lemma in_step_create:
  "indent_value s = indent_setting (the_unit s) \<Longrightarrow> in_step cm (show_status cm (create_state cm vis str s))"
  by (simp add: in_step_def create_state_def build_view_def) (simp add: extensions_def)

lemma in_step_first: "in_step cm (first_input cm dark vis)"
proof -
  have "js ''4'' = indent_setting (replicate 4 space_unit)" by code_simp
  then show ?thesis unfolding first_input_def by (intro in_step_create) simp
qed

lemma in_step_reconfigure:
  assumes "decorations s = build (cm_line cm (in_doc s)) (c_tab (config_of s)) (visible s)"
    and "settings (f (config_of s)) = settings (extensions s)"
    and "theme_pending s \<or> c_dark (f (config_of s)) = page_dark s"
    and "indent_value s = indent_setting (the_unit s)"
  shows "in_step cm (reconfigure cm vis f s)"
  unfolding reconfigure_def by (rule in_step_view_update) (simp_all add: assms)

lemma in_step_update: "in_step cm s \<Longrightarrow> in_step cm (view_update cm id u s)"
  by (simp add: in_step_view_update in_stepD)

lemma in_step_updates: "in_step cm s \<Longrightarrow> in_step cm (fold (view_update cm id) us s)"
  by (induction us arbitrary: s) (simp_all add: in_step_update)

lemma in_step_call: "in_step cm (call c s) = in_step cm s"
  by (simp add: in_step_def call_def status_shown_def extensions_def)

lemma in_step_command: "in_step cm s \<Longrightarrow> in_step cm (snd (run_command cm accepted us r c s))"
  by (auto simp: run_command_def Let_def in_step_call in_step_updates split: command.split tab_result.split)

lemma in_step_show_status: "in_step cm s \<Longrightarrow> in_step cm (show_status cm s)"
  by (simp add: in_step_def)

lemma settings_extensions: "settings (extensions s) = (the_unit s, tab_size (the_unit s), wrap_pressed s,
    whitespace_pressed s, \<not> is_editable s, is_editable s)"
  by (simp add: settings_def extensions_def)

lemma in_step_settings:
  assumes "in_step cm s"
  shows "in_step cm (wrap_click cm vis s)" "in_step cm (whitespace_click cm vis s)"
    "in_step cm (indent_select cm vis c s)" "in_step cm (theme_observed cm vis s)"
    "in_step cm (page_theme dark s)" "in_step cm (set_readOnly cm vis v s)"
proof -
  note s = in_stepD [OF assms]
  show "in_step cm (wrap_click cm vis s)"
    unfolding wrap_click_def Let_def using s
    by (intro in_step_reconfigure; simp add: settings_extensions) (simp add: settings_def)
  show "in_step cm (whitespace_click cm vis s)"
    unfolding whitespace_click_def Let_def using s
    by (intro in_step_reconfigure; simp add: settings_extensions) (simp add: settings_def)
  show "in_step cm (indent_select cm vis c s)"
    unfolding indent_select_def Let_def using s
    by (intro in_step_reconfigure; simp add: settings_extensions indent_setting_choice) (simp add: settings_def)
  show "in_step cm (theme_observed cm vis s)"
    unfolding theme_observed_def using s
    by (intro in_step_reconfigure; simp add: settings_extensions) (simp add: settings_def)
  show "in_step cm (page_theme dark s)"
    using assms by (simp add: page_theme_def in_step_def settings_extensions status_shown_def)
  show "in_step cm (set_readOnly cm vis v s)"
  proof (cases "c_readOnly (config_of s) = v")
    case True
    then have "is_editable s = (\<not> v)" using s(2) by (auto simp: settings_def extensions_def)
    then have "s\<lparr>is_editable := \<not> v\<rparr> = s" by (cases s) simp
    with True assms show ?thesis unfolding set_readOnly_def by (simp add: in_step_show_status)
  next
    case False
    have "in_step cm (reconfigure cm vis (\<lambda>c. c\<lparr>c_readOnly := v, c_editable := \<not> v\<rparr>) (s\<lparr>is_editable := \<not> v\<rparr>))"
      using s by (intro in_step_reconfigure; simp add: settings_extensions) (simp add: settings_def)
    with False show ?thesis unfolding set_readOnly_def by (simp add: in_step_show_status)
  qed
qed

text \<open>C34. The code input is in step: from the moment it is made, whatever CodeMirror and the user do
  with it and however the controller loads texts into it and opens and closes it, the view is
  configured as the variables and buttons say (unit and tab size, wrapping, white space,
  read-only; and the theme, unless the page has just changed it), the settings list shows the
  unit, the guides are those of the visible text, and the status line and the undo, redo and
  re-indent buttons belong to the current document, selection and history.\<close>

theorem input_in_step:
  assumes "(input_event cm)\<^sup>*\<^sup>* (first_input cm dark vis) s"
  shows "settings (config_of s) = settings (extensions s) \<and> (theme_pending s \<or> c_dark (config_of s) = page_dark s) \<and>
    indent_value s = indent_setting (the_unit s) \<and>
    decorations s = build (cm_line cm (in_doc s)) (tab_size (the_unit s)) (visible s) \<and> status_shown cm s"
proof -
  have "in_step cm s" using assms
  proof (induction rule: rtranclp_induct)
    case (step s t)
    from step.hyps(2) step.IH show ?case
      by (cases rule: input_eventE)
        (auto simp: in_step_settings in_step_command toolbar_click_def set_input_value_def in_step_create
          in_step_update dest: in_stepD(4) split: option.split)
  qed (rule in_step_first)
  then show ?thesis by (simp add: in_step_def)
qed

text \<open>A view of one line.\<close>

definition example_cm :: codemirror where
  "example_cm = \<lparr>cm_normal = id, cm_line = (\<lambda>str _. \<lparr>line_from = 0, line_to = length str, line_text = str\<rparr>),
     cm_number = (\<lambda>_ _. 1), cm_lines = (\<lambda>_. 1)\<rparr>"

theorem input_in_step_witness:
  "status_shown example_cm (set_readOnly example_cm None False (first_input example_cm True []))"
proof -
  have "(input_event example_cm)\<^sup>*\<^sup>* (first_input example_cm True []) (set_readOnly example_cm None False (first_input example_cm True []))"
    by (rule r_into_rtranclp) (rule input_event.made_readOnly)
  from input_in_step [OF this] show ?thesis by blast
qed

section \<open>Edits are reported\<close>











end
