(* ===== verification/Tokens.thy ===== *)
theory Tokens
  imports Async
begin

text \<open>
  Mutual exclusion among handlers. A state may record the owner of a resource (\<open>holder\<close>); the
  handlers of a page are \<open>free\<close> when they use the resource only by starting a handler that
  owns it, and only when nobody does, and such a handler (\<open>own\<close>) keeps it until its end. Then
  at any moment at most one suspended handler owns the resource, and exactly one when the state
  records an owner; queries marked by \<open>guard\<close> are issued by the owner only.
\<close>

section \<open>Owners and others\<close>

inductive own :: "('s \<Rightarrow> nat option) \<Rightarrow> nat \<Rightarrow> ('q, 'r, 's) proc \<Rightarrow> bool" for holder i where
  own_await: "(\<And>r. own holder i (k r)) \<Longrightarrow> own holder i (Await q k)"
| own_act: "(\<And>s. holder s = Some i \<Longrightarrow>
      holder (fst (f s)) = Some i \<and> own holder i (snd (f s)) \<or> holder (fst (f s)) = None \<and> snd (f s) = Done) \<Longrightarrow>
    own holder i (Act f)"

text \<open>What a segment of another handler does: it leaves the owner alone, or starts one.\<close>

inductive free :: "('s \<Rightarrow> nat option) \<Rightarrow> ('q \<Rightarrow> bool) \<Rightarrow> ('q, 'r, 's) proc \<Rightarrow> bool" for holder guard where
  free_done: "free holder guard Done"
| free_await: "\<not> guard q \<Longrightarrow> (\<And>r. free holder guard (k r)) \<Longrightarrow> free holder guard (Await q k)"
| free_fork: "free holder guard p \<Longrightarrow> free holder guard p' \<Longrightarrow> free holder guard (Fork p p')"
| free_act: "(\<And>s. holder (fst (f s)) = holder s \<and> free holder guard (snd (f s)) \<or>
      (\<exists>i t p. holder s = None \<and> holder (fst (f s)) = Some i \<and> snd (f s) \<in> {t, Fork t p} \<and>
         waiting t \<and> own holder i t \<and> free holder guard p)) \<Longrightarrow>
    free holder guard (Act f)"

inductive_cases own_ActE: "own holder i (Act f)"
inductive_cases own_AwaitE: "own holder i (Await q k)"
inductive_cases free_AwaitE: "free holder guard (Await q k)"

lemma free_keepI:
  "(\<And>s. holder (fst (f s)) = holder s) \<Longrightarrow> (\<And>s. free holder guard (snd (f s))) \<Longrightarrow> free holder guard (Act f)"
  by (rule free_act) blast

text \<open>The handlers that are suspended when the state is \<open>s\<close>.\<close>

definition held :: "('s \<Rightarrow> nat option) \<Rightarrow> ('q \<Rightarrow> bool) \<Rightarrow> 's \<Rightarrow> ('q, 'r, 's) proc list \<Rightarrow> bool" where
  "held holder guard s ts \<longleftrightarrow>
     (case holder s of
        None \<Rightarrow> list_all (free holder guard) ts
      | Some i \<Rightarrow> \<exists>xs t ys. ts = xs @ t # ys \<and> own holder i t \<and> list_all (free holder guard) (xs @ ys))"

lemma held_None: "holder s = None \<Longrightarrow> held holder guard s ts = list_all (free holder guard) ts"
  by (simp add: held_def)

lemma held_frame:
  assumes "held holder guard s ts" and "list_all (free holder guard) xs" and "list_all (free holder guard) ys"
  shows "held holder guard s (xs @ ts @ ys)"
proof (cases "holder s")
  case (Some i)
  with assms(1) obtain us t vs where "ts = us @ t # vs" "own holder i t" "list_all (free holder guard) (us @ vs)"
    by (auto simp: held_def)
  with assms(2,3) have "xs @ ts @ ys = (xs @ us) @ t # (vs @ ys) \<and> own holder i t \<and>
      list_all (free holder guard) ((xs @ us) @ (vs @ ys))" by simp
  with Some show ?thesis unfolding held_def by (simp only: option.case) blast
qed (use assms in \<open>simp add: held_None\<close>)

lemma run_waiting_self: "waiting t \<Longrightarrow> run t s = (s, [t])"
  by (cases t) auto

lemma two_places:
  assumes "xs @ a # ys = us @ t # vs"
  shows "(\<exists>zs. us = xs @ a # zs \<and> ys = zs @ t # vs) \<or> us = xs \<and> t = a \<and> vs = ys \<or>
    (\<exists>zs. xs = us @ t # zs \<and> vs = zs @ a # ys)"
  using assms by (auto simp: append_eq_append_conv2 Cons_eq_append_conv append_eq_Cons_conv)

text \<open>A run of a handler that is not the owner.\<close>

lemma free_run:
  "free holder guard p \<Longrightarrow>
   holder (fst (run p s)) = holder s \<and> list_all (free holder guard) (snd (run p s)) \<or>
   holder s = None \<and> holder (fst (run p s)) \<noteq> None \<and> held holder guard (fst (run p s)) (snd (run p s))"
proof (induction arbitrary: s rule: free.induct)
  case (free_await q k)
  then show ?case by (auto intro: free.free_await)
next
  case (free_fork p p')
  let ?s = "fst (run p s)"
  note 1 = free_fork.IH(1) [of s] and 2 = free_fork.IH(2) [of ?s]
  show ?case
  proof (cases "holder ?s = holder s \<and> list_all (free holder guard) (snd (run p s))")
    case True
    with 2 show ?thesis using held_frame [of holder guard _ _ "snd (run p s)" "[]"] by auto
  next
    case False
    with 1 have s: "holder s = None" "holder ?s \<noteq> None" "held holder guard ?s (snd (run p s))" by auto
    with 2 have "holder (fst (run p' ?s)) = holder ?s" "list_all (free holder guard) (snd (run p' ?s))" by auto
    with s held_frame [of holder guard ?s "snd (run p s)" "[]" "snd (run p' ?s)"] show ?thesis
      by (simp add: held_def)
  qed
next
  case (free_act f)
  from free_act.IH [of s] show ?case
  proof (elim disjE exE conjE)
    assume same: "holder (fst (f s)) = holder s"
      and "\<forall>s'. holder (fst (run (snd (f s)) s')) = holder s' \<and> list_all (free holder guard) (snd (run (snd (f s)) s')) \<or>
        holder s' = None \<and> holder (fst (run (snd (f s)) s')) \<noteq> None \<and>
        held holder guard (fst (run (snd (f s)) s')) (snd (run (snd (f s)) s'))"
    then show ?thesis by (metis run_Act)
  next
    fix i t p
    assume start: "holder s = None" "holder (fst (f s)) = Some i" "snd (f s) \<in> {t, Fork t p}"
      "waiting t" "own holder i t"
      and p: "\<forall>s'. holder (fst (run p s')) = holder s' \<and> list_all (free holder guard) (snd (run p s')) \<or>
        holder s' = None \<and> holder (fst (run p s')) \<noteq> None \<and> held holder guard (fst (run p s')) (snd (run p s'))"
    have alone: "held holder guard s' [t]" if "holder s' = Some i" for s'
      using that start(5) by (auto simp: held_def intro!: exI [of _ "[]"])
    from p start(2) have "holder (fst (run p (fst (f s)))) = Some i" "list_all (free holder guard) (snd (run p (fst (f s))))"
      by (metis option.distinct(1))+
    with start alone held_frame [of holder guard _ "[t]" "[]" "snd (run p (fst (f s)))"] show ?thesis
      by (auto simp: run_waiting_self)
  qed
qed simp_all

text \<open>A run of the owner: it goes on, or it ends and gives the resource back.\<close>

lemma own_run:
  "own holder i p \<Longrightarrow> holder s = Some i \<Longrightarrow>
   holder (fst (run p s)) = Some i \<and> (\<exists>t. snd (run p s) = [t] \<and> own holder i t) \<or>
   holder (fst (run p s)) = None \<and> snd (run p s) = []"
proof (induction arbitrary: s rule: own.induct)
  case (own_await k q)
  then show ?case by (auto intro: own.own_await)
next
  case (own_act f)
  from own_act.IH [OF own_act.prems] show ?case by (auto simp: own_act.prems)
qed

section \<open>Executions\<close>

definition awaits :: "('q \<Rightarrow> bool) \<Rightarrow> ('q, 'r, 's) proc \<Rightarrow> bool" where
  "awaits P t \<longleftrightarrow> (\<exists>q k. t = Await q k \<and> P q)"


locale tokens =
  fixes init :: "'s \<Rightarrow> bool"
    and ev :: "'s \<Rightarrow> ('q, 'r, 's) proc \<Rightarrow> bool"
    and holder :: "'s \<Rightarrow> nat option"
    and guard :: "'q \<Rightarrow> bool"
  assumes init_free: "init s \<Longrightarrow> holder s = None"
    and event_free: "ev s p \<Longrightarrow> free holder guard p"
begin

lemma reachable_held: "reachable init ev s ts \<Longrightarrow> held holder guard s ts"
proof (induction rule: reachable.induct)
  case (start s)
  then show ?case by (simp add: held_None init_free)
next
  case (event s ts p)
  note run = free_run [OF event_free [OF event.hyps(2)], of s]
  show ?case
  proof (cases "holder (fst (run p s)) = holder s \<and> list_all (free holder guard) (snd (run p s))")
    case True
    then have "held holder guard (fst (run p s)) ts" using event.IH by (simp add: held_def)
    with True held_frame [of holder guard _ ts "[]"] show ?thesis by simp
  next
    case False
    with run event.IH have "held holder guard (fst (run p s)) (snd (run p s))" "list_all (free holder guard) ts"
      by (auto simp: held_None)
    with held_frame [of holder guard _ "snd (run p s)" ts "[]"] show ?thesis by simp
  qed
next
  case (resume s xs q k ys r)
  let ?p = "k r"
  show ?case
  proof (cases "holder s")
    case None
    with resume.IH have "free holder guard (Await q k)" and rest: "list_all (free holder guard) xs" "list_all (free holder guard) ys"
      by (simp_all add: held_None)
    then have "free holder guard ?p" by (blast elim: free_AwaitE)
    from free_run [OF this, of s] have "held holder guard (fst (run ?p s)) (snd (run ?p s))"
      using None by (auto simp: held_None)
    with rest show ?thesis by (simp add: held_frame)
  next
    case (Some i)
    with resume.IH obtain us t vs where split: "xs @ Await q k # ys = us @ t # vs" and t: "own holder i t"
      and rest: "list_all (free holder guard) (us @ vs)" by (auto simp: held_def)
    have free: "holder (fst (run ?p s)) = Some i \<and> list_all (free holder guard) (snd (run ?p s))"
      if "free holder guard (Await q k)"
    proof -
      from that have "free holder guard ?p" by (blast elim: free_AwaitE)
      from free_run [OF this, of s] Some show ?thesis by simp
    qed
    have owned: "held holder guard s' (us' @ t' # vs')"
      if "holder s' = Some i" "own holder i t'" "list_all (free holder guard) us'" "list_all (free holder guard) vs'"
      for s' us' t' vs'
      using that by (auto simp: held_def)
    consider (left) zs where "us = xs @ Await q k # zs" "ys = zs @ t # vs" | (same) "us = xs" "t = Await q k" "vs = ys"
      | (right) zs where "xs = us @ t # zs" "vs = zs @ Await q k # ys"
      using two_places [OF split] by blast
    then show ?thesis
    proof cases
      case left
      with rest free t owned [of "fst (run ?p s)" t "xs @ snd (run ?p s) @ zs" vs] show ?thesis by simp
    next
      case right
      with rest free t owned [of "fst (run ?p s)" t us "zs @ snd (run ?p s) @ ys"] show ?thesis by simp
    next
      case same
      with t have "own holder i ?p" by (blast elim: own_AwaitE)
      from own_run [OF this Some] show ?thesis
      proof (elim disjE exE conjE)
        fix u assume "holder (fst (run ?p s)) = Some i" "snd (run ?p s) = [u]" "own holder i u"
        with rest same owned [of "fst (run ?p s)" u xs ys] show ?thesis by simp
      next
        assume "holder (fst (run ?p s)) = None" "snd (run ?p s) = []"
        with rest same show ?thesis by (simp add: held_None)
      qed
    qed
  qed
qed

text \<open>At most one handler waits for a guarded query, and none without an owner.\<close>

lemma one_guarded:
  assumes "reachable init ev s ts"
  shows "length (filter (awaits guard) ts) \<le> (if holder s = None then 0 else 1)"
proof -
  have none: "filter (awaits guard) us = []" if "list_all (free holder guard) us" for us :: "('q, 'r, 's) proc list"
    using that by (auto simp: filter_empty_conv list_all_iff awaits_def elim: free_AwaitE)
  from reachable_held [OF assms] show ?thesis
    by (cases "holder s") (auto simp: held_def none)
qed

lemma owner_suspended:
  assumes "reachable init ev s ts" and "holder s = Some i"
  shows "\<exists>t \<in> set ts. own holder i t"
  using reachable_held [OF assms(1)] assms(2) by (auto simp: held_def)

end

end
