(* ===== verification/Editor_State.thy ===== *)
theory Editor_State
  imports Complex_Main Authorize
begin

text \<open>
  The state of the code editor (web/editor-src/controller.js) and its synchronous building
  blocks: what counts as unsaved, notices and controls, the scheduling of saves, and locking. The
  code input is CodeMirror; the state holds the text of its document, and \<open>normal\<close> stands for what CodeMirror makes of a text it is given.
\<close>

section \<open>State\<close>

record unconfirmed_save =
  un_text :: jstring
  un_code :: jstring
  un_base :: int

record running_job =
  job_id :: jstring
  job_sha :: "json option"

record editor =
  ed_path :: jstring
  ed_now :: int
  input_value :: jstring            \<comment> \<open>\<open>input.value\<close>\<close>
  readOnly :: bool
  ed_entry :: "json option"
  savedText :: jstring
  eol :: jstring
  save_timer :: "int option"        \<comment> \<open>the armed timer and its delay\<close>
  saving :: "nat option"            \<comment> \<open>the promise of the running save\<close>
  unconfirmed :: "unconfirmed_save option"
  lastEdit :: int
  editAllowed :: bool
  saveError :: "exn option"
  is_opening :: "nat option"
  ready :: bool
  detecting :: bool
  starting :: bool
  departing :: bool
  job :: "running_job option"
  polling :: bool
  lastRunText :: "jstring option"
  cleared :: bool
  leaving :: bool
  generation :: nat
  ed_controller :: nat
  ed_aborted :: "nat \<Rightarrow> bool"
  fresh :: nat                      \<comment> \<open>controllers and promises created so far\<close>
  outcomes :: "nat \<Rightarrow> exn option option"   \<comment> \<open>how a promise was settled; \<open>Some None\<close>: fulfilled\<close>
  ed_hidden :: "string \<Rightarrow> bool"
  ed_disabled :: "string \<Rightarrow> bool"
  ed_text :: "string \<Rightarrow> label"
  run_output :: "(string \<times> jstring) list"
  run_result :: "label list"
  drafts :: "(jstring \<times> jstring) list"   \<comment> \<open>drafts handed to the browser\<close>
  departures :: "jstring list"            \<comment> \<open>\<open>location.assign\<close>\<close>
  logout_clicks :: nat

type_synonym editor_handler = "editor handler"

definition set_ed_hidden :: "string \<Rightarrow> bool \<Rightarrow> editor \<Rightarrow> editor" where [ui_simps]:
  "set_ed_hidden i b = ed_hidden_update (\<lambda>h. h(i := b))"

definition set_ed_disabled :: "string \<Rightarrow> bool \<Rightarrow> editor \<Rightarrow> editor" where [ui_simps]:
  "set_ed_disabled i b = ed_disabled_update (\<lambda>h. h(i := b))"

definition set_ed_text :: "string \<Rightarrow> label \<Rightarrow> editor \<Rightarrow> editor" where [ui_simps]:
  "set_ed_text i t = ed_text_update (\<lambda>h. h(i := t))"

section \<open>Text and entries\<close>

abbreviation line_feed :: "16 word" where
  "line_feed \<equiv> 10"

abbreviation carriage_return :: "16 word" where
  "carriage_return \<equiv> 13"

definition size_limit :: nat where
  "size_limit = 262144"

definition is_python :: "editor \<Rightarrow> bool" where
  "is_python s = has_extension ''py'' (ed_path s)"

definition dirty :: "editor \<Rightarrow> bool" where
  "dirty s \<longleftrightarrow> ed_entry s \<noteq> None \<and> input_value s \<noteq> savedText s"

text \<open>\<open>text.replace(/\n/g, eol)\<close>.\<close>

definition with_eol :: "jstring \<Rightarrow> jstring \<Rightarrow> jstring" where
  "with_eol e str = concat (map (\<lambda>u. if u = line_feed then e else [u]) str)"

definition content :: "editor \<Rightarrow> jstring" where
  "content s = with_eol (eol s) (input_value s)"

definition lf :: jstring where
  "lf = [line_feed]"

definition crlf :: jstring where
  "crlf = [carriage_return, line_feed]"

definition eol_of :: "jstring \<Rightarrow> jstring" where
  "eol_of str = (if index_of crlf str = None then lf else crlf)"

definition entry_revision :: "json \<Rightarrow> int" where
  "entry_revision e = int_of (prop_of e ''revision'')"

section \<open>Messages\<close>

definition editor_errors :: "bool \<Rightarrow> (string \<times> string) list" where
  "editor_errors python =
     [(''files_edit_disabled'', ''L edition n est pas autorisee sur ce PC. Activez mysync web-files enable-edit, puis relancez le client.''),
      (''files_edit_required'', ''L autorisation d edition a expire. Reessayez pour verifier cet appareil.''),
      (''code_run_disabled'', ''L execution n est pas autorisee sur ce PC. Activez mysync web-files enable-run, puis relancez le client.''),
      (''files_read_disabled'', ''La lecture web doit etre autorisee avec mysync web-files enable, puis le client relance.''),
      (''revision_changed'', ''Ce fichier a change sur le serveur. Votre brouillon est conserve ici et dans .mysync-conflicts/ sur le serveur. Telechargez-le avant de recharger la version courante.''),
      (''conflict_storage_full'', ''Le conflit n a pas pu etre conserve sur le serveur. Telechargez votre brouillon avant de quitter cette page.''),
      (''isolation_unavailable'', ''Les protections locales sont indisponibles. Bubblewrap, prlimit et les limites systemd sont necessaires sur ce PC.''),
      (''tool_missing'', if python then ''Python 3 est absent sur ce PC.'' else ''Aucun compilateur GCC ou Clang n est disponible sur ce PC.''),
      (''runner_authorization_refused'', ''Le client n a pas confirme l autorisation ou la revision a executer. Verifiez cet appareil et le fichier.''),
      (''runner_busy'', ''Une execution est deja en cours sur ce PC. Attendez sa fin.''),
      (''code_too_large'', ''L editeur accepte les fichiers jusqu a 256 Kio. Telechargez votre brouillon ou reduisez sa taille.''),
      (''unsupported_file'', ''L editeur ouvre uniquement les fichiers Python (.py) et C (.c).''),
      (''invalid_text'', ''Ce fichier n est pas du texte UTF-8 pris en charge.''),
      (''session_expired'', ''La session a expire. Telechargez votre brouillon avant de verifier a nouveau cet appareil.''),
      (''authentication_refused'', ''L acces a ete refuse. Telechargez votre brouillon avant de verifier a nouveau cet appareil.''),
      (''local_rejected'', ''Le client local ne prend pas en charge cette autorisation ou utilise une autre cle serveur.''),
      (''file_not_found'', ''Ce fichier n est plus present sur le serveur.''),
      (''challenge_limit'', ''Trop de verifications rapprochees. Attendez une minute et reessayez.''),
      (''rate_limited'', ''Trop de verifications rapprochees. Attendez une minute et reessayez.'')]"

definition message :: "editor \<Rightarrow> exn \<Rightarrow> string \<Rightarrow> label" where
  "message s error fallback =
     caption (case filter (\<lambda>(c, _). has_code error c) (editor_errors (is_python s)) of
        (_, m) # _ \<Rightarrow> m
      | [] \<Rightarrow> fallback)"

definition notice :: "label \<Rightarrow> editor \<Rightarrow> editor" where
  "notice str s = seq
     [set_ed_text ''editor-error'' str, set_ed_hidden ''editor-notice'' (str = no_text),
      set_ed_hidden ''editor-draft'' (\<not> dirty s), set_ed_hidden ''editor-discard'' True] s"

section \<open>Controls\<close>

definition saveStatus :: "editor \<Rightarrow> editor" where
  "saveStatus s = seq
     [set_ed_text ''editor-save-state''
        (caption (if saveError s \<noteq> None then ''Sauvegarde interrompue''
                  else if saving s \<noteq> None then ''Enregistrement...''
                  else if dirty s then ''Modifie''
                  else if ed_entry s = None then ''Ouverture...''
                  else if \<not> editAllowed s then ''Lecture seule'' else ''Enregistre'')),
      set_ed_text ''editor-save-state.state''
        (caption (if saveError s \<noteq> None then ''error''
                  else if saving s \<noteq> None \<or> dirty s then ''pending'' else ''saved'')),
      set_ed_text ''editor-eol'' (caption (if eol s = crlf then ''UTF-8 CRLF'' else ''UTF-8 LF''))] s"

definition controls :: "editor \<Rightarrow> editor" where
  "controls s = seq
     [set_ed_disabled ''editor-run''
        (starting s \<or> departing s \<or>
         job s = None \<and> (ed_entry s = None \<or> \<not> ready s \<or> saveError s \<noteq> None)),
      set_ed_text ''editor-run''
        (caption (if job s \<noteq> None then ''Arreter'' else if starting s then ''Preparation...'' else ''Executer'')),
      readOnly_update (\<lambda>_. \<not> editAllowed s \<or> starting s \<or> departing s),
      saveStatus] s"

definition highlight :: "editor \<Rightarrow> editor" where
  "highlight s = saveStatus (set_ed_hidden ''output-stale''
     (lastRunText s = None \<or> lastRunText s = Some (input_value s) \<or> cleared s) s)"

definition schedule :: "editor \<Rightarrow> editor" where
  "schedule s = s\<lparr>save_timer :=
     (if dirty s \<and> saving s = None \<and> saveError s = None \<and> editAllowed s
      then Some (max 0 (lastEdit s + 100 - ed_now s)) else None)\<rparr>"

text \<open>The user edits the document, which is then \<open>str\<close>; CodeMirror reports the change.\<close>

definition changed :: "editor \<Rightarrow> editor" where
  "changed s = seq
     [lastEdit_update (\<lambda>_. ed_now s), highlight, set_ed_hidden ''editor-discard'' True,
      (\<lambda>s. if saveError s \<noteq> None then set_ed_hidden ''editor-draft'' (\<not> dirty s) s else s),
      schedule] s"

definition user_edit :: "jstring \<Rightarrow> editor_handler" where
  "user_edit str = Act (\<lambda>s. (changed (s\<lparr>input_value := str\<rparr>), Done))"

section \<open>Locking\<close>

text \<open>\<open>lock()\<close>, with its result: whether a draft remains.\<close>

definition lock_forget :: "(jstring \<Rightarrow> jstring) \<Rightarrow> editor \<Rightarrow> editor" where
  "lock_forget normal = seq
     [ed_entry_update (\<lambda>_. None), input_value_update (\<lambda>_. normal []), savedText_update (\<lambda>_. []),
      highlight, run_output_update (\<lambda>_. []), set_ed_hidden ''run-result'' True]"

definition editor_lock :: "(jstring \<Rightarrow> jstring) \<Rightarrow> editor \<Rightarrow> bool \<times> editor" where
  "editor_lock normal s =
     (let s1 = seq [generation_update Suc, save_timer_update (\<lambda>_. None), polling_update (\<lambda>_. False),
                    ed_aborted_update (\<lambda>a. a(ed_controller s := True)),
                    editAllowed_update (\<lambda>_. False), ready_update (\<lambda>_. False),
                    job_update (\<lambda>_. None)] s in
      (dirty s1,
       controls (if dirty s1
         then notice (message s1 (fail ''session_expired'') [])
                (s1\<lparr>saveError := Some (fail ''session_expired'')\<rparr>)
         else lock_forget normal s1)))"

section \<open>The editor when its script has started\<close>

definition first_editor :: "jstring \<Rightarrow> int \<Rightarrow> editor" where
  "first_editor file_path clock =
     \<lparr>ed_path = file_path, ed_now = clock, input_value = [], readOnly = True, ed_entry = None,
      savedText = [], eol = lf, save_timer = None, saving = None, unconfirmed = None, lastEdit = 0,
      editAllowed = False, saveError = None, is_opening = None, ready = False, detecting = False,
      starting = False, departing = False, job = None, polling = False, lastRunText = None,
      cleared = False, leaving = False, generation = 0, ed_controller = 0,
      ed_aborted = (\<lambda>_. False), fresh = 1, outcomes = (\<lambda>_. None),
      ed_hidden = (\<lambda>i. i \<in> {''editor-notice'', ''editor-draft'', ''editor-discard'', ''runner-retry'',
        ''output-stale'', ''run-result''}),
      ed_disabled = (\<lambda>i. i = ''editor-run''), ed_text = (\<lambda>_. no_text), run_output = [],
      run_result = [], drafts = [], departures = [], logout_clicks = 0\<rparr>"

section \<open>What the building blocks leave alone\<close>

text \<open>\<open>substance\<close> forgets the captions, what follows from other variables, and the save timer.\<close>

definition substance :: "editor \<Rightarrow> editor" where
  "substance s = s\<lparr>ed_hidden := (\<lambda>_. False), ed_disabled := (\<lambda>_. False), ed_text := (\<lambda>_. no_text),
     readOnly := False, save_timer := None\<rparr>"

lemma substance_setters [simp]:
  "substance (set_ed_hidden i b s) = substance s" "substance (set_ed_disabled i b s) = substance s"
  "substance (set_ed_text i t s) = substance s" "substance (s\<lparr>readOnly := b\<rparr>) = substance s"
  "substance (s\<lparr>save_timer := d\<rparr>) = substance s"
  by (simp_all add: substance_def ui_simps)

lemma substance_blocks [simp]:
  "substance (saveStatus s) = substance s" "substance (notice t s) = substance s"
  "substance (controls s) = substance s" "substance (highlight s) = substance s"
  "substance (schedule s) = substance s"
  by (simp_all add: saveStatus_def notice_def controls_def highlight_def schedule_def)

lemma substance_fields:
  assumes "substance s = substance s'"
  shows "ed_path s = ed_path s'" "ed_now s = ed_now s'" "input_value s = input_value s'"
    "ed_entry s = ed_entry s'" "savedText s = savedText s'" "eol s = eol s'" "saving s = saving s'"
    "unconfirmed s = unconfirmed s'" "lastEdit s = lastEdit s'" "editAllowed s = editAllowed s'"
    "saveError s = saveError s'" "is_opening s = is_opening s'" "ready s = ready s'"
    "detecting s = detecting s'" "starting s = starting s'" "departing s = departing s'"
    "job s = job s'" "polling s = polling s'" "lastRunText s = lastRunText s'"
    "cleared s = cleared s'" "leaving s = leaving s'" "generation s = generation s'"
    "ed_controller s = ed_controller s'" "ed_aborted s = ed_aborted s'" "fresh s = fresh s'"
    "outcomes s = outcomes s'" "run_output s = run_output s'" "run_result s = run_result s'"
    "drafts s = drafts s'" "departures s = departures s'" "logout_clicks s = logout_clicks s'"
  using assms by (cases s; cases s'; simp add: substance_def)+

lemmas saveStatus_fields [simp] = substance_fields [OF substance_blocks(1)]
lemmas notice_fields [simp] = substance_fields [OF substance_blocks(2)]
lemmas controls_fields [simp] = substance_fields [OF substance_blocks(3)]
lemmas highlight_fields [simp] = substance_fields [OF substance_blocks(4)]
lemmas schedule_fields [simp] = substance_fields [OF substance_blocks(5)]
lemmas set_ed_hidden_fields [simp] = substance_fields [OF substance_setters(1)]
lemmas set_ed_disabled_fields [simp] = substance_fields [OF substance_setters(2)]
lemmas set_ed_text_fields [simp] = substance_fields [OF substance_setters(3)]

lemma dirty_substance: "substance s = substance s' \<Longrightarrow> dirty s = dirty s'"
  using substance_fields [of s s'] by (simp add: dirty_def)

lemmas dirty_blocks [simp] = substance_blocks [THEN dirty_substance] substance_setters [THEN dirty_substance]

lemma controls_read_only [simp]: "readOnly (controls s) = (\<not> editAllowed s \<or> starting s \<or> departing s)"
  by (simp add: controls_def) (simp add: saveStatus_def set_ed_text_def)

lemma block_captions [simp]:
  "ed_hidden (saveStatus s) = ed_hidden s" "ed_hidden (controls s) = ed_hidden s"
  "i \<notin> {''editor-save-state'', ''editor-save-state.state'', ''editor-eol''} \<Longrightarrow>
   ed_text (saveStatus s) i = ed_text s i"
  "i \<notin> {''editor-save-state'', ''editor-save-state.state'', ''editor-eol'', ''editor-run''} \<Longrightarrow>
   ed_text (controls s) i = ed_text s i"
  "ed_text (notice t s) ''editor-error'' = t" "ed_hidden (notice t s) ''editor-draft'' = (\<not> dirty s)"
  "ed_hidden (notice t s) ''editor-notice'' = (t = no_text)"
  by (simp_all add: saveStatus_def controls_def notice_def ui_simps)

section \<open>Properties\<close>

text \<open>Locking never loses a draft: the editor becomes read-only, its requests are aborted, its
  run is forgotten and answers of the past are outdated by a new generation; unsaved text stays
  in the editor with the entry it belongs to, and the error tells that the session has expired;
  without unsaved text nothing of the file is left, neither source nor output.\<close>

theorem editor_lock_keeps_draft:
  assumes "normal [] = []"
  shows "case editor_lock normal s of (draft_left, t) \<Rightarrow>
    draft_left = dirty s \<and> readOnly t \<and> \<not> editAllowed t \<and> ed_aborted t (ed_controller s) \<and>
    generation t = Suc (generation s) \<and> job t = None \<and> \<not> polling t \<and>
    (if dirty s
     then input_value t = input_value s \<and> ed_entry t = ed_entry s \<and> savedText t = savedText s \<and> dirty t \<and>
       saveError t = Some (fail ''session_expired'') \<and>
       ed_text t ''editor-error'' = message s (fail ''session_expired'') [] \<and> \<not> ed_hidden t ''editor-draft''
     else input_value t = [] \<and> ed_entry t = None \<and> savedText t = [] \<and> run_output t = [] \<and>
       ed_hidden t ''run-result'' \<and> \<not> dirty t)"
proof (cases "dirty s")
  case True
  then show ?thesis
    by (simp add: editor_lock_def Let_def) (simp add: dirty_def message_def is_python_def)
next
  case False
  then show ?thesis
    using assms by (simp add: editor_lock_def lock_forget_def Let_def)
      (simp add: dirty_def set_ed_hidden_def)
qed

theorem editor_lock_keeps_draft_witness:
  "input_value (snd (editor_lock id ((first_editor (js ''a.py'') 0)\<lparr>ed_entry := Some (JObj []), input_value := [120]\<rparr>))) = [120]"
  using editor_lock_keeps_draft [of id "(first_editor (js ''a.py'') 0)\<lparr>ed_entry := Some (JObj []), input_value := [120]\<rparr>"]
  by (simp add: case_prod_beta dirty_def first_editor_def)

section \<open>Line endings\<close>

text \<open>
  What CodeMirror does with a text: it splits it into lines at CR LF and LF, and its value
  joins them with LF.
\<close>

definition joins_lines :: "(jstring \<Rightarrow> jstring) \<Rightarrow> bool" where
  "joins_lines normal \<longleftrightarrow> (\<forall>str. carriage_return \<notin> set str \<longrightarrow> normal str = str \<and> normal (with_eol crlf str) = str)"

lemma with_eol_simps [simp]:
  "with_eol e [] = []" "with_eol e (u # us) = (if u = line_feed then e else [u]) @ with_eol e us"
  by (simp_all add: with_eol_def)

lemma with_eol_lf [simp]: "with_eol lf str = str"
  by (induction str) (auto simp: lf_def)

lemma index_crlf_None: "carriage_return \<notin> set str \<Longrightarrow> index_of crlf str = None"
  by (induction str) (auto simp: crlf_def)

lemma index_crlf_Some: "line_feed \<in> set str \<Longrightarrow> carriage_return \<notin> set str \<Longrightarrow> index_of crlf (with_eol crlf str) \<noteq> None"
  by (induction str) (auto simp: crlf_def)

text \<open>C31. Opening and saving a file without an edit writes it back unchanged when its lines all end
  the same way: with LF, or all with CR LF.\<close>

theorem uniform_line_endings_kept:
  assumes "joins_lines normal" and "carriage_return \<notin> set str" and "file \<in> {str, with_eol crlf str}"
  shows "with_eol (eol_of file) (normal file) = file"
proof -
  have normal: "normal file = str" using assms by (auto simp: joins_lines_def)
  have lf: "eol_of str = lf" using assms(2) by (simp add: eol_of_def index_crlf_None)
  have "with_eol (eol_of (with_eol crlf str)) str = with_eol crlf str"
  proof (cases "line_feed \<in> set str")
    case True
    then show ?thesis using index_crlf_Some [OF True assms(2)] by (auto simp: eol_of_def)
  next
    case False
    then have "with_eol e str = str" for e by (induction str) auto
    then show ?thesis by simp
  qed
  with assms(3) normal lf show ?thesis by auto
qed

text \<open>A reading of CodeMirror's line splitting that satisfies the law.\<close>

fun join_lines :: "jstring \<Rightarrow> jstring" where
  "join_lines [] = []"
| "join_lines [u] = [u]"
| "join_lines (u # v # us) =
     (if u = carriage_return \<and> v = line_feed then line_feed # join_lines us else u # join_lines (v # us))"

lemma joins_lines_join_lines: "joins_lines join_lines"
  unfolding joins_lines_def
proof (intro allI impI conjI)
  fix str assume no_cr: "carriage_return \<notin> set str"
  then show "join_lines str = str" by (induction str rule: join_lines.induct) auto
  have "join_lines (with_eol crlf us) = us" if "carriage_return \<notin> set us" for us
    using that
  proof (induction us)
    case (Cons u us)
    then show ?case by (cases us) (auto simp: crlf_def)
  qed simp
  with no_cr show "join_lines (with_eol crlf str) = str" by blast
qed

theorem uniform_line_endings_kept_witness:
  "with_eol (eol_of (with_eol crlf [105, line_feed, 106, line_feed])) (join_lines (with_eol crlf [105, line_feed, 106, line_feed])) =
     with_eol crlf [105, line_feed, 106, line_feed]"
  using uniform_line_endings_kept [OF joins_lines_join_lines, of "[105, line_feed, 106, line_feed]"] by simp

lemma crlf_before_lf:
  "c # with_eol crlf str = before @ u # line_feed # after \<Longrightarrow> u = carriage_return"
proof (induction str arbitrary: c before)
  case Nil
  then show ?case by (cases before) auto
next
  case (Cons x xs)
  have first: "with_eol crlf zs \<noteq> line_feed # ys" for zs ys
    by (cases zs) (auto simp: crlf_def)
  show ?case
  proof (cases before)
    case Nil
    with Cons.prems first show ?thesis by (metis append_Nil list.inject)
  next
    case (Cons y ys)
    with Cons.prems have eq: "with_eol crlf (x # xs) = ys @ u # line_feed # after" by simp
    show ?thesis
    proof (cases "x = line_feed")
      case True
      with eq have "carriage_return # line_feed # with_eol crlf xs = ys @ u # line_feed # after"
        by (simp add: crlf_def)
      then show ?thesis using Cons.IH [of line_feed "tl ys"] by (cases ys) auto
    next
      case False
      with eq show ?thesis using Cons.IH [of x ys] by simp
    qed
  qed
qed

text \<open>C32. A file whose lines end differently is rewritten: when it has a line that ends with CR LF
  and one that ends with LF alone, no text of the editor is saved back as the file was.\<close>

theorem mixed_line_endings_rewritten:
  assumes "index_of crlf file \<noteq> None" and "file = before @ u # line_feed # after" and "u \<noteq> carriage_return"
  shows "with_eol (eol_of file) (normal file) \<noteq> file"
  using assms crlf_before_lf [of 0 "normal file" "0 # before" u after] by (auto simp: eol_of_def)

theorem mixed_line_endings_rewritten_witness:
  "with_eol (eol_of [105, carriage_return, line_feed, 106, line_feed])
     (join_lines [105, carriage_return, line_feed, 106, line_feed]) \<noteq>
   [105, carriage_return, line_feed, 106, line_feed]"
  by (rule mixed_line_endings_rewritten [where before = "[105, carriage_return, line_feed]" and u = 106 and after = "[]"])
    (simp_all add: crlf_def)

end
