(* ===== verification/Editor_Save.thy ===== *)
theory Editor_Save
  imports Editor_State
begin

text \<open>
  Opening and saving in the code editor (web/editor-src/controller.js): authorization through
  the local bridge, \<open>loadSource\<close>, \<open>open\<close>, \<open>persist\<close> with its scheduled and awaited saves,
  \<open>flush\<close>, and the retry button with its reconciliation.

  \<open>saving\<close> and \<open>opening\<close> hold promises: a promise is a number, and \<open>outcomes\<close> tells how it was
  settled. A handler that awaits a promise wakes up any number of times and goes on once it is
  settled. \<open>flush\<close> loops while there is unsaved text; the number of rounds and of wake-ups that
  a particular execution needs is its \<open>fuel\<close>, and a handler that runs out of it waits for ever.
\<close>

section \<open>Promises\<close>

definition settle :: "nat \<Rightarrow> exn option \<Rightarrow> editor \<Rightarrow> editor" where
  "settle i r = outcomes_update (\<lambda>f. f(i := Some r))"

primrec await_promise ::
    "nat \<Rightarrow> nat \<Rightarrow> (editor \<Rightarrow> editor \<times> editor_handler) \<Rightarrow> (exn \<Rightarrow> editor_handler) \<Rightarrow> editor_handler" where
  "await_promise 0 i ret throw = Done"
| "await_promise (Suc fuel) i ret throw =
     Await (Sleep 0) (\<lambda>_. Act (\<lambda>s.
       case outcomes s i of
         None \<Rightarrow> (s, await_promise fuel i ret throw)
       | Some None \<Rightarrow> ret s
       | Some (Some e) \<Rightarrow> (s, throw e)))"

section \<open>Authorization\<close>

definition editor_url :: "string \<Rightarrow> jstring \<Rightarrow> url" where
  "editor_url scope rest = Url (js (''/v1/web/editor/'' @ scope @ ''/'') @ rest) []"

definition required_code :: "string \<Rightarrow> string" where
  "required_code scope = (if scope = ''edit'' then ''files_edit_required'' else ''code_run_required'')"

definition editor_proof_error :: "json option \<Rightarrow> exn \<Rightarrow> exn" where
  "editor_proof_error localError error =
     (if has_code error ''pending'' \<and> truthy localError
      then (if is_code localError ''invalid_challenge'' then fail ''local_rejected'' else Failure localError)
      else error)"

definition editor_confirm ::
    "string \<Rightarrow> nat \<Rightarrow> json \<Rightarrow> editor_handler \<Rightarrow> (exn \<Rightarrow> editor_handler) \<Rightarrow> json option \<Rightarrow> editor_handler" where
  "editor_confirm scope signal challenge ret throw localError =
     request (get_req (editor_url scope (js ''challenges/'' @ challenge_id challenge)) (Some signal))
       (\<lambda>_. ret) (\<lambda>error. throw (editor_proof_error localError error))"

definition authorize_with ::
    "string \<Rightarrow> nat \<Rightarrow> editor_handler \<Rightarrow> (exn \<Rightarrow> editor_handler) \<Rightarrow> editor_handler" where
  "authorize_with scope signal ret throw =
     request (get_req (editor_url scope (js ''session'')) (Some signal)) (\<lambda>_. ret)
       (\<lambda>error.
          if \<not> has_code error (required_code scope) then throw error
          else post (editor_url scope (js ''challenges'')) (Some signal)
            (\<lambda>r. if data_of r = JNull then throw OtherError
                 else if \<not> valid_challenge (data_of r) then throw (fail ''invalid_response'')
                 else request (local_req (Some signal) 10000 (ticket_header (data_of r)))
                   (\<lambda>l. editor_confirm scope signal (data_of r) ret throw (local_error l))
                   (\<lambda>_. editor_confirm scope signal (data_of r) ret throw None))
            throw)"

definition authorize :: "string \<Rightarrow> editor_handler \<Rightarrow> (exn \<Rightarrow> editor_handler) \<Rightarrow> editor_handler" where
  "authorize scope ret throw = Act (\<lambda>s. (s, authorize_with scope (ed_controller s) ret throw))"

section \<open>Loading the source\<close>

definition source_req :: "jstring \<Rightarrow> nat \<Rightarrow> req" where
  "source_req p signal =
     (get_req (Url (js ''/v1/web/editor/file'') [(''path'', p)]) (Some signal))\<lparr>req_limit := 1600000\<rparr>"

definition source_entry :: "json \<Rightarrow> json" where
  "source_entry v = (case prop_of v ''entry'' of Some e \<Rightarrow> e | None \<Rightarrow> JNull)"

definition source_content :: "json \<Rightarrow> jstring" where
  "source_content v = str_of (prop_of v ''content'')"

text \<open>The checks before the digest; an absent entry has no path.\<close>

definition source_ok :: "jstring \<Rightarrow> json \<Rightarrow> bool" where
  "source_ok p v \<longleftrightarrow>
     prop_of (source_entry v) ''path'' = Some (JStr p) \<and> \<not> truthy (prop_of (source_entry v) ''deleted'') \<and>
     isSafeInteger (prop_of (source_entry v) ''revision'') \<and> 1 \<le> entry_revision (source_entry v) \<and>
     is_string (prop_of v ''content'') \<and> length (utf8 (source_content v)) \<le> size_limit \<and>
     0 \<notin> set (source_content v)"

definition loadSource :: "(json \<Rightarrow> editor_handler) \<Rightarrow> (exn \<Rightarrow> editor_handler) \<Rightarrow> editor_handler" where
  "loadSource ret throw = Act (\<lambda>s.
     (s, request (source_req (ed_path s) (ed_controller s))
       (\<lambda>r. let v = data_of r in
          if v = JNull then throw OtherError
          else if \<not> source_ok (ed_path s) v then throw (fail ''invalid_response'')
          else Await (Sha256 (utf8 (source_content v))) (\<lambda>a. case a of
             Digest d \<Rightarrow>
               if prop_of (source_entry v) ''sha256'' = Some (JStr (hex_string d)) then ret v
               else throw (fail ''invalid_response'')
           | _ \<Rightarrow> throw OtherError))
       throw))"

section \<open>Saving\<close>

definition save_req :: "jstring \<Rightarrow> int \<Rightarrow> jstring \<Rightarrow> nat \<Rightarrow> req" where
  "save_req p base source signal =
     (get_req (Url (js ''/v1/web/editor/file'') []) (Some signal))\<lparr>req_method := PUT,
        req_headers := [(''Content-Type'', js ''application/json'')],
        req_body := JsonBody (JObj [(js ''path'', JStr p), (js ''base_revision'', JInt base),
          (js ''content'', JStr source)])\<rparr>"

definition save_ok :: "jstring \<Rightarrow> int \<Rightarrow> jstring \<Rightarrow> byte list \<Rightarrow> json \<Rightarrow> bool" where
  "save_ok p base source digest v \<longleftrightarrow>
     prop_of v ''path'' = Some (JStr p) \<and> prop_of v ''sha256'' = Some (JStr (hex_string digest)) \<and>
     \<not> truthy (prop_of v ''deleted'') \<and> prop_of v ''size'' = Some (JInt (int (length (utf8 source)))) \<and>
     isSafeInteger (prop_of v ''revision'') \<and> base < entry_revision v"

text \<open>\<open>finally\<close>, and the settlement of the promise.\<close>

definition save_finally :: "nat \<Rightarrow> exn option \<Rightarrow> editor \<Rightarrow> editor" where
  "save_finally i r s = seq [saving_update (\<lambda>_. None), controls, schedule, settle i r] s"

definition save_failed :: "nat \<Rightarrow> nat \<Rightarrow> exn \<Rightarrow> editor_handler" where
  "save_failed i current error = Act (\<lambda>s.
     (save_finally i (Some error)
        (if current = generation s
         then notice (message s error ''Sauvegarde non confirmee. Votre brouillon reste ici. Reessayez ou telechargez-le avant de quitter.'')
                (s\<lparr>saveError := Some error\<rparr>)
         else s), Done))"

definition save_done ::
    "jstring \<Rightarrow> nat \<Rightarrow> nat \<Rightarrow> jstring \<Rightarrow> jstring \<Rightarrow> int \<Rightarrow> byte list \<Rightarrow> json \<Rightarrow> editor_handler" where
  "save_done p i current str source base digest v = Act (\<lambda>s.
     if current \<noteq> generation s then (s, save_failed i current (fail ''session_expired''))
     else if v = JNull then (s, save_failed i current OtherError)
     else if \<not> save_ok p base source digest v
     then (s, save_failed i current (fail ''invalid_response''))
     else (save_finally i None
             (notice no_text (s\<lparr>ed_entry := Some v, savedText := str, unconfirmed := None\<rparr>)), Done))"

text \<open>The path never changes; the task has it from its start.\<close>

definition save_task :: "jstring \<Rightarrow> nat \<Rightarrow> nat \<Rightarrow> jstring \<Rightarrow> jstring \<Rightarrow> int \<Rightarrow> editor_handler" where
  "save_task p i current str source base = Await (Sleep 0) (\<lambda>_. Act (\<lambda>s.
     if length (utf8 source) > size_limit then (s, save_failed i current (fail ''code_too_large''))
     else
       (saveStatus s,
        Await (Sha256 (utf8 source)) (\<lambda>a. case a of
          Digest digest \<Rightarrow> Act (\<lambda>s.
            (s\<lparr>unconfirmed := Some \<lparr>un_text = str, un_code = source, un_base = base\<rparr>\<rparr>,
             request (save_req p base source (ed_controller s))
               (\<lambda>r. save_done p i current str source base digest (data_of r))
               (save_failed i current)))
        | _ \<Rightarrow> save_failed i current OtherError))))"

text \<open>The result of \<open>persist()\<close>: a promise that is settled already, or that of a running save.\<close>

datatype persisted = Resolved | Rejected exn | Running nat

definition persist :: "editor \<Rightarrow> editor \<times> persisted \<times> editor_handler" where
  "persist s =
     (case saving s of
        Some i \<Rightarrow> (s, Running i, Done)
      | None \<Rightarrow>
          if \<not> dirty s then (s, Resolved, Done)
          else if saveError s \<noteq> None \<or> \<not> editAllowed s
          then (s, Rejected (case saveError s of Some e \<Rightarrow> e | None \<Rightarrow> fail ''files_edit_required''), Done)
          else (s\<lparr>saving := Some (fresh s), fresh := Suc (fresh s)\<rparr>, Running (fresh s),
                save_task (ed_path s) (fresh s) (generation s) (input_value s) (content s)
                  (entry_revision (the (ed_entry s)))))"

definition save_timer_fires :: "editor_handler" where
  "save_timer_fires = Act (\<lambda>s.
     let (s', r, task) = persist (s\<lparr>save_timer := None\<rparr>) in (s', task))"

text \<open>\<open>flush\<close>; \<open>ret\<close> goes on in the segment in which the loop ends.\<close>

primrec flush_loop ::
    "nat \<Rightarrow> (editor \<Rightarrow> editor \<times> editor_handler) \<Rightarrow> (exn \<Rightarrow> editor_handler) \<Rightarrow> editor \<Rightarrow> editor \<times> editor_handler" where
  "flush_loop 0 ret throw = (\<lambda>s. (s, Done))"
| "flush_loop (Suc fuel) ret throw = (\<lambda>s.
     if dirty s then
       (case persist s of
          (s', Running i, task) \<Rightarrow> (s', Fork task (await_promise fuel i (flush_loop fuel ret throw) throw))
        | (s', Rejected e, _) \<Rightarrow> (s', throw e)
        | (s', Resolved, _) \<Rightarrow> flush_loop fuel ret throw s')
     else (case saveError s of Some e \<Rightarrow> (s, throw e) | None \<Rightarrow> ret s))"

definition flush ::
    "nat \<Rightarrow> (editor \<Rightarrow> editor \<times> editor_handler) \<Rightarrow> (exn \<Rightarrow> editor_handler) \<Rightarrow> editor_handler" where
  "flush fuel ret throw = Act (\<lambda>s.
     let s = s\<lparr>save_timer := None\<rparr> in
     case saving s of
       Some i \<Rightarrow> (s, await_promise fuel i (flush_loop fuel ret throw) throw)
     | None \<Rightarrow> flush_loop (Suc fuel) ret throw s)"

text \<open>\<open>onSave\<close>: the result is dropped.\<close>

definition save_key :: "nat \<Rightarrow> editor_handler" where
  "save_key fuel = flush fuel (\<lambda>s. (s, Done)) (\<lambda>_. Done)"

end
