(* ===== verification/Editor_Run.thy ===== *)
theory Editor_Run
  imports Editor_Save
begin

text \<open>
  Running code on the local client (web/editor-src/controller.js): operations with tickets from
  the server, the detection of tools, the display of a run, polling, and the run button.
\<close>

section \<open>Operations of the local client\<close>

definition ticket_req :: "json \<Rightarrow> nat \<Rightarrow> req" where
  "ticket_req operation signal =
     (get_req (Url (js ''/v1/web/editor/tickets'') []) (Some signal))\<lparr>req_method := POST,
        req_headers := [(''Content-Type'', js ''application/json'')], req_body := JsonBody operation\<rparr>"

definition runner_req :: "json option \<Rightarrow> nat \<Rightarrow> req" where
  "runner_req ticket signal =
     (get_req (Url (js ''http://127.0.0.1:47831/v1/editor'') []) (Some signal))\<lparr>req_method := POST,
        is_local := True, req_timeout := 12000, req_limit := 450000,
        req_headers := [(''X-MySync-Bridge'', js ''1''), (''Content-Type'', js ''application/json'')],
        req_body := JsonBody (JObj [(js ''ticket'', the ticket)])\<rparr>"

text \<open>The answer of the client: its data, or the exception.\<close>

definition runner_result :: "reply \<Rightarrow> exn + json" where
  "runner_result v =
     (case v of
        Local r d \<Rightarrow>
          if ok r then Inr d
          else (case get (Some d) ''error'' of
                  Inl e \<Rightarrow> Inl e
                | Inr c \<Rightarrow> Inl (if truthy c then Failure c else fail ''runner_failed''))
      | _ \<Rightarrow> Inl OtherError)"

definition local_op :: "json \<Rightarrow> (json \<Rightarrow> editor_handler) \<Rightarrow> (exn \<Rightarrow> editor_handler) \<Rightarrow> editor_handler" where
  "local_op operation ret throw = Act (\<lambda>s.
     (s, request (ticket_req operation (ed_controller s))
       (\<lambda>r. if data_of r = JNull then throw OtherError
            else if \<not> hex64 (prop_of (data_of r) ''ticket'') then throw (fail ''invalid_response'')
            else request (runner_req (prop_of (data_of r) ''ticket'') (ed_controller s))
              (\<lambda>v. case runner_result v of Inl e \<Rightarrow> throw e | Inr d \<Rightarrow> ret d)
              throw)
       throw))"

definition tools_op :: json where
  "tools_op = JObj [(js ''action'', JStr (js ''tools''))]"

definition poll_op :: "jstring \<Rightarrow> json" where
  "poll_op i = JObj [(js ''action'', JStr (js ''poll'')), (js ''job_id'', JStr i)]"

definition stop_op :: "jstring \<Rightarrow> json" where
  "stop_op i = JObj [(js ''action'', JStr (js ''stop'')), (js ''job_id'', JStr i)]"

text \<open>An absent \<open>sha256\<close> is left out by \<open>JSON.stringify\<close>.\<close>

definition start_op :: "jstring \<Rightarrow> json \<Rightarrow> jstring \<Rightarrow> json" where
  "start_op p e i = JObj ([(js ''action'', JStr (js ''start'')), (js ''path'', JStr p),
     (js ''revision'', JInt (entry_revision e))] @
     (case prop_of e ''sha256'' of None \<Rightarrow> [] | Some h \<Rightarrow> [(js ''sha256'', h)]) @
     [(js ''job_id'', JStr i)])"

section \<open>Detection of tools\<close>

text \<open>The tool's caption, or why there is none. \<open>null\<close> as a compiler is absent.\<close>

definition tools_result :: "bool \<Rightarrow> json \<Rightarrow> exn + label" where
  "tools_result python v =
     (if v = JNull then Inl OtherError
      else if \<not> is_bool (prop_of v ''python'') \<or> \<not> is_bool (prop_of v ''isolation'') \<or>
              prop_of v ''compiler'' \<notin> {Some JNull, Some (JStr (js ''gcc'')), Some (JStr (js ''clang''))}
      then Inl (fail ''invalid_response'')
      else if \<not> truthy (prop_of v ''isolation'') then Inl (fail ''isolation_unavailable'')
      else if \<not> truthy (prop_of v (if python then ''python'' else ''compiler'')) then Inl (fail ''tool_missing'')
      else Inr (caption (if python then ''Python 3 disponible''
                         else if prop_of v ''compiler'' = Some (JStr (js ''gcc'')) then ''GCC disponible''
                         else ''Clang disponible'')))"

definition detect_begin :: "editor \<Rightarrow> editor" where
  "detect_begin s = seq
     [detecting_update (\<lambda>_. True), ready_update (\<lambda>_. False), controls,
      set_ed_text ''editor-tool'' (caption ''Detection en cours...''),
      set_ed_hidden ''editor-tool.available'' True, set_ed_hidden ''runner-retry'' True] s"

definition detect_finally :: "editor \<Rightarrow> editor" where
  "detect_finally s = controls (s\<lparr>detecting := False\<rparr>)"

definition detect_failed :: "editor_handler \<Rightarrow> exn \<Rightarrow> editor_handler" where
  "detect_failed ret error = Act (\<lambda>s.
     (detect_finally (seq
        [set_ed_text ''editor-tool'' (caption ''Execution indisponible''),
         set_ed_text ''runner-message''
           (message s error ''Le client local est inaccessible ou n a pas confirme ses outils. Verifiez ses autorisations et reessayez.''),
         set_ed_hidden ''runner-retry'' False] s), ret))"

definition detect_done :: "editor_handler \<Rightarrow> json \<Rightarrow> editor_handler" where
  "detect_done ret v = Act (\<lambda>s.
     case tools_result (is_python s) v of
       Inl e \<Rightarrow> (s, detect_failed ret e)
     | Inr tool \<Rightarrow>
         (detect_finally (seq
            [set_ed_text ''editor-tool'' tool, set_ed_hidden ''editor-tool.available'' False,
             ready_update (\<lambda>_. True),
             set_ed_text ''runner-message'' (caption ''Executez ce fichier pour voir sa sortie ici.'')] s), ret))"

definition detect :: "editor_handler \<Rightarrow> editor_handler" where
  "detect ret = Act (\<lambda>s.
     if detecting s \<or> job s \<noteq> None then (s, ret)
     else (detect_begin s,
           authorize ''run'' (local_op tools_op (detect_done ret) (detect_failed ret)) (detect_failed ret)))"

section \<open>Displaying a run\<close>

definition run_states :: "(string \<times> string) list" where
  "run_states =
     [(''running'', ''Execution en cours...''), (''finished'', ''Termine''), (''failed'', ''Echec''),
      (''compile_failed'', ''Echec de la compilation''), (''stopped'', ''Arrete''),
      (''timeout'', ''Duree maximale depassee''), (''output_limit'', ''Limite de sortie atteinte''),
      (''authorization_expired'', ''Autorisation expiree, execution arretee''),
      (''isolation_failed'', ''L isolation locale a echoue'')]"

text \<open>\<open>Object.hasOwn(states, value.state)\<close>, which makes a string of its argument.\<close>

definition known_state :: "json \<Rightarrow> string option" where
  "known_state v =
     (case subject (prop_of v ''state'') of
        None \<Rightarrow> None
      | Some k \<Rightarrow> (case filter (\<lambda>(c, _). js c = k) run_states of (c, _) # _ \<Rightarrow> Some c | [] \<Rightarrow> None))"

definition phase_ok :: "json \<Rightarrow> bool" where
  "phase_ok p \<longleftrightarrow> is_string (prop_of p ''stdout'') \<and> is_string (prop_of p ''stderr'') \<and>
     (prop_of p ''exit_code'' = Some JNull \<or> isSafeInteger (prop_of p ''exit_code'')) \<and>
     (prop_of p ''duration_ms'' = Some JNull \<or>
      isSafeInteger (prop_of p ''duration_ms'') \<and> 0 \<le> int_of (prop_of p ''duration_ms''))"

definition phases :: "json \<Rightarrow> (string \<times> json) list" where
  "phases v = concat (map (\<lambda>k. case prop_of v k of
     Some p \<Rightarrow> if truthy (Some p) then [(k, p)] else [] | None \<Rightarrow> []) [''compilation'', ''execution''])"

definition stdout_of :: "json \<Rightarrow> jstring" where
  "stdout_of p = str_of (prop_of p ''stdout'')"

definition stderr_of :: "json \<Rightarrow> jstring" where
  "stderr_of p = str_of (prop_of p ''stderr'')"

definition output_size :: "json \<Rightarrow> nat" where
  "output_size v = sum_list (map (\<lambda>(_, p). length (utf8 (stdout_of p @ stderr_of p))) (phases v))"

definition render_valid :: "running_job \<Rightarrow> json \<Rightarrow> bool" where
  "render_valid j v \<longleftrightarrow> prop_of v ''job_id'' = Some (JStr (job_id j)) \<and>
     strict_eq (prop_of v ''sha256'') (job_sha j) \<and> known_state v \<noteq> None \<and>
     list_all (\<lambda>(_, p). phase_ok p) (phases v) \<and> output_size v \<le> 65536"

definition phase_output :: "string \<times> json \<Rightarrow> (string \<times> jstring) list" where
  "phase_output = (\<lambda>(k, p).
     (if k = ''compilation'' \<and> (stdout_of p \<noteq> [] \<or> stderr_of p \<noteq> []) then [(''title'', js ''Compilation'')] else []) @
     (if stdout_of p \<noteq> [] then [(''stdout'', stdout_of p)] else []) @
     (if stderr_of p \<noteq> [] then [(''stderr'', stderr_of p)] else []))"

text \<open>A number of a phase, when it is neither \<open>null\<close> nor absent.\<close>

definition phase_number :: "string \<Rightarrow> string \<Rightarrow> json option \<Rightarrow> label list" where
  "phase_number cap key p =
     (case p of None \<Rightarrow> []
      | Some p \<Rightarrow> if nullish (prop_of p key) then [] else [Text cap [Num (int_of (prop_of p key))]])"

definition phase_of :: "json \<Rightarrow> string \<Rightarrow> json option" where
  "phase_of v k = map_of (phases v) k"

definition result_lines :: "json \<Rightarrow> label list" where
  "result_lines v =
     caption (the (map_of run_states (the (known_state v)))) #
     phase_number ''Code de retour : {}'' ''exit_code''
       (case phase_of v ''execution'' of Some p \<Rightarrow> Some p | None \<Rightarrow> phase_of v ''compilation'') @
     phase_number ''Duree de compilation : {} ms'' ''duration_ms'' (phase_of v ''compilation'') @
     phase_number ''Duree d execution : {} ms'' ''duration_ms'' (phase_of v ''execution'')"

definition is_running :: "json \<Rightarrow> bool" where
  "is_running v \<longleftrightarrow> prop_of v ''state'' = Some (JStr (js ''running''))"

definition render :: "json \<Rightarrow> editor \<Rightarrow> exn + editor" where
  "render v s =
     (case job s of
        None \<Rightarrow> Inl (fail ''invalid_response'')
      | Some j \<Rightarrow>
          if v = JNull then Inl OtherError
          else if \<not> render_valid j v then Inl (fail ''invalid_response'')
          else Inr (seq
            [(if cleared s then id
              else seq [run_output_update (\<lambda>_. concat (map phase_output (phases v))),
                        run_result_update (\<lambda>_. result_lines v), set_ed_hidden ''run-result'' False]),
             (if is_running v then id
              else seq [job_update (\<lambda>_. None), polling_update (\<lambda>_. False), controls])] s))"

section \<open>Polling\<close>

definition poll :: "editor \<Rightarrow> editor" where
  "poll s = s\<lparr>polling := (job s \<noteq> None)\<rparr>"

definition poll_failed :: "exn \<Rightarrow> editor_handler" where
  "poll_failed error = Act (\<lambda>s.
     (seq [job_update (\<lambda>_. None), ready_update (\<lambda>_. False), controls,
           set_ed_text ''runner-message''
             (message s error ''La connexion au client est interrompue. Le lancement s arrete automatiquement sans renouvellement de l autorisation.''),
           set_ed_hidden ''runner-retry'' False] s, Done))"

definition poll_answer :: "json \<Rightarrow> editor_handler" where
  "poll_answer v = Act (\<lambda>s.
     case render v s of
       Inl e \<Rightarrow> (s, poll_failed e)
     | Inr t \<Rightarrow> (poll t, Done))"

definition poll_fires :: "editor_handler" where
  "poll_fires = Act (\<lambda>s.
     let s = s\<lparr>polling := False\<rparr> in
     (s, case job s of
           None \<Rightarrow> poll_failed OtherError
         | Some j \<Rightarrow> local_op (poll_op (job_id j)) poll_answer poll_failed))"

section \<open>The run button\<close>

definition stop_failed :: "exn \<Rightarrow> editor_handler" where
  "stop_failed error = Act (\<lambda>s.
     (seq [set_ed_text ''runner-message'' (caption ''Arret non confirme. Le client s arrete automatiquement sans renouvellement de l autorisation.''),
           polling_update (\<lambda>_. False), job_update (\<lambda>_. None), ready_update (\<lambda>_. False), controls] s, Done))"

definition stop_answer :: "json \<Rightarrow> editor_handler" where
  "stop_answer v = Act (\<lambda>s.
     case render v s of
       Inl e \<Rightarrow> (s, stop_failed e)
     | Inr t \<Rightarrow> (poll t, Done))"

definition run_finally :: "editor \<Rightarrow> editor" where
  "run_finally s = controls (s\<lparr>starting := False\<rparr>)"

definition run_failed :: "exn \<Rightarrow> editor_handler" where
  "run_failed error = Act (\<lambda>s.
     (run_finally (set_ed_text ''runner-message''
        (message s error ''Le lancement n a pas ete confirme. Aucune nouvelle execution ne sera demandee automatiquement.'')
        (s\<lparr>job := None\<rparr>)), Done))"

definition run_answer :: "json \<Rightarrow> editor_handler" where
  "run_answer v = Act (\<lambda>s.
     let s = set_ed_text ''runner-message'' no_text s in
     case render v s of
       Inl e \<Rightarrow> (s, run_failed e)
     | Inr t \<Rightarrow> (run_finally (poll t), Done))"

text \<open>The segment after \<open>flush\<close>; \<open>uuid\<close> is \<open>crypto.randomUUID()\<close>.\<close>

definition run_start :: "jstring \<Rightarrow> editor \<Rightarrow> editor \<times> editor_handler" where
  "run_start uuid s =
     (let s1 = seq [lastRunText_update (\<lambda>_. Some (input_value s)), cleared_update (\<lambda>_. False),
                    set_ed_hidden ''output-stale'' True, run_output_update (\<lambda>_. []),
                    set_ed_hidden ''run-result'' True] s in
      case ed_entry s1 of
        None \<Rightarrow> (s1, run_failed OtherError)
      | Some e \<Rightarrow>
          (s1\<lparr>job := Some \<lparr>job_id = uuid, job_sha = prop_of e ''sha256''\<rparr>\<rparr>,
           local_op (start_op (ed_path s1) e uuid) run_answer run_failed))"

definition run_click :: "nat \<Rightarrow> jstring \<Rightarrow> editor_handler" where
  "run_click fuel uuid = Act (\<lambda>s.
     case job s of
       Some j \<Rightarrow> (s, local_op (stop_op (job_id j)) stop_answer stop_failed)
     | None \<Rightarrow>
         if \<not> ready s \<or> starting s then (s, Done)
         else (controls (s\<lparr>starting := True\<rparr>), flush fuel (run_start uuid) run_failed))"

definition clear_click :: "editor_handler" where
  "clear_click = Act (\<lambda>s.
     (seq [cleared_update (\<lambda>_. True), run_output_update (\<lambda>_. []), set_ed_hidden ''run-result'' True,
           set_ed_hidden ''output-stale'' True] s, Done))"

end
