(* ===== verification/Editor_Session.thy ===== *)
theory Editor_Session
  imports Editor_Run
begin

text \<open>
  The life of an editor page (web/editor-src/controller.js): opening the file, retrying after a
  failed save, keeping a draft, and leaving the page.
\<close>

section \<open>Opening\<close>

definition supported :: "jstring \<Rightarrow> bool" where
  "supported p \<longleftrightarrow> has_extension ''py'' p \<or> has_extension ''c'' p"

definition open_finally :: "nat \<Rightarrow> editor \<Rightarrow> editor" where
  "open_finally i s = settle i None (controls (s\<lparr>is_opening := None\<rparr>))"

definition open_error :: "nat \<Rightarrow> exn \<Rightarrow> editor \<Rightarrow> editor" where
  "open_error current error s =
     (if current = generation s
      then seq [notice (message s error ''Impossible d ouvrir le fichier. Verifiez la connexion et reessayez.''),
                set_ed_text ''editor-tool'' (caption ''Client non verifie'')] s
      else s)"

definition open_end :: "nat \<Rightarrow> editor_handler \<Rightarrow> editor_handler" where
  "open_end i ret = Act (\<lambda>s. (open_finally i s, ret))"

definition open_failed :: "nat \<Rightarrow> nat \<Rightarrow> editor_handler \<Rightarrow> exn \<Rightarrow> editor_handler" where
  "open_failed i current ret error = Act (\<lambda>s. (open_finally i (open_error current error s), ret))"

text \<open>After the authorization for editing, which leaves its result in the state.\<close>

definition open_checked :: "nat \<Rightarrow> nat \<Rightarrow> editor_handler \<Rightarrow> (editor \<Rightarrow> editor) \<Rightarrow> editor_handler" where
  "open_checked i current ret f = Act (\<lambda>s.
     let s = f s in
     if current \<noteq> generation s then (open_finally i s, ret)
     else (controls s, detect (open_end i ret)))"

definition adopt_source :: "(jstring \<Rightarrow> jstring) \<Rightarrow> json \<Rightarrow> editor \<Rightarrow> editor" where
  "adopt_source normal v = seq
     [ed_entry_update (\<lambda>_. Some (source_entry v)), eol_update (\<lambda>_. eol_of (source_content v)),
      input_value_update (\<lambda>_. normal (source_content v)),
      (\<lambda>s. s\<lparr>savedText := input_value s\<rparr>), saveError_update (\<lambda>_. None), highlight]"

definition open_source ::
    "(jstring \<Rightarrow> jstring) \<Rightarrow> nat \<Rightarrow> nat \<Rightarrow> editor_handler \<Rightarrow> json \<Rightarrow> editor_handler" where
  "open_source normal i current ret v = Act (\<lambda>s.
     if current \<noteq> generation s then (open_finally i s, ret)
     else if dirty s
     then (open_finally i (notice (caption ''Votre brouillon est conserve. Telechargez-le avant de recharger le fichier.'') s), ret)
     else (adopt_source normal v s,
           authorize ''edit''
             (open_checked i current ret (\<lambda>s. notice no_text (s\<lparr>editAllowed := True\<rparr>)))
             (\<lambda>e. open_checked i current ret (\<lambda>s.
                notice (message s e ''L edition n a pas ete autorisee. Verifiez le client local, puis reessayez.'') s))))"

text \<open>
  \<open>open()\<close>. The body of an unsupported file ends before \<open>opening\<close> is assigned, so that \<open>opening\<close>
  keeps the settled promise.
\<close>

definition open_editor :: "(jstring \<Rightarrow> jstring) \<Rightarrow> nat \<Rightarrow> editor_handler \<Rightarrow> editor_handler" where
  "open_editor normal fuel ret = Act (\<lambda>s.
     case is_opening s of
       Some i \<Rightarrow> (s, await_promise fuel i (\<lambda>s. (s, ret)) (\<lambda>_. ret))
     | None \<Rightarrow>
         if ed_entry s \<noteq> None \<and> \<not> ed_aborted s (ed_controller s) then (s, ret)
         else
           let i = fresh s; current = Suc (generation s);
               s1 = s\<lparr>ed_controller := i, generation := current, fresh := Suc i, is_opening := Some i\<rparr> in
           if supported (ed_path s1)
           then (s1, loadSource (open_source normal i current ret) (open_failed i current ret))
           else ((open_finally i (open_error current (fail ''unsupported_file'') s1))\<lparr>is_opening := Some i\<rparr>, ret))"

section \<open>Retrying a save\<close>

definition retry_end :: "editor \<Rightarrow> editor" where
  "retry_end s = controls (set_ed_disabled ''editor-retry'' False s)"

definition retry_finally :: "editor_handler" where
  "retry_finally = Act (\<lambda>s. (retry_end s, Done))"

definition retry_failed :: "exn \<Rightarrow> editor_handler" where
  "retry_failed error = Act (\<lambda>s.
     (retry_end (notice (message s error ''Sauvegarde non confirmee. Telechargez le brouillon avant de quitter.'')
        (s\<lparr>saveError := Some error\<rparr>)), Done))"

text \<open>
  What becomes of the variables when the source was loaded again: the server holds the text of
  the editor, or the text of the save whose answer was lost; otherwise it holds another one.
\<close>

definition reconcile :: "json \<Rightarrow> editor \<Rightarrow> exn + editor" where
  "reconcile remote s =
     (case ed_entry s of
        None \<Rightarrow> Inl OtherError
      | Some e \<Rightarrow>
          if strict_eq (prop_of (source_entry remote) ''revision'') (prop_of e ''revision'') then Inr s
          else
            let adopt = (\<lambda>str. s\<lparr>savedText := str, ed_entry := Some (source_entry remote), unconfirmed := None\<rparr>) in
            if source_content remote = content s then Inr (adopt (input_value s))
            else case unconfirmed s of
              None \<Rightarrow> Inl (fail ''revision_changed'')
            | Some u \<Rightarrow>
                if source_content remote = un_code u \<and> entry_revision (source_entry remote) > un_base u
                then Inr (adopt (un_text u))
                else Inl (fail ''revision_changed''))"

definition retry_flush :: "nat \<Rightarrow> editor \<Rightarrow> editor \<times> editor_handler" where
  "retry_flush fuel s =
     (controls (notice no_text s), flush fuel (\<lambda>s. (retry_end s, Done)) retry_failed)"

definition retry_source :: "nat \<Rightarrow> json \<Rightarrow> editor_handler" where
  "retry_source fuel remote = Act (\<lambda>s.
     case reconcile remote s of
       Inl e \<Rightarrow> (s, retry_failed e)
     | Inr t \<Rightarrow> retry_flush fuel (t\<lparr>saveError := None\<rparr>))"

definition retry_authorized :: "nat \<Rightarrow> editor_handler" where
  "retry_authorized fuel = Act (\<lambda>s.
     let s = s\<lparr>editAllowed := True\<rparr> in
     if saveError s \<noteq> None then (s, loadSource (retry_source fuel) retry_failed)
     else retry_flush fuel s)"

definition retry_click :: "(jstring \<Rightarrow> jstring) \<Rightarrow> nat \<Rightarrow> editor_handler" where
  "retry_click normal fuel = Act (\<lambda>s.
     (set_ed_disabled ''editor-retry'' True s,
      if ed_entry s = None then open_editor normal fuel retry_finally
      else authorize ''edit'' (retry_authorized fuel) retry_failed))"

section \<open>Drafts and leaving\<close>

definition draft_click :: "editor_handler" where
  "draft_click = Act (\<lambda>s.
     (set_ed_hidden ''editor-discard'' False
        (drafts_update (\<lambda>ds. ds @ [(js ''brouillon-'' @ basename (ed_path s), content s)]) s), Done))"

text \<open>The folder that the back link leads to; \<open>dir\<close> is the \<open>directory\<close> parameter, if there is one.\<close>

definition editor_folder :: "jstring \<Rightarrow> jstring option \<Rightarrow> jstring" where
  "editor_folder p dir =
     (case dir of
        Some d \<Rightarrow> d
      | None \<Rightarrow> if slash \<in> set p then take (length p - length (basename p) - 1) p else [])"

definition back_link :: "jstring \<Rightarrow> jstring option \<Rightarrow> jstring" where
  "back_link p dir = js ''/files?'' @ search_params [(''directory'', editor_folder p dir)]"

definition discard_click :: "jstring \<Rightarrow> editor_handler" where
  "discard_click back = Act (\<lambda>s.
     (departures_update (\<lambda>ds. ds @ [back]) (s\<lparr>leaving := True\<rparr>), Done))"

text \<open>\<open>destination\<close> is \<open>None\<close> for the logout button.\<close>

definition leave_finally :: "editor \<Rightarrow> editor" where
  "leave_finally s = controls (s\<lparr>departing := False\<rparr>)"

definition leave_now :: "jstring option \<Rightarrow> editor \<Rightarrow> editor \<times> editor_handler" where
  "leave_now destination s =
     (leave_finally (case destination of
        None \<Rightarrow> logout_clicks_update Suc (s\<lparr>leaving := True\<rparr>)
      | Some d \<Rightarrow> departures_update (\<lambda>ds. ds @ [d]) (s\<lparr>leaving := True\<rparr>)), Done)"

definition leave_failed :: "exn \<Rightarrow> editor_handler" where
  "leave_failed error = Act (\<lambda>s.
     (leave_finally (notice (caption ''Votre brouillon n est pas confirme. Telechargez-le avant de quitter, ou reessayez la sauvegarde.'') s),
      Done))"

definition leave_saved :: "jstring option \<Rightarrow> editor \<Rightarrow> editor \<times> editor_handler" where
  "leave_saved destination s =
     (case job s of
        None \<Rightarrow> leave_now destination s
      | Some j \<Rightarrow>
          (s, local_op (stop_op (job_id j))
                (\<lambda>_. Act (\<lambda>s. leave_now destination (s\<lparr>polling := False, job := None\<rparr>)))
                leave_failed))"

definition leave :: "nat \<Rightarrow> jstring option \<Rightarrow> editor_handler" where
  "leave fuel destination = Act (\<lambda>s.
     if departing s then (s, Done)
     else (controls (s\<lparr>departing := True\<rparr>), flush fuel (leave_saved destination) leave_failed))"

text \<open>A click on a link of the site (\<open>Some\<close> its target) or on the logout button.\<close>

definition link_click :: "nat \<Rightarrow> bool \<Rightarrow> jstring option \<Rightarrow> editor_handler" where
  "link_click fuel modified destination = Act (\<lambda>s.
     (s, if leaving s \<or> destination \<noteq> None \<and> modified then Done else leave fuel destination))"

text \<open>Whether the browser asks before it closes the page.\<close>

definition beforeunload :: "editor \<Rightarrow> bool" where
  "beforeunload s \<longleftrightarrow> \<not> leaving s \<and> (dirty s \<or> saving s \<noteq> None \<or> starting s \<or> job s \<noteq> None)"

end
