(* ===== verification/Editor_Watch.thy ===== *)
theory Editor_Watch
  imports Editor_Session
begin

text \<open>
  Observers of the editor. The locale \<open>save_watch\<close> states what an observer of the segments of a save
  must accept: segments that leave the file, the saved text, the run and the page alone, the note
  of what is being sent, and the adoption of what the server has confirmed. \<open>editor_watch\<close> extends
  it to the handlers that save, run, poll and leave, which are followed once, with the evidence
  that their histories hold.
\<close>

section \<open>Observers\<close>

text \<open>The evidence for a save in a history of queries and answers.\<close>

definition saved_by :: "(query \<times> answer) list \<Rightarrow> jstring \<Rightarrow> int \<Rightarrow> jstring \<Rightarrow> json \<Rightarrow> bool" where
  "saved_by h p base source v \<longleftrightarrow>
     (\<exists>signal n digest. (Sha256 (utf8 source), Digest digest) \<in> set h \<and>
        (Fetch (save_req p base source signal), Net n) \<in> set h \<and>
        request_result (save_req p base source signal) n = Inr (Data v) \<and>
        prop_of v ''path'' = Some (JStr p) \<and> prop_of v ''sha256'' = Some (JStr (hex_string digest)) \<and>
        prop_of v ''size'' = Some (JInt (int (length (utf8 source)))) \<and> \<not> truthy (prop_of v ''deleted'')) \<and>
     base < entry_revision v"

lemma saved_byI:
  "save_ok p base source digest v \<Longrightarrow> request_result (save_req p base source signal) n = Inr (Data v) \<Longrightarrow>
   {(Sha256 (utf8 source), Digest digest), (Fetch (save_req p base source signal), Net n)} \<subseteq> set h \<Longrightarrow>
   saved_by h p base source v"
  unfolding saved_by_def save_ok_def by blast

text \<open>The evidence that the local client did what a ticket of the server let it do.\<close>

definition runner_did :: "json \<Rightarrow> json \<Rightarrow> (query \<times> answer) list \<Rightarrow> bool" where
  "runner_did operation d h \<longleftrightarrow>
     (\<exists>c n v n' r. (Fetch (ticket_req operation c), Net n) \<in> set h \<and>
        request_result (ticket_req operation c) n = Inr (Data v) \<and> hex64 (prop_of v ''ticket'') \<and>
        (Fetch (runner_req (prop_of v ''ticket'') c), Net n') \<in> set h \<and>
        request_result (runner_req (prop_of v ''ticket'') c) n' = Inr r \<and> runner_result r = Inr d)"

lemma runner_didI:
  "request_result (ticket_req operation c) n = Inr (Data v) \<Longrightarrow> hex64 (prop_of v ''ticket'') \<Longrightarrow>
   request_result (runner_req (prop_of v ''ticket'') c) n' = Inr r \<Longrightarrow> runner_result r = Inr d \<Longrightarrow>
   {(Fetch (ticket_req operation c), Net n), (Fetch (runner_req (prop_of v ''ticket'') c), Net n')} \<subseteq> set h \<Longrightarrow>
   runner_did operation d h"
  unfolding runner_did_def by blast

text \<open>
  The editor takes no input while editing is not allowed, a run is being prepared or the page is
  being left, and only an open file runs.
\<close>

definition guarded :: "editor \<Rightarrow> bool" where
  "guarded s \<longleftrightarrow>
     (\<not> editAllowed s \<or> starting s \<or> departing s \<longrightarrow> readOnly s) \<and> (job s \<noteq> None \<longrightarrow> ed_entry s \<noteq> None)"

lemma read_only_blocks [simp]:
  "readOnly (set_ed_hidden i b s) = readOnly s" "readOnly (set_ed_disabled i b s) = readOnly s"
  "readOnly (set_ed_text i t s) = readOnly s" "readOnly (saveStatus s) = readOnly s"
  "readOnly (notice t s) = readOnly s" "readOnly (highlight s) = readOnly s"
  "readOnly (schedule s) = readOnly s"
  by (simp_all add: saveStatus_def notice_def highlight_def schedule_def ui_simps)

text \<open>The evidence that the server sent the source of a file.\<close>

definition received :: "(query \<times> answer) list \<Rightarrow> jstring \<Rightarrow> json \<Rightarrow> bool" where
  "received h p v \<longleftrightarrow> source_ok p v \<and>
     (\<exists>c n digest. (Fetch (source_req p c), Net n) \<in> set h \<and> request_result (source_req p c) n = Inr (Data v) \<and>
        (Sha256 (utf8 (source_content v)), Digest digest) \<in> set h \<and>
        prop_of (source_entry v) ''sha256'' = Some (JStr (hex_string digest)))"

lemma receivedI:
  "source_ok p v \<Longrightarrow> request_result (source_req p c) n = Inr (Data v) \<Longrightarrow>
   prop_of (source_entry v) ''sha256'' = Some (JStr (hex_string digest)) \<Longrightarrow>
   {(Fetch (source_req p c), Net n), (Sha256 (utf8 (source_content v)), Digest digest)} \<subseteq> set h \<Longrightarrow> received h p v"
  unfolding received_def by blast

text \<open>A segment that neither opens, saves, starts a run nor leaves.\<close>

definition still :: "editor \<Rightarrow> editor \<Rightarrow> bool" where
  "still s s' \<longleftrightarrow> ed_path s' = ed_path s \<and> unconfirmed s' = unconfirmed s \<and> input_value s' = input_value s \<and> eol s' = eol s \<and> (guarded s \<longrightarrow> guarded s') \<and>
     savedText s' = savedText s \<and> ed_entry s' = ed_entry s \<and> departures s' = departures s \<and>
     logout_clicks s' = logout_clicks s \<and> (job s' = job s \<or> job s' = None)"

text \<open>A segment that adopts the text that a save, started in \<open>s0\<close>, has sent and the server has confirmed.\<close>

definition saves_confirmed :: "editor \<Rightarrow> (query \<times> answer) list \<Rightarrow> editor \<Rightarrow> editor \<Rightarrow> bool" where
  "saves_confirmed s0 h s s' \<longleftrightarrow> generation s = generation s0 \<and>
     ed_path s' = ed_path s \<and> unconfirmed s' = None \<and> input_value s' = input_value s \<and> eol s' = eol s \<and> (guarded s \<longrightarrow> guarded s') \<and>
     departures s' = departures s \<and> logout_clicks s' = logout_clicks s \<and> job s' = job s \<and>
     savedText s' = input_value s0 \<and>
     (\<exists>v. saved_by h (ed_path s0) (entry_revision (the (ed_entry s0))) (content s0) v \<and> ed_entry s' = Some v)"

text \<open>What a save notes before it is sent.\<close>

definition note_of :: "editor \<Rightarrow> unconfirmed_save" where
  "note_of s = \<lparr>un_text = input_value s, un_code = content s, un_base = entry_revision (the (ed_entry s))\<rparr>"

lemmas still_defs = still_def guarded_def

lemma still_refl [simp, intro]: "still s s"
  by (simp add: still_def)

lemma still_trans: "still s t \<Longrightarrow> still t u \<Longrightarrow> still s u"
  by (auto simp: still_def)

lemma still_updates [simp]:
  "still s (s\<lparr>save_timer := d\<rparr>)" "still s (s\<lparr>polling := b\<rparr>)" "still s (poll s)"
  "still s (set_ed_text i t s)"
  by (simp_all add: still_defs poll_def)

lemma still_persist: "still s (fst (persist s))" "persist s = (s', Resolved, p) \<Longrightarrow> \<not> dirty s"
  by (auto simp: persist_def still_defs split: option.splits if_splits)

lemma still_run_finally: "still s (run_finally s)"
  by (simp add: run_finally_def still_defs)

lemma render_cases:
  assumes "render v s = Inr t"
  obtains j s' where "job s = Some j" "render_valid j v"
    "s' = s \<or> s' = set_ed_hidden ''run-result'' False
       (s\<lparr>run_output := concat (map phase_output (phases v)), run_result := result_lines v\<rparr>)"
    "t = s' \<or> t = controls (s'\<lparr>job := None, polling := False\<rparr>)"
  using assms by (auto simp: render_def split: option.splits if_splits)

lemma still_render: "render v s = Inr t \<Longrightarrow> still s t"
  by (erule render_cases) (auto simp: still_defs)

lemma still_persist_timer: "still s (fst (persist (s\<lparr>save_timer := None\<rparr>)))"
  using still_trans [OF _ still_persist(1)] by simp

lemma still_render_poll: "render v s = Inr t \<Longrightarrow> still s (poll t)"
  using still_trans [OF still_render] by simp

text \<open>
  Segments are observed in states that satisfy \<open>D\<close>; saves are those that start in states that
  satisfy \<open>S\<close>.
\<close>

locale save_watch =
  fixes D S :: "editor \<Rightarrow> bool"
    and G :: "(query \<times> answer) list \<Rightarrow> editor \<Rightarrow> editor \<times> editor_handler \<Rightarrow> bool"
  assumes still: "D s \<Longrightarrow> still s s' \<Longrightarrow> G h s (s', p)"
    and noted: "D s \<Longrightarrow> S s0 \<Longrightarrow> (Sha256 (utf8 (content s0)), Digest digest) \<in> set h \<Longrightarrow>
      G h s (s\<lparr>unconfirmed := Some (note_of s0)\<rparr>, p)"
    and confirmed: "D s \<Longrightarrow> S s0 \<Longrightarrow> dirty s0 \<Longrightarrow> saves_confirmed s0 h s s' \<Longrightarrow> G h s (s', Done)"
begin

lemma traced_stillI:
  assumes "\<And>s. D s \<Longrightarrow> still s (fst (f s))" and "\<And>s. D s \<Longrightarrow> traced_on D G (snd (f s)) h"
  shows "traced_on D G (Act f) h"
  unfolding traced_simps
proof (intro allI impI conjI assms(2))
  fix s assume s: "D s"
  show "G h s (f s)" using still [OF s assms(1) [OF s], of h "snd (f s)"] by simp
qed

lemma traced_save_failed: "traced_on D G (save_failed i current error) h"
  unfolding save_failed_def
  by (rule traced_stillI) (simp_all add: still_defs save_finally_def settle_def)

lemma traced_save_done:
  assumes "S s0" "dirty s0" and "save_ok (ed_path s0) (entry_revision (the (ed_entry s0))) (content s0) digest v \<Longrightarrow>
    saved_by h (ed_path s0) (entry_revision (the (ed_entry s0))) (content s0) v"
  shows "traced_on D G (save_done (ed_path s0) i (generation s0) (input_value s0) (content s0)
    (entry_revision (the (ed_entry s0))) digest v) h"
proof -
  have "G h s (save_finally i None (notice no_text
      (s\<lparr>ed_entry := Some v, savedText := input_value s0, unconfirmed := None\<rparr>)), Done)"
    if "D s" "generation s = generation s0" "save_ok (ed_path s0) (entry_revision (the (ed_entry s0))) (content s0) digest v" for s
    using assms that
    by (intro confirmed [OF that(1) assms(1,2)]) (auto simp: saves_confirmed_def guarded_def save_finally_def settle_def)
  then show ?thesis
    unfolding save_done_def by (auto simp: still still_defs traced_save_failed)
qed

lemma traced_save_task:
  assumes "S s0" "dirty s0"
  shows "traced_on D G (save_task (ed_path s0) i (generation s0) (input_value s0) (content s0)
    (entry_revision (the (ed_entry s0)))) h"
proof -
  define q where "q signal = save_req (ed_path s0) (entry_revision (the (ed_entry s0))) (content s0) signal" for signal
  have data: "\<exists>v. r = Data v" if "request_result (q signal) n = Inr r" for signal n r
    using request_result_data [OF that] by (auto simp: q_def save_req_def get_req_def)
  have put: "traced_on D G (request (q signal)
      (\<lambda>r. save_done (ed_path s0) i (generation s0) (input_value s0) (content s0)
         (entry_revision (the (ed_entry s0))) digest (data_of r)) (save_failed i (generation s0)))
      (h @ [(Sha256 (utf8 (content s0)), Digest digest)])" for signal digest h
  proof (rule traced_requestI)
    fix n r assume "request_result (q signal) n = Inr r"
    with data obtain v where "r = Data v" "request_result (q signal) n = Inr (Data v)" by metis
    then show "traced_on D G (save_done (ed_path s0) i (generation s0) (input_value s0) (content s0)
        (entry_revision (the (ed_entry s0))) digest (data_of r))
        ((h @ [(Sha256 (utf8 (content s0)), Digest digest)]) @ [(Fetch (q signal), Net n)])"
      using assms by (intro traced_save_done saved_byI) (auto simp: q_def)
  qed (rule traced_save_failed)
  have body: "traced_on D G (case a of Digest digest \<Rightarrow> Act (\<lambda>s.
      (s\<lparr>unconfirmed := Some \<lparr>un_text = input_value s0, un_code = content s0,
           un_base = entry_revision (the (ed_entry s0))\<rparr>\<rparr>,
       request (q (ed_controller s))
         (\<lambda>r. save_done (ed_path s0) i (generation s0) (input_value s0) (content s0)
            (entry_revision (the (ed_entry s0))) digest (data_of r)) (save_failed i (generation s0))))
      | _ \<Rightarrow> save_failed i (generation s0) OtherError) (h @ [(Sha256 (utf8 (content s0)), a)])" for a h
    by (cases a) (auto simp: put traced_save_failed intro!: noted [OF _ assms(1), unfolded note_of_def])
  show ?thesis
    unfolding save_task_def
    using body [of _ "h @ [(Sleep 0, r)]" for r, unfolded q_def]
    by (auto simp: still still_defs traced_save_failed)
qed

end

locale editor_watch = save_watch D D G
  for D :: "editor \<Rightarrow> bool" and G :: "(query \<times> answer) list \<Rightarrow> editor \<Rightarrow> editor \<times> editor_handler \<Rightarrow> bool" +
  assumes stays: "D s \<Longrightarrow> still s s' \<Longrightarrow> D s'"
begin

lemma traced_persist: "D s \<Longrightarrow> traced_on D G (snd (snd (persist s))) h"
  by (simp add: persist_def traced_save_task split: option.split)

lemma traced_await_promise:
  assumes "\<And>s h. D s \<Longrightarrow> G h s (ret s) \<and> traced_on D G (snd (ret s)) h" and "\<And>e h. traced_on D G (throw e) h"
  shows "traced_on D G (await_promise fuel i ret throw) h"
  by (induction fuel arbitrary: h) (auto simp: assms still still_defs split: option.split)

text \<open>
  What \<open>flush\<close> calls in the segment in which it has seen everything saved; the segment began in
  \<open>s0\<close>, which differs from \<open>s\<close> at most in the timer.
\<close>

definition settled :: "(editor \<Rightarrow> editor \<times> editor_handler) \<Rightarrow> bool" where
  "settled ret \<longleftrightarrow> (\<forall>s0 s h. D s0 \<longrightarrow> still s0 s \<longrightarrow> \<not> dirty s \<longrightarrow> saveError s = None \<longrightarrow>
     G h s0 (ret s) \<and> traced_on D G (snd (ret s)) h)"

lemma traced_flush_loop:
  assumes "settled ret" and "\<And>e h. traced_on D G (throw e) h" and "D s0" "still s0 s"
  shows "G h s0 (flush_loop fuel ret throw s) \<and> traced_on D G (snd (flush_loop fuel ret throw s)) h"
  using assms(3,4)
proof (induction fuel arbitrary: s0 s h)
  case (Suc fuel)
  have IH: "G h s (flush_loop fuel ret throw s) \<and> traced_on D G (snd (flush_loop fuel ret throw s)) h" if "D s" for s h
    by (rule Suc.IH [OF that]) simp
  show ?case
  proof (cases "dirty s")
    case True
    obtain s' r task where p: "persist s = (s', r, task)" by (metis prod_cases3)
    have "still s0 s'" using still_trans [OF Suc.prems(2) still_persist(1)] p by simp
    moreover have "traced_on D G task h" using traced_persist [of s h] p stays [OF Suc.prems] by simp
    ultimately show ?thesis
      using True p still_persist(2) [of s s' task] IH assms(2) Suc.prems(1)
      by (cases r) (auto simp: still traced_await_promise)
  next
    case False
    with assms(1,2) Suc.prems show ?thesis
      by (auto simp: settled_def still split: option.split)
  qed
qed (simp add: still)

lemma traced_flush:
  assumes "settled ret" and "\<And>e h. traced_on D G (throw e) h"
  shows "traced_on D G (flush fuel ret throw) h"
proof -
  have refl: "still s (s\<lparr>save_timer := None\<rparr>)" "still s s" for s by (simp_all add: still_defs)
  have loop: "D s0 \<Longrightarrow> still s0 s \<Longrightarrow> G h s0 (flush_loop n ret throw s) \<and> traced_on D G (snd (flush_loop n ret throw s)) h"
    for s0 s n h using traced_flush_loop [OF assms] .
  have wait: "traced_on D G (await_promise fuel i (flush_loop fuel ret throw) throw) h" for i h
    using loop [OF _ refl(2)] assms(2) by (rule traced_await_promise)
  note start = loop [OF _ refl(1), of _ _ "Suc fuel"]
  show ?thesis
    unfolding flush_def traced_simps
  proof (intro allI impI)
    fix s assume "D s" then show "G h s (let s = s\<lparr>save_timer := None\<rparr> in case saving s of
        Some i \<Rightarrow> (s, await_promise fuel i (flush_loop fuel ret throw) throw)
      | None \<Rightarrow> flush_loop (Suc fuel) ret throw s) \<and>
      traced_on D G (snd (let s = s\<lparr>save_timer := None\<rparr> in case saving s of
        Some i \<Rightarrow> (s, await_promise fuel i (flush_loop fuel ret throw) throw)
      | None \<Rightarrow> flush_loop (Suc fuel) ret throw s)) h"
      using start wait by (cases "saving s") (simp_all add: refl still del: flush_loop.simps)
  qed
qed

lemma traced_local_op:
  assumes "\<And>d h. runner_did operation d h \<Longrightarrow> traced_on D G (ret d) h" and "\<And>e h. traced_on D G (throw e) h"
  shows "traced_on D G (local_op operation ret throw) h"
  unfolding local_op_def
proof (rule traced_stillI)
  fix s :: editor
  have data: "\<exists>v. r = Data v" if "request_result (ticket_req operation c) n = Inr r" for c n r
    using request_result_data [OF that] by (auto simp: ticket_req_def get_req_def)
  have run: "traced_on D G (case runner_result v of Inl e \<Rightarrow> throw e | Inr d \<Rightarrow> ret d)
      ((h @ [(Fetch (ticket_req operation c), Net n)]) @ [(Fetch (runner_req t c), Net n')])"
    if "request_result (ticket_req operation c) n = Inr r" "t = prop_of (data_of r) ''ticket''" "hex64 t"
      "request_result (runner_req t c) n' = Inr v" for c n r t n' v h
  proof (cases "runner_result v")
    case (Inr d)
    have "runner_did operation d
        ((h @ [(Fetch (ticket_req operation c), Net n)]) @ [(Fetch (runner_req t c), Net n')])"
      using that data [OF that(1)] Inr by (auto intro!: runner_didI)
    with Inr assms(1) show ?thesis by simp
  qed (simp add: assms(2))
  show "traced_on D G (snd (s, request (ticket_req operation (ed_controller s))
       (\<lambda>r. if data_of r = JNull then throw OtherError
            else if \<not> hex64 (prop_of (data_of r) ''ticket'') then throw (fail ''invalid_response'')
            else request (runner_req (prop_of (data_of r) ''ticket'') (ed_controller s))
              (\<lambda>v. case runner_result v of Inl e \<Rightarrow> throw e | Inr d \<Rightarrow> ret d)
              throw)
       throw)) h"
    by (auto simp: assms(2) intro!: traced_requestI run simp del: append_assoc)
qed simp

lemma traced_save_timer_fires: "traced_on D G save_timer_fires h"
proof -
  have "D (s\<lparr>save_timer := d\<rparr>)" if "D s" for s d using stays [OF that] by simp
  then show ?thesis
    unfolding save_timer_fires_def
    by (intro traced_stillI) (simp_all add: case_prod_beta traced_persist still_persist_timer)
qed

lemma traced_save_key: "traced_on D G (save_key fuel) h"
  unfolding save_key_def by (rule traced_flush) (simp_all add: settled_def still)

lemma traced_poll_fires: "traced_on D G poll_fires h"
proof -
  have failed: "traced_on D G (poll_failed e) h" for e h
    unfolding poll_failed_def by (rule traced_stillI) (simp_all add: still_defs)
  have "traced_on D G (poll_answer v) h" for v h
    unfolding poll_answer_def
    by (auto simp: failed still still_render_poll split: sum.split)
  then show ?thesis
    unfolding poll_fires_def
    by (intro traced_stillI) (auto simp: still_defs failed Let_def intro!: traced_local_op split: option.split)
qed

lemma traced_run_failed: "traced_on D G (run_failed e) h"
  unfolding run_failed_def run_finally_def by (rule traced_stillI) (simp_all add: still_defs)

lemma traced_run_answer: "traced_on D G (run_answer v) h"
proof -
  have "still s (run_finally (poll t))" if "render v (set_ed_text i l s) = Inr t" for i l s t
    using still_trans [OF still_updates(4) still_trans [OF still_render_poll still_run_finally]] that .
  then show ?thesis
    unfolding run_answer_def by (auto simp: still traced_run_failed Let_def split: sum.split)
qed

text \<open>The run button, when the segment that starts the run is acceptable.\<close>

lemma traced_run_click:
  assumes "\<And>s0 s h. D s0 \<Longrightarrow> still s0 s \<Longrightarrow> \<not> dirty s \<Longrightarrow> saveError s = None \<Longrightarrow> G h s0 (run_start uuid s)"
  shows "traced_on D G (run_click fuel uuid) h"
proof -
  have "traced_on D G (snd (run_start uuid s)) h" for s h
    by (auto simp: run_start_def Let_def traced_run_failed traced_run_answer intro!: traced_local_op
        split: option.split)
  then have start: "settled (run_start uuid)" using assms by (simp add: settled_def)
  have failed: "traced_on D G (stop_failed e) h" for e h
    unfolding stop_failed_def by (rule traced_stillI) (simp_all add: still_defs)
  have "traced_on D G (stop_answer v) h" for v h
    unfolding stop_answer_def by (auto simp: still still_render_poll failed split: sum.split)
  then have "traced_on D G (local_op (stop_op i) stop_answer stop_failed) h" for i h
    by (intro traced_local_op) (simp_all add: failed)
  then show ?thesis
    unfolding run_click_def using traced_flush [OF start traced_run_failed]
    by (auto simp: still still_defs split: option.split)
qed

text \<open>Leaving the page, when the segments that leave are acceptable.\<close>

lemma traced_leave:
  assumes "\<And>s0 s h. D s0 \<Longrightarrow> still s0 s \<Longrightarrow> \<not> dirty s \<Longrightarrow> saveError s = None \<Longrightarrow> job s = None \<Longrightarrow>
      G h s0 (leave_now destination s)"
    and "\<And>s h i d. D s \<Longrightarrow> runner_did (stop_op i) d h \<Longrightarrow> G h s (leave_now destination (s\<lparr>polling := False, job := None\<rparr>))"
  shows "traced_on D G (leave fuel destination) h"
proof -
  have failed: "traced_on D G (leave_failed e) h" for e h
    unfolding leave_failed_def leave_finally_def by (rule traced_stillI) (simp_all add: still_defs)
  have "traced_on D G (local_op (stop_op i)
      (\<lambda>_. Act (\<lambda>s. leave_now destination (s\<lparr>polling := False, job := None\<rparr>))) leave_failed) h" for i h
    by (rule traced_local_op) (simp_all add: failed assms(2), simp add: leave_now_def)
  then have "settled (leave_saved destination)"
    by (auto simp: settled_def leave_saved_def assms(1) still split: option.split)
      (simp add: leave_now_def)
  from traced_flush [OF this failed] show ?thesis
    unfolding leave_def by (auto simp: still still_defs)
qed

end

end
