(* ===== verification/Editor_Events.thy ===== *)
theory Editor_Events
  imports Editor_Watch
begin

text \<open>
  Everything that can happen to the editor apart from typing, and observers of all of it: the
  locale \<open>event_watch\<close> adds to \<open>editor_watch\<close> what opening, reconciling, locking and starting a run
  do, \<open>page_watch\<close> what leaving does. Under them every event is followed once.
\<close>

section \<open>Events\<close>

text \<open>\<open>lock()\<close> as the explorer page calls it, and the advance of the clock.\<close>

definition lock_call :: "(jstring \<Rightarrow> jstring) \<Rightarrow> editor_handler" where
  "lock_call normal = Act (\<lambda>s. (snd (editor_lock normal s), Done))"

definition editor_clock :: "int \<Rightarrow> editor_handler" where
  "editor_clock t = Act (\<lambda>s. (s\<lparr>ed_now := max t (ed_now s)\<rparr>, Done))"

text \<open>
  What can happen to the editor apart from typing: a call from the explorer page, a timer that is
  armed, a key or a button. Nothing is assumed about when a button is clicked, except for the
  run button, which the page disables.
\<close>

inductive editor_event :: "(jstring \<Rightarrow> jstring) \<Rightarrow> editor \<Rightarrow> editor_handler \<Rightarrow> bool" for normal where
  opened: "editor_event normal s (open_editor normal fuel Done)"
| locked: "editor_event normal s (lock_call normal)"
| save_due: "save_timer s \<noteq> None \<Longrightarrow> editor_event normal s save_timer_fires"
| save_pressed: "editor_event normal s (save_key fuel)"
| retried: "editor_event normal s (retry_click normal fuel)"
| tools_retried: "editor_event normal s (detect Done)"
| run_clicked: "\<not> ed_disabled s ''editor-run'' \<Longrightarrow> editor_event normal s (run_click fuel uuid)"
| poll_due: "polling s \<Longrightarrow> editor_event normal s poll_fires"
| output_cleared: "editor_event normal s clear_click"
| draft_taken: "editor_event normal s draft_click"
| discarded: "editor_event normal s (discard_click back)"
| link_clicked: "editor_event normal s (link_click fuel modified destination)"
| clock: "editor_event normal s (editor_clock t)"

inductive_cases editor_eventE: "editor_event normal s p"

text \<open>Typing needs an editor that takes input.\<close>

definition editor_input :: "(jstring \<Rightarrow> jstring) \<Rightarrow> editor \<Rightarrow> editor_handler \<Rightarrow> bool" where
  "editor_input normal s p \<longleftrightarrow> editor_event normal s p \<or> (\<exists>str. \<not> readOnly s \<and> p = user_edit str)"

definition editor_started :: "editor \<Rightarrow> bool" where
  "editor_started s \<longleftrightarrow> (\<exists>file clock. s = first_editor file clock)"

section \<open>Segments that open, retry and detect\<close>

lemma still_blocks:
  "still s (controls s)" "still s (notice l s)" "still s (set_ed_disabled i b s)" "still s (set_ed_hidden i b s)"
  "still s (retry_end s)" "still s (s\<lparr>editAllowed := True\<rparr>)" "still s (s\<lparr>saveError := e\<rparr>)" "still s (s\<lparr>is_opening := o'\<rparr>)"
  by (simp_all add: retry_end_def still_defs)

lemma still_open_finally:
  "still s (open_finally i s)" "still s (open_error current e s)"
  by (simp_all add: still_defs open_finally_def open_error_def settle_def)

lemma still_open_ends:
  "still s (open_finally i (notice l s))" "still s (open_finally i (open_error current e s))"
  by (rule still_trans [OF _ still_open_finally(1)], rule still_blocks still_open_finally)+

context editor_watch
begin

lemma traced_authorize:
  assumes "\<And>h. traced_on D G ret h" and "\<And>e h. traced_on D G (throw e) h"
  shows "traced_on D G (authorize scope ret throw) h"
proof -
  have "traced_on D G (editor_confirm scope signal c ret throw l) h" for signal c l h
    unfolding editor_confirm_def by (intro traced_requestI assms)
  then have "traced_on D G (authorize_with scope signal ret throw) h" for signal
    unfolding authorize_with_def post_def by (auto intro!: traced_requestI assms)
  then show ?thesis unfolding authorize_def by (intro traced_stillI) simp_all
qed

lemma traced_loadSource:
  assumes "\<And>s v h. D s \<Longrightarrow> received h (ed_path s) v \<Longrightarrow> traced_on D G (ret v) h" and "\<And>e h. traced_on D G (throw e) h"
  shows "traced_on D G (loadSource ret throw) h"
  unfolding loadSource_def Let_def
proof (rule traced_stillI)
  fix s assume s: "D s"
  let ?q = "source_req (ed_path s) (ed_controller s)"
  have data: "\<exists>v. r = Data v" if "request_result ?q n = Inr r" for n r
    using request_result_data [OF that] by (auto simp: source_req_def get_req_def)
  have hashed: "traced_on D G (case a of
      Digest d \<Rightarrow> if prop_of (source_entry v) ''sha256'' = Some (JStr (hex_string d)) then ret v
        else throw (fail ''invalid_response'')
    | _ \<Rightarrow> throw OtherError) ((h @ [(Fetch ?q, Net n)]) @ [(Sha256 (utf8 (source_content v)), a)])"
    if "request_result ?q n = Inr (Data v)" "source_ok (ed_path s) v" for a n v
    using that by (cases a) (auto intro!: assms(1) [OF s] assms(2) receivedI)
  show "traced_on D G (snd (s, request ?q
      (\<lambda>r. if data_of r = JNull then throw OtherError
           else if \<not> source_ok (ed_path s) (data_of r) then throw (fail ''invalid_response'')
           else Await (Sha256 (utf8 (source_content (data_of r)))) (\<lambda>a. case a of
             Digest d \<Rightarrow>
               if prop_of (source_entry (data_of r)) ''sha256'' = Some (JStr (hex_string d)) then ret (data_of r)
               else throw (fail ''invalid_response'')
           | _ \<Rightarrow> throw OtherError))
      throw)) h"
    unfolding snd_conv
  proof (rule traced_requestI)
    fix n r assume r: "request_result ?q n = Inr r"
    with data obtain v where v: "r = Data v" by blast
    with r hashed [of n v] show "traced_on D G (if data_of r = JNull then throw OtherError
           else if \<not> source_ok (ed_path s) (data_of r) then throw (fail ''invalid_response'')
           else Await (Sha256 (utf8 (source_content (data_of r)))) (\<lambda>a. case a of
             Digest d \<Rightarrow>
               if prop_of (source_entry (data_of r)) ''sha256'' = Some (JStr (hex_string d)) then ret (data_of r)
               else throw (fail ''invalid_response'')
           | _ \<Rightarrow> throw OtherError)) (h @ [(Fetch ?q, Net n)])"
      unfolding v data_of.simps by (simp add: assms(2))
  qed (rule assms(2))
qed simp

lemma traced_detect:
  assumes "\<And>h. traced_on D G ret h"
  shows "traced_on D G (detect ret) h"
proof -
  have failed: "traced_on D G (detect_failed ret e) h" for e h
    unfolding detect_failed_def detect_finally_def by (rule traced_stillI) (simp_all add: still_defs assms)
  have "traced_on D G (detect_done ret v) h" for v h
    unfolding detect_done_def detect_finally_def
    by (auto simp: failed still still_defs assms split: sum.split)
  then have "traced_on D G (authorize ''run'' (local_op tools_op (detect_done ret) (detect_failed ret)) (detect_failed ret)) h" for h
    by (intro traced_authorize traced_local_op failed)
  then show ?thesis
    unfolding detect_def detect_begin_def by (intro traced_stillI) (auto simp: still_defs assms)
qed

lemma traced_open_checked:
  assumes "\<And>h. traced_on D G ret h" and f: "\<And>s. still s (f s)"
  shows "traced_on D G (open_checked i current ret f) h"
proof -
  have "traced_on D G (open_end i ret) h" for h
    unfolding open_end_def by (rule traced_stillI) (simp_all add: still_open_finally assms(1))
  moreover have "still s (open_finally i (f s))" "still s (controls (f s))" for s
    using still_trans [OF f] still_open_finally(1) still_blocks(1) by blast+
  ultimately show ?thesis
    unfolding open_checked_def Let_def by (intro traced_stillI) (simp_all add: traced_detect assms(1))
qed

lemma traced_retry_failed: "traced_on D G (retry_failed e) h"
  unfolding retry_failed_def retry_end_def by (rule traced_stillI) (simp_all add: still_defs)

lemma traced_retry_flush: "traced_on D G (snd (retry_flush fuel s)) h"
proof -
  have "settled (\<lambda>s. (retry_end s, Done))"
    unfolding settled_def using still_trans [OF _ still_blocks(5)] by (auto intro: still)
  from traced_flush [OF this traced_retry_failed] show ?thesis by (simp add: retry_flush_def)
qed

lemma traced_clicks:
  "traced_on D G clear_click h" "traced_on D G draft_click h" "traced_on D G (editor_clock t) h"
  unfolding clear_click_def draft_click_def editor_clock_def by (rule traced_stillI; simp add: still_defs)+

end

text \<open>The three ways in which a retry accepts what the server holds.\<close>

lemma reconcile_cases:
  assumes "reconcile v s = Inr t"
  obtains (same) e where "ed_entry s = Some e" "strict_eq (prop_of (source_entry v) ''revision'') (prop_of e ''revision'')" "t = s"
  | (agrees) e where "ed_entry s = Some e" "source_content v = content s"
      "t = s\<lparr>savedText := input_value s, ed_entry := Some (source_entry v), unconfirmed := None\<rparr>"
  | (found) e u where "ed_entry s = Some e" "unconfirmed s = Some u" "source_content v = un_code u"
      "un_base u < entry_revision (source_entry v)"
      "t = s\<lparr>savedText := un_text u, ed_entry := Some (source_entry v), unconfirmed := None\<rparr>"
proof -
  let ?adopt = "\<lambda>str. s\<lparr>savedText := str, ed_entry := Some (source_entry v), unconfirmed := None\<rparr>"
  have "\<exists>e. ed_entry s = Some e \<and> (strict_eq (prop_of (source_entry v) ''revision'') (prop_of e ''revision'') \<and> t = s \<or>
      source_content v = content s \<and> t = ?adopt (input_value s) \<or>
      (\<exists>u. unconfirmed s = Some u \<and> source_content v = un_code u \<and> un_base u < entry_revision (source_entry v) \<and>
         t = ?adopt (un_text u)))"
    using assms by (simp add: reconcile_def Let_def split: option.splits if_splits)
  with that show ?thesis by blast
qed

section \<open>Observers of all events\<close>

locale event_watch = editor_watch +
  fixes normal :: "jstring \<Rightarrow> jstring"
  assumes adopts: "D s \<Longrightarrow> \<not> dirty s \<Longrightarrow> D s0 \<Longrightarrow> received h (ed_path s0) v \<Longrightarrow> G h s (adopt_source normal v s, p)"
    and reconciles: "D s \<Longrightarrow> D s0 \<Longrightarrow> received h (ed_path s0) v \<Longrightarrow> reconcile v s = Inr t \<Longrightarrow> still t t' \<Longrightarrow> G h s (t', p)"
    and locks: "D s \<Longrightarrow> G h s (snd (editor_lock normal s), Done)"
    and runs: "D s0 \<Longrightarrow> still s0 s \<Longrightarrow> \<not> dirty s \<Longrightarrow> saveError s = None \<Longrightarrow> G h s0 (run_start uuid s)"
begin

lemma traced_open_source:
  assumes "D s0" "received h (ed_path s0) v" and ret: "\<And>h. traced_on D G ret h"
  shows "traced_on D G (open_source normal i current ret v) h"
proof -
  have "traced_on D G (authorize ''edit''
      (open_checked i g ret (\<lambda>s. notice no_text (s\<lparr>editAllowed := True\<rparr>)))
      (\<lambda>e. open_checked i g ret (\<lambda>s. notice (l s e) s))) h" for g l h
    by (intro traced_authorize traced_open_checked ret still_trans [OF still_blocks(6) still_blocks(2)] still_blocks(2))
  then show ?thesis
    unfolding open_source_def using assms(1,2)
    by (auto simp: still still_open_finally still_open_ends ret intro!: adopts)
qed

lemma traced_open_editor:
  assumes ret: "\<And>h. traced_on D G ret h"
  shows "traced_on D G (open_editor normal fuel ret) h"
proof -
  have failed: "traced_on D G (open_failed i current ret e) h" for i current e h
    unfolding open_failed_def by (rule traced_stillI) (simp_all add: still_open_ends ret)
  have wait: "traced_on D G (await_promise fuel i (\<lambda>s. (s, ret)) (\<lambda>_. ret)) h" for i h
    by (intro traced_await_promise) (simp_all add: ret still)
  have load: "traced_on D G (loadSource (open_source normal i current ret) (open_failed i current ret)) h" for i current h
    by (intro traced_loadSource traced_open_source failed ret)
  have fresh: "still s (s\<lparr>ed_controller := i, generation := g, fresh := j, is_opening := o'\<rparr>)" for s i g j o'
    by (simp add: still_defs)
  then have "still s ((open_finally i (open_error current e
      (s\<lparr>ed_controller := i, generation := g, fresh := j, is_opening := o'\<rparr>)))\<lparr>is_opening := o''\<rparr>)" for s i current e g j o' o''
    using still_trans [OF still_trans [OF fresh still_open_ends(2)] still_blocks(8)] by blast
  with fresh show ?thesis
    unfolding open_editor_def Let_def
    by (intro traced_stillI) (simp_all add: wait load ret split: option.split)
qed

lemma traced_retry_click: "traced_on D G (retry_click normal fuel) h"
proof -
  have flushing: "still t (fst (retry_flush fuel (t\<lparr>saveError := None\<rparr>)))" for t
    by (simp add: retry_flush_def still_defs)
  have source: "traced_on D G (retry_source fuel v) h" if "D s0" "received h (ed_path s0) v" for s0 v h
  proof -
    have "G h s (fst (retry_flush fuel (t\<lparr>saveError := None\<rparr>)), p)" if "D s" "reconcile v s = Inr t" for s t p
      by (rule reconciles [OF \<open>D s\<close> \<open>D s0\<close> \<open>received h (ed_path s0) v\<close> that(2) flushing])
    then have "G h s (retry_flush fuel (t\<lparr>saveError := None\<rparr>))" if "D s" "reconcile v s = Inr t" for s t
      using that by (metis prod.collapse)
    then show ?thesis
      unfolding retry_source_def
      by (auto simp: still traced_retry_failed traced_retry_flush split: sum.split)
  qed
  have allowed: "still s (fst (retry_flush fuel (s\<lparr>editAllowed := True\<rparr>)))" for s
    by (simp add: retry_flush_def still_defs)
  have load: "traced_on D G (loadSource (retry_source fuel) retry_failed) h" for h
    by (intro traced_loadSource source traced_retry_failed)
  have "traced_on D G (retry_authorized fuel) h" for h
    unfolding retry_authorized_def Let_def
    by (intro traced_stillI) (simp_all add: allowed still_blocks load traced_retry_flush)
  then have again: "traced_on D G (authorize ''edit'' (retry_authorized fuel) retry_failed) h" for h
    by (intro traced_authorize traced_retry_failed)
  have "traced_on D G retry_finally h" for h
    unfolding retry_finally_def by (rule traced_stillI) (simp_all add: still_blocks)
  then have "traced_on D G (open_editor normal fuel retry_finally) h" for h
    by (rule traced_open_editor)
  with again show ?thesis
    unfolding retry_click_def by (intro traced_stillI) (simp_all add: still_blocks)
qed

lemma traced_lock_call: "traced_on D G (lock_call normal) h"
  unfolding lock_call_def by (simp add: locks)

lemma traced_event:
  assumes "editor_event normal s p"
  shows "traced_on D G p h \<or> (\<exists>back. p = discard_click back) \<or> (\<exists>fuel modified destination. p = link_click fuel modified destination)"
  using assms
  by (cases rule: editor_eventE)
    (auto intro: traced_open_editor traced_lock_call traced_save_timer_fires traced_save_key traced_retry_click
      traced_detect traced_run_click runs traced_poll_fires traced_clicks)

end

locale page_watch = event_watch +
  assumes leaves: "D s0 \<Longrightarrow> still s0 s \<Longrightarrow> G h s0 (leave_now destination s)"
    and discards: "D s \<Longrightarrow> G h s (departures_update (\<lambda>ds. ds @ [back]) (s\<lparr>leaving := True\<rparr>), Done)"
begin

lemma traced_any_event:
  assumes "editor_event normal s p"
  shows "traced_on D G p h"
proof -
  have idle: "still s (s\<lparr>polling := False, job := None\<rparr>)" for s by (simp add: still_defs)
  have "traced_on D G (leave fuel destination) h" for fuel destination h
    by (rule traced_leave) (simp_all add: leaves idle)
  then have "traced_on D G (link_click fuel modified destination) h" for fuel modified destination
    unfolding link_click_def by (intro traced_stillI) simp_all
  moreover have "traced_on D G (discard_click target) h" for target
    unfolding discard_click_def by (simp add: discards)
  ultimately show ?thesis using traced_event [OF assms, of h] by blast
qed

end

end
