(* ===== verification/Editor_Safety.thy ===== *)
theory Editor_Safety
  imports Editor_Events
begin

text \<open>
  What the editor's handlers guarantee one by one: observers for saving, leaving and running, the
  success of a save, the bounded display of a run, and the reconciliation of a lost answer.
\<close>

section \<open>Saving, running, leaving\<close>

definition adopts_save :: "editor \<Rightarrow> (query \<times> answer) list \<Rightarrow> editor \<Rightarrow> editor \<times> editor_handler \<Rightarrow> bool" where
  "adopts_save s0 h s r \<longleftrightarrow>
     savedText (fst r) = savedText s \<and> ed_entry (fst r) = ed_entry s \<or>
     snd r = Done \<and> generation s = generation s0 \<and> input_value (fst r) = input_value s \<and>
     savedText (fst r) = input_value s0 \<and>
     (\<exists>v. saved_by h (ed_path s0) (entry_revision (the (ed_entry s0))) (content s0) v \<and> ed_entry (fst r) = Some v)"

interpretation sending: save_watch "\<lambda>_. True" "\<lambda>s. s = s0" "adopts_save s0" for s0
  by unfold_locales (auto simp: still_def saves_confirmed_def adopts_save_def)



definition runs_saved :: "jstring \<Rightarrow> (query \<times> answer) list \<Rightarrow> editor \<Rightarrow> editor \<times> editor_handler \<Rightarrow> bool" where
  "runs_saved uuid h s r \<longleftrightarrow> job (fst r) = job s \<or> job (fst r) = None \<or>
     (\<exists>e. ed_entry (fst r) = Some e \<and> job (fst r) = Some \<lparr>job_id = uuid, job_sha = prop_of e ''sha256''\<rparr> \<and>
        input_value (fst r) = savedText (fst r) \<and> saveError (fst r) = None \<and>
        lastRunText (fst r) = Some (savedText (fst r)) \<and>
        snd r = local_op (start_op (ed_path (fst r)) e uuid) run_answer run_failed)"



interpretation runs: editor_watch "\<lambda>_. True" "runs_saved uuid"
  by unfold_locales (auto simp: still_def saves_confirmed_def runs_saved_def)

lemma run_start_job: "still s0 s \<Longrightarrow> \<not> dirty s \<Longrightarrow> saveError s = None \<Longrightarrow> runs_saved uuid h s0 (run_start uuid s)"
  by (auto simp: run_start_def runs_saved_def Let_def dirty_def still_def split: option.split)

lemma run_start_frame:
  "savedText (fst (run_start uuid s)) = savedText s" "ed_entry (fst (run_start uuid s)) = ed_entry s"
  "input_value (fst (run_start uuid s)) = input_value s"
  by (simp_all add: run_start_def Let_def split: option.split)




text \<open>C6. What a save adopts was confirmed by the server. Let \<open>persist\<close> start a save in the state \<open>s0\<close>.
  Whatever happens to the editor meanwhile, if a segment of this save takes another text for
  saved or another entry for the file's, then it is its last one, no lock and no reopening lies
  in between, the text of the editor stays, the text taken for saved is the text of \<open>s0\<close>, and
  the save has sent exactly this text, with the line endings of \<open>s0\<close>, for the path of the editor
  and based on the revision of the entry of \<open>s0\<close>; and the server answered with the entry that
  is adopted: the same path, the length and the digest of exactly these bytes, not deleted, and
  a revision newer than the base.\<close>

theorem saves_confirmed_by_server:
  assumes "persist s0 = (s1, Running i, task)" and "saving s0 = None" and "local_run task h (Act f)"
    and "savedText (fst (f s)) \<noteq> savedText s \<or> ed_entry (fst (f s)) \<noteq> ed_entry s"
  shows "snd (f s) = Done \<and> generation s = generation s0 \<and> input_value (fst (f s)) = input_value s \<and>
    savedText (fst (f s)) = input_value s0 \<and>
    (\<exists>v. ed_entry (fst (f s)) = Some v \<and>
       saved_by h (ed_path s0) (entry_revision (the (ed_entry s0))) (with_eol (eol s0) (input_value s0)) v)"
proof -
  have task: "task = save_task (ed_path s0) i (generation s0) (input_value s0) (content s0) (entry_revision (the (ed_entry s0)))"
    "dirty s0"
    using assms(1,2) by (auto simp: persist_def split: if_splits)
  then have "traced (adopts_save s0) task []" using sending.traced_save_task [of s0 s0] by simp
  from traced_sound [OF assms(3) this, of s] assms(4) show ?thesis
    by (auto simp: adopts_save_def content_def)
qed


text \<open>C8. Only saved code runs: whenever a segment of the run button creates a run, the text of the
  editor is the saved one and no save has failed; the run is for the digest of the current
  entry, the output will be marked as belonging to this text, and what follows is the request
  of a ticket that starts this revision of this file.\<close>

theorem run_starts_saved_revision:
  assumes "local_run (run_click fuel uuid) h (Act f)" and "job (fst (f s)) \<noteq> job s" and "job (fst (f s)) \<noteq> None"
  shows "\<exists>e. ed_entry (fst (f s)) = Some e \<and>
    job (fst (f s)) = Some \<lparr>job_id = uuid, job_sha = prop_of e ''sha256''\<rparr> \<and>
    input_value (fst (f s)) = savedText (fst (f s)) \<and> saveError (fst (f s)) = None \<and>
    lastRunText (fst (f s)) = Some (savedText (fst (f s))) \<and>
    snd (f s) = local_op (start_op (ed_path (fst (f s))) e uuid) run_answer run_failed"
proof -
  have "traced (runs_saved uuid) (run_click fuel uuid) []"
    by (rule runs.traced_run_click) (rule run_start_job)
  from traced_sound [OF assms(1) this, of s] assms(2,3) show ?thesis by (simp add: runs_saved_def)
qed

section \<open>Saves succeed\<close>

lemma exec_Fork_Await:
  "exec (Await q k) s (r # rs) = (t, qs, us) \<Longrightarrow>
   exec (Fork (Await q k) (Await q' k')) s (r # rs) = (t, qs, us @ [Await q' k'])"
  by (simp add: exec.simps(2) split: prod.splits)

lemma save_ok_object: "save_ok p base source digest v \<Longrightarrow> v \<noteq> JNull"
  by (auto simp: save_ok_def)

text \<open>The answers to a save with the save key, when nothing else happens.\<close>

lemma exec_save_task:
  assumes "current = generation s" "length (utf8 source) \<le> size_limit"
    and "request_result (save_req p base source (ed_controller s)) n = Inr (Data v)"
    and "save_ok p base source digest v"
  shows "exec (save_task p i current str source base) s [a, Digest digest, Net n] =
    (save_finally i None (notice no_text ((saveStatus s)\<lparr>ed_entry := Some v, savedText := str, unconfirmed := None\<rparr>)),
     [Sleep 0, Sha256 (utf8 source), Fetch (save_req p base source (ed_controller s))], [])"
  using assms save_ok_object [OF assms(4)]
  by (simp add: save_task_def save_done_def exec_request)

text \<open>C14. Saving works: when there is unsaved text that fits the limit, editing is allowed, no save
  is running or has failed, and the server confirms the text, the save key sends exactly one
  request, for the text with the line endings of the file; then everything is saved, nothing
  is scheduled any more, and what is left of the handler only ends. One round of the loop and
  one wake-up suffice.\<close>

theorem save_key_saves:
  assumes "dirty s" "saving s = None" "saveError s = None" "editAllowed s"
    and "length (utf8 (content s)) \<le> size_limit"
    and "request_result (save_req (ed_path s) (entry_revision (the (ed_entry s))) (content s) (ed_controller s)) n = Inr (Data v)"
    and "save_ok (ed_path s) (entry_revision (the (ed_entry s))) (content s) digest v"
  shows "\<exists>t k. exec (save_key (Suc fuel)) s [Settled True, Digest digest, Net n] =
      (t, [Sleep 0, Sha256 (utf8 (content s)),
           Fetch (save_req (ed_path s) (entry_revision (the (ed_entry s))) (content s) (ed_controller s))],
       [Await (Sleep 0) k]) \<and>
    input_value t = input_value s \<and> savedText t = input_value s \<and> ed_entry t = Some v \<and>
    \<not> dirty t \<and> saving t = None \<and> saveError t = None \<and> save_timer t = None \<and>
    (\<forall>r. run (k r) t = (t, []))"
proof -
  define i where "i = fresh s"
  define s1 where "s1 = s\<lparr>save_timer := None, saving := Some i, fresh := Suc i\<rparr>"
  define t where "t = save_finally i None
    (notice no_text ((saveStatus s1)\<lparr>ed_entry := Some v, savedText := input_value s, unconfirmed := None\<rparr>))"
  define p where "p = await_promise (Suc fuel) i (flush_loop (Suc fuel) (\<lambda>s. (s, Done)) (\<lambda>_. Done)) (\<lambda>_. Done)"
  let ?task = "save_task (ed_path s) i (generation s) (input_value s) (content s) (entry_revision (the (ed_entry s)))"
  let ?qs = "[Sleep 0, Sha256 (utf8 (content s)),
    Fetch (save_req (ed_path s) (entry_revision (the (ed_entry s))) (content s) (ed_controller s))]"
  obtain k where k: "p = Await (Sleep 0) k" by (simp add: p_def)
  have timer: "content (s\<lparr>save_timer := d\<rparr>) = content s" "dirty (s\<lparr>save_timer := d\<rparr>) = dirty s" for d
    by (simp_all add: content_def dirty_def)
  have start: "exec (save_key (Suc fuel)) s rs = exec (Fork ?task p) s1 rs" for rs
    using assms(1-4) by (simp add: save_key_def flush_def persist_def timer s1_def i_def p_def)
  have "exec ?task s1 [Settled True, Digest digest, Net n] = (t, ?qs, [])"
    using exec_save_task [of "generation s" s1] assms(5-7) by (simp add: t_def s1_def)
  then have run: "exec (Fork ?task p) s1 [Settled True, Digest digest, Net n] = (t, ?qs, [p])"
    unfolding save_task_def k using exec_Fork_Await by fastforce
  have saved: "input_value t = input_value s" "savedText t = input_value s" "ed_entry t = Some v"
    "saving t = None" "saveError t = None" "outcomes t i = Some None" "\<not> dirty t"
    using assms(3) by (simp_all add: t_def s1_def save_finally_def settle_def dirty_def)
  have timer: "save_timer t = None"
    by (simp add: t_def s1_def save_finally_def settle_def schedule_def dirty_def)
  have "run (k r) t = (t, [])" for r
    using k saved(5-7) by (auto simp: p_def)
  with start run saved timer k show ?thesis by auto
qed

section \<open>Examples\<close>

definition example_editor :: "jstring \<Rightarrow> editor" where
  "example_editor str = (first_editor (js ''a.py'') 0)\<lparr>ed_entry := Some (JObj [(js ''revision'', JInt 3)]),
     input_value := str, editAllowed := True, ready := True\<rparr>"

definition example_answer :: json where
  "example_answer = JObj [(js ''path'', JStr (js ''a.py'')), (js ''sha256'', JStr (hex_string [6])),
     (js ''size'', JInt 1), (js ''revision'', JInt 4)]"

abbreviation example_save :: req where
  "example_save \<equiv> save_req (js ''a.py'') 3 [120] 0"

lemma example_editor_fields:
  "dirty (example_editor [120])" "\<not> dirty (example_editor [])" "content (example_editor [120]) = [120]"
  "entry_revision (the (ed_entry (example_editor str))) = 3" "input_value (example_editor str) = str"
  "saveError (example_editor str) = None" "saving (example_editor str) = None" "editAllowed (example_editor str)"
  "ed_path (example_editor str) = js ''a.py''" "ed_controller (example_editor str) = 0" "job (example_editor str) = None"
  "ready (example_editor str)" "\<not> starting (example_editor str)" "\<not> departing (example_editor str)"
  "departures (example_editor str) = []" "generation (example_editor str) = 0" "fresh (example_editor str) = 1"
  by (simp_all add: example_editor_def first_editor_def dirty_def content_def entry_revision_def)

lemma example_save_ok: "save_ok (js ''a.py'') 3 [120] [6] example_answer"
  "request_result example_save (Inr (example_response example_answer)) = Inr (Data example_answer)"
proof -
  have "utf8 [120] = [120]" by (simp add: utf8_point_def high_surrogate_def low_surrogate_def)
  then show "save_ok (js ''a.py'') 3 [120] [6] example_answer"
    by (simp add: save_ok_def example_answer_def entry_revision_def isSafeInteger.simps)
  show "request_result example_save (Inr (example_response example_answer)) = Inr (Data example_answer)"
    by (rule request_example_response) (simp_all add: save_req_def get_req_def)
qed

theorem save_key_saves_witness:
  "savedText (fst (exec (save_key 1) (example_editor [120])
     [Settled True, Digest [6], Net (Inr (example_response example_answer))])) = [120]"
proof -
  note e = example_editor_fields
  have "length (utf8 [120]) \<le> size_limit"
    using utf8_length_bounds [of "[120]"] by (simp add: size_limit_def)
  then show ?thesis
    using save_key_saves [of "example_editor [120]" "Inr (example_response example_answer)" example_answer "[6]" 0]
      example_save_ok by (auto simp: e)
qed

lemma example_save_run:
  "\<exists>f. local_run (save_task (js ''a.py'') 1 0 [120] [120] 3)
     [(Sleep 0, Settled True), (Sha256 (utf8 [120]), Digest [6]),
      (Fetch example_save, Net (Inr (example_response example_answer)))] (Act f) \<and>
     savedText (fst (f (example_editor [120]))) = [120] \<and> ed_entry (fst (f (example_editor [120]))) = Some example_answer"
proof -
  let ?s = "example_editor [120]"
  note e = example_editor_fields
  have small: "length (utf8 [120]) \<le> size_limit"
    using utf8_length_bounds [of "[120]"] by (simp add: size_limit_def)
  obtain f where f: "save_done (js ''a.py'') 1 0 [120] [120] 3 [6] example_answer = Act f"
    by (simp add: save_done_def)
  have "local_run (save_task (js ''a.py'') 1 0 [120] [120] 3)
     [(Sleep 0, Settled True), (Sha256 (utf8 [120]), Digest [6]),
      (Fetch example_save, Net (Inr (example_response example_answer)))] (Act f)"
    unfolding save_task_def f [symmetric] using small
    by (auto intro!: local_run_AwaitI local_run_ActI [of _ ?s] local_run_requestI [OF example_save_ok(2)]
        local_run.here simp: e)
  moreover have "f ?s = (save_finally 1 None (notice no_text
      (?s\<lparr>ed_entry := Some example_answer, savedText := [120], unconfirmed := None\<rparr>)), Done)"
    using f save_ok_object [OF example_save_ok(1)] example_save_ok(1) by (auto simp: save_done_def e)
  ultimately show ?thesis by (auto simp: save_finally_def settle_def)
qed

theorem saves_confirmed_by_server_witness:
  "\<exists>h v. saved_by h (js ''a.py'') 3 (with_eol lf [120]) v"
proof -
  let ?s = "example_editor [120]"
  note e = example_editor_fields
  obtain h f where run: "local_run (save_task (js ''a.py'') 1 0 [120] [120] 3) h (Act f)" "savedText (fst (f ?s)) = [120]"
    using example_save_run by blast
  have "persist ?s = (?s\<lparr>saving := Some 1, fresh := 2\<rparr>, Running 1, save_task (js ''a.py'') 1 0 [120] [120] 3)"
    by (simp add: persist_def e)
  moreover have "savedText ?s = []" "eol ?s = lf" by (simp_all add: example_editor_def first_editor_def)
  ultimately show ?thesis
    using saves_confirmed_by_server [of ?s _ 1 _ h f ?s] run by (auto simp: e simp del: with_eol_lf)
qed


theorem run_starts_saved_revision_witness:
  "\<exists>f. local_run (run_click 1 [49]) [] (Act f) \<and>
     job (fst (f (example_editor []))) = Some \<lparr>job_id = [49], job_sha = None\<rparr> \<and>
     input_value (fst (f (example_editor []))) = savedText (fst (f (example_editor [])))"
proof -
  let ?s = "example_editor []"
  note e = example_editor_fields
  obtain f where f: "flush 1 (run_start [49]) run_failed = Act f" by (simp add: flush_def)
  have run: "local_run (run_click 1 [49]) [] (Act f)"
    unfolding run_click_def f [symmetric]
    by (rule local_run_ActI [of _ ?s]) (simp add: e local_run.here)
  have timer: "?s\<lparr>save_timer := None\<rparr> = ?s" by (simp add: example_editor_def first_editor_def)
  have "f ?s = run_start [49] ?s" using f by (auto simp: flush_def timer e)
  then have job: "job (fst (f ?s)) = Some \<lparr>job_id = [49], job_sha = None\<rparr>"
    by (simp add: run_start_def example_editor_def first_editor_def)
  with run run_starts_saved_revision [OF run, of ?s] show ?thesis by (auto simp: e)
qed

section \<open>The output of a run\<close>

definition shown_size :: "(string \<times> jstring) list \<Rightarrow> nat" where
  "shown_size out = sum_list (map (\<lambda>(k, str). if k = ''title'' then 0 else length str) out)"

lemma shown_size_append [simp]: "shown_size (xs @ ys) = shown_size xs + shown_size ys" "shown_size [] = 0"
  by (simp_all add: shown_size_def)

lemma shown_size_phase: "shown_size (phase_output x) = length (stdout_of (snd x) @ stderr_of (snd x))"
  by (cases x) (auto simp: phase_output_def shown_size_def)

lemma shown_size_phases: "shown_size (concat (map phase_output ps)) \<le>
    sum_list (map (\<lambda>(_, p). length (utf8 (stdout_of p @ stderr_of p))) ps)"
proof (induction ps)
  case (Cons x ps)
  have "shown_size (phase_output x) \<le> length (utf8 (stdout_of (snd x) @ stderr_of (snd x)))"
    unfolding shown_size_phase using utf8_length_bounds by blast
  with Cons show ?case by (simp add: case_prod_beta)
qed simp

text \<open>C33. What a run displays is bounded and is the run's: an answer is rendered only for the current
  run and its digest, in a known state; a display that was not cleared then shows the output of
  the answer's phases, at most 65536 code units of it, and the run is over exactly when the
  state is no longer that of a running one. Anything else is refused.\<close>

theorem render_bounded:
  "case render v s of
     Inl e \<Rightarrow> job s = None \<or> v = JNull \<or> \<not> render_valid (the (job s)) v
   | Inr t \<Rightarrow> \<exists>j. job s = Some j \<and> prop_of v ''job_id'' = Some (JStr (job_id j)) \<and>
       strict_eq (prop_of v ''sha256'') (job_sha j) \<and> known_state v \<noteq> None \<and>
       (if cleared s then run_output t = run_output s
        else run_output t = concat (map phase_output (phases v)) \<and> shown_size (run_output t) \<le> 65536) \<and>
       job t = (if is_running v then Some j else None) \<and> input_value t = input_value s"
  using shown_size_phases [of "phases v"]
  by (auto simp: render_def render_valid_def output_size_def split: option.split)

definition example_run :: json where
  "example_run = JObj [(js ''job_id'', JStr [50]), (js ''state'', JStr (js ''running'')),
     (js ''execution'', JObj [(js ''stdout'', JStr [120]), (js ''stderr'', JStr []),
       (js ''exit_code'', JNull), (js ''duration_ms'', JNull)])]"

theorem render_bounded_witness:
  "\<exists>t. render example_run ((example_editor [])\<lparr>job := Some \<lparr>job_id = [50], job_sha = None\<rparr>\<rparr>) = Inr t \<and>
     shown_size (run_output t) \<le> 65536"
proof -
  let ?s = "(example_editor [])\<lparr>job := Some \<lparr>job_id = [50], job_sha = None\<rparr>\<rparr>"
  let ?p = "JObj [(js ''stdout'', JStr [120]), (js ''stderr'', JStr []), (js ''exit_code'', JNull), (js ''duration_ms'', JNull)]"
  have phases: "phases example_run = [(''execution'', ?p)]"
    by (simp add: phases_def example_run_def)
  have "known_state example_run = Some ''running''"
    by (simp add: known_state_def example_run_def subject_def run_states_def)
  moreover have "output_size example_run \<le> 65536"
    using utf8_length_bounds [of "[120]"] by (simp add: output_size_def phases stdout_of_def stderr_of_def)
  moreover have "list_all (\<lambda>(_, p). phase_ok p) (phases example_run)"
    by (simp add: phases phase_ok_def)
  ultimately have "render_valid \<lparr>job_id = [50], job_sha = None\<rparr> example_run"
    by (simp add: render_valid_def) (simp add: example_run_def)
  then have "\<exists>t. render example_run ?s = Inr t" by (simp add: render_def example_run_def)
  moreover have "\<not> cleared ?s" by (simp add: example_editor_def first_editor_def)
  ultimately show ?thesis using render_bounded [of ?s example_run] by auto
qed

text \<open>C35. A late answer ends the wrong run: when the answer to a poll comes after the run it is about
  was stopped or replaced by another one, the current run is forgotten, the run button is out
  of order until the tools are detected again, and the user is told to check the client.\<close>

theorem late_poll_drops_run:
  assumes "prop_of v ''job_id'' = Some (JStr i)" and "job s = None \<or> job_id (the (job s)) \<noteq> i"
  shows "\<exists>t. run (poll_answer v) s = (t, []) \<and> job t = None \<and> \<not> ready t \<and> \<not> ed_hidden t ''runner-retry'' \<and>
    ed_disabled t ''editor-run''"
proof -
  have "v \<noteq> JNull" using assms(1) by auto
  with assms have "render v s = Inl (fail ''invalid_response'')"
    by (auto simp: render_def render_valid_def split: option.split)
  then show ?thesis
    by (simp add: poll_answer_def poll_failed_def)
      (simp add: controls_def saveStatus_def set_ed_text_def set_ed_hidden_def set_ed_disabled_def)
qed

theorem late_poll_drops_run_witness:
  "job (fst (run (poll_answer (JObj [(js ''job_id'', JStr [49])]))
     ((example_editor [])\<lparr>job := Some \<lparr>job_id = [50], job_sha = None\<rparr>\<rparr>))) = None"
  using late_poll_drops_run [of "JObj [(js ''job_id'', JStr [49])]" "[49]"
    "(example_editor [])\<lparr>job := Some \<lparr>job_id = [50], job_sha = None\<rparr>\<rparr>"]
  by auto

section \<open>Reconciliation\<close>

text \<open>The server holds a revision that the editor neither loaded nor wrote.\<close>

definition foreign :: "json \<Rightarrow> json \<Rightarrow> editor \<Rightarrow> bool" where
  "foreign remote e s \<longleftrightarrow>
     \<not> strict_eq (prop_of (source_entry remote) ''revision'') (prop_of e ''revision'') \<and>
     source_content remote \<noteq> content s \<and>
     (\<forall>u. unconfirmed s = Some u \<longrightarrow>
        \<not> (source_content remote = un_code u \<and> un_base u < entry_revision (source_entry remote)))"

text \<open>The segment in which a retry goes on to \<open>flush\<close>.\<close>

lemma dirty_updates [simp]:
  "dirty (s\<lparr>save_timer := d\<rparr>) = dirty s" "dirty (s\<lparr>saveError := e\<rparr>) = dirty s" "dirty (s\<lparr>saving := i, fresh := n\<rparr>) = dirty s"
  "content (s\<lparr>save_timer := d\<rparr>) = content s"
  by (simp_all add: dirty_def content_def)

lemma run_await_promise: "fst (run (await_promise fuel i ret throw) s) = s"
  by (cases fuel) simp_all

lemma flush_cases:
  assumes "saveError s = None"
  obtains (waits) i where "saving s = Some i" "fst (run (flush fuel ret throw) s) = s\<lparr>save_timer := None\<rparr>"
  | (saves) "saving s = None" "dirty s" "editAllowed s"
      "fst (run (flush fuel ret throw) s) = s\<lparr>save_timer := None, saving := Some (fresh s), fresh := Suc (fresh s)\<rparr>"
      "\<exists>us. snd (run (flush fuel ret throw) s) =
         save_task (ed_path s) (fresh s) (generation s) (input_value s) (content s) (entry_revision (the (ed_entry s))) # us"
  | (refuses) "saving s = None" "dirty s" "\<not> editAllowed s"
      "run (flush fuel ret throw) s = run (throw (fail ''files_edit_required'')) (s\<lparr>save_timer := None\<rparr>)"
  | (goes_on) "saving s = None" "\<not> dirty s"
      "run (flush fuel ret throw) s = run (snd (ret (s\<lparr>save_timer := None\<rparr>))) (fst (ret (s\<lparr>save_timer := None\<rparr>)))"
proof (cases "saving s")
  case (Some i)
  then have "fst (run (flush fuel ret throw) s) = s\<lparr>save_timer := None\<rparr>"
    by (simp add: flush_def run_await_promise)
  with Some show ?thesis by (rule waits)
next
  case None
  show ?thesis
  proof (cases "dirty s")
    case True
    show ?thesis
    proof (cases "editAllowed s")
      case e: True
      show ?thesis
        by (rule saves [OF None True e]) (simp_all add: flush_def persist_def save_task_def None True e assms run_await_promise)
    next
      case False
      show ?thesis
        by (rule refuses [OF None True False]) (simp add: flush_def persist_def None True False assms)
    qed
  next
    case False
    show ?thesis
      by (rule goes_on [OF None False]) (simp add: flush_def None False assms)
  qed
qed

lemma run_retry_flush:
  fixes s :: editor and fuel :: nat
  defines "r \<equiv> run (flush fuel (\<lambda>s. (retry_end s, Done)) retry_failed) s"
  assumes "saveError s = None"
  shows "input_value (fst r) = input_value s" "eol (fst r) = eol s" "ed_entry (fst r) = ed_entry s"
    "savedText (fst r) = savedText s" "unconfirmed (fst r) = unconfirmed s"
    "editAllowed s \<Longrightarrow> saveError (fst r) = None"
    "editAllowed s \<Longrightarrow> saving s = None \<Longrightarrow> dirty s \<Longrightarrow>
      \<exists>us. snd r = save_task (ed_path s) (fresh s) (generation s) (input_value s) (content s) (entry_revision (the (ed_entry s))) # us"
    "editAllowed s \<Longrightarrow> saving s = None \<Longrightarrow> \<not> dirty s \<Longrightarrow> snd r = []"
proof -
  note cases = flush_cases [OF assms(2), of fuel "\<lambda>s. (retry_end s, Done)" retry_failed, folded r_def]
  show "input_value (fst r) = input_value s" "eol (fst r) = eol s" "ed_entry (fst r) = ed_entry s"
    "savedText (fst r) = savedText s" "unconfirmed (fst r) = unconfirmed s"
    by (cases rule: cases; simp add: retry_failed_def retry_end_def)+
  show "editAllowed s \<Longrightarrow> saveError (fst r) = None"
    using assms(2) by (cases rule: cases; simp add: retry_end_def)
  show "editAllowed s \<Longrightarrow> saving s = None \<Longrightarrow> dirty s \<Longrightarrow>
      \<exists>us. snd r = save_task (ed_path s) (fresh s) (generation s) (input_value s) (content s) (entry_revision (the (ed_entry s))) # us"
    "editAllowed s \<Longrightarrow> saving s = None \<Longrightarrow> \<not> dirty s \<Longrightarrow> snd r = []"
    by (cases rule: cases; simp)+
qed

text \<open>C11. Retrying a save never overwrites another's revision. When the server holds a revision with
  a text that is neither that of the editor nor that of the save whose answer was lost, no
  request follows and the draft, its entry and its saved text stay. Otherwise the text of the
  editor and its line endings are kept, too, and: if the server still holds the revision of the
  editor's entry, the entry and the saved text stay; else the entry of the server is adopted
  and, as the saved text, the text that the server holds, which is that of the editor or that of
  the save whose answer was lost. If editing is allowed, the error is then cleared; nothing is
  sent when nothing is left to save, and otherwise, when no save runs, the first handler that
  waits is the save of the editor's text based on exactly the revision the entry then has.\<close>

theorem retry_never_overwrites:
  assumes "ed_entry s = Some e"
  shows "\<exists>t ts. run (retry_source fuel remote) s = (t, ts) \<and> input_value t = input_value s \<and> eol t = eol s \<and>
    (if foreign remote e s
     then ts = [] \<and> ed_entry t = Some e \<and> savedText t = savedText s \<and> saveError t = Some (fail ''revision_changed'')
     else (if strict_eq (prop_of (source_entry remote) ''revision'') (prop_of e ''revision'')
           then ed_entry t = Some e \<and> savedText t = savedText s \<and> unconfirmed t = unconfirmed s
           else ed_entry t = Some (source_entry remote) \<and> unconfirmed t = None \<and>
             (if source_content remote = content s then savedText t = input_value s
              else \<exists>u. unconfirmed s = Some u \<and> source_content remote = un_code u \<and> savedText t = un_text u)) \<and>
       (editAllowed s \<longrightarrow> saveError t = None \<and> (saving s = None \<longrightarrow>
          (if dirty t
           then \<exists>us. ts = save_task (ed_path s) (fresh s) (generation s) (input_value s) (content s)
             (entry_revision (the (ed_entry t))) # us
           else ts = []))))"
proof (cases "foreign remote e s")
  case True
  then have "reconcile remote s = Inl (fail ''revision_changed'')"
    using assms by (auto simp: reconcile_def foreign_def Let_def split: option.split)
  then show ?thesis
    using True assms by (simp add: retry_source_def retry_failed_def retry_end_def)
next
  case False
  then have "\<exists>t. reconcile remote s = Inr t"
    using assms by (auto simp: reconcile_def foreign_def Let_def split: option.split)
  then obtain t where t: "reconcile remote s = Inr t" ..
  let ?t = "controls (notice no_text (t\<lparr>saveError := None\<rparr>))"
  obtain t' ts where run: "run (flush fuel (\<lambda>s. (retry_end s, Done)) retry_failed) ?t = (t', ts)"
    by fastforce
  have "saveError ?t = None" by simp
  note flushed = run_retry_flush [OF this, of fuel, unfolded run fst_conv snd_conv]
  from run t have "run (retry_source fuel remote) s = (t', ts)"
    by (simp add: retry_source_def retry_flush_def)
  moreover have "dirty t' = dirty ?t" "content ?t = content t"
    using flushed(1,3,4) by (simp_all add: dirty_def content_def)
  moreover have "editAllowed t = editAllowed s \<and> saving t = saving s \<and> ed_path t = ed_path s \<and> fresh t = fresh s \<and>
      generation t = generation s \<and> input_value t = input_value s \<and> content t = content s \<and> eol t = eol s"
    using t by (auto elim!: reconcile_cases simp: content_def)
  moreover have "if strict_eq (prop_of (source_entry remote) ''revision'') (prop_of e ''revision'')
      then ed_entry t = Some e \<and> savedText t = savedText s \<and> unconfirmed t = unconfirmed s
      else ed_entry t = Some (source_entry remote) \<and> unconfirmed t = None \<and>
        (if source_content remote = content s then savedText t = input_value s
         else \<exists>u. unconfirmed s = Some u \<and> source_content remote = un_code u \<and> savedText t = un_text u)"
    using t assms by (auto simp: reconcile_def Let_def split: option.splits if_splits)
  ultimately show ?thesis
    using False flushed by (intro exI [of _ t'] exI [of _ ts]) simp
qed

theorem retry_never_overwrites_witness:
  "\<exists>t. run (retry_source 1 (JObj [(js ''entry'', JObj [(js ''revision'', JInt 7)]), (js ''content'', JStr [121])]))
     (example_editor [120]) = (t, []) \<and> input_value t = [120]"
proof -
  let ?r = "JObj [(js ''entry'', JObj [(js ''revision'', JInt 7)]), (js ''content'', JStr [121])]"
  have "unconfirmed (example_editor [120]) = None" by (simp add: example_editor_def first_editor_def)
  then have "foreign ?r (JObj [(js ''revision'', JInt 3)]) (example_editor [120])"
    by (simp add: foreign_def source_entry_def source_content_def example_editor_fields)
  moreover have "ed_entry (example_editor [120]) = Some (JObj [(js ''revision'', JInt 3)])"
    by (simp add: example_editor_def)
  ultimately show ?thesis
    using retry_never_overwrites [of "example_editor [120]" "JObj [(js ''revision'', JInt 3)]" 1 ?r]
    by (auto simp: example_editor_fields)
qed

end
