(* ===== verification/Editor_Page.thy ===== *)
theory Editor_Page
  imports Editor_Safety
begin

text \<open>
  The editor as a whole: everything that can happen to it, interleaved in any order. Unsaved text
  survives, the input is closed whenever it has to be, and the editor refines a simple document
  that only changes on evidence from the server.
\<close>

section \<open>Unsaved text and open input\<close>

text \<open>What every segment other than typing does.\<close>

definition sound_step :: "editor \<Rightarrow> editor \<Rightarrow> bool" where
  "sound_step s s' \<longleftrightarrow> (guarded s \<longrightarrow> guarded s') \<and>
     (dirty s \<longrightarrow> input_value s' = input_value s \<and> eol s' = eol s)"

lemma sound_still: "still s t \<Longrightarrow> sound_step s t"
  by (simp add: sound_step_def still_def)

lemma guarded_lock: "guarded s \<Longrightarrow> guarded (snd (editor_lock normal s))"
  by (simp add: editor_lock_def lock_forget_def Let_def guarded_def)

lemma lock_unsaved:
  "dirty s \<Longrightarrow> input_value (snd (editor_lock normal s)) = input_value s \<and> eol (snd (editor_lock normal s)) = eol s"
  by (simp add: editor_lock_def Let_def) (simp add: dirty_def)

interpretation kept: page_watch "\<lambda>_. True" "\<lambda>_ s r. sound_step s (fst r)" normal for normal
proof (unfold_locales, goal_cases)
  case (6 s s0 h v t t' p)
  then have "still t t'" "input_value t = input_value s" "eol t = eol s" "guarded s \<longrightarrow> guarded t"
    by (auto elim!: reconcile_cases simp: guarded_def)
  then show ?case by (simp add: sound_step_def still_def)
next
  case (7 s h)
  then show ?case
    using guarded_lock [of s normal] lock_unsaved [of s normal] by (simp add: sound_step_def)
next
  case (8 s0 s h uuid)
  then show ?case
    by (auto simp: sound_step_def still_def guarded_def run_start_def Let_def split: option.split)
next
  case (9 s0 s h destination)
  then show ?case
    by (auto simp: sound_step_def still_def guarded_def leave_now_def leave_finally_def split: option.split)
qed (auto simp: sound_step_def still_def saves_confirmed_def guarded_def adopt_source_def)

abbreviation sound_handler :: "editor_handler \<Rightarrow> (query \<times> answer) list \<Rightarrow> bool" where
  "sound_handler \<equiv> traced (\<lambda>_ s r. sound_step s (fst r))"

lemmas editor_event_sound = kept.traced_any_event

lemma guarded_user_edit: "always (\<lambda>_ _. True) guarded (user_edit str)"
  unfolding user_edit_def by (rule always_ActI) (simp add: guarded_def changed_def)

interpretation editing: async_invariant "\<lambda>_ _. True" editor_started "editor_input normal" guarded
proof
  fix s :: editor and p :: editor_handler
  show "editor_started s \<Longrightarrow> guarded s"
    by (auto simp: editor_started_def guarded_def first_editor_def)
  assume p: "editor_input normal s p" and s: "guarded s"
  have "always (\<lambda>_ _. True) guarded p" if "editor_event normal s p"
    using traced_always [OF editor_event_sound [OF that], of guarded] by (simp add: sound_step_def)
  with p s guarded_user_edit show "rg (\<lambda>_ _. True) guarded p s"
    unfolding editor_input_def by (auto dest: alwaysD)
qed

text \<open>C5. Drafts survive: no segment of any handler of the editor, however the handlers interleave,
  replaces unsaved text; only the user's own typing changes it. Opening again, locking, saving,
  retrying, running and leaving keep the text and its line endings.\<close>

theorem drafts_survive:
  assumes "editor_event normal s0 p" and "local_run p h (Act f)" and "dirty s"
  shows "input_value (fst (f s)) = input_value s \<and> content (fst (f s)) = content s"
proof -
  have "sound_step s (fst (f s))"
    using traced_sound [OF assms(2) editor_event_sound [OF assms(1)]] .
  with assms(3) show ?thesis by (simp add: sound_step_def content_def)
qed

theorem drafts_survive_witness:
  "input_value (snd (editor_lock id (example_editor [120]))) = [120]"
proof -
  have "local_run (lock_call id) [] (Act (\<lambda>s. (snd (editor_lock id s), Done)))"
    unfolding lock_call_def by (rule local_run.here)
  from drafts_survive [OF editor_event.locked this example_editor_fields(1)] show ?thesis
    by (simp add: example_editor_fields)
qed

text \<open>C13. In every state that the editor can reach, by any interleaving of its events and whatever the
  network and the local client answer, the code takes no input while editing is not authorized,
  while a run is being prepared and while the page is being left, so that typing only ever
  happens outside these phases; and a run exists only for an open file.\<close>

theorem editing_guarded:
  assumes "reachable editor_started (editor_input normal) s ts"
  shows "(\<not> editAllowed s \<or> starting s \<or> departing s \<longrightarrow> readOnly s) \<and> (job s \<noteq> None \<longrightarrow> ed_entry s \<noteq> None)"
  using editing.invariant [OF assms] unfolding guarded_def .

theorem editing_guarded_witness:
  "readOnly (fst (run (lock_call id) (first_editor (js ''a.py'') 0)))"
proof -
  let ?s = "first_editor (js ''a.py'') 0"
  have start: "reachable editor_started (editor_input id) ?s []"
    by (rule reachable.start) (auto simp: editor_started_def)
  have "editor_input id ?s (lock_call id)"
    unfolding editor_input_def by (blast intro: editor_event.locked)
  from editing_guarded [OF reachable.event [OF start this]] show ?thesis
    by (simp add: lock_call_def editor_lock_def lock_forget_def first_editor_def Let_def dirty_def)
qed

section \<open>The document that the editor refines\<close>

text \<open>
  The editor as its user thinks of it: the file at a path, open when it has an entry, with a text,
  the text that is taken for saved, the line endings, and the save whose answer is not known.
\<close>

record document_view =
  doc_path :: jstring
  doc_entry :: "json option"
  doc_text :: jstring
  doc_saved :: jstring
  doc_eol :: jstring
  doc_pending :: "unconfirmed_save option"

definition document_view :: "editor \<Rightarrow> document_view" where
  "document_view s = \<lparr>doc_path = ed_path s, doc_entry = ed_entry s, doc_text = input_value s,
     doc_saved = savedText s, doc_eol = eol s, doc_pending = unconfirmed s\<rparr>"

definition unsaved :: "document_view \<Rightarrow> bool" where
  "unsaved d \<longleftrightarrow> doc_entry d \<noteq> None \<and> doc_text d \<noteq> doc_saved d"

text \<open>
  What a handler with the history \<open>h\<close> may do to the document, apart from nothing. It loads the text
  that the server sent for this path, with its digest, or puts the file away, only when nothing
  is unsaved; it notes a save whose bytes it has hashed; it takes a text for saved whose bytes, with
  one of the two line endings, the server confirmed for this path; and it accepts a newer entry that the server sent when the
  content sent with it is that of the document or that of the noted save.
\<close>

inductive doc_step :: "(jstring \<Rightarrow> jstring) \<Rightarrow> (query \<times> answer) list \<Rightarrow> document_view \<Rightarrow> document_view \<Rightarrow> bool"
  for normal h where
  stutter: "doc_step normal h d d"
| load: "\<not> unsaved d \<Longrightarrow> received h (doc_path d) v \<Longrightarrow>
    doc_step normal h d (d\<lparr>doc_entry := Some (source_entry v), doc_text := normal (source_content v),
      doc_saved := normal (source_content v), doc_eol := eol_of (source_content v)\<rparr>)"
| put_away: "\<not> unsaved d \<Longrightarrow> doc_step normal h d (d\<lparr>doc_entry := None, doc_text := normal [], doc_saved := []\<rparr>)"
| note_save: "e \<in> {lf, crlf} \<Longrightarrow> un_code u = with_eol e (un_text u) \<Longrightarrow> (Sha256 (utf8 (un_code u)), Digest digest) \<in> set h \<Longrightarrow>
    doc_step normal h d (d\<lparr>doc_pending := Some u\<rparr>)"
| confirm: "e \<in> {lf, crlf} \<Longrightarrow> saved_by h (doc_path d) base (with_eol e str) v \<Longrightarrow>
    doc_step normal h d (d\<lparr>doc_entry := Some v, doc_saved := str, doc_pending := None\<rparr>)"
| accept: "received h (doc_path d) v \<Longrightarrow> source_content v = with_eol (doc_eol d) (doc_text d) \<Longrightarrow>
    doc_step normal h d (d\<lparr>doc_entry := Some (source_entry v), doc_saved := doc_text d, doc_pending := None\<rparr>)"
| accept_noted: "received h (doc_path d) v \<Longrightarrow> doc_pending d = Some u \<Longrightarrow> source_content v = un_code u \<Longrightarrow>
    un_base u < entry_revision (source_entry v) \<Longrightarrow>
    doc_step normal h d (d\<lparr>doc_entry := Some (source_entry v), doc_saved := un_text u, doc_pending := None\<rparr>)"

inductive_cases doc_stepE: "doc_step normal h d d'"


lemma view_simps [simp]:
  "doc_path (document_view s) = ed_path s" "doc_entry (document_view s) = ed_entry s"
  "doc_text (document_view s) = input_value s" "doc_saved (document_view s) = savedText s"
  "doc_eol (document_view s) = eol s" "doc_pending (document_view s) = unconfirmed s"
  by (simp_all add: document_view_def)

















end
