(* ===== verification/Editor_Clients.thy ===== *)
theory Editor_Clients
  imports Tokens Editor_Page
begin

text \<open>
  What the handlers of the editor do apart from saving. The locale \<open>save_clients\<close> states what they
  need of a property of handlers: that it holds of a handler with \<open>calm\<close> segments and, when it
  waits for \<open>flush\<close>, of what it does afterwards. The handlers that open, detect tools, run, poll, lock and
  leave are followed once under it.
\<close>

section \<open>What the segments keep\<close>

definition is_put :: "query \<Rightarrow> bool" where
  "is_put q = (case q of Fetch r \<Rightarrow> req_method r = PUT | _ \<Rightarrow> False)"

lemma is_put_simps [simp]: "\<not> is_put (Sleep n)" "\<not> is_put (Sha256 bs)" "is_put (Fetch r) = (req_method r = PUT)"
  by (simp_all add: is_put_def)

definition unlocked :: "editor \<Rightarrow> bool" where
  "unlocked s \<longleftrightarrow> (\<forall>i. \<not> ed_aborted s i)"

definition may_save :: "editor \<Rightarrow> bool" where
  "may_save s \<longleftrightarrow> (unlocked s \<longrightarrow> editAllowed s)"

definition tended :: "editor \<Rightarrow> bool" where
  "tended s \<longleftrightarrow> guarded s \<and> (unlocked s \<longrightarrow> dirty s \<longrightarrow> saveError s = None \<longrightarrow>
     editAllowed s \<and> (saving s \<noteq> None \<or> save_timer s \<noteq> None))"

text \<open>Only a lock aborts a controller, and only a lock takes the permission to edit away.\<close>

definition onward :: "editor \<Rightarrow> editor \<Rightarrow> bool" where
  "onward s s' \<longleftrightarrow> (unlocked s' \<longrightarrow> unlocked s \<and> (editAllowed s \<longrightarrow> editAllowed s'))"

definition calm :: "editor \<Rightarrow> editor \<Rightarrow> bool" where
  "calm s s' \<longleftrightarrow> saving s' = saving s \<and> onward s s' \<and> (tended s \<longrightarrow> tended s')"

interpretation onward: rely onward
  by unfold_locales (auto simp: onward_def)

lemma may_save_onward: "may_save s \<Longrightarrow> onward s s' \<Longrightarrow> may_save s'"
  by (auto simp: may_save_def onward_def)

lemma unlocked_same: "ed_aborted s' = ed_aborted s \<Longrightarrow> unlocked s' = unlocked s"
  by (simp add: unlocked_def)

lemma dirty_same:
  "ed_entry s' = ed_entry s \<Longrightarrow> input_value s' = input_value s \<Longrightarrow> savedText s' = savedText s \<Longrightarrow> dirty s' = dirty s"
  by (simp add: dirty_def)

lemma calmI:
  assumes "ed_aborted s' = ed_aborted s" "saving s' = saving s" "save_timer s' = save_timer s"
    "editAllowed s \<longrightarrow> editAllowed s'" "saveError s' = saveError s" "ed_entry s' = ed_entry s"
    "input_value s' = input_value s" "savedText s' = savedText s" "guarded s \<longrightarrow> guarded s'"
  shows "calm s s'"
  using assms unlocked_same [of s' s] dirty_same [of s' s]
  by (auto simp: calm_def onward_def tended_def)

lemma calm_refl [simp]: "calm s s"
  by (simp add: calmI)

lemma timer_blocks [simp]:
  "save_timer (set_ed_hidden i b s) = save_timer s" "save_timer (set_ed_disabled i b s) = save_timer s"
  "save_timer (set_ed_text i t s) = save_timer s" "save_timer (saveStatus s) = save_timer s"
  "save_timer (notice t s) = save_timer s" "save_timer (highlight s) = save_timer s"
  "save_timer (controls s) = save_timer s"
  by (simp_all add: saveStatus_def notice_def highlight_def controls_def ui_simps)

section \<open>The clients of \<open>flush\<close>\<close>

locale save_clients =
  fixes P :: "editor_handler \<Rightarrow> bool"
  assumes ends: "P Done"
    and awaits: "\<not> is_put q \<Longrightarrow> (\<And>r. P (k r)) \<Longrightarrow> P (Await q k)"
    and acts: "(\<And>s. calm s (fst (f s))) \<Longrightarrow> (\<And>s. P (snd (f s))) \<Longrightarrow> P (Act f)"
    and flushes: "(\<And>s. \<not> dirty s \<Longrightarrow> saveError s = None \<Longrightarrow> calm s (fst (ret s)) \<and> P (snd (ret s))) \<Longrightarrow>
      (\<And>e. P (throw e)) \<Longrightarrow> P (flush fuel ret throw)"
begin

lemma requests: "req_method q \<noteq> PUT \<Longrightarrow> (\<And>v. P (ret v)) \<Longrightarrow> (\<And>e. P (throw e)) \<Longrightarrow> P (request q ret throw)"
  unfolding request_def by (rule awaits) (auto simp: is_put_def split: answer.split sum.split)

lemma authorizes: "P ret \<Longrightarrow> (\<And>e. P (throw e)) \<Longrightarrow> P (authorize scope ret throw)"
  unfolding authorize_def authorize_with_def editor_confirm_def post_def
  by (auto intro!: acts requests simp: get_req_def post_req_def local_req_def)

lemma loads: "(\<And>v. P (ret v)) \<Longrightarrow> (\<And>e. P (throw e)) \<Longrightarrow> P (loadSource ret throw)"
  unfolding loadSource_def Let_def
  by (auto intro!: acts requests awaits simp: source_req_def get_req_def is_put_def split: answer.split)

lemma asks: "(\<And>d. P (ret d)) \<Longrightarrow> (\<And>e. P (throw e)) \<Longrightarrow> P (local_op operation ret throw)"
  unfolding local_op_def
  by (auto intro!: acts requests simp: ticket_req_def runner_req_def get_req_def split: sum.split)

lemma detects: "P ret \<Longrightarrow> P (detect ret)"
proof -
  assume ret: "P ret"
  have failed: "P (detect_failed ret e)" for e
    unfolding detect_failed_def detect_finally_def by (rule acts) (simp_all add: ret calmI guarded_def)
  have "P (detect_done ret v)" for v
    unfolding detect_done_def detect_finally_def
    by (rule acts) (auto simp: failed ret guarded_def intro: calmI split: sum.split)
  then have run: "P (authorize ''run'' (local_op tools_op (detect_done ret) (detect_failed ret)) (detect_failed ret))"
    by (intro authorizes asks failed)
  show ?thesis
    unfolding detect_def detect_begin_def by (rule acts) (simp_all add: run ret calmI guarded_def)
qed

lemma waits: "(\<And>s. calm s (fst (ret s))) \<Longrightarrow> (\<And>s. P (snd (ret s))) \<Longrightarrow> (\<And>e. P (throw e)) \<Longrightarrow>
    P (await_promise fuel i ret throw)"
  by (induction fuel) (auto simp: ends is_put_def intro!: awaits acts split: option.split)

lemma calm_render: "render v s = Inr t \<Longrightarrow> calm s t"
  by (erule render_cases) (auto simp: guarded_def intro!: calmI)

lemma calm_render_poll: "render v s = Inr t \<Longrightarrow> calm s (poll t)"
  by (erule render_cases) (auto simp: guarded_def poll_def intro!: calmI)

lemma calm_render_run: "render v (set_ed_text i l s) = Inr t \<Longrightarrow> calm s (run_finally (poll t))"
  by (erule render_cases) (auto simp: guarded_def poll_def run_finally_def intro!: calmI)

lemma polls: "P poll_fires"
proof -
  have failed: "P (poll_failed e)" for e
    unfolding poll_failed_def by (rule acts) (simp_all add: ends calmI guarded_def)
  have "P (poll_answer v)" for v
    unfolding poll_answer_def by (rule acts) (auto simp: failed ends calm_render_poll split: sum.split)
  then show ?thesis
    unfolding poll_fires_def Let_def
    by (intro acts) (auto simp: failed guarded_def intro!: calmI asks split: option.split)
qed

lemma runs: "P (run_click fuel uuid)"
proof -
  have run_failed: "P (run_failed e)" for e
    unfolding run_failed_def run_finally_def by (rule acts) (simp_all add: ends calmI guarded_def)
  have "P (run_answer v)" for v
    unfolding run_answer_def Let_def by (rule acts) (auto simp: run_failed ends calm_render_run guarded_def intro!: calmI split: sum.split)
  then have "P (snd (run_start uuid s))" for s
    by (auto simp: run_start_def Let_def run_failed intro!: asks split: option.split)
  moreover have "calm s (fst (run_start uuid s))" for s
    by (auto simp: run_start_def Let_def guarded_def intro!: calmI split: option.split)
  ultimately have start: "P (flush fuel (run_start uuid) run_failed)"
    by (intro flushes) (simp_all add: run_failed)
  have failed: "P (stop_failed e)" for e
    unfolding stop_failed_def by (rule acts) (simp_all add: ends calmI guarded_def)
  have "P (stop_answer v)" for v
    unfolding stop_answer_def by (rule acts) (auto simp: failed ends calm_render_poll split: sum.split)
  then have "P (local_op operation stop_answer stop_failed)" for operation by (intro asks failed)
  with start show ?thesis
    unfolding run_click_def by (intro acts) (auto simp: ends guarded_def intro!: calmI split: option.split)
qed

lemma leaves: "P (leave fuel destination)"
proof -
  have failed: "P (leave_failed e)" for e
    unfolding leave_failed_def leave_finally_def by (rule acts) (simp_all add: ends calmI guarded_def)
  have now: "calm s (fst (leave_now destination s))" "P (snd (leave_now destination s))" for s
    by (auto simp: leave_now_def leave_finally_def ends guarded_def intro!: calmI split: option.split)
  have "calm s (fst (leave_now destination (s\<lparr>polling := False, job := None\<rparr>)))" for s
    by (auto simp: leave_now_def leave_finally_def guarded_def intro!: calmI split: option.split)
  then have "P (local_op (stop_op i) (\<lambda>_. Act (\<lambda>s. leave_now destination (s\<lparr>polling := False, job := None\<rparr>))) leave_failed)" for i
    by (intro asks acts failed) (simp_all add: now)
  then have "P (flush fuel (leave_saved destination) leave_failed)"
    by (intro flushes) (auto simp: leave_saved_def failed now split: option.split)
  then show ?thesis
    unfolding leave_def by (intro acts) (auto simp: ends guarded_def intro!: calmI)
qed

lemma follows_links: "P (link_click fuel modified destination)"
  unfolding link_click_def by (rule acts) (simp_all add: ends leaves)

lemma calm_open_finally: "calm s (open_finally i s)" "calm s (open_finally i (notice l s))"
  "calm s (open_finally i (open_error current e s))"
  by (rule calmI; simp add: open_finally_def open_error_def settle_def guarded_def)+

lemma calm_allowed:
  assumes "substance (f s) = substance s \<or> substance (f s) = substance (s\<lparr>editAllowed := True\<rparr>)"
    and "save_timer (f s) = save_timer s" and "readOnly (f s) = readOnly s"
  shows "calm s (controls (f s))" "calm s (open_finally i (f s))"
proof -
  have *: "ed_aborted (f s) = ed_aborted s" "saving (f s) = saving s" "saveError (f s) = saveError s"
    "ed_entry (f s) = ed_entry s" "input_value (f s) = input_value s" "savedText (f s) = savedText s"
    "job (f s) = job s" "editAllowed s \<longrightarrow> editAllowed (f s)"
    using assms(1) substance_fields(24,7,11,4,3,5,17,10) [of "f s" s]
      substance_fields(24,7,11,4,3,5,17,10) [of "f s" "s\<lparr>editAllowed := True\<rparr>"] by auto
  show "calm s (controls (f s))" "calm s (open_finally i (f s))"
    using * assms(2) by (auto simp: guarded_def open_finally_def settle_def intro!: calmI)
qed

lemma checks:
  assumes "P ret"
    and "\<And>s. substance (f s) = substance s \<or> substance (f s) = substance (s\<lparr>editAllowed := True\<rparr>)"
    and "\<And>s. save_timer (f s) = save_timer s" and "\<And>s. readOnly (f s) = readOnly s"
  shows "P (open_checked i current ret f)"
proof -
  have "P (open_end i ret)"
    unfolding open_end_def by (rule acts) (simp_all add: calm_open_finally assms)
  then show ?thesis
    unfolding open_checked_def Let_def
    by (intro acts) (auto simp: calm_allowed assms(2-4) assms(1) detects)
qed

lemma calm_adopt_source: "\<not> dirty s \<Longrightarrow> calm s (adopt_source normal v s)"
  by (auto simp: calm_def onward_def unlocked_def tended_def guarded_def adopt_source_def dirty_def)

lemma opens:
  assumes ret: "P ret"
  shows "P (open_editor normal fuel ret)"
proof -
  have failed: "P (open_failed i current ret e)" for i current e
    unfolding open_failed_def by (rule acts) (simp_all add: calm_open_finally ret)
  have "P (authorize ''edit''
      (open_checked i current ret (\<lambda>s. notice no_text (s\<lparr>editAllowed := True\<rparr>)))
      (\<lambda>e. open_checked i current ret (\<lambda>s. notice (l s e) s)))" for i current l
    by (intro authorizes checks ret) simp_all
  then have "P (open_source normal i current ret v)" for i current v
    unfolding open_source_def by (intro acts) (auto simp: calm_open_finally calm_adopt_source ret)
  then have load: "P (loadSource (open_source normal i current ret) (open_failed i current ret))" for i current
    by (intro loads failed)
  have wait: "P (await_promise fuel i (\<lambda>s. (s, ret)) (\<lambda>_. ret))" for i
    by (intro waits) (simp_all add: ret)
  have "calm s (s\<lparr>ed_controller := i, generation := g, fresh := j, is_opening := o'\<rparr>)"
    "calm s ((open_finally i' (open_error current e
      (s\<lparr>ed_controller := i, generation := g, fresh := j, is_opening := o'\<rparr>)))\<lparr>is_opening := o''\<rparr>)" for s i i' current e g j o' o''
    by (rule calmI; simp add: guarded_def open_finally_def open_error_def settle_def)+
  then show ?thesis
    unfolding open_editor_def Let_def
    by (intro acts) (auto simp: load wait ret split: option.split)
qed

lemma locks: "P (lock_call normal)"
proof -
  have "calm s (snd (editor_lock normal s))" for s
  proof -
    have "\<not> unlocked (snd (editor_lock normal s))" "saving (snd (editor_lock normal s)) = saving s"
      "guarded s \<longrightarrow> guarded (snd (editor_lock normal s))"
      by (auto simp: editor_lock_def lock_forget_def Let_def unlocked_def guarded_def)
    then show ?thesis by (auto simp: calm_def onward_def tended_def)
  qed
  then show ?thesis unfolding lock_call_def by (intro acts) (simp_all add: ends)
qed

lemma clicks: "P clear_click" "P draft_click" "P (discard_click back)" "P (editor_clock t)"
  unfolding clear_click_def draft_click_def discard_click_def editor_clock_def
  by (rule acts; simp add: ends calmI guarded_def)+

end

end
