(* ===== verification/Editor_Saves.thy ===== *)
theory Editor_Saves
  imports Editor_Clients
begin

text \<open>
  One save at a time. \<open>saving\<close> names the promise of the running save; its handler owns the right
  to send the file, so that two saves never overlap, however the handlers interleave.
\<close>

section \<open>One save at a time\<close>

abbreviation frees :: "editor_handler \<Rightarrow> bool" where
  "frees \<equiv> free saving is_put"

lemma saving_save_finally [simp]: "saving (save_finally i r s) = None"
  by (simp add: save_finally_def settle_def)

lemma own_save_failed: "own saving i (save_failed j current e)"
  unfolding save_failed_def by (rule own_act) simp

lemma own_request:
  "(\<And>v. own saving i (ret v)) \<Longrightarrow> (\<And>e. own saving i (throw e)) \<Longrightarrow> own saving i (request q ret throw)"
  unfolding request_def by (rule own_await) (auto split: answer.split sum.split)

lemma own_save_task: "own saving i (save_task p j current str source base)"
proof -
  have "own saving i (save_done p j current str source base digest v)" for digest v
    unfolding save_done_def by (rule own_act) (simp add: own_save_failed)
  then have "own saving i (Act (\<lambda>s. (s\<lparr>unconfirmed := u\<rparr>, request (save_req p base source (ed_controller s))
      (\<lambda>r. save_done p j current str source base digest (data_of r)) (save_failed j current))))" for u digest
    by (intro own_act) (simp add: own_request own_save_failed)
  then have "own saving i (Await (Sha256 (utf8 source)) (\<lambda>a. case a of
      Digest digest \<Rightarrow> Act (\<lambda>s.
        (s\<lparr>unconfirmed := Some \<lparr>un_text = str, un_code = source, un_base = base\<rparr>\<rparr>,
         request (save_req p base source (ed_controller s))
           (\<lambda>r. save_done p j current str source base digest (data_of r)) (save_failed j current)))
    | _ \<Rightarrow> save_failed j current OtherError))"
    by (intro own_await) (auto simp: own_save_failed split: answer.split)
  then show ?thesis
    unfolding save_task_def by (intro own_await own_act) (auto simp: own_save_failed)
qed

lemma waiting_save_task [simp]: "waiting (save_task p j current str source base)"
  by (simp add: save_task_def)

text \<open>The three results of \<open>persist\<close>.\<close>

lemma persist_cases:
  obtains (running) i where "saving s = Some i" "persist s = (s, Running i, Done)"
  | (clean) "saving s = None" "\<not> dirty s" "persist s = (s, Resolved, Done)"
  | (rejected) e where "saving s = None" "dirty s" "saveError s \<noteq> None \<or> \<not> editAllowed s" "persist s = (s, Rejected e, Done)"
  | (started) "saving s = None" "dirty s" "saveError s = None" "editAllowed s"
      "persist s = (s\<lparr>saving := Some (fresh s), fresh := Suc (fresh s)\<rparr>, Running (fresh s),
         save_task (ed_path s) (fresh s) (generation s) (input_value s) (content s) (entry_revision (the (ed_entry s))))"
proof (cases "saving s")
  case None
  show ?thesis
  proof (cases "dirty s")
    case True
    show ?thesis
    proof (cases "saveError s \<noteq> None \<or> \<not> editAllowed s")
      case False
      then have "saveError s = None" "editAllowed s" by simp_all
      with None True show ?thesis by (intro started) (simp_all add: persist_def)
    next
      case error: True
      then show ?thesis using None True by (intro rejected) (simp_all add: persist_def)
    qed
  next
    case False
    with None show ?thesis by (intro clean) (simp_all add: persist_def)
  qed
next
  case (Some i)
  then show ?thesis by (intro running) (simp_all add: persist_def)
qed

text \<open>A segment of \<open>flush\<close>; it begins in \<open>s0\<close>, which differs from \<open>s\<close> at most in the timer.\<close>

definition free_step :: "editor \<Rightarrow> editor \<times> editor_handler \<Rightarrow> bool" where
  "free_step s r \<longleftrightarrow> saving (fst r) = saving s \<and> frees (snd r) \<or>
     (\<exists>i t p. saving s = None \<and> saving (fst r) = Some i \<and> snd r \<in> {t, Fork t p} \<and>
        waiting t \<and> own saving i t \<and> frees p)"

lemma free_step_started:
  "saving s = None \<Longrightarrow> saving s' = Some i \<Longrightarrow> waiting t \<Longrightarrow> own saving i t \<Longrightarrow> free_step s (s', t)"
  "saving s = None \<Longrightarrow> saving s' = Some i \<Longrightarrow> waiting t \<Longrightarrow> own saving i t \<Longrightarrow> frees p \<Longrightarrow> free_step s (s', Fork t p)"
  unfolding free_step_def by (auto intro: free_done)

lemma free_stepI: "(\<And>s. free_step s (f s)) \<Longrightarrow> frees (Act f)"
  by (rule free_act) (auto simp: free_step_def)

lemma free_await_promise:
  "(\<And>s. free_step s (ret s)) \<Longrightarrow> (\<And>e. frees (throw e)) \<Longrightarrow> frees (await_promise fuel i ret throw)"
proof (induction fuel)
  case (Suc fuel)
  then have "free_step s (case outcomes s i of None \<Rightarrow> (s, await_promise fuel i ret throw)
      | Some None \<Rightarrow> ret s | Some (Some e) \<Rightarrow> (s, throw e))" for s
    by (auto simp: free_step_def split: option.split)
  then show ?case by (simp add: free_await free_stepI)
qed (simp add: free_done)

lemma free_flush_loop:
  assumes "\<And>s. \<not> dirty s \<Longrightarrow> saveError s = None \<Longrightarrow> saving (fst (ret s)) = saving s \<and> frees (snd (ret s))"
    and "\<And>e. frees (throw e)"
  shows "free_step s (flush_loop fuel ret throw s)"
proof (induction fuel arbitrary: s)
  case (Suc fuel)
  have wait: "frees (await_promise fuel i (flush_loop fuel ret throw) throw)" for i
    by (rule free_await_promise [OF Suc.IH assms(2)])
  show ?case
  proof (cases "dirty s")
    case True
    then show ?thesis
    proof (cases s rule: persist_cases)
      case started
      with True wait show ?thesis by (simp add: free_step_started own_save_task)
    qed (auto simp: free_step_def wait assms(2) free_done intro: free_fork)
  next
    case False
    with assms show ?thesis by (auto simp: free_step_def split: option.split)
  qed
qed (simp add: free_step_def free_done)

lemma free_flush:
  assumes "\<And>s. \<not> dirty s \<Longrightarrow> saveError s = None \<Longrightarrow> saving (fst (ret s)) = saving s \<and> frees (snd (ret s))"
    and "\<And>e. frees (throw e)"
  shows "frees (flush fuel ret throw)"
proof -
  have loop: "free_step s (flush_loop n ret throw s)" for n s by (rule free_flush_loop [OF assms])
  have wait: "frees (await_promise fuel i (flush_loop fuel ret throw) throw)" for i
    by (rule free_await_promise [OF loop assms(2)])
  have "free_step s (case saving (s\<lparr>save_timer := None\<rparr>) of
      Some i \<Rightarrow> (s\<lparr>save_timer := None\<rparr>, await_promise fuel i (flush_loop fuel ret throw) throw)
    | None \<Rightarrow> flush_loop (Suc fuel) ret throw (s\<lparr>save_timer := None\<rparr>))" for s
    using loop [of "s\<lparr>save_timer := None\<rparr>" "Suc fuel"] wait
    by (cases "saving s") (simp_all add: free_step_def del: flush_loop.simps)
  then show ?thesis unfolding flush_def Let_def by (rule free_stepI)
qed

interpretation freely: save_clients frees
  by unfold_locales (auto simp: calm_def intro: free_done free_await free_keepI free_flush)

lemma free_save_timer_fires: "frees save_timer_fires"
  unfolding save_timer_fires_def
proof (rule free_stepI)
  fix s show "free_step s (let (s', r, task) = persist (s\<lparr>save_timer := None\<rparr>) in (s', task))"
    by (cases "s\<lparr>save_timer := None\<rparr>" rule: persist_cases)
      (simp_all add: free_step_started own_save_task, simp_all add: free_step_def free_done)
qed

lemma saving_reconcile: "reconcile remote s = Inr t \<Longrightarrow> saving t = saving s"
  by (auto simp: reconcile_def Let_def split: option.splits if_splits)

lemma free_retry_failed: "frees (retry_failed e)"
  unfolding retry_failed_def retry_end_def by (rule free_keepI) (simp_all add: free_done)

lemma free_retry_flush:
  "saving (fst (retry_flush fuel s)) = saving s" "frees (snd (retry_flush fuel s))"
  by (auto simp: retry_flush_def retry_end_def free_done free_retry_failed intro!: free_flush)

lemma free_retry_source: "frees (retry_source fuel remote)"
  unfolding retry_source_def
  by (rule free_keepI) (auto simp: free_retry_flush free_retry_failed dest: saving_reconcile split: sum.split)

lemma free_retry_click: "frees (retry_click normal fuel)"
proof -
  have "frees (loadSource (retry_source fuel) retry_failed)"
    by (intro freely.loads free_retry_source free_retry_failed)
  then have "frees (retry_authorized fuel)"
    unfolding retry_authorized_def Let_def by (intro free_keepI) (auto simp: free_retry_flush)
  then have "frees (authorize ''edit'' (retry_authorized fuel) retry_failed)"
    by (intro freely.authorizes free_retry_failed)
  moreover have "frees (open_editor normal fuel retry_finally)"
    unfolding retry_finally_def retry_end_def by (intro freely.opens free_keepI) (simp_all add: free_done)
  ultimately show ?thesis unfolding retry_click_def by (intro free_keepI) simp_all
qed

lemma free_events: "editor_input normal s p \<Longrightarrow> frees p"
proof -
  assume "editor_input normal s p"
  then consider "editor_event normal s p" | str where "p = user_edit str" by (auto simp: editor_input_def)
  then show ?thesis
  proof cases
    case 1
    then show ?thesis
      by (rule editor_eventE)
        (simp_all add: freely.opens freely.locks freely.detects freely.runs freely.polls freely.clicks
          freely.follows_links free_done free_save_timer_fires free_retry_click save_key_def free_flush)
  next
    case 2
    then show ?thesis unfolding user_edit_def by (auto simp: changed_def free_done intro!: free_keepI)
  qed
qed

interpretation saver: tokens editor_started "editor_input normal" saving is_put
  by unfold_locales (auto simp: editor_started_def first_editor_def intro: free_events)

end
