(* ===== verification/Editor_Tended.thy ===== *)
theory Editor_Tended
  imports Editor_Saves
begin

text \<open>
  No text is forgotten. As long as the page has not been locked, text that is not saved is either
  being saved or about to be, or the save has failed and the user is told: \<open>tended\<close> holds in every
  state that the editor can reach, whatever the network answers. An example that opens a file,
  types and saves shows that these states exist.
\<close>

section \<open>No text is forgotten\<close>

abbreviation tends :: "editor_handler \<Rightarrow> bool" where
  "tends \<equiv> always onward tended"

text \<open>What \<open>flush\<close> needs of the state in which it starts.\<close>

definition ready_to_flush :: "editor \<Rightarrow> bool" where
  "ready_to_flush s \<longleftrightarrow> guarded s \<and> (unlocked s \<longrightarrow> dirty s \<longrightarrow> saveError s = None \<longrightarrow> editAllowed s)"

lemma tended_ready: "tended s \<Longrightarrow> ready_to_flush s"
  by (auto simp: tended_def ready_to_flush_def)

lemma may_save_ready: "may_save s \<Longrightarrow> guarded s \<Longrightarrow> ready_to_flush s"
  by (auto simp: may_save_def ready_to_flush_def)

lemma tended_guarded: "tended s \<Longrightarrow> guarded s"
  by (simp add: tended_def)

lemma dirty_schedule [simp]: "dirty (schedule s) = dirty s"
  by (simp add: schedule_def dirty_def)

lemma save_timer_schedule:
  "dirty s \<Longrightarrow> saving s = None \<Longrightarrow> saveError s = None \<Longrightarrow> editAllowed s \<Longrightarrow> save_timer (schedule s) \<noteq> None"
  by (simp add: schedule_def)

lemma rg_save_finally:
  assumes "may_save s" and "ed_aborted s' = ed_aborted s" "editAllowed s' = editAllowed s" "guarded s'"
  shows "onward s (save_finally i r s') \<and> tended (save_finally i r s')"
proof -
  let ?t = "schedule (controls (s'\<lparr>saving := None\<rparr>))"
  have t: "save_finally i r s' = ?t\<lparr>outcomes := (outcomes ?t)(i := Some r)\<rparr>"
    by (simp add: save_finally_def settle_def)
  have "save_timer ?t \<noteq> None" if "dirty ?t" "saveError ?t = None" "editAllowed ?t"
    using that by (intro save_timer_schedule) simp_all
  then show ?thesis
    using assms by (auto simp: t onward_def tended_def unlocked_def may_save_def guarded_def dirty_def)
qed

lemma rg_save_failed:
  assumes "may_save s" and "guarded s"
  shows "rg onward tended (save_failed i current e) s"
  unfolding save_failed_def rg_simps fst_conv snd_conv
  using assms by (auto intro!: rg_save_finally [THEN conjunct1] rg_save_finally [THEN conjunct2] simp: guarded_def)

text \<open>The task of a save goes on for as long as the permission lasts.\<close>

lemma rg_save_task:
  assumes "may_save s" and "tended s"
  shows "rg onward tended (save_task p i current str source base) s"
proof -
  have failed: "rg onward tended (save_failed i current e) s" if "may_save s" "tended s" for current s e
    using that by (simp add: rg_save_failed tended_guarded)
  have finished: "rg onward tended (save_done p i current str source base digest v) s" if "may_save s" "tended s" for s digest v
  proof -
    have "onward s (save_finally i None (notice no_text (s\<lparr>ed_entry := Some v, savedText := str, unconfirmed := None\<rparr>))) \<and>
        tended (save_finally i None (notice no_text (s\<lparr>ed_entry := Some v, savedText := str, unconfirmed := None\<rparr>)))"
      using that tended_guarded [OF that(2)] by (intro rg_save_finally) (simp_all add: guarded_def)
    then show ?thesis unfolding save_done_def using failed [OF that] by simp
  qed
  have calm: "onward s s' \<and> tended s'" if "calm s s'" "tended s" for s s'
    using that by (simp add: calm_def)
  have put: "rg onward tended (Act (\<lambda>s. (s\<lparr>unconfirmed := u\<rparr>, request (save_req p base source (ed_controller s))
      (\<lambda>r. save_done p i current str source base digest (data_of r)) (save_failed i current)))) s"
    if "may_save s" "tended s" for s u digest
  proof -
    let ?s = "s\<lparr>unconfirmed := u\<rparr>"
    have s: "onward s ?s \<and> tended ?s" using that(2) by (intro calm calmI) (simp_all add: guarded_def)
    then have "may_save ?s" using that may_save_onward by blast
    with s have "rg onward tended (request (save_req p base source (ed_controller s))
        (\<lambda>r. save_done p i current str source base digest (data_of r)) (save_failed i current)) ?s"
      by (auto intro!: rg_requestI finished failed dest: may_save_onward)
    with s show ?thesis by simp
  qed
  have sent: "rg onward tended (Act (\<lambda>s.
      if length (utf8 source) > size_limit then (s, save_failed i current (fail ''code_too_large''))
      else (saveStatus s, Await (Sha256 (utf8 source)) (\<lambda>a. case a of
          Digest digest \<Rightarrow> Act (\<lambda>s.
            (s\<lparr>unconfirmed := Some \<lparr>un_text = str, un_code = source, un_base = base\<rparr>\<rparr>,
             request (save_req p base source (ed_controller s))
               (\<lambda>r. save_done p i current str source base digest (data_of r)) (save_failed i current)))
        | _ \<Rightarrow> save_failed i current OtherError)))) s" if "may_save s" "tended s" for s
  proof -
    have s: "onward s (saveStatus s) \<and> tended (saveStatus s)"
      using that(2) by (intro calm calmI) (simp_all add: guarded_def)
    have "rg onward tended (case a of
          Digest digest \<Rightarrow> Act (\<lambda>s.
            (s\<lparr>unconfirmed := Some \<lparr>un_text = str, un_code = source, un_base = base\<rparr>\<rparr>,
             request (save_req p base source (ed_controller s))
               (\<lambda>r. save_done p i current str source base digest (data_of r)) (save_failed i current)))
        | _ \<Rightarrow> save_failed i current OtherError) s'"
      if "onward (saveStatus s) s'" "tended s'" for a s'
    proof -
      have "may_save s'" using \<open>may_save s\<close> s that may_save_onward by blast
      with that(2) show ?thesis by (cases a) (simp_all add: put failed del: rg_Act)
    qed
    with s that failed show ?thesis by simp
  qed
  show ?thesis
    unfolding save_task_def using assms sent by (auto dest: may_save_onward simp del: rg_Act)
qed

text \<open>A segment that starts in \<open>s\<close>.\<close>

definition tends_from :: "editor \<Rightarrow> editor \<times> editor_handler \<Rightarrow> bool" where
  "tends_from s r \<longleftrightarrow> onward s (fst r) \<and> rg onward tended (snd r) (fst r)"

lemma tends_fromI: "onward s s' \<Longrightarrow> tended s' \<Longrightarrow> tends p \<Longrightarrow> tends_from s (s', p)"
  by (simp add: tends_from_def alwaysD)

lemma tends_calm: "tended s \<Longrightarrow> calm s s' \<Longrightarrow> tends p \<Longrightarrow> tends_from s (s', p)"
  by (simp add: tends_fromI calm_def)

lemma tends_ActI: "(\<And>s. tended s \<Longrightarrow> tends_from s (f s)) \<Longrightarrow> tends (Act f)"
  by (simp add: always_def tends_from_def)

lemma tends_onward: "onward s s' \<Longrightarrow> tends_from s' r \<Longrightarrow> tends_from s r"
  unfolding tends_from_def using onward.rely_trans by blast

lemma tends_await_promise:
  assumes "\<And>s. tended s \<Longrightarrow> tends_from s (ret s)" and "\<And>e. tends (throw e)"
  shows "tends (await_promise fuel i ret throw)"
proof (induction fuel)
  case (Suc fuel)
  have "tends_from s (case outcomes s i of None \<Rightarrow> (s, await_promise fuel i ret throw)
      | Some None \<Rightarrow> ret s | Some (Some e) \<Rightarrow> (s, throw e))" if "tended s" for s
    using that assms Suc.IH by (auto simp: tends_fromI split: option.split)
  then show ?case by (simp add: always_AwaitI tends_ActI)
qed simp

text \<open>When the loop begins, the text is unsaved without a timer; the segment ends with a save that runs.\<close>

lemma tends_flush_loop:
  assumes ret: "\<And>s. \<not> dirty s \<Longrightarrow> saveError s = None \<Longrightarrow> calm s (fst (ret s)) \<and> tends (snd (ret s))"
    and throw: "\<And>e. tends (throw e)"
  shows "ready_to_flush s \<Longrightarrow> (fuel = 0 \<Longrightarrow> tended s) \<Longrightarrow> tends_from s (flush_loop fuel ret throw s)"
proof (induction fuel arbitrary: s)
  case (Suc fuel)
  have "tends_from s (flush_loop fuel ret throw s)" if "tended s" for s
    using that by (intro Suc.IH) (simp_all add: tended_ready)
  then have wait: "tends (await_promise fuel i (flush_loop fuel ret throw) throw)" for i
    by (rule tends_await_promise [OF _ throw])
  show ?case
  proof (cases "dirty s")
    case True
    then show ?thesis
    proof (cases s rule: persist_cases)
      case (running i)
      with Suc.prems(1) have "tended s" by (auto simp: tended_def ready_to_flush_def)
      with running True wait show ?thesis by (simp add: tends_from_def alwaysD)
    next
      case (rejected e)
      with Suc.prems(1) True have "tended s" by (auto simp: tended_def ready_to_flush_def)
      with rejected True throw show ?thesis by (simp add: tends_fromI)
    next
      case started
      let ?t = "s\<lparr>saving := Some (fresh s), fresh := Suc (fresh s)\<rparr>"
      have t: "onward s ?t" "tended ?t" "may_save ?t"
        using started Suc.prems(1) by (auto simp: onward_def unlocked_def tended_def ready_to_flush_def guarded_def may_save_def)
      with started True wait rg_save_task [OF t(3,2)] show ?thesis
        by (simp add: tends_from_def alwaysD run_waiting_self)
    qed simp
  next
    case False
    with Suc.prems(1) have s: "tended s" by (simp add: tended_def ready_to_flush_def)
    show ?thesis
    proof (cases "saveError s")
      case None
      with False ret [of s] s have "tends_from s (fst (ret s), snd (ret s))" by (intro tends_calm) simp_all
      with False None show ?thesis by simp
    next
      case (Some e)
      with False s throw show ?thesis by (simp add: tends_fromI)
    qed
  qed
qed (simp add: tends_fromI)

lemma tends_flush:
  assumes "\<And>s. \<not> dirty s \<Longrightarrow> saveError s = None \<Longrightarrow> calm s (fst (ret s)) \<and> tends (snd (ret s))"
    and "\<And>e. tends (throw e)" and "ready_to_flush s"
  shows "rg onward tended (flush fuel ret throw) s"
proof -
  let ?s = "s\<lparr>save_timer := None\<rparr>"
  have s: "onward s ?s" "ready_to_flush ?s"
    using assms(3) by (simp_all add: onward_def unlocked_def ready_to_flush_def guarded_def dirty_def)
  have loop: "tends_from s (flush_loop n ret throw s)" if "ready_to_flush s" "n = 0 \<Longrightarrow> tended s" for n s
    by (rule tends_flush_loop [OF assms(1,2) that])
  then have wait: "tends (await_promise fuel i (flush_loop fuel ret throw) throw)" for i
    by (intro tends_await_promise assms(2)) (simp_all add: tended_ready)
  have "tends_from ?s (case saving ?s of Some i \<Rightarrow> (?s, await_promise fuel i (flush_loop fuel ret throw) throw)
    | None \<Rightarrow> flush_loop (Suc fuel) ret throw ?s)"
    using s(2) loop [OF s(2), of "Suc fuel"] wait
    by (auto simp: tends_fromI tended_def ready_to_flush_def simp del: flush_loop.simps split: option.split)
  from tends_onward [OF s(1) this] show ?thesis
    unfolding flush_def Let_def rg_Act tends_from_def .
qed

interpretation tending: save_clients tends
proof
  fix ret :: "editor \<Rightarrow> editor \<times> editor_handler" and throw :: "exn \<Rightarrow> editor_handler" and fuel :: nat
  assume "\<And>s. \<not> dirty s \<Longrightarrow> saveError s = None \<Longrightarrow> calm s (fst (ret s)) \<and> tends (snd (ret s))" "\<And>e. tends (throw e)"
  then show "tends (flush fuel ret throw)"
    unfolding always_def using tends_flush [of ret throw _ fuel] tended_ready by (simp add: always_def)
next
  fix f :: "editor \<Rightarrow> editor \<times> editor_handler"
  assume "\<And>s. calm s (fst (f s))" "\<And>s. tends (snd (f s))"
  then show "tends (Act f)" by (intro always_ActI) (simp add: calm_def)
qed (simp_all add: always_AwaitI)

lemma tends_save_timer_fires: "tends save_timer_fires"
  unfolding save_timer_fires_def
proof (rule tends_ActI)
  fix s assume s: "tended s"
  let ?s = "s\<lparr>save_timer := None\<rparr>"
  have onward: "onward s (?s\<lparr>saving := b, fresh := n\<rparr>)" "onward s ?s" for b n by (simp_all add: onward_def unlocked_def)
  have same: "guarded ?s" "unlocked ?s = unlocked s" "dirty ?s = dirty s"
    using s by (simp_all add: tended_def guarded_def unlocked_def dirty_def)
  show "tends_from s (let (s', r, task) = persist ?s in (s', task))"
  proof (cases ?s rule: persist_cases)
    case started
    let ?t = "?s\<lparr>saving := Some (fresh s), fresh := Suc (fresh s)\<rparr>"
    have t: "tended ?t" "may_save ?t"
      using started s by (auto simp: tended_def guarded_def may_save_def)
    with started rg_save_task [OF t(2,1)] onward show ?thesis by (simp add: tends_from_def)
  qed (use s same onward in \<open>auto simp: tends_fromI tended_def\<close>)
qed

lemma tends_retry_failed: "tends (retry_failed e)"
  unfolding retry_failed_def
proof (rule tends_ActI)
  fix s assume "tended s"
  then have "tended (retry_end (notice l (s\<lparr>saveError := Some e\<rparr>)))" "onward s (retry_end (notice l (s\<lparr>saveError := Some e\<rparr>)))" for l
    by (auto simp: retry_end_def tended_def guarded_def onward_def unlocked_def)
  then show "tends_from s (retry_end (notice (message s e
      ''Sauvegarde non confirmee. Telechargez le brouillon avant de quitter.'') (s\<lparr>saveError := Some e\<rparr>)), Done)"
    by (simp add: tends_fromI)
qed

lemma rg_retry_flush:
  assumes "may_save s" and "guarded s"
  shows "tends_from s (retry_flush fuel s)"
proof -
  let ?t = "controls (notice no_text s)"
  have t: "onward s ?t" "ready_to_flush ?t"
    using assms by (auto simp: onward_def unlocked_def ready_to_flush_def may_save_def guarded_def)
  have "rg onward tended (flush fuel (\<lambda>s. (retry_end s, Done)) retry_failed) ?t"
    by (rule tends_flush) (simp_all add: t retry_end_def calmI guarded_def tends_retry_failed)
  with t(1) show ?thesis by (simp add: retry_flush_def tends_from_def)
qed

lemma rg_retry_source:
  assumes "may_save s" and "tended s"
  shows "rg onward tended (retry_source fuel remote) s"
proof -
  have "tends_from s (retry_flush fuel (t\<lparr>saveError := None\<rparr>))" if "reconcile remote s = Inr t" for t
  proof -
    let ?t = "t\<lparr>saveError := None\<rparr>"
    from that have t: "onward s ?t" "may_save ?t" "guarded ?t"
      using assms tended_guarded [OF assms(2)]
      by (auto elim!: reconcile_cases simp: onward_def unlocked_def may_save_def guarded_def)
    from tends_onward [OF t(1) rg_retry_flush [OF t(2,3)]] show ?thesis .
  qed
  then have "tends_from s (case reconcile remote s of Inl e \<Rightarrow> (s, retry_failed e)
      | Inr t \<Rightarrow> retry_flush fuel (t\<lparr>saveError := None\<rparr>))"
    using assms(2) by (auto simp: tends_fromI tends_retry_failed split: sum.split)
  then show ?thesis by (simp add: retry_source_def tends_from_def)
qed

lemma rg_loadSource:
  assumes "tended s" and "\<And>v s'. onward s s' \<Longrightarrow> tended s' \<Longrightarrow> rg onward tended (ret v) s'"
    and "\<And>e. tends (throw e)"
  shows "rg onward tended (loadSource ret throw) s"
  unfolding loadSource_def Let_def using assms(1)
  by (auto intro!: rg_requestI assms(2) alwaysD [OF assms(3)] intro: onward.rely_trans split: answer.split)

lemma tends_retry_authorized: "tends (retry_authorized fuel)"
  unfolding retry_authorized_def Let_def
proof (rule tends_ActI)
  fix s assume s: "tended s"
  let ?s = "s\<lparr>editAllowed := True\<rparr>"
  have t: "onward s ?s" "may_save ?s" "tended ?s"
    using s by (auto simp: tended_def guarded_def may_save_def onward_def unlocked_def dirty_def)
  have "tends_from ?s (if saveError ?s \<noteq> None then (?s, loadSource (retry_source fuel) retry_failed) else retry_flush fuel ?s)"
    using t rg_retry_flush [OF t(2)] tended_guarded [OF t(3)]
    by (auto simp: tends_from_def alwaysD [OF tends_retry_failed]
        intro!: rg_loadSource rg_retry_source tends_retry_failed dest: may_save_onward)
  with t(1) show "tends_from s (if saveError ?s \<noteq> None then (?s, loadSource (retry_source fuel) retry_failed) else retry_flush fuel ?s)"
    by (rule tends_onward)
qed

lemma tends_retry_click: "tends (retry_click normal fuel)"
proof -
  have "tends retry_finally"
    unfolding retry_finally_def retry_end_def by (rule tending.acts) (simp_all add: calmI guarded_def)
  then have "tends (open_editor normal fuel retry_finally)" by (rule tending.opens)
  moreover have "tends (authorize ''edit'' (retry_authorized fuel) retry_failed)"
    by (intro tending.authorizes tends_retry_authorized tends_retry_failed)
  ultimately show ?thesis
    unfolding retry_click_def by (intro tending.acts) (simp_all add: calmI guarded_def)
qed

lemma tends_save_key: "tends (save_key fuel)"
  unfolding save_key_def by (rule tending.flushes) simp_all

lemma tends_event: "editor_event normal s p \<Longrightarrow> tends p"
  by (erule editor_eventE)
    (simp_all add: tending.opens tending.locks tending.detects tending.runs tending.polls tending.clicks
      tending.follows_links tends_save_timer_fires tends_retry_click tends_save_key)

lemma tends_user_edit:
  assumes "tended s" and "\<not> readOnly s"
  shows "rg onward tended (user_edit str) s"
proof -
  let ?t = "changed (s\<lparr>input_value := str\<rparr>)"
  have "editAllowed s" using assms by (auto simp: tended_def guarded_def)
  moreover have "editAllowed ?t = editAllowed s" "ed_aborted ?t = ed_aborted s" "saving ?t = saving s" "saveError ?t = saveError s"
    "readOnly ?t = readOnly s" "starting ?t = starting s" "departing ?t = departing s" "job ?t = job s" "ed_entry ?t = ed_entry s"
    by (simp_all add: changed_def)
  moreover obtain u where "?t = schedule u" by (simp add: changed_def)
  then have "save_timer ?t \<noteq> None" if "dirty ?t" "saving ?t = None" "saveError ?t = None" "editAllowed ?t"
    using that by (simp add: save_timer_schedule)
  ultimately show ?thesis
    using assms(1) by (auto simp: user_edit_def tended_def guarded_def onward_def unlocked_def)
qed

interpretation attending: async_invariant onward editor_started "editor_input normal" tended
proof
  fix s :: editor and p :: editor_handler
  show "editor_started s \<Longrightarrow> tended s"
    by (auto simp: editor_started_def tended_def guarded_def first_editor_def dirty_def)
  assume "editor_input normal s p" "tended s"
  then show "rg onward tended p s"
    unfolding editor_input_def by (auto simp: tends_user_edit alwaysD [OF tends_event])
qed

section \<open>Opening a file\<close>

lemmas opening_run = open_editor_def loadSource_def open_source_def authorize_def authorize_with_def
  open_checked_def open_end_def detect_def detect_failed_def exec_request Let_def required_code_def dirty_def
  adopt_source_def detect_begin_def detect_finally_def open_finally_def settle_def












text \<open>A file with the text \<open>i\<close>, to which the user adds \<open>x\<close>.\<close>

definition example_source :: json where
  "example_source = JObj [(js ''entry'', JObj [(js ''path'', JStr (js ''a.py'')), (js ''revision'', JInt 3),
     (js ''sha256'', JStr (hex_string [6]))]), (js ''content'', JStr [105])]"

abbreviation example_loaded :: "answer list" where
  "example_loaded \<equiv> [Net (Inr (example_response example_source)), Digest [6],
     Net (Inr (example_response (JObj []))), Net (Inl OtherError)]"

lemma example_source_fields:
  "source_entry example_source = JObj [(js ''path'', JStr (js ''a.py'')), (js ''revision'', JInt 3),
     (js ''sha256'', JStr (hex_string [6]))]" "source_content example_source = [105]" "example_source \<noteq> JNull"
  by (simp_all add: source_entry_def source_content_def example_source_def)

lemma example_source_ok: "source_ok (js ''a.py'') example_source" "supported (js ''a.py'')"
proof -
  have "length (utf8 [105]) \<le> size_limit"
    using utf8_length_bounds [of "[105]"] by (simp add: size_limit_def)
  then show "source_ok (js ''a.py'') example_source"
    by (simp add: source_ok_def example_source_fields entry_revision_def isSafeInteger.simps) (simp add: example_source_def)
  show "supported (js ''a.py'')" by (simp add: supported_def has_extension_def js_def) code_simp
qed

lemma example_answers:
  "request_result (source_req p sg) (Inr (example_response v)) = Inr (Data v)"
  "request_result (get_req u sg') (Inr (example_response v)) = Inr (Data v)"
  "request_result q (Inl OtherError) = Inl OtherError"
  by (simp_all add: request_example_response source_req_def get_req_def) (simp add: request_result_def)


section \<open>Reachable editors\<close>

text \<open>The user opens the file, types \<open>x\<close> and lets the save begin.\<close>

abbreviation example_typed :: "editor \<Rightarrow> bool" where
  "example_typed s \<equiv> input_value s = [120] \<and> dirty s \<and> editAllowed s \<and> saveError s = None \<and> saving s = None \<and>
     save_timer s \<noteq> None \<and> unlocked s \<and> eol s = lf"

lemma example_typed:
  "\<exists>s. reachable editor_started (editor_input id) s [] \<and> example_typed s"
proof -
  let ?s = "first_editor (js ''a.py'') 0"
  obtain t qs where run: "exec (open_editor id 0 Done) ?s example_loaded = (t, qs, [])"
    and t: "ed_entry t \<noteq> None" "savedText t = [105]" "editAllowed t" "\<not> readOnly t" "saveError t = None" "saving t = None"
      "ed_aborted t = (\<lambda>_. False)" "eol t = lf"
    by (simp add: eol_of_def crlf_def opening_run first_editor_def example_source_ok example_source_fields example_answers)
  have "reachable editor_started (editor_input id) ?s []"
    by (rule reachable.start) (auto simp: editor_started_def)
  moreover have "editor_input id ?s (open_editor id 0 Done)"
    unfolding editor_input_def by (blast intro: editor_event.opened)
  ultimately have "reachable editor_started (editor_input id) t ([] @ [])"
    using run by (rule exec_reachable)
  moreover have "editor_input id t (user_edit [120])" using t(4) by (auto simp: editor_input_def)
  ultimately have "reachable editor_started (editor_input id) (fst (run (user_edit [120]) t)) ([] @ [] @ snd (run (user_edit [120]) t))"
    using reachable.event by fastforce
  moreover have "example_typed (fst (run (user_edit [120]) t))"
    using t by (simp add: user_edit_def changed_def dirty_def unlocked_def schedule_def)
  ultimately show ?thesis by (auto simp: user_edit_def)
qed

text \<open>C10. No text is forgotten. In every state that the editor can reach, by any interleaving of its
  events and whatever the network answers, text that is not saved is taken care of as long as
  the page was not locked and no save has failed: editing is still authorized, and either the
  timer of the next save is armed or a save runs, by a handler that is waiting for an answer and
  will give \<open>saving\<close> back.\<close>

theorem unsaved_text_attended:
  assumes "reachable editor_started (editor_input normal) s ts"
    and "\<forall>i. \<not> ed_aborted s i" "dirty s" "saveError s = None"
  shows "editAllowed s \<and> (save_timer s \<noteq> None \<or> (\<exists>i t. saving s = Some i \<and> t \<in> set ts \<and> waiting t \<and> own saving i t))"
proof -
  have "tended s" "\<forall>t \<in> set ts. waiting t" using attending.reachable_rg [OF assms(1)] by simp_all
  with assms(2-4) saver.owner_suspended [OF assms(1)] show ?thesis
    by (fastforce simp: tended_def unlocked_def)
qed

theorem unsaved_text_attended_witness:
  "\<exists>s. reachable editor_started (editor_input id) s [] \<and> dirty s \<and> input_value s = [120] \<and> save_timer s \<noteq> None"
proof -
  obtain s where s: "reachable editor_started (editor_input id) s []" "example_typed s" using example_typed by blast
  with unsaved_text_attended [OF s(1)] show ?thesis by (auto simp: unlocked_def)
qed

text \<open>C9. Saves never overlap. However the handlers interleave, at most one of those that are suspended
  waits for the answer to a request that writes the file, and none when no save runs; when one
  runs, its handler is one of them and holds the right to send, which it gives back with its last
  segment.\<close>

theorem saves_are_serialized:
  assumes "reachable editor_started (editor_input normal) s ts"
  shows "length (filter (awaits is_put) ts) \<le> (if saving s = None then 0 else 1) \<and>
    (saving s = Some i \<longrightarrow> (\<exists>t \<in> set ts. own saving i t))"
  using saver.one_guarded [OF assms] saver.owner_suspended [OF assms] by blast

theorem saves_are_serialized_witness:
  "\<exists>s t. reachable editor_started (editor_input id) s [t] \<and> awaits is_put t \<and>
     length (filter (awaits is_put) [t]) \<le> (if saving s = None then 0 else 1) \<and> saving s \<noteq> None"
proof -
  obtain s where s: "reachable editor_started (editor_input id) s []" "example_typed s" using example_typed by blast
  have event: "editor_input id s save_timer_fires"
    using s(2) by (auto simp: editor_input_def intro: editor_event.save_due)
  have small: "length (utf8 (content s)) \<le> size_limit"
    using s(2) utf8_length_bounds [of "[120]"] by (simp add: content_def size_limit_def)
  have same: "content (s\<lparr>save_timer := d\<rparr>) = content s" "dirty (s\<lparr>save_timer := d\<rparr>) = dirty s" for d
    by (simp_all add: content_def dirty_def)
  obtain s' qs t where run: "exec save_timer_fires s [Settled True, Digest [6]] = (s', qs, [t])" "awaits is_put t"
    using s(2) small by (simp add: same save_timer_fires_def persist_def save_task_def request_def awaits_def save_req_def get_req_def)
  have reach: "reachable editor_started (editor_input id) s' [t]"
    using exec_reachable [OF s(1) event run(1)] by (simp only: append_Nil)
  with saves_are_serialized [OF reach] run(2) show ?thesis by (fastforce split: if_splits)
qed

end
