(* ===== verification/Editor_View.thy ===== *)
theory Editor_View
  imports Editor_State
begin

text \<open>
  The fixed parts of the editor page (web/editor-src/controller.js): the splitter between the code
  and the output with its pointer and keyboard handling, and the names the page shows.
\<close>

section \<open>Where the splitter goes\<close>

text \<open>The share of the code column in percent.\<close>

definition split_at :: "rat \<Rightarrow> rat" where
  "split_at v = max 30 (min 80 v)"

section \<open>Splitter\<close>

record splitter =
  percent :: rat
  stacked :: bool                        \<comment> \<open>the media query: the panes lie above each other\<close>
  captured :: "nat set"                  \<comment> \<open>pointers captured by the splitter\<close>
  columns :: "(rat \<times> rat) option"         \<comment> \<open>the shares of the two tracks; \<open>None\<close>: one track\<close>
  pane_rows :: "(rat \<times> rat) option"
  value_now :: int
  horizontal :: bool                     \<comment> \<open>\<open>aria-orientation\<close>\<close>
  split_label :: string

definition split_to :: "rat \<Rightarrow> splitter \<Rightarrow> splitter" where
  "split_to v s =
     (let p = split_at v; tracks = Some (p, 100 - p) in
      s\<lparr>percent := p, columns := (if stacked s then None else tracks),
        pane_rows := (if stacked s then tracks else None), value_now := \<lfloor>p + 1 / 2\<rfloor>, horizontal := stacked s,
        split_label := (if stacked s then ''Hauteur de la colonne Code'' else ''Largeur de la colonne Code'')\<rparr>)"

definition stacked_changes :: "bool \<Rightarrow> splitter \<Rightarrow> splitter" where
  "stacked_changes b s = split_to (percent s) (s\<lparr>stacked := b\<rparr>)"

definition split_pointerdown :: "nat \<Rightarrow> nat \<Rightarrow> splitter \<Rightarrow> splitter" where
  "split_pointerdown button i s = (if button = 0 then s\<lparr>captured := insert i (captured s)\<rparr> else s)"

text \<open>The box of the panes, which has an extent while they are on display.\<close>

record box =
  box_x :: rat
  box_y :: rat
  box_width :: rat
  box_height :: rat

definition split_pointermove :: "nat \<Rightarrow> rat \<Rightarrow> rat \<Rightarrow> box \<Rightarrow> splitter \<Rightarrow> splitter" where
  "split_pointermove i x y b s =
     (if i \<in> captured s
      then split_to (if stacked s then (y - box_y b) / box_height b * 100 else (x - box_x b) / box_width b * 100) s
      else s)"

definition split_pointerup :: "nat \<Rightarrow> splitter \<Rightarrow> splitter" where
  "split_pointerup i s = s\<lparr>captured := captured s - {i}\<rparr>"

definition split_arrows :: "splitter \<Rightarrow> string \<times> string" where
  "split_arrows s = (if stacked s then (''ArrowUp'', ''ArrowDown'') else (''ArrowLeft'', ''ArrowRight''))"

definition split_keydown :: "string \<Rightarrow> splitter \<Rightarrow> splitter" where
  "split_keydown key s =
     (if key = ''Home'' then split_to 30 s
      else if key = ''End'' then split_to 80 s
      else if key = fst (split_arrows s) then split_to (percent s - 2) s
      else if key = snd (split_arrows s) then split_to (percent s + 2) s
      else s)"

definition first_split :: "bool \<Rightarrow> splitter" where
  "first_split b = split_to 65
     \<lparr>percent = 65, stacked = b, captured = {}, columns = None, pane_rows = None, value_now = 0,
      horizontal = False, split_label = []\<rparr>"

section \<open>Names on display\<close>

definition editor_name :: "jstring \<Rightarrow> jstring" where
  "editor_name p = (if basename p = [] then js ''Fichier'' else basename p)"

definition editor_language :: "editor \<Rightarrow> string" where
  "editor_language s = (if is_python s then ''Python'' else ''C'')"

definition editor_title :: "jstring \<Rightarrow> label" where
  "editor_title p = Text ''{} MySyncFiles'' [Str (if basename p = [] then js ''Editeur'' else basename p)]"

definition path_parts :: "jstring \<Rightarrow> jstring list" where
  "path_parts p = split_on slash p"

section \<open>The splitter keeps both panes on display\<close>

text \<open>
  The shares of the panes add up to 100 in the direction in which they lie, each pane keeps a
  fifth of the space at least, and what assistive tools are told agrees with it.
\<close>

definition split_ok :: "splitter \<Rightarrow> bool" where
  "split_ok s \<longleftrightarrow> 30 \<le> percent s \<and> percent s \<le> 80 \<and> value_now s = \<lfloor>percent s + 1 / 2\<rfloor> \<and>
     horizontal s = stacked s \<and>
     (if stacked s then pane_rows s = Some (percent s, 100 - percent s) \<and> columns s = None
      else columns s = Some (percent s, 100 - percent s) \<and> pane_rows s = None)"

lemma split_at_bounds: "30 \<le> split_at v" "split_at v \<le> 80"
  by (simp_all add: split_at_def)

lemma split_ok_split_to [simp]: "split_ok (split_to v s)"
  by (simp add: split_ok_def split_to_def Let_def split_at_bounds)

lemma split_ok_events:
  "split_ok (first_split b)" "split_ok (stacked_changes b s)"
  "split_ok s \<Longrightarrow> split_ok (split_pointerdown button i s)" "split_ok s \<Longrightarrow> split_ok (split_pointermove i x y bx s)"
  "split_ok s \<Longrightarrow> split_ok (split_pointerup i s)" "split_ok s \<Longrightarrow> split_ok (split_keydown key s)"
  by (simp_all add: first_split_def stacked_changes_def split_pointermove_def split_keydown_def)
    (simp_all add: split_ok_def split_pointerdown_def split_pointerup_def)

lemma split_moves_back:
  "32 \<le> percent s \<Longrightarrow> percent s \<le> 78 \<Longrightarrow>
   percent (split_keydown (snd (split_arrows s)) (split_keydown (fst (split_arrows s)) s)) = percent s"
  by (simp add: split_keydown_def split_to_def split_arrows_def split_at_def Let_def)

end
