(* ===== verification/Editor_Lock.thy ===== *)
theory Editor_Lock
  imports Explorer Editor_View
begin

text \<open>
  The explorer and the editor on one page. On the editor's page \<open>lock\<close> of web/atlas.js locks the
  editor, too: it calls \<open>lock\<close> of web/editor-src/controller.js, whose result, whether a draft is
  left, decides what the page shows.
\<close>

definition page_lock :: "(jstring \<Rightarrow> jstring) \<Rightarrow> string \<Rightarrow> label \<Rightarrow> atlas \<times> editor \<Rightarrow> atlas \<times> editor" where
  "page_lock normal st m = (\<lambda>(s, e).
     let (draft_left, e') = (if editorPage s then editor_lock normal e else (draft s, e)) in
     (lock st m (s\<lparr>draft := draft_left\<rparr>), e'))"

lemma editor_lock_frame:
  "ed_path (snd (editor_lock normal s)) = ed_path s" "lastRunText (snd (editor_lock normal s)) = lastRunText s"
  "eol (snd (editor_lock normal s)) = eol s"
  "dirty s \<Longrightarrow> run_output (snd (editor_lock normal s)) = run_output s"
  "dirty s \<Longrightarrow> run_result (snd (editor_lock normal s)) = run_result s"
  by (simp_all add: editor_lock_def lock_forget_def Let_def) (simp_all add: dirty_def)

lemma lock_editor_page:
  assumes "editorPage s"
  shows "hidden_of (doc (lock st m s)) ''code-editor'' = (\<not> draft s)"
    "hidden_of (doc (lock st m s)) ''access'' = (statusPage s \<or> draft s)"
  using assms by (simp_all add: lock_def abort_def) (auto simp: ui_simps)

text \<open>
  What the script writes into the page once, when it starts, from the path of the file: the
  title of the document and the parts of \<^verbatim>\<open>#editor-path\<close> in the toolbar, which is outside the
  editor's own section.
\<close>

definition editor_header :: "editor \<Rightarrow> label \<times> jstring list" where
  "editor_header e = (editor_title (ed_path e), path_parts (ed_path e))"

text \<open>C18. Locking the editor's page ends the session and takes the code away unless a draft is left.
  Afterwards there is no session, the explorer's parts of the page name nothing and none of its
  variables holds a name, answers to earlier requests are outdated on both sides, no run is
  followed any more, the code takes no input and editing is no longer allowed. If nothing was
  unsaved, the editor is hidden behind the access screen and its text, the saved text, the entry
  and the output of the last run are gone. Otherwise the editor stays on display with the
  unsaved text, the saved text, the entry, the line endings and the output as they were, with
  the error that tells why and the button that downloads the draft. What a lock does not take
  away in either case is the name of the file in the title and in the toolbar, and the text of
  the last run, which is kept to compare.\<close>

theorem page_lock_takes_code_away:
  assumes "page_ok s" "editorPage s" "\<not> statusPage s" "anonymous m" "normal [] = []"
  shows "case page_lock normal st m (s, e) of (t, e') \<Rightarrow>
    page_ok t \<and> session t = None \<and> nameless (doc t) \<and> forgotten t \<and> epoch t = Suc (epoch s) \<and>
    generation e' = Suc (generation e) \<and> ed_aborted e' (ed_controller e) \<and>
    readOnly e' \<and> \<not> editAllowed e' \<and> job e' = None \<and> \<not> polling e' \<and>
    hidden_of (doc t) ''code-editor'' = (\<not> dirty e) \<and> hidden_of (doc t) ''access'' = dirty e \<and>
    (if dirty e
     then input_value e' = input_value e \<and> savedText e' = savedText e \<and> ed_entry e' = ed_entry e \<and> eol e' = eol e \<and>
       run_output e' = run_output e \<and> run_result e' = run_result e \<and> dirty e' \<and>
       saveError e' = Some (fail ''session_expired'') \<and> \<not> ed_hidden e' ''editor-draft''
     else input_value e' = [] \<and> savedText e' = [] \<and> ed_entry e' = None \<and> run_output e' = [] \<and>
       ed_hidden e' ''run-result'' \<and> \<not> dirty e') \<and>
    editor_header e' = editor_header e \<and> lastRunText e' = lastRunText e"
proof -
  let ?s = "\<lambda>d. s\<lparr>draft := d\<rparr>"
  have ok: "page_ok (?s d)" for d using assms(1) by (simp add: page_ok_def)
  then have "page_ok (lock st m (?s d))" for d using assms(4) by simp
  then have locked: "page_ok (lock st m (?s d))" "nameless (doc (lock st m (?s d)))" "forgotten (lock st m (?s d))" for d
    using veiled_nameless by (auto simp: page_ok_def discreet_def)
  obtain d e' where e': "editor_lock normal e = (d, e')" by fastforce
  note editor = editor_lock_keeps_draft [of normal e, OF assms(5), unfolded e' prod.case]
    and kept = editor_lock_frame [where normal = normal and s = e, unfolded e' snd_conv]
  have "page_lock normal st m (s, e) = (lock st m (?s (dirty e)), e')"
    using assms(2) e' editor by (simp add: page_lock_def)
  with editor kept locked assms(2,3) show ?thesis
    by (cases "dirty e") (simp_all add: lock_editor_page editor_header_def)
qed

theorem page_lock_takes_code_away_witness:
  "\<exists>s. page_ok s \<and> input_value (snd (page_lock id ''expired'' no_text
     (s, (first_editor (js ''a.py'') 0)\<lparr>ed_entry := Some (JObj []), input_value := [120]\<rparr>))) = [120]"
proof -
  let ?s = "first_page False True 0 False" and ?e = "(first_editor (js ''a.py'') 0)\<lparr>ed_entry := Some (JObj []), input_value := [120]\<rparr>"
  have "editorPage ?s" "\<not> statusPage ?s" by (simp_all add: first_page_def)
  moreover have "dirty ?e" by (simp add: dirty_def first_editor_def)
  ultimately show ?thesis
    using page_lock_takes_code_away [where s = ?s and m = no_text and normal = id and st = "''expired''" and e = ?e]
      page_ok_first_page [of False True 0 False]
    by (auto simp: split_beta intro!: exI [of _ ?s])
qed

end
