(* ===== verification/Status.thy ===== *)
theory Status
  imports Authorize
begin

text \<open>
  The status page (web/status.js): it looks for the local client, lets it prove the device to the
  server, and shows the presence that the server confirms until it expires. Timers are part of
  the state: the request timer with the controller it aborts, the hint shown while the local
  access is pending, and the expiry of the presence. The body of a response is read with
  \<open>status_json\<close> of the transport layer.
\<close>

section \<open>State\<close>

text \<open>A value of the result list: a text, a JSON value made a string, or a date.\<close>

datatype cell = Fixed string | Shown "json option" | Date "json option"

text \<open>What the cancel button aborts: one controller, and the one of the lookup once it exists.\<close>

record status_page =
  st_now :: int
  verify_disabled :: bool
  cancel_hidden :: bool
  result_hidden :: bool
  result_list :: "(string \<times> cell) list"
  st_message :: string
  active :: "nat list option"
  userCancelled :: "nat \<Rightarrow> bool"            \<comment> \<open>by the controller of the attempt\<close>
  st_aborted :: "nat \<Rightarrow> bool"
  st_fresh :: nat
  previous :: "(json option \<times> int) option"
  expiryTimer :: "int option"
  request_timer :: "(nat \<times> int) option"     \<comment> \<open>the controller it aborts, and when\<close>
  waiting_timer :: "int option"

type_synonym status_handler = "status_page handler"

definition first_status :: "int \<Rightarrow> status_page" where
  "first_status clock =
     \<lparr>st_now = clock, verify_disabled = False, cancel_hidden = True, result_hidden = True, result_list = [],
      st_message = [], active = None, userCancelled = (\<lambda>_. False), st_aborted = (\<lambda>_. False), st_fresh = 0,
      previous = None, expiryTimer = None, request_timer = None, waiting_timer = None\<rparr>"

section \<open>Requests\<close>

definition status_result :: "exn + response \<Rightarrow> exn + response \<times> json" where
  "status_result n =
     (case n of
        Inl e \<Rightarrow> Inl e
      | Inr r \<Rightarrow> (case status_json r of Inl e \<Rightarrow> Inl e | Inr d \<Rightarrow> Inr (r, d)))"

definition status_request ::
    "req \<Rightarrow> (response \<Rightarrow> json \<Rightarrow> status_handler) \<Rightarrow> (exn \<Rightarrow> status_handler) \<Rightarrow> status_handler" where
  "status_request q ret throw =
     Await (Fetch q) (\<lambda>a. case a of
        Net n \<Rightarrow> (case status_result n of Inl e \<Rightarrow> throw e | Inr (r, d) \<Rightarrow> ret r d)
      | _ \<Rightarrow> throw OtherError)"

definition endpoints :: "url list" where
  "endpoints = [Url (js ''http://127.0.0.1:47831/v1/status'') []]"

definition bridge_req :: "url \<Rightarrow> nat \<Rightarrow> (string \<times> jstring) list \<Rightarrow> req" where
  "bridge_req u c headers =
     (get_req u (Some c))\<lparr>is_local := True, req_headers := (''X-MySync-Bridge'', js ''1'') # headers\<rparr>"

definition challenge_req :: "json option \<Rightarrow> nat \<Rightarrow> req" where
  "challenge_req prev c =
     (get_req (Url (js ''/v1/web/status/challenges'') []) (Some c))\<lparr>req_method := POST,
        req_headers := [(''X-MySync-Web'', js ''1''), (''Content-Type'', js ''application/json'')],
        req_body := JsonBody (JObj (case prev of None \<Rightarrow> [] | Some i \<Rightarrow> [(js ''previous_challenge_id'', i)]))\<rparr>"

definition lookup_req :: "json \<Rightarrow> nat \<Rightarrow> req" where
  "lookup_req challenge c =
     (get_req (Url (js ''/v1/web/status/challenges/'' @ challenge_id challenge) []) (Some c))\<lparr>
        req_headers := [(''X-MySync-Web'', js ''1'')]\<rparr>"

text \<open>\<open>throw new StatusFailure(data.error)\<close>.\<close>

definition answer_error :: "json \<Rightarrow> exn" where
  "answer_error d = (case get (Some d) ''error'' of Inl e \<Rightarrow> e | Inr c \<Rightarrow> Failure c)"

section \<open>Permission\<close>

text \<open>
  \<open>permissionDenied()\<close>: the first name that the browser knows decides. A browser without
  \<open>navigator.permissions\<close> behaves as one whose queries throw.
\<close>

primrec permission_loop :: "string list \<Rightarrow> (bool \<Rightarrow> 's handler) \<Rightarrow> 's handler" where
  "permission_loop [] ret = ret False"
| "permission_loop (name # names) ret =
     Await (Permission name) (\<lambda>a. case a of
        PermissionState (Some d) \<Rightarrow> ret d
      | _ \<Rightarrow> permission_loop names ret)"

definition permissionDenied :: "(bool \<Rightarrow> 's handler) \<Rightarrow> 's handler" where
  "permissionDenied = permission_loop [''loopback-network'', ''local-network-access'']"

section \<open>Presence\<close>

definition clearResult :: "status_page \<Rightarrow> status_page" where
  "clearResult s = s\<lparr>expiryTimer := None, result_hidden := True, result_list := []\<rparr>"

definition daemon_states :: "(string \<times> string) list" where
  "daemon_states = [(''starting'', ''Demarrage''), (''idle'', ''En attente''),
     (''syncing'', ''Synchronisation''), (''error'', ''Erreur'')]"

definition communication_states :: "(string \<times> string) list" where
  "communication_states = [(''unknown'', ''Non observee''), (''authenticated'', ''Authentifiee''),
     (''failed'', ''Echec'')]"

text \<open>\<open>table[v] || other\<close>.\<close>

definition from_table :: "(string \<times> string) list \<Rightarrow> string \<Rightarrow> json option \<Rightarrow> cell" where
  "from_table table other v =
     Fixed (case filter (\<lambda>(k, _). subject v = Some (js k)) table of (_, t) # _ \<Rightarrow> t | [] \<Rightarrow> other)"

definition time :: "json option \<Rightarrow> cell" where
  "time v = (if truthy v then Date v else Fixed ''Aucune'')"

definition status_prop :: "json \<Rightarrow> string \<Rightarrow> json option" where
  "status_prop v k = Option.bind (prop_of v ''status'') (\<lambda>st. prop_of st k)"

definition presence_rows :: "json \<Rightarrow> (string \<times> cell) list" where
  "presence_rows v =
     [(''Appareil reconnu'', Shown (prop_of v ''device_name'')),
      (''Identifiant serveur'', Shown (prop_of v ''device_id'')),
      (''Version du client'', Shown (status_prop v ''client_version'')),
      (''Version de l API locale'', Shown (status_prop v ''api_version'')),
      (''Daemon'', from_table daemon_states ''Inconnu'' (status_prop v ''daemon_state'')),
      (''Communication serveur'', from_table communication_states ''Inconnue'' (status_prop v ''communication'')),
      (''Statut observe'', time (status_prop v ''observed_at'')),
      (''Derniere communication authentifiee'', time (status_prop v ''last_authenticated_at'')),
      (''Presence verifiee'', time (prop_of v ''verified_at'')),
      (''Expiration'', time (prop_of v ''presence_expires_at''))]"

definition valid_presence :: "json \<Rightarrow> json \<Rightarrow> bool" where
  "valid_presence v challenge \<longleftrightarrow>
     strict_eq (prop_of v ''challenge_id'') (prop_of challenge ''challenge_id'') \<and>
     isSafeInteger (prop_of v ''device_id'') \<and> is_string (prop_of v ''device_name'') \<and>
     truthy (prop_of v ''status'') \<and> isSafeInteger (prop_of v ''presence_expires_at'') \<and>
     isSafeInteger (prop_of v ''verified_at'')"

definition remaining :: "json \<Rightarrow> status_page \<Rightarrow> int" where
  "remaining v s = min 120000 (int_of (prop_of v ''presence_expires_at'') * 1000 - st_now s)"

definition showPresence :: "json \<Rightarrow> json \<Rightarrow> status_page \<Rightarrow> exn + status_page" where
  "showPresence v challenge s =
     (if v = JNull then Inl OtherError
      else if \<not> valid_presence v challenge then Inl (fail ''invalid_response'')
      else if remaining v s \<le> 0 then Inl (fail ''presence_expired'')
      else Inr (s\<lparr>result_list := result_list s @ presence_rows v, result_hidden := False,
        st_message := ''Machine reconnue, presence confirmee par le serveur.'',
        previous := Some (prop_of challenge ''challenge_id'', st_now s + remaining v s),
        expiryTimer := Some (st_now s + remaining v s)\<rparr>))"

definition expiry_due :: "status_handler" where
  "expiry_due = Act (\<lambda>s.
     ((clearResult s)\<lparr>previous := None,
        st_message := ''La presence a expire. Cliquez sur Verifier pour l actualiser.''\<rparr>, Done))"

section \<open>Verification\<close>

definition status_texts :: "(string \<times> string) list" where
  "status_texts =
     [(''authentication_refused'', ''Challenge ou authentification refuses. Rechargez la page si la session a expire.''),
      (''challenge_expired'', ''Le challenge a expire. Cliquez sur Verifier pour recommencer.''),
      (''presence_expired'', ''La presence a expire. Cliquez sur Verifier pour recommencer.''),
      (''challenge_limit'', ''Trop de verifications rapprochees. Attendez une minute.''),
      (''local_unverified'', ''Reponse locale accessible, mais aucune machine verifiee par le serveur.''),
      (''verification_failed'', ''Client local accessible, mais preuve non confirmee. Verifiez la connexion au serveur et l approbation de l appareil.''),
      (''status_busy'', ''Le serveur est occupe. Reessayez plus tard.'')]"

definition status_text :: "bool \<Rightarrow> exn \<Rightarrow> string" where
  "status_text probing error =
     (case filter (\<lambda>(c, _). has_code error c) status_texts of
        (_, t) # _ \<Rightarrow> t
      | [] \<Rightarrow> if probing then ''Client inaccessible ou acces local bloque. Verifiez le daemon et les permissions du navigateur.''
              else ''Verification serveur indisponible. Reessayez lorsque la connexion est retablie.'')"

definition status_finally :: "status_page \<Rightarrow> status_page" where
  "status_finally s = s\<lparr>request_timer := None, waiting_timer := None, active := None,
     verify_disabled := False, cancel_hidden := True\<rparr>"

definition status_says :: "string \<Rightarrow> status_handler" where
  "status_says m = Act (\<lambda>s. (status_finally (s\<lparr>st_message := m\<rparr>), Done))"

text \<open>\<open>catch\<close> and \<open>finally\<close>.\<close>

definition status_failed :: "nat \<Rightarrow> bool \<Rightarrow> exn \<Rightarrow> status_handler" where
  "status_failed c probing error = Act (\<lambda>s.
     (s, if userCancelled s c then status_says ''Verification annulee.''
         else if probing
         then permissionDenied (\<lambda>d. status_says
           (if d then ''Permission d acces local refusee par le navigateur.'' else status_text True error))
         else status_says (status_text False error)))"

text \<open>The presence, after the lookup.\<close>

definition lookup_answer :: "nat \<Rightarrow> json \<Rightarrow> bool \<Rightarrow> response \<Rightarrow> json \<Rightarrow> status_handler" where
  "lookup_answer c challenge localFailed r d =
     (if status r = 202
      then status_failed c False (fail (if localFailed then ''verification_failed'' else ''local_unverified''))
      else if \<not> ok r then status_failed c False (answer_error d)
      else Act (\<lambda>s. case showPresence d challenge s of
             Inl e \<Rightarrow> (s, status_failed c False e)
           | Inr t \<Rightarrow> (status_finally t, Done)))"

definition lookup :: "nat \<Rightarrow> json \<Rightarrow> bool \<Rightarrow> status_handler" where
  "lookup c challenge localFailed = Act (\<lambda>s.
     if userCancelled s c then (s, status_failed c False (fail ''cancelled''))
     else
       (s\<lparr>st_fresh := Suc (st_fresh s), active := Some [st_fresh s, c],
          request_timer := Some (st_fresh s, st_now s + 3000)\<rparr>,
        status_request (lookup_req challenge (st_fresh s)) (lookup_answer c challenge localFailed)
          (status_failed c False)))"

definition challenge_answer :: "nat \<Rightarrow> url \<Rightarrow> response \<Rightarrow> json \<Rightarrow> status_handler" where
  "challenge_answer c endpoint r d =
     (if \<not> ok r then status_failed c False (answer_error d)
      else if d = JNull then status_failed c False OtherError
      else if \<not> valid_challenge d then status_failed c False (fail ''invalid_response'')
      else status_request (bridge_req endpoint c (ticket_header d))
        (\<lambda>r _. lookup c d (\<not> ok r)) (\<lambda>_. lookup c d True))"

definition server_stage :: "nat \<Rightarrow> url \<Rightarrow> status_handler" where
  "server_stage c endpoint = Act (\<lambda>s.
     let prev = (case previous s of Some (i, expires) \<Rightarrow> if expires > st_now s then i else None | None \<Rightarrow> None) in
     (s\<lparr>waiting_timer := None, request_timer := Some (c, st_now s + 10000),
        st_message := ''Verification de la presence aupres du serveur...''\<rparr>,
      status_request (challenge_req prev c) (challenge_answer c endpoint) (status_failed c False)))"

text \<open>The search for a client that asks for a challenge.\<close>

primrec probe_loop :: "nat \<Rightarrow> url list \<Rightarrow> bool \<Rightarrow> status_handler" where
  "probe_loop c [] accessible =
     status_failed c True (fail (if accessible then ''local_unverified'' else ''local_unavailable''))"
| "probe_loop c (candidate # rest) accessible =
     (let caught = (\<lambda>b. Act (\<lambda>s. (s, if st_aborted s c then status_failed c True (fail ''cancelled'')
                                     else probe_loop c rest b))) in
      status_request (bridge_req candidate c [])
        (\<lambda>r d. if status r = 401
           then (case get (Some d) ''error'' of
                   Inl _ \<Rightarrow> caught True
                 | Inr e \<Rightarrow> if is_code e ''challenge_required'' then server_stage c candidate
                           else probe_loop c rest True)
           else probe_loop c rest True)
        (\<lambda>_. caught accessible))"

definition verify_status :: "status_handler" where
  "verify_status = Act (\<lambda>s.
     let c = st_fresh s in
     ((clearResult s)\<lparr>st_fresh := Suc c, active := Some [c], verify_disabled := True, cancel_hidden := False,
        request_timer := Some (c, st_now s + 30000), waiting_timer := Some (st_now s + 3000),
        st_message := ''Recherche du client local...''\<rparr>,
      probe_loop c endpoints False))"

section \<open>Other events\<close>

text \<open>The attempt is the last controller of the list.\<close>

definition cancel_status :: "status_handler" where
  "cancel_status = Act (\<lambda>s.
     (case active s of
        None \<Rightarrow> s
      | Some cs \<Rightarrow> s\<lparr>userCancelled := (userCancelled s)(last cs := True),
          st_aborted := (\<lambda>i. i \<in> set cs \<or> st_aborted s i)\<rparr>, Done))"

definition request_timer_fires :: "status_handler" where
  "request_timer_fires = Act (\<lambda>s.
     (case request_timer s of
        None \<Rightarrow> s
      | Some (c, _) \<Rightarrow> s\<lparr>request_timer := None, st_aborted := (st_aborted s)(c := True)\<rparr>, Done))"

definition waiting_fires :: "status_handler" where
  "waiting_fires = Act (\<lambda>s.
     (s\<lparr>waiting_timer := None,
        st_message := ''En attente de l acces local. Verifiez les eventuelles demandes d autorisation du navigateur.''\<rparr>, Done))"

text \<open>The clock, and what can happen to the page.\<close>

definition status_clock :: "int \<Rightarrow> status_handler" where
  "status_clock t = Act (\<lambda>s. (s\<lparr>st_now := max t (st_now s)\<rparr>, Done))"

inductive status_event :: "status_page \<Rightarrow> status_handler \<Rightarrow> bool" where
  verify: "\<not> verify_disabled s \<Longrightarrow> status_event s verify_status"
| cancel: "status_event s cancel_status"
| request_due: "request_timer s = Some (c, t) \<Longrightarrow> t \<le> st_now s \<Longrightarrow> status_event s request_timer_fires"
| waiting_due: "waiting_timer s = Some t \<Longrightarrow> t \<le> st_now s \<Longrightarrow> status_event s waiting_fires"
| expiry_due: "expiryTimer s = Some t \<Longrightarrow> t \<le> st_now s \<Longrightarrow> status_event s expiry_due"
| clock: "status_event s (status_clock t)"

inductive_cases status_eventE: "status_event s p"

section \<open>What an attempt does\<close>

text \<open>The evidence for a presence: the server issued the challenge and confirmed its proof.\<close>

definition presence_proved :: "(query \<times> answer) list \<Rightarrow> json \<Rightarrow> json \<Rightarrow> bool" where
  "presence_proved h challenge v \<longleftrightarrow>
     (\<exists>prev c n r. (Fetch (challenge_req prev c), Net n) \<in> set h \<and> status_result n = Inr (r, challenge) \<and>
        ok r \<and> valid_challenge challenge) \<and>
     (\<exists>c n r. (Fetch (lookup_req challenge c), Net n) \<in> set h \<and> status_result n = Inr (r, v) \<and>
        ok r \<and> status r \<noteq> 202)"

text \<open>A presence on display has an armed expiry, at most two minutes ahead.\<close>

definition presence_ok :: "status_page \<Rightarrow> bool" where
  "presence_ok s \<longleftrightarrow> (result_hidden s \<longleftrightarrow> result_list s = []) \<and>
     (\<not> result_hidden s \<longrightarrow> (\<exists>i t. previous s = Some (i, t) \<and> expiryTimer s = Some t \<and> t \<le> st_now s + 120000))"

definition released :: "status_page \<Rightarrow> bool" where
  "released s \<longleftrightarrow> \<not> verify_disabled s \<and> cancel_hidden s \<and> active s = None \<and>
     request_timer s = None \<and> waiting_timer s = None"

definition proved_rows :: "(query \<times> answer) list \<Rightarrow> status_page \<Rightarrow> status_page \<Rightarrow> bool" where
  "proved_rows h s s' \<longleftrightarrow>
     result_list s' = result_list s \<and> (result_hidden s \<longrightarrow> result_hidden s') \<or> result_list s' = [] \<and> result_hidden s' \<or>
     (\<exists>challenge v. presence_proved h challenge v \<and> valid_presence v challenge \<and>
        0 < remaining v s \<and> remaining v s \<le> 120000 \<and>
        result_list s' = result_list s @ presence_rows v \<and> expiryTimer s' = Some (st_now s + remaining v s))"

definition attempt :: "(query \<times> answer) list \<Rightarrow> status_page \<Rightarrow> status_page \<times> status_handler \<Rightarrow> bool" where
  "attempt h s r \<longleftrightarrow> (presence_ok s \<longrightarrow> presence_ok (fst r)) \<and> (snd r = Done \<longrightarrow> released (fst r)) \<and>
     proved_rows h s (fst r)"

lemmas attempt_defs = attempt_def presence_ok_def released_def proved_rows_def status_finally_def

lemma attempt_idle: "p \<noteq> Done \<Longrightarrow> attempt h s (s, p)"
  by (simp add: attempt_defs)

lemma traced_status_requestI:
  assumes "\<And>n r d. status_result n = Inr (r, d) \<Longrightarrow> traced G (ret r d) (h @ [(Fetch q, Net n)])"
    and "\<And>a e. traced G (throw e) (h @ [(Fetch q, a)])"
  shows "traced G (status_request q ret throw) h"
proof -
  have "traced G (case a of Net n \<Rightarrow> (case status_result n of Inl e \<Rightarrow> throw e | Inr (r, d) \<Rightarrow> ret r d)
      | _ \<Rightarrow> throw OtherError) (h @ [(Fetch q, a)])" for a
    by (cases a) (auto intro: assms split: sum.split)
  then show ?thesis by (simp add: status_request_def)
qed

lemma traced_permissionDenied: "(\<And>d h. traced G (ret d) h) \<Longrightarrow> traced G (permissionDenied ret) h"
  unfolding permissionDenied_def by (auto split: answer.split option.split)

lemma attempt_status_says: "traced attempt (status_says m) h"
  by (simp add: status_says_def) (simp add: attempt_defs)

lemma permissionDenied_not_Done: "permissionDenied ret \<noteq> Done" "status_request q ret' throw \<noteq> Done"
  by (simp_all add: permissionDenied_def status_request_def)

lemma status_says_not_Done: "status_says m \<noteq> Done"
  by (simp add: status_says_def)

lemma attempt_status_failed: "traced attempt (status_failed c probing e) h" "status_failed c probing e \<noteq> Done"
  unfolding status_failed_def
  using permissionDenied_not_Done(1) status_says_not_Done attempt_status_says
  by (auto simp: attempt_defs intro!: traced_permissionDenied)

lemma showPresence_Inr:
  assumes "showPresence v challenge s = Inr t"
  shows "valid_presence v challenge \<and> 0 < remaining v s \<and>
    t = s\<lparr>result_list := result_list s @ presence_rows v, result_hidden := False,
        st_message := ''Machine reconnue, presence confirmee par le serveur.'',
        previous := Some (prop_of challenge ''challenge_id'', st_now s + remaining v s),
        expiryTimer := Some (st_now s + remaining v s)\<rparr>"
  using assms by (auto simp: showPresence_def split: if_splits)

lemma attempt_shown:
  assumes "showPresence v challenge s = Inr t" and "presence_proved h challenge v"
  shows "attempt h s (status_finally t, Done)"
proof -
  have "remaining v s \<le> 120000" by (simp add: remaining_def)
  moreover have "presence_rows v \<noteq> []" by (simp add: presence_rows_def)
  ultimately show ?thesis
    using showPresence_Inr [OF assms(1)] assms(2) by (auto simp: attempt_defs)
qed

lemma attempt_lookup:
  assumes "\<exists>prev c n r. (Fetch (challenge_req prev c), Net n) \<in> set h \<and> status_result n = Inr (r, challenge) \<and>
      ok r \<and> valid_challenge challenge"
  shows "traced attempt (lookup c challenge localFailed) h"
proof -
  have answer: "traced attempt (lookup_answer c challenge localFailed r d) (h @ [(Fetch (lookup_req challenge l), Net n)])"
    if "status_result n = Inr (r, d)" for n r d l
  proof (cases "status r = 202 \<or> \<not> ok r")
    case True
    then show ?thesis by (auto simp: lookup_answer_def attempt_status_failed simp del: traced_simps(2))
  next
    case False
    with that assms have "presence_proved (h @ [(Fetch (lookup_req challenge l), Net n)]) challenge d"
      unfolding presence_proved_def by auto
    then show ?thesis
      using False by (auto simp: lookup_answer_def attempt_status_failed attempt_idle attempt_shown split: sum.split)
  qed
  have "traced attempt (status_request (lookup_req challenge l) (lookup_answer c challenge localFailed)
      (status_failed c False)) h" for l
    by (rule traced_status_requestI) (simp_all add: answer attempt_status_failed)
  then show ?thesis
    unfolding lookup_def using attempt_status_failed(2) permissionDenied_not_Done(2)
    by (auto simp: attempt_status_failed(1)) (simp_all add: attempt_defs)
qed

lemma attempt_challenge_answer:
  assumes "status_result n = Inr (r, d)"
  shows "traced attempt (challenge_answer c endpoint r d) (h @ [(Fetch (challenge_req prev c'), Net n)])"
proof -
  let ?h = "h @ [(Fetch (challenge_req prev c'), Net n)]"
  have "traced attempt (lookup c d b) (?h @ [x])" if "ok r" "valid_challenge d" for b x
    using that assms by (intro attempt_lookup exI [of _ prev] exI [of _ c'] exI [of _ n] exI [of _ r]) simp
  then show ?thesis
    unfolding challenge_answer_def
    by (auto simp: attempt_status_failed simp del: append_assoc intro!: traced_status_requestI)
qed

lemma attempt_server_stage: "traced attempt (server_stage c endpoint) h" "server_stage c endpoint \<noteq> Done"
proof -
  have "traced attempt (status_request (challenge_req prev c) (challenge_answer c endpoint) (status_failed c False)) h" for prev
    by (rule traced_status_requestI) (simp_all add: attempt_challenge_answer attempt_status_failed)
  then show "traced attempt (server_stage c endpoint) h"
    unfolding server_stage_def Let_def using permissionDenied_not_Done(2)
    by (simp add: attempt_defs)
qed (simp add: server_stage_def)

lemma probe_loop_not_Done: "probe_loop c us b \<noteq> Done"
  by (cases us) (simp_all add: attempt_status_failed permissionDenied_not_Done(2) Let_def)

lemma attempt_probe_loop: "traced attempt (probe_loop c us b) h"
proof (induction us arbitrary: b h)
  case (Cons u us)
  have caught: "traced attempt (Act (\<lambda>s. (s, if st_aborted s c then status_failed c True (fail ''cancelled'')
      else probe_loop c us b))) h" for b h
    using Cons by (simp add: attempt_idle attempt_status_failed probe_loop_not_Done)
  show ?case
    by (auto simp: Let_def caught Cons attempt_server_stage simp del: traced_simps(2)
        intro!: traced_status_requestI split: sum.split)
qed (simp add: attempt_status_failed)

lemma attempt_verify_status: "traced attempt verify_status h"
  unfolding verify_status_def Let_def using attempt_probe_loop probe_loop_not_Done
  by (simp add: attempt_defs clearResult_def)

section \<open>Properties\<close>

text \<open>C12. A presence is shown only on the server's word: whatever the local client and the network
  answer and whatever else happens, a segment of the verification adds rows to the result only
  when the server issued a challenge and, asked for this challenge, confirmed the device with a
  complete answer that names the challenge and has not expired; it then shows this answer and
  arms its expiry, at most two minutes ahead.\<close>

theorem presence_needs_server:
  assumes "local_run verify_status h (Act f)"
  shows "result_list (fst (f s)) = result_list s \<and> (result_hidden s \<longrightarrow> result_hidden (fst (f s))) \<or>
    result_list (fst (f s)) = [] \<and> result_hidden (fst (f s)) \<or>
    (\<exists>challenge v t. presence_proved h challenge v \<and>
       strict_eq (prop_of v ''challenge_id'') (prop_of challenge ''challenge_id'') \<and>
       isSafeInteger (prop_of v ''device_id'') \<and> is_string (prop_of v ''device_name'') \<and>
       result_list (fst (f s)) = result_list s @ presence_rows v \<and>
       expiryTimer (fst (f s)) = Some t \<and> st_now s < t \<and> t \<le> st_now s + 120000 \<and>
       t \<le> int_of (prop_of v ''presence_expires_at'') * 1000)"
proof -
  have "proved_rows h s (fst (f s))"
    using traced_sound [OF assms attempt_verify_status, of s] by (simp add: attempt_def)
  moreover have "st_now s < st_now s + remaining v s \<and> st_now s + remaining v s \<le> st_now s + 120000 \<and>
      st_now s + remaining v s \<le> int_of (prop_of v ''presence_expires_at'') * 1000"
    if "0 < remaining v s" for v using that by (simp add: remaining_def)
  ultimately show ?thesis unfolding proved_rows_def valid_presence_def by blast
qed

text \<open>A verification always gives the page back: the segment with which it ends, by success, by
  any failure or by a cancellation, enables the verify button again, hides the cancel button
  and leaves no timer of the attempt armed.\<close>

theorem verification_releases_page:
  assumes "local_run verify_status h (Act f)" and "snd (f s) = Done"
  shows "\<not> verify_disabled (fst (f s)) \<and> cancel_hidden (fst (f s)) \<and> active (fst (f s)) = None \<and>
    request_timer (fst (f s)) = None \<and> waiting_timer (fst (f s)) = None"
  using traced_sound [OF assms(1) attempt_verify_status, of s] assms(2) by (simp add: attempt_def released_def)

lemma status_event_keeps: "status_event s p \<Longrightarrow> always (\<lambda>_ _. True) presence_ok p"
proof (erule status_eventE; simp only:)
  show "always (\<lambda>_ _. True) presence_ok verify_status"
    using traced_mono [OF attempt_verify_status, of "\<lambda>_ s r. presence_ok s \<longrightarrow> presence_ok (fst r)"]
    by (intro traced_always [of "\<lambda>s s'. presence_ok s \<longrightarrow> presence_ok s'"]) (auto simp: attempt_def)
qed (auto intro!: always_ActI simp: cancel_status_def request_timer_fires_def waiting_fires_def
    expiry_due_def status_clock_def clearResult_def presence_ok_def split: option.split)

interpretation status: async_invariant "\<lambda>_ _. True" "\<lambda>s. \<exists>clock. s = first_status clock" status_event presence_ok
proof
  show "\<exists>clock. s = first_status clock \<Longrightarrow> presence_ok s" for s
    by (auto simp: first_status_def presence_ok_def)
qed (rule alwaysD [OF status_event_keeps])

text \<open>C36. A presence on display always expires: in every reachable state of the status page the
  result is shown exactly when it has rows, and then the timer that removes it is armed, for
  the moment at which the remembered challenge expires, at most two minutes ahead.\<close>

theorem shown_presence_expires:
  assumes "reachable (\<lambda>s. \<exists>clock. s = first_status clock) status_event s ts"
  shows "(result_hidden s \<longleftrightarrow> result_list s = []) \<and>
    (\<not> result_hidden s \<longrightarrow> (\<exists>i t. previous s = Some (i, t) \<and> expiryTimer s = Some t \<and> t \<le> st_now s + 120000))"
  using status.invariant [OF assms] unfolding presence_ok_def .

section \<open>Examples\<close>

definition example_presence :: json where
  "example_presence = JObj [(js ''challenge_id'', JStr (replicate 64 (unit_of CHR ''a''))),
     (js ''device_id'', JInt 7), (js ''device_name'', JStr (js ''pc'')), (js ''status'', JObj []),
     (js ''presence_expires_at'', JInt 60), (js ''verified_at'', JInt 1)]"

definition example_lookup :: status_page where
  "example_lookup = (first_status 0)\<lparr>st_fresh := 1, active := Some [0], verify_disabled := True, cancel_hidden := False\<rparr>"

definition example_attempt :: "(query \<times> answer) list" where
  "example_attempt =
     [(Fetch (bridge_req (hd endpoints) 0 []), Net (Inr example_probe)),
      (Fetch (challenge_req None 0), Net (Inr (example_response example_challenge))),
      (Fetch (bridge_req (hd endpoints) 0 (ticket_header example_challenge)), Net (Inl OtherError)),
      (Fetch (lookup_req example_challenge 1), Net (Inr (example_response example_presence)))]"

lemma status_example_response:
  "status_result (Inr (example_response v)) = Inr (example_response v, v)" "ok (example_response v)"
  "status (example_response v) = 200"
  "status_result (Inr example_probe) = Inr (example_probe, JObj [(js ''error'', JStr (js ''challenge_required''))])"
  "status example_probe = 401" "status_result (Inl e) = Inl e"
  by (simp_all add: status_result_def status_json_def example_response_def example_probe_def ok_def)

lemma local_run_status_requestI:
  "status_result n = Inr (r, d) \<Longrightarrow> local_run (ret r d) h p \<Longrightarrow>
   local_run (status_request q ret throw) ((Fetch q, Net n) # h) p"
  "status_result n = Inl e \<Longrightarrow> local_run (throw e) h p \<Longrightarrow>
   local_run (status_request q ret throw) ((Fetch q, Net n) # h) p"
  unfolding status_request_def by (rule local_run_AwaitI, simp)+

lemma example_attempt_run:
  "local_run verify_status example_attempt
     (lookup_answer 0 example_challenge True (example_response example_presence) example_presence)"
proof -
  note e = status_example_response valid_example_challenge
  let ?last = "lookup_answer 0 example_challenge True (example_response example_presence) example_presence"
  have "local_run (lookup 0 example_challenge True)
      [(Fetch (lookup_req example_challenge 1), Net (Inr (example_response example_presence)))] ?last"
    unfolding lookup_def
    by (rule local_run_ActI [of _ example_lookup])
      (simp add: example_lookup_def first_status_def, rule local_run_status_requestI(1) [OF e(1)], rule local_run.here)
  then have "local_run (challenge_answer 0 (hd endpoints) (example_response example_challenge) example_challenge)
      (drop 2 example_attempt) ?last"
    unfolding challenge_answer_def example_attempt_def
    by (simp add: e) (rule local_run_status_requestI(2) [OF e(6)])
  then have "local_run (server_stage 0 (hd endpoints)) (tl example_attempt) ?last"
    unfolding server_stage_def Let_def example_attempt_def
    by (intro local_run_ActI [of _ "first_status 0"]) (simp add: first_status_def local_run_status_requestI(1) [OF e(1)])
  then have "local_run (probe_loop 0 endpoints False) example_attempt ?last"
    unfolding endpoints_def example_attempt_def
    by (simp add: Let_def) (rule local_run_status_requestI(1) [OF e(4)], simp add: e(5) is_code_def get_def nullish.simps)
  then show ?thesis
    unfolding verify_status_def Let_def
    by (intro local_run_ActI [of _ "first_status 0"]) (simp add: first_status_def)
qed

lemma example_shown:
  "\<exists>f. lookup_answer 0 example_challenge True (example_response example_presence) example_presence = Act f \<and>
     result_list (fst (f example_lookup)) = presence_rows example_presence \<and> snd (f example_lookup) = Done"
proof -
  have "valid_presence example_presence example_challenge" "example_presence \<noteq> JNull"
    "remaining example_presence example_lookup = 60000"
    by (simp_all add: valid_presence_def example_presence_def example_challenge_def remaining_def
        example_lookup_def first_status_def)
  then show ?thesis
    by (simp add: lookup_answer_def status_example_response showPresence_def status_finally_def)
      (simp add: example_lookup_def first_status_def)
qed

theorem presence_needs_server_witness:
  "\<exists>challenge v. presence_proved example_attempt challenge v \<and> presence_rows v = presence_rows example_presence"
proof -
  obtain f where f: "lookup_answer 0 example_challenge True (example_response example_presence) example_presence = Act f"
    and rows: "result_list (fst (f example_lookup)) = presence_rows example_presence"
    using example_shown by blast
  have "result_list example_lookup = []" "presence_rows example_presence \<noteq> []"
    by (simp_all add: example_lookup_def first_status_def presence_rows_def)
  with presence_needs_server [OF example_attempt_run [unfolded f], of example_lookup] rows show ?thesis
    by (metis append_Nil)
qed

theorem verification_releases_page_witness:
  "\<exists>f. local_run verify_status example_attempt (Act f) \<and> verify_disabled example_lookup \<and>
     \<not> verify_disabled (fst (f example_lookup))"
proof -
  obtain f where f: "lookup_answer 0 example_challenge True (example_response example_presence) example_presence = Act f"
    and done_: "snd (f example_lookup) = Done"
    using example_shown by blast
  note run = example_attempt_run [unfolded f]
  have "verify_disabled example_lookup" by (simp add: example_lookup_def)
  with run verification_releases_page [OF run done_] show ?thesis by blast
qed

theorem shown_presence_expires_witness:
  "result_hidden (fst (run verify_status (first_status 0))) \<longleftrightarrow> result_list (fst (run verify_status (first_status 0))) = []"
proof -
  have "reachable (\<lambda>s. \<exists>clock. s = first_status clock) status_event (first_status 0) []"
    by (rule reachable.start) blast
  moreover have "status_event (first_status 0) verify_status"
    by (rule status_event.verify) (simp add: first_status_def)
  ultimately show ?thesis
    using shown_presence_expires [OF reachable.event] by blast
qed

end
