(* ===== verification/Build.thy ===== *)
theory Build
  imports Atlas_State "HOL-Library.List_Lexorder"
begin

text \<open>
  The build script of the editor (web/build-editor.mjs). The bundle is what esbuild returns,
  \<open>parse\<close> is \<open>JSON.parse\<close> (\<open>None\<close>: it throws). A path is the list of what the source joins below
  its directory; the files are a map from paths to texts. A run either compares the checked-in
  files with the built ones or replaces them through temporary files, an operation at a time, and
  it may be interrupted between two operations or in the middle of a write.
\<close>

section \<open>Files\<close>

type_synonym files = "jstring list \<Rightarrow> jstring option"

datatype file_op = WriteFile "jstring list" jstring | Rename "jstring list" "jstring list"

fun perform :: "file_op \<Rightarrow> files \<Rightarrow> files" where
  "perform (WriteFile p txt) fs = fs(p := Some txt)"
| "perform (Rename p q) fs = fs(q := fs p, p := None)"

text \<open>What a run that ends early leaves: a rename is atomic, a write is not.\<close>

inductive interrupted :: "file_op list \<Rightarrow> files \<Rightarrow> files \<Rightarrow> bool" where
  stopped: "interrupted ops fs fs"
| torn: "interrupted (WriteFile p txt # ops) fs (fs(p := Some (take n txt)))"
| went_on: "interrupted ops (perform op fs) fs' \<Longrightarrow> interrupted (op # ops) fs fs'"

inductive_cases interrupted_NilE: "interrupted [] fs fs'"
inductive_cases interrupted_WriteE: "interrupted (WriteFile p txt # ops) fs fs'"
inductive_cases interrupted_RenameE: "interrupted (Rename p q # ops) fs fs'"

datatype build_error =
    TooLarge
  | NeedsRebuilding jstring
  | NoFile "jstring list"      \<comment> \<open>\<open>readFile\<close> rejects\<close>
  | Malformed                  \<comment> \<open>\<open>JSON.parse\<close> throws, or a property of \<open>null\<close> is read\<close>

section \<open>Licenses\<close>

definition lock_file :: "jstring list" where
  "lock_file = [js ''package-lock.json'']"

definition license_file :: "jstring \<Rightarrow> jstring list" where
  "license_file location = [location, js ''LICENSE'']"

text \<open>\<open>Object.entries(packages).sort()\<close>: the entries are compared as strings, as which an object is
  always the same. npm writes an object for every package.\<close>

definition sorted_packages :: "(jstring \<times> json) list \<Rightarrow> (jstring \<times> json) list" where
  "sorted_packages ps = sort_key (\<lambda>(location, _). location @ js '',[object Object]'') ps"

definition package_name :: "jstring \<Rightarrow> jstring" where
  "package_name location =
     (if prefix (js ''node_modules/'') location then drop (length (js ''node_modules/'')) location else location)"

text \<open>\<open>${meta.version}\<close>, which npm writes as a string.\<close>

definition version_text :: "json option \<Rightarrow> jstring" where
  "version_text v = (if v = None then js ''undefined'' else str_of v)"

fun add_licenses :: "files \<Rightarrow> (jstring \<times> json) list \<Rightarrow> jstring \<Rightarrow> build_error + jstring" where
  "add_licenses fs [] licenses = Inr licenses"
| "add_licenses fs ((location, meta) # ps) licenses =
     (if location = [] then add_licenses fs ps licenses
      else if meta = JNull then Inl Malformed
      else if truthy (prop_of meta ''dev'') \<or> truthy (prop_of meta ''optional'') then add_licenses fs ps licenses
      else case fs (license_file location) of
          None \<Rightarrow> Inl (NoFile (license_file location))
        | Some txt \<Rightarrow>
            add_licenses fs ps (licenses @ [10] @ package_name location @ js '' '' @
              version_text (prop_of meta ''version'') @ [10] @ txt @ [10]))"

definition licenses_heading :: jstring where
  "licenses_heading = js ''MySyncFiles editor '' @ [8212] @ js '' bundled third-party licenses'' @ [10]"

definition trimEnd :: "jstring \<Rightarrow> jstring" where
  "trimEnd str = rev (dropWhile js_space (rev str))"

section \<open>The script\<close>

definition size_max :: nat where
  "size_max = 1024 * 1024"

text \<open>What has to be on disk, or the exception.\<close>

definition built_assets :: "jstring \<Rightarrow> (jstring \<Rightarrow> json option) \<Rightarrow> files \<Rightarrow> build_error + (jstring \<times> jstring) list" where
  "built_assets bundle parse fs =
     (if length (utf8 bundle) > size_max then Inl TooLarge
      else case fs lock_file of
        None \<Rightarrow> Inl (NoFile lock_file)
      | Some locked \<Rightarrow>
          (case parse locked of
             None \<Rightarrow> Inl Malformed
           | Some v \<Rightarrow>
               (case prop_of v ''packages'' of
                  Some (JObj ps) \<Rightarrow>
                    (case add_licenses fs (sorted_packages ps) licenses_heading of
                       Inl e \<Rightarrow> Inl e
                     | Inr licenses \<Rightarrow>
                         Inr [(js ''editor.js'', bundle), (js ''editor.LICENSE'', trimEnd licenses @ [10])])
                | _ \<Rightarrow> Inl Malformed)))"

fun check_assets :: "files \<Rightarrow> (jstring \<times> jstring) list \<Rightarrow> build_error option" where
  "check_assets fs [] = None"
| "check_assets fs ((file, txt) # assets) =
     (case fs [file] of
        None \<Rightarrow> Some (NoFile [file])
      | Some old \<Rightarrow> if old \<noteq> txt then Some (NeedsRebuilding file) else check_assets fs assets)"

definition temporary :: "jstring \<Rightarrow> jstring \<Rightarrow> jstring" where
  "temporary pid file = js ''.'' @ file @ js ''.'' @ pid @ js ''.tmp''"

definition replace_asset :: "jstring \<Rightarrow> jstring \<times> jstring \<Rightarrow> file_op list" where
  "replace_asset pid = (\<lambda>(file, txt). [WriteFile [temporary pid file] txt, Rename [temporary pid file] [file]])"

text \<open>The whole run: the exception, or the operations on the files.\<close>

definition build_script ::
    "bool \<Rightarrow> jstring \<Rightarrow> jstring \<Rightarrow> (jstring \<Rightarrow> json option) \<Rightarrow> files \<Rightarrow> build_error + file_op list" where
  "build_script check pid bundle parse fs =
     (case built_assets bundle parse fs of
        Inl e \<Rightarrow> Inl e
      | Inr assets \<Rightarrow>
          if check then (case check_assets fs assets of None \<Rightarrow> Inr [] | Some e \<Rightarrow> Inl e)
          else Inr (concat (map (replace_asset pid) assets)))"

section \<open>Properties\<close>

lemma temporary_names [simp]:
  "temporary pid file \<noteq> js ''editor.js''" "temporary pid file \<noteq> js ''editor.LICENSE''"
  "temporary pid file \<noteq> js ''package-lock.json''"
  "js ''editor.js'' \<noteq> js ''editor.LICENSE''" "js ''package-lock.json'' \<noteq> js ''editor.js''"
  "js ''package-lock.json'' \<noteq> js ''editor.LICENSE''"
  "js ''editor.LICENSE'' \<noteq> temporary pid file" "js ''editor.js'' \<noteq> temporary pid file"
  "js ''package-lock.json'' \<noteq> temporary pid file"
proof -
  have "hd (temporary pid file) = unit_of (CHR ''.'')" by (simp add: temporary_def js_def)
  moreover have "hd (js ''editor.js'') \<noteq> unit_of (CHR ''.'')" "hd (js ''editor.LICENSE'') \<noteq> unit_of (CHR ''.'')"
    "hd (js ''package-lock.json'') \<noteq> unit_of (CHR ''.'')" by code_simp+
  ultimately show "temporary pid file \<noteq> js ''editor.js''" "temporary pid file \<noteq> js ''editor.LICENSE''"
    "temporary pid file \<noteq> js ''package-lock.json''" "js ''editor.LICENSE'' \<noteq> temporary pid file"
    "js ''editor.js'' \<noteq> temporary pid file" "js ''package-lock.json'' \<noteq> temporary pid file" by metis+
qed (code_simp+)

lemma built_assets_cases:
  assumes "built_assets bundle parse fs = Inr assets"
  obtains locked v ps licenses where "length (utf8 bundle) \<le> size_max" "fs lock_file = Some locked" "parse locked = Some v"
    "prop_of v ''packages'' = Some (JObj ps)" "add_licenses fs (sorted_packages ps) licenses_heading = Inr licenses"
    "assets = [(js ''editor.js'', bundle), (js ''editor.LICENSE'', trimEnd licenses @ [10])]"
  using assms by (auto simp: built_assets_def split: if_splits option.splits json.splits sum.splits)

text \<open>The operations of a run, on the files that they find.\<close>

lemma replace_assets:
  "concat (map (replace_asset pid) [(js ''editor.js'', a), (js ''editor.LICENSE'', b)]) =
     [WriteFile [temporary pid (js ''editor.js'')] a, Rename [temporary pid (js ''editor.js'')] [js ''editor.js''],
      WriteFile [temporary pid (js ''editor.LICENSE'')] b,
      Rename [temporary pid (js ''editor.LICENSE'')] [js ''editor.LICENSE'']]"
  by (simp add: replace_asset_def)

lemma build_script_ops:
  assumes "build_script False pid bundle parse fs = Inr ops"
  obtains licenses where "length (utf8 bundle) \<le> size_max"
    "ops = [WriteFile [temporary pid (js ''editor.js'')] bundle,
      Rename [temporary pid (js ''editor.js'')] [js ''editor.js''],
      WriteFile [temporary pid (js ''editor.LICENSE'')] (trimEnd licenses @ [10]),
      Rename [temporary pid (js ''editor.LICENSE'')] [js ''editor.LICENSE'']]"
    "built_assets bundle parse fs = Inr [(js ''editor.js'', bundle), (js ''editor.LICENSE'', trimEnd licenses @ [10])]"
proof -
  obtain assets where assets: "built_assets bundle parse fs = Inr assets" "ops = concat (map (replace_asset pid) assets)"
    using assms by (auto simp: build_script_def split: sum.splits)
  from assets(1) obtain licenses where size: "length (utf8 bundle) \<le> size_max"
    and *: "assets = [(js ''editor.js'', bundle), (js ''editor.LICENSE'', trimEnd licenses @ [10])]"
    by (rule built_assets_cases)
  from that [OF size] assets show ?thesis unfolding * replace_assets by blast
qed

text \<open>The built files depend on the lock file and the licenses only.\<close>

lemma add_licenses_cong:
  "(\<And>l. fs' (license_file l) = fs (license_file l)) \<Longrightarrow> add_licenses fs' ps acc = add_licenses fs ps acc"
  by (induction fs ps acc rule: add_licenses.induct) (simp_all split: option.split)

lemma built_assets_cong:
  "fs' lock_file = fs lock_file \<Longrightarrow> (\<And>l. fs' (license_file l) = fs (license_file l)) \<Longrightarrow>
   built_assets bundle parse fs' = built_assets bundle parse fs"
proof -
  assume *: "fs' lock_file = fs lock_file" "\<And>l. fs' (license_file l) = fs (license_file l)"
  then have same: "add_licenses fs' = add_licenses fs" by (intro ext add_licenses_cong)
  show ?thesis unfolding built_assets_def *(1) same by (rule refl)
qed

text \<open>C38. Assets are never torn: a run that replaces the files may be interrupted at any operation, or
  in the middle of a write; then each of the two assets is as it was or has exactly the content
  that \<open>built_assets\<close> computed for it from the bundle, the lock file and the licenses, and
  nothing else has changed but the temporary files of this process; and a bundle above the size
  that the server accepts replaces nothing.\<close>

theorem assets_never_torn:
  assumes "build_script False pid bundle parse fs = Inr ops" and "interrupted ops fs fs'"
  shows "length (utf8 bundle) \<le> size_max \<and>
    (\<exists>licenses. built_assets bundle parse fs = Inr [(js ''editor.js'', bundle), (js ''editor.LICENSE'', licenses)] \<and>
      fs' [js ''editor.js''] \<in> {fs [js ''editor.js''], Some bundle} \<and>
      fs' [js ''editor.LICENSE''] \<in> {fs [js ''editor.LICENSE''], Some licenses}) \<and>
    (\<forall>p. p \<notin> (\<lambda>f. [f]) ` ({js ''editor.js'', js ''editor.LICENSE''} \<union> temporary pid ` {js ''editor.js'', js ''editor.LICENSE''}) \<longrightarrow>
      fs' p = fs p)"
proof -
  obtain licenses where size: "length (utf8 bundle) \<le> size_max" and ops: "ops = [WriteFile [temporary pid (js ''editor.js'')] bundle,
      Rename [temporary pid (js ''editor.js'')] [js ''editor.js''],
      WriteFile [temporary pid (js ''editor.LICENSE'')] (trimEnd licenses @ [10]),
      Rename [temporary pid (js ''editor.LICENSE'')] [js ''editor.LICENSE'']]"
    and built: "built_assets bundle parse fs = Inr [(js ''editor.js'', bundle), (js ''editor.LICENSE'', trimEnd licenses @ [10])]"
    using assms(1) by (rule build_script_ops)
  show ?thesis
    using assms(2) size built unfolding ops
    by (fastforce elim!: interrupted_NilE interrupted_WriteE interrupted_RenameE)
qed

text \<open>A project without dependencies.\<close>

definition example_files :: files where
  "example_files = (\<lambda>_. None)(lock_file := Some [123, 125])"

definition example_lock :: "jstring \<Rightarrow> json option" where
  "example_lock _ = Some (JObj [(js ''packages'', JObj [])])"

lemma example_build: "\<exists>ops. build_script False (js ''7'') [59] example_lock example_files = Inr ops"
proof -
  have "length (utf8 [59]) \<le> size_max"
    using utf8_length_bounds [of "[59]"] by (simp add: size_max_def)
  then show ?thesis
    by (simp add: build_script_def built_assets_def example_files_def example_lock_def sorted_packages_def)
qed

theorem assets_never_torn_witness:
  "\<exists>ops. build_script False (js ''7'') [59] example_lock example_files = Inr ops \<and>
     (\<forall>fs'. interrupted ops example_files fs' \<longrightarrow> fs' [js ''editor.js''] \<in> {None, Some [59]})"
proof -
  obtain ops where ops: "build_script False (js ''7'') [59] example_lock example_files = Inr ops"
    using example_build by blast
  have "example_files [js ''editor.js''] = None" by (simp add: example_files_def lock_file_def)
  with assets_never_torn [OF ops] ops show ?thesis by fastforce
qed

text \<open>C39. A build passes its own check: after a run that replaced the files, which leaves no temporary
  file, checking finds both files as built, whichever process checks.\<close>

theorem build_passes_check:
  assumes "build_script False pid bundle parse fs = Inr ops"
  shows "build_script True pid' bundle parse (fold perform ops fs) = Inr [] \<and>
    fold perform ops fs [js ''editor.js''] = Some bundle \<and>
    (\<forall>file \<in> {js ''editor.js'', js ''editor.LICENSE''}. fold perform ops fs [temporary pid file] = None)"
proof -
  obtain licenses where ops: "ops = [WriteFile [temporary pid (js ''editor.js'')] bundle,
      Rename [temporary pid (js ''editor.js'')] [js ''editor.js''],
      WriteFile [temporary pid (js ''editor.LICENSE'')] (trimEnd licenses @ [10]),
      Rename [temporary pid (js ''editor.LICENSE'')] [js ''editor.LICENSE'']]"
    and built: "built_assets bundle parse fs = Inr [(js ''editor.js'', bundle), (js ''editor.LICENSE'', trimEnd licenses @ [10])]"
    using assms by (rule build_script_ops)
  let ?fs = "fold perform ops fs"
  have "?fs lock_file = fs lock_file" "?fs (license_file l) = fs (license_file l)" for l
    unfolding ops by (auto simp: lock_file_def license_file_def)
  then have "built_assets bundle parse ?fs = built_assets bundle parse fs" by (rule built_assets_cong)
  with built have "built_assets bundle parse ?fs = Inr [(js ''editor.js'', bundle), (js ''editor.LICENSE'', trimEnd licenses @ [10])]"
    by simp
  moreover have "?fs [js ''editor.js''] = Some bundle" "?fs [js ''editor.LICENSE''] = Some (trimEnd licenses @ [10])"
    "?fs [temporary pid (js ''editor.js'')] = None" "?fs [temporary pid (js ''editor.LICENSE'')] = None"
    unfolding ops by auto
  ultimately show ?thesis by (simp add: build_script_def)
qed

theorem build_passes_check_witness:
  "\<exists>ops. build_script False (js ''7'') [59] example_lock example_files = Inr ops \<and>
     build_script True (js ''8'') [59] example_lock (fold perform ops example_files) = Inr []"
  using example_build build_passes_check by blast

end
